(* ===== verification/Prelude.thy ===== *)
theory Prelude
  imports Main
begin

text \<open>
  Shared vocabulary of the development: the result type of fallible Rust
  functions, the lemma collections used by the component theories, and generic
  facts on lists, options and maps.
\<close>

type_synonym ('e, 'a) result = "'e + 'a"

abbreviation Ok :: "'a \<Rightarrow> ('e, 'a) result" where
  "Ok \<equiv> Inr"

abbreviation Err :: "'e \<Rightarrow> ('e, 'a) result" where
  "Err \<equiv> Inl"

named_theorems sql_defs \<open>definitions of SQL statements and repository operations\<close>
named_theorems str_defs \<open>definitions of string operations\<close>

definition is_ok :: "('e, 'a) result \<Rightarrow> bool" where
  "is_ok r = (case r of Inl _ \<Rightarrow> False | Inr _ \<Rightarrow> True)"

lemma is_ok_simps [simp]: "is_ok (Ok x)" "\<not> is_ok (Err e)"
  by (simp_all add: is_ok_def)

text \<open>\<open>coalesce\<close> is SQL's COALESCE on a nullable first argument.\<close>

definition coalesce :: "'a option \<Rightarrow> 'a option \<Rightarrow> 'a option" where
  "coalesce x y = (case x of Some v \<Rightarrow> Some v | None \<Rightarrow> y)"

lemma coalesce_simps [simp]: "coalesce (Some v) y = Some v" "coalesce None y = y"
  by (simp_all add: coalesce_def)

lemma distinct_map_find_eq:
  assumes "distinct (map k xs)" "x \<in> set xs"
  shows "find (\<lambda>y. k y = k x) xs = Some x"
  using assms by (induction xs) auto

lemma distinct_map_inj:
  "distinct (map k xs) \<Longrightarrow> x \<in> set xs \<Longrightarrow> y \<in> set xs \<Longrightarrow> k x = k y \<Longrightarrow> x = y"
  by (induction xs) (auto simp: image_iff)

lemma find_map_if:
  assumes "\<And>x. k (f x) = k x"
  shows "find (\<lambda>y. k y = i) (map (\<lambda>x. if P x then f x else x) xs)
       = map_option (\<lambda>x. if P x then f x else x) (find (\<lambda>y. k y = i) xs)"
  by (induction xs) (auto simp: assms)

lemma find_Some_mem: "find P xs = Some x \<Longrightarrow> x \<in> set xs \<and> P x"
  by (induction xs) (auto split: if_splits)

lemma find_append_None: "find P xs = None \<Longrightarrow> find P (xs @ ys) = find P ys"
  by (induction xs) (auto split: if_splits)

text \<open>Sequencing of fallible operations on a database, and a transaction that is rolled back on error.\<close>

definition seq_ok :: "('e, 'a) result \<times> 's \<Rightarrow> ('a \<Rightarrow> 's \<Rightarrow> ('e, 'b) result \<times> 's) \<Rightarrow> ('e, 'b) result \<times> 's" where
  "seq_ok r k = (case r of (Inl e, s) \<Rightarrow> (Err e, s) | (Inr x, s) \<Rightarrow> k x s)"

definition in_tx :: "('s \<Rightarrow> ('e, 'a) result \<times> 's) \<Rightarrow> 's \<Rightarrow> ('e, 'a) result \<times> 's" where
  "in_tx f s = (case f s of (Inl e, _) \<Rightarrow> (Err e, s) | (Inr x, s') \<Rightarrow> (Ok x, s'))"

definition ok_or :: "'e \<Rightarrow> 'a option \<Rightarrow> ('e, 'a) result" where
  "ok_or e r = (case r of None \<Rightarrow> Err e | Some x \<Rightarrow> Ok x)"

lemma seq_ok_simps [simp]: "seq_ok (Inl e, s) k = (Err e, s)" "seq_ok (Inr x, s) k = k x s"
  by (simp_all add: seq_ok_def)

lemma ok_or_simps [simp]: "ok_or e None = Err e" "ok_or e (Some x) = Ok x"
  by (simp_all add: ok_or_def)

lemma seq_ok_Ok:
  "seq_ok r k = (Ok y, s') \<longleftrightarrow> (\<exists>x s. r = (Ok x, s) \<and> k x s = (Ok y, s'))"
  by (cases r; cases "fst r") (auto simp: seq_ok_def)

lemma ok_or_Ok [simp]: "ok_or e r = Ok x \<longleftrightarrow> r = Some x"
  by (cases r) auto

lemma in_tx_Ok: "in_tx f s = (Ok x, s') \<longleftrightarrow> f s = (Ok x, s')"
  by (auto simp: in_tx_def split: prod.splits sum.splits)

lemma in_tx_Err: "in_tx f s = (Err e, s') \<Longrightarrow> s' = s"
  by (auto simp: in_tx_def split: prod.splits sum.splits)

end
