(* ===== verification/RustStrings.thy ===== *)
theory RustStrings
  imports Prelude
begin

text \<open>
  The string operations of the Rust standard library that the sources call.  A
  Rust string is a list of characters whose code points are below 256 (the
  values of HOL's \<^typ>\<open>char\<close>); ASCII case mapping touches only the 26 ASCII
  letters, and \<open>is_whitespace\<close> holds of the code points below 256 that carry
  the Unicode property White_Space.
\<close>

definition char_code :: "char \<Rightarrow> nat" where
  "char_code c = of_char c"

definition is_ascii_uppercase :: "char \<Rightarrow> bool" where
  "is_ascii_uppercase c = (65 \<le> char_code c \<and> char_code c \<le> 90)"

definition is_ascii_lowercase :: "char \<Rightarrow> bool" where
  "is_ascii_lowercase c = (97 \<le> char_code c \<and> char_code c \<le> 122)"

definition is_ascii_digit :: "char \<Rightarrow> bool" where
  "is_ascii_digit c = (48 \<le> char_code c \<and> char_code c \<le> 57)"

definition is_ascii_alphanumeric :: "char \<Rightarrow> bool" where
  "is_ascii_alphanumeric c = (is_ascii_uppercase c \<or> is_ascii_lowercase c \<or> is_ascii_digit c)"

definition is_whitespace :: "char \<Rightarrow> bool" where
  "is_whitespace c = (let n = char_code c in (9 \<le> n \<and> n \<le> 13) \<or> n = 32 \<or> n = 133 \<or> n = 160)"

definition upper_char :: "char \<Rightarrow> char" where
  "upper_char c = (if is_ascii_lowercase c then char_of (char_code c - 32) else c)"

definition lower_char :: "char \<Rightarrow> char" where
  "lower_char c = (if is_ascii_uppercase c then char_of (char_code c + 32) else c)"

definition to_ascii_uppercase :: "string \<Rightarrow> string" where
  "to_ascii_uppercase s = map upper_char s"

definition to_ascii_lowercase :: "string \<Rightarrow> string" where
  "to_ascii_lowercase s = map lower_char s"

definition eq_ignore_ascii_case :: "string \<Rightarrow> string \<Rightarrow> bool" where
  "eq_ignore_ascii_case s t = (to_ascii_lowercase s = to_ascii_lowercase t)"

definition trim_start :: "string \<Rightarrow> string" where
  "trim_start s = dropWhile is_whitespace s"

definition trim_end :: "string \<Rightarrow> string" where
  "trim_end s = rev (dropWhile is_whitespace (rev s))"

definition trim :: "string \<Rightarrow> string" where
  "trim s = trim_end (trim_start s)"

fun starts_with :: "string \<Rightarrow> string \<Rightarrow> bool" where
  "starts_with s [] = True"
| "starts_with [] (p # ps) = False"
| "starts_with (c # s) (p # ps) = (c = p \<and> starts_with s ps)"

definition ends_with :: "string \<Rightarrow> string \<Rightarrow> bool" where
  "ends_with s p = starts_with (rev s) (rev p)"

definition strip_prefix :: "string \<Rightarrow> string \<Rightarrow> string option" where
  "strip_prefix s p = (if starts_with s p then Some (drop (length p) s) else None)"

definition strip_suffix :: "string \<Rightarrow> string \<Rightarrow> string option" where
  "strip_suffix s p = (if ends_with s p then Some (take (length s - length p) s) else None)"

fun contains_str :: "string \<Rightarrow> string \<Rightarrow> bool" where
  "contains_str [] p = (p = [])"
| "contains_str (c # s) p = (starts_with (c # s) p \<or> contains_str s p)"

text \<open>Decimal output of integers, as \<open>to_string\<close> and \<open>format!\<close> print them.\<close>

fun nat_to_dec :: "nat \<Rightarrow> string" where
  "nat_to_dec n = (if n < 10 then [char_of (48 + n)]
                   else nat_to_dec (n div 10) @ [char_of (48 + n mod 10)])"

declare nat_to_dec.simps [simp del]

definition int_to_dec :: "int \<Rightarrow> string" where
  "int_to_dec i = (if i < 0 then ''-'' @ nat_to_dec (nat (- i)) else nat_to_dec (nat i))"

text \<open>\<open>str::parse\<close> for unsigned and signed integers of a given maximum.\<close>

definition digit_val :: "char \<Rightarrow> nat" where
  "digit_val c = char_code c - 48"

fun dec_to_nat :: "nat \<Rightarrow> string \<Rightarrow> nat" where
  "dec_to_nat acc [] = acc"
| "dec_to_nat acc (c # cs) = dec_to_nat (10 * acc + digit_val c) cs"

definition parse_digits :: "string \<Rightarrow> nat option" where
  "parse_digits s = (if s \<noteq> [] \<and> list_all is_ascii_digit s then Some (dec_to_nat 0 s) else None)"

definition parse_unsigned :: "nat \<Rightarrow> string \<Rightarrow> nat option" where
  "parse_unsigned max_val s =
     (case parse_digits (case s of [] \<Rightarrow> [] | c # cs \<Rightarrow> if c = CHR ''+'' then cs else s) of
        Some n \<Rightarrow> if n \<le> max_val then Some n else None
      | None \<Rightarrow> None)"

definition parse_signed :: "nat \<Rightarrow> string \<Rightarrow> int option" where
  "parse_signed max_val s =
     (case s of
        [] \<Rightarrow> None
      | c # cs \<Rightarrow>
          if c = CHR ''-''
          then (case parse_digits cs of
                  Some n \<Rightarrow> if n \<le> max_val + 1 then Some (- int n) else None | None \<Rightarrow> None)
          else map_option int (parse_unsigned max_val s))"

abbreviation i64_max :: nat where "i64_max \<equiv> 9223372036854775807"
abbreviation usize_max :: nat where "usize_max \<equiv> 18446744073709551615"

lemmas ascii_defs = is_ascii_uppercase_def is_ascii_lowercase_def is_ascii_digit_def
  is_ascii_alphanumeric_def is_whitespace_def char_code_def Let_def

lemma char_code_lt [simp]: "char_code c < 256"
  by (simp add: char_code_def)

lemma char_code_char_of [simp]: "n < 256 \<Longrightarrow> char_code (char_of n) = n"
  by (simp add: char_code_def)

lemma char_code_inject: "char_code c = char_code d \<longleftrightarrow> c = d"
  by (simp add: char_code_def)

lemma lower_char_code:
  "char_code (lower_char c)
     = (if is_ascii_uppercase c then char_code c + 32 else char_code c)"
  by (auto simp: lower_char_def is_ascii_uppercase_def)

lemma upper_char_code:
  "char_code (upper_char c)
     = (if is_ascii_lowercase c then char_code c - 32 else char_code c)"
proof (cases "is_ascii_lowercase c")
  case True
  then have "char_code c - 32 < 256" using char_code_lt [of c] by linarith
  with True show ?thesis by (simp add: upper_char_def)
qed (simp add: upper_char_def)

lemma upper_char_idem [simp]: "upper_char (upper_char c) = upper_char c"
  by (auto simp: char_code_inject [symmetric] upper_char_code is_ascii_lowercase_def)

lemma lower_char_idem [simp]: "lower_char (lower_char c) = lower_char c"
  by (auto simp: char_code_inject [symmetric] lower_char_code is_ascii_uppercase_def)

lemma to_ascii_uppercase_idem [simp]:
  "to_ascii_uppercase (to_ascii_uppercase s) = to_ascii_uppercase s"
  by (simp add: to_ascii_uppercase_def)

lemma to_ascii_lowercase_idem [simp]:
  "to_ascii_lowercase (to_ascii_lowercase s) = to_ascii_lowercase s"
  by (simp add: to_ascii_lowercase_def)

lemma trim_id:
  assumes "list_all (\<lambda>c. \<not> is_whitespace c) s"
  shows "trim s = s"
proof -
  have "dropWhile is_whitespace s = s" "dropWhile is_whitespace (rev s) = rev s"
    using assms by (auto simp: dropWhile_eq_self_iff list_all_iff hd_rev)
  then show ?thesis by (simp add: trim_def trim_start_def trim_end_def)
qed

lemma starts_with_iff: "starts_with s p \<longleftrightarrow> (\<exists>r. s = p @ r)"
  by (induction s p rule: starts_with.induct) auto

lemma contains_str_iff: "contains_str s p \<longleftrightarrow> (\<exists>l r. s = l @ p @ r)"
proof (induction s)
  case (Cons c s)
  note IH = Cons.IH
  show ?case
  proof
    assume "contains_str (c # s) p"
    then show "\<exists>l r. c # s = l @ p @ r"
      using Cons by (auto simp: starts_with_iff intro: exI [of _ "[]"]) (metis append_Cons)
  next
    assume "\<exists>l r. c # s = l @ p @ r"
    then obtain l r where *: "c # s = l @ p @ r" by blast
    show "contains_str (c # s) p"
    proof (cases l)
      case Nil
      with * have "starts_with (c # s) p" by (auto simp: starts_with_iff)
      then show ?thesis by simp
    next
      case (Cons a l')
      with * have "s = l' @ p @ r" by simp
      with IH show ?thesis by auto
    qed
  qed
qed auto

lemma dec_to_nat_append: "dec_to_nat acc (s @ t) = dec_to_nat (dec_to_nat acc s) t"
  by (induction s arbitrary: acc) auto

lemma digit_val_char_of [simp]: "n < 10 \<Longrightarrow> digit_val (char_of (48 + n)) = n"
  by (simp add: digit_val_def)

lemma dec_to_nat_nat_to_dec [simp]: "dec_to_nat 0 (nat_to_dec n) = n"
proof (induction n rule: nat_to_dec.induct)
  case (1 n)
  then show ?case
    by (subst nat_to_dec.simps) (auto simp: dec_to_nat_append)
qed

lemma nat_to_dec_inject [simp]: "nat_to_dec m = nat_to_dec n \<longleftrightarrow> m = n"
  by (metis dec_to_nat_nat_to_dec)

lemma digit_char: "(n::nat) < 10 \<Longrightarrow> is_ascii_digit (char_of (48 + n))"
  by (simp add: is_ascii_digit_def)

lemma nat_to_dec_digits: "list_all is_ascii_digit (nat_to_dec n)"
proof (induction n rule: nat_to_dec.induct)
  case (1 n)
  then show ?case
    by (subst nat_to_dec.simps) (auto simp: digit_char)
qed

lemma nat_to_dec_nonempty [simp]: "nat_to_dec n \<noteq> []"
  by (subst nat_to_dec.simps) simp

lemma parse_digits_nat_to_dec [simp]: "parse_digits (nat_to_dec n) = Some n"
  by (simp add: parse_digits_def nat_to_dec_digits)

lemma nat_to_dec_not_minus: "nat_to_dec n \<noteq> CHR ''-'' # s"
  using nat_to_dec_digits [of n] by (auto simp: is_ascii_digit_def char_code_def)

lemma int_to_dec_inject [simp]: "int_to_dec i = int_to_dec j \<longleftrightarrow> i = j"
  using nat_to_dec_not_minus
  by (auto simp: int_to_dec_def split: if_splits) (metis nat_to_dec_not_minus)+

end
