(* ===== verification/SqlTable.thy ===== *)
theory SqlTable
  imports RustStrings "HOL-Library.Product_Lexorder"
begin

text \<open>
  A SQLite table as the list of its rows in rowid order, and the statements the
  repositories issue on it.  A statement either completes or, when a constraint
  is violated, is rolled back and reported as an error.
\<close>

datatype sql_error =
    Protocol string
  | RowNotFound
  | Constraint string

type_synonym 'a sqlx = "(sql_error, 'a) result"

definition update_where :: "('r \<Rightarrow> bool) \<Rightarrow> ('r \<Rightarrow> 'r) \<Rightarrow> 'r list \<Rightarrow> 'r list" where
  "update_where P f rows = map (\<lambda>r. if P r then f r else r) rows"

definition delete_where :: "('r \<Rightarrow> bool) \<Rightarrow> 'r list \<Rightarrow> 'r list" where
  "delete_where P rows = filter (\<lambda>r. \<not> P r) rows"

definition rows_affected :: "('r \<Rightarrow> bool) \<Rightarrow> 'r list \<Rightarrow> nat" where
  "rows_affected P rows = length (filter P rows)"

definition order_by_desc :: "('r \<Rightarrow> 'k :: linorder) \<Rightarrow> 'r list \<Rightarrow> 'r list" where
  "order_by_desc k rows = rev (sort_key k rows)"

definition fetch_optional :: "'r list \<Rightarrow> 'r option" where
  "fetch_optional rows = (case rows of [] \<Rightarrow> None | r # _ \<Rightarrow> Some r)"

text \<open>\<open>LIMIT l OFFSET o\<close>: SQLite reads a negative limit as no limit and a negative offset as zero.\<close>

definition sql_limit :: "int \<Rightarrow> int \<Rightarrow> 'r list \<Rightarrow> 'r list" where
  "sql_limit l off rows = (let ys = drop (nat off) rows in if l < 0 then ys else take (nat l) ys)"

text \<open>\<open>(? IS NULL OR column = ?)\<close> on a nullable column.\<close>

definition null_or_eq :: "'a option \<Rightarrow> 'a option \<Rightarrow> bool" where
  "null_or_eq param col = (case param of None \<Rightarrow> True | Some v \<Rightarrow> col = Some v)"

text \<open>A table whose rows carry an AUTOINCREMENT key: keys are distinct and at most the sequence value.\<close>

definition keyed :: "('r \<Rightarrow> int) \<Rightarrow> int \<Rightarrow> 'r list \<Rightarrow> bool" where
  "keyed k sq rows = (distinct (map k rows) \<and> (\<forall>r \<in> set rows. k r \<le> sq))"

lemma set_update_where: "set (update_where P f rows) = (\<lambda>r. if P r then f r else r) ` set rows"
  by (simp add: update_where_def)

lemma mem_update_where:
  "x \<in> set (update_where P f rows) \<longleftrightarrow> (\<exists>r \<in> set rows. P r \<and> x = f r) \<or> (x \<in> set rows \<and> \<not> P x)"
  by (induction rows) (auto simp: update_where_def)

lemma length_update_where [simp]: "length (update_where P f rows) = length rows"
  by (simp add: update_where_def)

lemma update_where_none: "(\<forall>r \<in> set rows. \<not> P r) \<Longrightarrow> update_where P f rows = rows"
  by (simp add: update_where_def map_idI)

lemma map_update_where:
  "(\<And>r. k (f r) = k r) \<Longrightarrow> map k (update_where P f rows) = map k rows"
  by (simp add: update_where_def)

lemma keyed_iff: "keyed k sq rows \<longleftrightarrow> distinct (map k rows) \<and> (\<forall>i \<in> set (map k rows). i \<le> sq)"
  by (simp add: keyed_def)

lemma keyed_update_where:
  "(\<And>r. k (f r) = k r) \<Longrightarrow> keyed k sq (update_where P f rows) = keyed k sq rows"
  by (simp only: keyed_iff map_update_where)

lemma keyed_delete_where: "keyed k sq rows \<Longrightarrow> keyed k sq (delete_where P rows)"
  by (auto simp: keyed_def delete_where_def distinct_map_filter)

lemma keyed_insert:
  "keyed k sq rows \<Longrightarrow> k r = sq + 1 \<Longrightarrow> keyed k (sq + 1) (rows @ [r])"
  by (force simp: keyed_def)

lemma keyed_find:
  "keyed k sq rows \<Longrightarrow> r \<in> set rows \<Longrightarrow> find (\<lambda>x. k x = k r) rows = Some r"
  by (simp add: keyed_def distinct_map_find_eq)

lemma find_update_where:
  "(\<And>r. k (f r) = k r) \<Longrightarrow>
   find (\<lambda>x. k x = i) (update_where P f rows)
     = map_option (\<lambda>r. if P r then f r else r) (find (\<lambda>x. k x = i) rows)"
  by (simp add: update_where_def find_map_if)

lemma rows_affected_pos: "0 < rows_affected P rows \<longleftrightarrow> (\<exists>r \<in> set rows. P r)"
  by (auto simp: rows_affected_def length_greater_0_conv filter_empty_conv)

lemma set_delete_where [simp]: "set (delete_where P rows) = {r \<in> set rows. \<not> P r}"
  by (simp add: delete_where_def)

lemma set_order_by_desc [simp]: "set (order_by_desc k rows) = set rows"
  by (simp add: order_by_desc_def)

lemma sorted_order_by_desc: "sorted (rev (map k (order_by_desc k rows)))"
  by (simp add: order_by_desc_def rev_map)

text \<open>\<open>ORDER BY key DESC LIMIT 1\<close> returns a row of maximal key.\<close>

lemma fetch_order_by_desc:
  assumes "fetch_optional (order_by_desc k rows) = Some r"
  shows "r \<in> set rows \<and> (\<forall>x \<in> set rows. k x \<le> k r)"
proof -
  obtain rest where eq: "order_by_desc k rows = r # rest"
    using assms by (auto simp: fetch_optional_def split: list.splits)
  then have srt: "sorted (map k (rev rest) @ [k r])"
    using sorted_order_by_desc [of k rows] by (simp add: rev_map)
  then have "\<forall>x \<in> set rest. k x \<le> k r" by (simp add: sorted_append)
  moreover have "set rows = insert r (set rest)"
    using set_order_by_desc [of k rows] eq by simp
  ultimately show ?thesis by auto
qed

lemma fetch_optional_None [simp]: "fetch_optional rows = None \<longleftrightarrow> rows = []"
  by (simp add: fetch_optional_def split: list.splits)

lemma order_by_desc_Nil [simp]: "order_by_desc k rows = [] \<longleftrightarrow> rows = []"
  by (metis set_order_by_desc set_empty)

end
