(* ===== verification/Deployments.thy ===== *)
theory Deployments
  imports SqlTable
begin

text \<open>
  The deployment repository, \<open>src/src/db/repository/deployments.rs\<close>, over the
  schema that the migrations under \<open>src/db/migrations/\<close> build.  Rows keep the
  columns of the table; \<open>strftime('%s','now')\<close> is the argument \<open>now\<close>.  The
  CHECK constraints on the status columns, the partial UNIQUE indexes on active
  deployments and the foreign keys are part of the model: a statement that
  violates one is rolled back and reported.
\<close>

section \<open>Data\<close>

datatype database_kind = Postgres | Mysql | Mariadb | Mongo | Redis | Libsql

definition kind_as_str :: "database_kind \<Rightarrow> string" where
  "kind_as_str k = (case k of Postgres \<Rightarrow> ''postgres'' | Mysql \<Rightarrow> ''mysql'' | Mariadb \<Rightarrow> ''mariadb''
     | Mongo \<Rightarrow> ''mongo'' | Redis \<Rightarrow> ''redis'' | Libsql \<Rightarrow> ''libsql'')"

definition kind_from_str :: "string \<Rightarrow> database_kind option" where
  "kind_from_str v = (let s = to_ascii_lowercase v in
     if s = ''postgres'' \<or> s = ''postgresql'' then Some Postgres
     else if s = ''mysql'' then Some Mysql
     else if s = ''mariadb'' then Some Mariadb
     else if s = ''mongo'' \<or> s = ''mongodb'' then Some Mongo
     else if s = ''redis'' then Some Redis
     else if s = ''libsql'' then Some Libsql
     else None)"

text \<open>The table of a kind is named by the kind itself; an unknown kind is a protocol error.\<close>

definition db_kind_to_table :: "string \<Rightarrow> database_kind sqlx" where
  "db_kind_to_table kind = (case kind_from_str kind of
      None \<Rightarrow> Err (Protocol ''()'')
    | Some k \<Rightarrow> Ok k)"

record deployment =
  dep_id :: int
  title :: string
  description :: "string option"
  status :: string
  state :: string
  log_path :: string
  pid :: "string option"
  error_message :: "string option"
  operation :: "string option"
  is_preview_deployment :: int
  started_at :: "int option"
  last_state_at :: "int option"
  finished_at :: "int option"
  application_id :: "int option"
  compose_id :: "int option"
  server_id :: "int option"
  created_at :: int
  database_id :: "int option"
  database_kind :: "string option"

record resource_row =
  res_id :: int
  res_name :: string
  res_app_name :: string
  res_status :: string
  res_server_id :: "int option"
  res_environment_id :: int

record database_row = resource_row +
  memory_limit :: "string option"
  cpu_limit :: "string option"

record preview_row =
  preview_id :: int
  preview_status :: string
  last_deployment_id :: "int option"
  preview_updated_at :: int

text \<open>The value lists of the CHECK constraints on the four status columns.\<close>

record status_checks =
  deployment_statuses :: "string list"
  application_statuses :: "string list"
  compose_statuses :: "string list"
  database_statuses :: "string list"

record panel_db =
  deployments :: "deployment list"
  deployments_seq :: int
  applications :: "resource_row list"
  compose_projects :: "resource_row list"
  databases :: "database_kind \<Rightarrow> database_row list"
  preview_deployments :: "preview_row list"
  servers :: "int list"
  environments :: "(int \<times> int) list"
  projects :: "(int \<times> int) list"
  checks :: status_checks

record deployment_claim =
  claim_id :: int
  claim_application_id :: "int option"
  claim_compose_id :: "int option"
  claim_database_id :: "int option"
  claim_database_kind :: "string option"
  claim_operation :: "string option"

record running_deployment =
  run_id :: int
  run_server_id :: "int option"
  run_pid :: "string option"

text \<open>The constraints of the migrated database, and those of the schema under \<open>src/db/schema/\<close>.\<close>

definition migrated_deployment_statuses :: "string list" where
  "migrated_deployment_statuses = [''QUEUED'', ''RUNNING'', ''DONE'', ''ERROR'', ''CANCELLED'']"

definition migrated_database_statuses :: "string list" where
  "migrated_database_statuses = [''IDLE'', ''RUNNING'', ''DONE'', ''ERROR'', ''QUEUED'', ''STARTING'',
     ''STOPPING'', ''STOPPED'', ''BUILDING'', ''DEPLOYING'', ''REBUILDING'', ''REDEPLOYING'',
     ''CANCELLING'', ''CANCELLED'', ''HEALTHY'', ''OK'', ''SUCCESS'', ''FAILED'']"

definition migrated_checks :: status_checks where
  "migrated_checks = \<lparr> deployment_statuses = migrated_deployment_statuses,
     application_statuses = [''IDLE'', ''RUNNING'', ''DONE'', ''ERROR''],
     compose_statuses = [''IDLE'', ''RUNNING'', ''DONE'', ''ERROR''],
     database_statuses = migrated_database_statuses \<rparr>"

definition declared_checks :: status_checks where
  "declared_checks = \<lparr> deployment_statuses = migrated_deployment_statuses,
     application_statuses = [''IDLE'', ''RUNNING'', ''DONE'', ''ERROR'', ''QUEUED'', ''STARTING'', ''STOPPED''],
     compose_statuses = [''IDLE'', ''RUNNING'', ''DONE'', ''ERROR'', ''QUEUED'', ''STARTING'', ''STOPPED''],
     database_statuses = migrated_database_statuses \<rparr>"

section \<open>Statements on the deployments table\<close>

definition active :: "deployment \<Rightarrow> bool" where
  "active r = (status r = ''QUEUED'' \<or> status r = ''RUNNING'')"

definition active_keys :: "(deployment \<Rightarrow> int option) \<Rightarrow> deployment list \<Rightarrow> int list" where
  "active_keys g rows = List.map_filter g (filter active rows)"

text \<open>\<open>idx_deployments_one_active_application\<close> and \<open>idx_deployments_one_active_compose\<close>.\<close>

definition one_active :: "deployment list \<Rightarrow> bool" where
  "one_active rows = (distinct (active_keys application_id rows) \<and> distinct (active_keys compose_id rows))"

definition fk_opt :: "int list \<Rightarrow> int option \<Rightarrow> bool" where
  "fk_opt ids c = (case c of None \<Rightarrow> True | Some i \<Rightarrow> i \<in> set ids)"

definition fk_ok :: "panel_db \<Rightarrow> deployment \<Rightarrow> bool" where
  "fk_ok db r = (fk_opt (map res_id (applications db)) (application_id r)
     \<and> fk_opt (map res_id (compose_projects db)) (compose_id r)
     \<and> fk_opt (servers db) (server_id r))"

definition status_ok :: "panel_db \<Rightarrow> deployment \<Rightarrow> bool" where
  "status_ok db r = (status r \<in> set (deployment_statuses (checks db)))"

definition exec_update ::
  "(deployment \<Rightarrow> bool) \<Rightarrow> (deployment \<Rightarrow> deployment) \<Rightarrow> panel_db \<Rightarrow> nat sqlx \<times> panel_db" where
  "exec_update P f db =
     (let rows = deployments db; rows' = update_where P f rows in
      if list_ex (\<lambda>r. P r \<and> \<not> status_ok db (f r)) rows
      then (Err (Constraint ''deployment_status_check''), db)
      else if \<not> one_active rows' then (Err (Constraint ''idx_deployments_one_active''), db)
      else (Ok (rows_affected P rows), db\<lparr>deployments := rows'\<rparr>))"

definition exec_insert :: "deployment \<Rightarrow> panel_db \<Rightarrow> int sqlx \<times> panel_db" where
  "exec_insert r db =
     (let i = deployments_seq db + 1; rows' = deployments db @ [r\<lparr>dep_id := i\<rparr>] in
      if \<not> status_ok db r then (Err (Constraint ''deployment_status_check''), db)
      else if \<not> fk_ok db r then (Err (Constraint ''FOREIGN KEY''), db)
      else if \<not> one_active rows' then (Err (Constraint ''idx_deployments_one_active''), db)
      else (Ok i, db\<lparr>deployments := rows', deployments_seq := i\<rparr>))"

text \<open>Deleting a deployment sets \<open>preview_deployments.last_deployment_id\<close> to NULL where it points to it.\<close>

definition exec_delete :: "(deployment \<Rightarrow> bool) \<Rightarrow> panel_db \<Rightarrow> nat sqlx \<times> panel_db" where
  "exec_delete P db =
     (let gone = map dep_id (filter P (deployments db)) in
      (Ok (rows_affected P (deployments db)),
       db\<lparr>deployments := delete_where P (deployments db),
          preview_deployments := update_where
            (\<lambda>p. case last_deployment_id p of None \<Rightarrow> False | Some i \<Rightarrow> i \<in> set gone)
            (\<lambda>p. p\<lparr>last_deployment_id := None\<rparr>) (preview_deployments db)\<rparr>))"

definition map_ok :: "('a \<Rightarrow> 'b) \<Rightarrow> 'a sqlx \<times> panel_db \<Rightarrow> 'b sqlx \<times> panel_db" where
  "map_ok g r = (case r of (Inl e, db) \<Rightarrow> (Err e, db) | (Inr x, db) \<Rightarrow> (Ok (g x), db))"

text \<open>A row as INSERT builds it from the table's defaults before its listed columns are set.\<close>

definition default_deployment :: "int \<Rightarrow> deployment" where
  "default_deployment now = \<lparr> dep_id = 0, title = [], description = None, status = ''QUEUED'',
     state = ''QUEUE'', log_path = [], pid = None, error_message = None, operation = None,
     is_preview_deployment = 0, started_at = None, last_state_at = None, finished_at = None,
     application_id = None, compose_id = None, server_id = None, created_at = now,
     database_id = None, database_kind = None \<rparr>"

end
