(* ===== verification/DeploymentRepo.thy ===== *)
theory DeploymentRepo
  imports Deployments
begin

text \<open>
  The operations of \<open>DeploymentRepository\<close>, in the order of
  \<open>src/src/db/repository/deployments.rs\<close>.  A writing operation returns its
  result and the database after it; a reading one is a function of the
  database.
\<close>

section \<open>Rows in progress and generic access\<close>

definition to_running :: "deployment \<Rightarrow> running_deployment" where
  "to_running r = \<lparr> run_id = dep_id r, run_server_id = server_id r, run_pid = pid r \<rparr>"

definition running_for_application :: "int \<Rightarrow> panel_db \<Rightarrow> running_deployment option" where
  "running_for_application a db = map_option to_running (fetch_optional (order_by_desc dep_id
     (filter (\<lambda>r. application_id r = Some a \<and> status r = ''RUNNING'') (deployments db))))"

definition running_for_compose :: "int \<Rightarrow> panel_db \<Rightarrow> running_deployment option" where
  "running_for_compose c db = map_option to_running (fetch_optional (order_by_desc dep_id
     (filter (\<lambda>r. compose_id r = Some c \<and> status r = ''RUNNING'') (deployments db))))"

definition create_running_deployment ::
  "int \<Rightarrow> string \<Rightarrow> string option \<Rightarrow> string \<Rightarrow> int \<Rightarrow> int option \<Rightarrow> panel_db \<Rightarrow> int sqlx \<times> panel_db" where
  "create_running_deployment now ttl descr op a srv =
     exec_insert ((default_deployment now)\<lparr>title := ttl, description := descr, status := ''RUNNING'',
       state := ''RUNNING'', log_path := [], operation := Some op, application_id := Some a,
       server_id := srv, started_at := Some now, last_state_at := Some now\<rparr>)"

definition get_all_deployments :: "panel_db \<Rightarrow> deployment list" where
  "get_all_deployments db = deployments db"

definition get_deployment :: "int \<Rightarrow> panel_db \<Rightarrow> deployment option" where
  "get_deployment i db = find (\<lambda>r. dep_id r = i) (deployments db)"

definition create_deployment :: "deployment \<Rightarrow> panel_db \<Rightarrow> int sqlx \<times> panel_db" where
  "create_deployment item = exec_insert item"

definition update_deployment :: "int \<Rightarrow> deployment \<Rightarrow> panel_db \<Rightarrow> unit sqlx \<times> panel_db" where
  "update_deployment i item db =
     (if list_ex (\<lambda>r. dep_id r = i) (deployments db) \<and> \<not> fk_ok db item
      then (Err (Constraint ''FOREIGN KEY''), db)
      else map_ok (\<lambda>_. ()) (exec_update (\<lambda>r. dep_id r = i) (\<lambda>r. item\<lparr>dep_id := dep_id r\<rparr>) db))"

definition delete_deployment :: "int \<Rightarrow> panel_db \<Rightarrow> unit sqlx \<times> panel_db" where
  "delete_deployment i db = map_ok (\<lambda>_. ()) (exec_delete (\<lambda>r. dep_id r = i) db)"

section \<open>Finished deployments\<close>

definition has_running_deployment :: "int \<Rightarrow> panel_db \<Rightarrow> bool" where
  "has_running_deployment a db = list_ex (\<lambda>r. application_id r = Some a \<and> active r) (deployments db)"

definition list_finished_ids_for_application :: "int \<Rightarrow> panel_db \<Rightarrow> int list" where
  "list_finished_ids_for_application a db =
     sort (map dep_id (filter (\<lambda>r. application_id r = Some a \<and> \<not> active r) (deployments db)))"

definition delete_finished_for_application :: "int \<Rightarrow> panel_db \<Rightarrow> nat sqlx \<times> panel_db" where
  "delete_finished_for_application a = exec_delete (\<lambda>r. application_id r = Some a \<and> \<not> active r)"

definition set_cancelled :: "int \<Rightarrow> deployment \<Rightarrow> deployment" where
  "set_cancelled now r = r\<lparr>status := ''CANCELLED'', state := ''CANCELLED'',
     finished_at := Some now, last_state_at := Some now\<rparr>"

definition cancel_queued_for_application_count :: "int \<Rightarrow> int \<Rightarrow> panel_db \<Rightarrow> nat sqlx \<times> panel_db" where
  "cancel_queued_for_application_count now a =
     exec_update (\<lambda>r. application_id r = Some a \<and> status r = ''QUEUED'') (set_cancelled now)"

definition list_finished_ids_for_compose :: "int \<Rightarrow> panel_db \<Rightarrow> int list" where
  "list_finished_ids_for_compose c db =
     sort (map dep_id (filter (\<lambda>r. compose_id r = Some c \<and> \<not> active r) (deployments db)))"

definition delete_finished_for_compose :: "int \<Rightarrow> panel_db \<Rightarrow> nat sqlx \<times> panel_db" where
  "delete_finished_for_compose c = exec_delete (\<lambda>r. compose_id r = Some c \<and> \<not> active r)"

definition finished_filter ::
  "int option \<Rightarrow> int option \<Rightarrow> int option \<Rightarrow> int option \<Rightarrow> deployment \<Rightarrow> bool" where
  "finished_filter a c d s r = (\<not> active r \<and> null_or_eq a (application_id r)
     \<and> null_or_eq c (compose_id r) \<and> null_or_eq d (database_id r) \<and> null_or_eq s (server_id r))"

definition delete_filtered_finished ::
  "int option \<Rightarrow> int option \<Rightarrow> int option \<Rightarrow> int option \<Rightarrow> panel_db \<Rightarrow> string list sqlx \<times> panel_db" where
  "delete_filtered_finished a c d s db =
     (let log_paths = map log_path (filter (finished_filter a c d s) (deployments db)) in
      map_ok (\<lambda>_. log_paths) (exec_delete (finished_filter a c d s) db))"

definition cancel_queued_for_compose_count :: "int \<Rightarrow> int \<Rightarrow> panel_db \<Rightarrow> nat sqlx \<times> panel_db" where
  "cancel_queued_for_compose_count now c =
     exec_update (\<lambda>r. compose_id r = Some c \<and> status r = ''QUEUED'') (set_cancelled now)"

section \<open>Creation and progress\<close>

definition create_queued_deployment ::
  "int \<Rightarrow> string \<Rightarrow> string option \<Rightarrow> string \<Rightarrow> string \<Rightarrow> int \<Rightarrow> int option \<Rightarrow> panel_db \<Rightarrow> int sqlx \<times> panel_db" where
  "create_queued_deployment now ttl descr lp op a srv =
     exec_insert ((default_deployment now)\<lparr>title := ttl, description := descr, status := ''QUEUED'',
       state := ''QUEUE'', log_path := lp, operation := Some op, application_id := Some a,
       server_id := srv, last_state_at := Some now\<rparr>)"

definition update_log_path :: "int \<Rightarrow> string \<Rightarrow> panel_db \<Rightarrow> unit sqlx \<times> panel_db" where
  "update_log_path i lp db =
     map_ok (\<lambda>_. ()) (exec_update (\<lambda>r. dep_id r = i) (\<lambda>r. r\<lparr>log_path := lp\<rparr>) db)"

definition update_state_if_running ::
  "int \<Rightarrow> int \<Rightarrow> string \<Rightarrow> string option \<Rightarrow> panel_db \<Rightarrow> unit sqlx \<times> panel_db" where
  "update_state_if_running now i st err db =
     map_ok (\<lambda>_. ()) (exec_update (\<lambda>r. dep_id r = i \<and> status r = ''RUNNING'')
       (\<lambda>r. r\<lparr>state := st, error_message := coalesce err (error_message r),
              last_state_at := Some now\<rparr>) db)"

definition update_final_status ::
  "int \<Rightarrow> int \<Rightarrow> string \<Rightarrow> string option \<Rightarrow> panel_db \<Rightarrow> unit sqlx \<times> panel_db" where
  "update_final_status now i st err db =
     map_ok (\<lambda>_. ()) (exec_update (\<lambda>r. dep_id r = i)
       (\<lambda>r. r\<lparr>status := st, state := st, error_message := coalesce err (error_message r),
              finished_at := Some now, last_state_at := Some now\<rparr>) db)"

section \<open>Resource status\<close>

definition set_status_rows ::
  "string list \<Rightarrow> int \<Rightarrow> string \<Rightarrow> 'r resource_row_scheme list \<Rightarrow> 'r resource_row_scheme list sqlx" where
  "set_status_rows allowed i st rows =
     (if list_ex (\<lambda>r. res_id r = i) rows \<and> st \<notin> set allowed then Err (Constraint ''status_check'')
      else Ok (update_where (\<lambda>r. res_id r = i) (\<lambda>r. r\<lparr>res_status := st\<rparr>) rows))"

definition set_application_status :: "int \<Rightarrow> string \<Rightarrow> panel_db \<Rightarrow> unit sqlx \<times> panel_db" where
  "set_application_status i st db =
     (case set_status_rows (application_statuses (checks db)) i st (applications db) of
        Inl e \<Rightarrow> (Err e, db)
      | Inr rows \<Rightarrow> (Ok (), db\<lparr>applications := rows\<rparr>))"

definition set_compose_status :: "int \<Rightarrow> string \<Rightarrow> panel_db \<Rightarrow> unit sqlx \<times> panel_db" where
  "set_compose_status i st db =
     (case set_status_rows (compose_statuses (checks db)) i st (compose_projects db) of
        Inl e \<Rightarrow> (Err e, db)
      | Inr rows \<Rightarrow> (Ok (), db\<lparr>compose_projects := rows\<rparr>))"

definition set_database_rows :: "database_kind \<Rightarrow> int \<Rightarrow> string \<Rightarrow> panel_db \<Rightarrow> unit sqlx \<times> panel_db" where
  "set_database_rows k i st db =
     (case set_status_rows (database_statuses (checks db)) i st (databases db k) of
        Inl e \<Rightarrow> (Err e, db)
      | Inr rows \<Rightarrow> (Ok (), db\<lparr>databases := (databases db)(k := rows)\<rparr>))"

definition update_database_status :: "int \<Rightarrow> string \<Rightarrow> string \<Rightarrow> panel_db \<Rightarrow> unit sqlx \<times> panel_db" where
  "update_database_status i kind st db =
     (case db_kind_to_table kind of
        Inl _ \<Rightarrow> (Ok (), db)
      | Inr k \<Rightarrow> set_database_rows k i st db)"

text \<open>The resource statement of a transaction: the application, else the compose project, else the database.\<close>

definition finalize_resource ::
  "int option \<Rightarrow> int option \<Rightarrow> int option \<Rightarrow> string option \<Rightarrow> string \<Rightarrow> panel_db \<Rightarrow> unit sqlx \<times> panel_db" where
  "finalize_resource a c d kind st db =
     (case a of Some i \<Rightarrow> set_application_status i st db
      | None \<Rightarrow> (case c of Some i \<Rightarrow> set_compose_status i st db
         | None \<Rightarrow> (case (d, kind) of
              (Some i, Some k) \<Rightarrow> (case db_kind_to_table k of
                  Inl e \<Rightarrow> (Err e, db)
                | Inr t \<Rightarrow> set_database_rows t i st db)
            | _ \<Rightarrow> (Ok (), db))))"

definition finalize_previews :: "int \<Rightarrow> int \<Rightarrow> string \<Rightarrow> panel_db \<Rightarrow> panel_db" where
  "finalize_previews now i st db = db\<lparr>preview_deployments := update_where
     (\<lambda>p. last_deployment_id p = Some i \<and> preview_status p \<noteq> ''CLOSED'')
     (\<lambda>p. p\<lparr>preview_status := (if st = ''DONE'' then ''ACTIVE'' else ''ERROR''),
            preview_updated_at := now\<rparr>) (preview_deployments db)\<rparr>"

definition set_finalized :: "int \<Rightarrow> string \<Rightarrow> string option \<Rightarrow> deployment \<Rightarrow> deployment" where
  "set_finalized now dst err r = r\<lparr>status := dst, state := dst,
     error_message := coalesce err (error_message r), finished_at := Some now,
     last_state_at := Some now, pid := None\<rparr>"

text \<open>
  One transaction: an error of any statement rolls back all of them.  The
  statement that appends the error text to a column \<open>logs\<close> fails on the
  migrated table, which has no such column, and its result is discarded, so it
  leaves the database as it is.
\<close>

definition finalize_with_resource ::
  "int \<Rightarrow> int \<Rightarrow> string \<Rightarrow> string option \<Rightarrow> int option \<Rightarrow> int option \<Rightarrow> int option \<Rightarrow> string option
   \<Rightarrow> string \<Rightarrow> panel_db \<Rightarrow> unit sqlx \<times> panel_db" where
  "finalize_with_resource now i dst err a c d kind rst db =
     (case exec_update (\<lambda>r. dep_id r = i) (set_finalized now dst err) db of
        (Inl e, _) \<Rightarrow> (Err e, db)
      | (Inr _, db1) \<Rightarrow>
          (case finalize_resource a c d kind rst db1 of
             (Inl e, _) \<Rightarrow> (Err e, db)
           | (Inr _, db2) \<Rightarrow> (Ok (), finalize_previews now i dst db2)))"


section \<open>Lookups over environments and projects\<close>

definition organization_of_environment :: "int \<Rightarrow> panel_db \<Rightarrow> int option" where
  "organization_of_environment e db =
     (case map_of (environments db) e of None \<Rightarrow> None | Some p \<Rightarrow> map_of (projects db) p)"

definition fetch_one :: "'a option \<Rightarrow> 'a sqlx" where
  "fetch_one r = (case r of None \<Rightarrow> Err RowNotFound | Some x \<Rightarrow> Ok x)"

definition find_resource :: "int \<Rightarrow> 'r resource_row_scheme list \<Rightarrow> 'r resource_row_scheme option" where
  "find_resource i rows = find (\<lambda>r. res_id r = i) rows"

definition get_database_deployment_context ::
  "int \<Rightarrow> string \<Rightarrow> panel_db \<Rightarrow> (int option \<times> int \<times> int \<times> string option \<times> string option) sqlx" where
  "get_database_deployment_context i kind db =
     (case db_kind_to_table kind of
        Inl e \<Rightarrow> Err e
      | Inr k \<Rightarrow> fetch_one (case find_resource i (databases db k) of
            None \<Rightarrow> None
          | Some d \<Rightarrow> (case map_of (environments db) (res_environment_id d) of
                None \<Rightarrow> None
              | Some p \<Rightarrow> Some (res_server_id d, res_environment_id d, p, memory_limit d, cpu_limit d))))"

definition application_organization_id :: "int \<Rightarrow> panel_db \<Rightarrow> int sqlx" where
  "application_organization_id a db = fetch_one (case find_resource a (applications db) of
     None \<Rightarrow> None | Some r \<Rightarrow> organization_of_environment (res_environment_id r) db)"

definition compose_organization_id :: "int \<Rightarrow> panel_db \<Rightarrow> int sqlx" where
  "compose_organization_id c db = fetch_one (case find_resource c (compose_projects db) of
     None \<Rightarrow> None | Some r \<Rightarrow> organization_of_environment (res_environment_id r) db)"

definition database_organization_id :: "int \<Rightarrow> string \<Rightarrow> panel_db \<Rightarrow> int sqlx" where
  "database_organization_id d kind db = (case db_kind_to_table kind of
       Inl e \<Rightarrow> Err e
     | Inr k \<Rightarrow> fetch_one (case find_resource d (databases db k) of
         None \<Rightarrow> None | Some r \<Rightarrow> organization_of_environment (res_environment_id r) db))"

definition get_database_app_name :: "int \<Rightarrow> string \<Rightarrow> panel_db \<Rightarrow> string sqlx" where
  "get_database_app_name d kind db = (case db_kind_to_table kind of
       Inl e \<Rightarrow> Err e
     | Inr k \<Rightarrow> fetch_one (map_option res_app_name (find_resource d (databases db k))))"

section \<open>Cancellation\<close>

definition has_running_status_deployment :: "int \<Rightarrow> panel_db \<Rightarrow> bool" where
  "has_running_status_deployment a db =
     list_ex (\<lambda>r. application_id r = Some a \<and> status r = ''RUNNING'') (deployments db)"

definition set_cancelling :: "int \<Rightarrow> deployment \<Rightarrow> deployment" where
  "set_cancelling now r = r\<lparr>status := ''CANCELLING'', state := ''CANCEL_REQUESTED'', last_state_at := Some now\<rparr>"

definition request_cancel_deployment :: "int \<Rightarrow> int \<Rightarrow> panel_db \<Rightarrow> unit sqlx \<times> panel_db" where
  "request_cancel_deployment now a db = map_ok (\<lambda>_. ())
     (exec_update (\<lambda>r. application_id r = Some a \<and> status r = ''RUNNING'') (set_cancelling now) db)"

definition has_running_compose_deployment :: "int \<Rightarrow> panel_db \<Rightarrow> bool" where
  "has_running_compose_deployment c db = list_ex (\<lambda>r. compose_id r = Some c \<and> active r) (deployments db)"

definition create_queued_compose_deployment ::
  "int \<Rightarrow> string \<Rightarrow> string option \<Rightarrow> string \<Rightarrow> string \<Rightarrow> int \<Rightarrow> int option \<Rightarrow> panel_db \<Rightarrow> int sqlx \<times> panel_db" where
  "create_queued_compose_deployment now ttl descr lp op c srv =
     exec_insert ((default_deployment now)\<lparr>title := ttl, description := descr, status := ''QUEUED'',
       state := ''QUEUE'', log_path := lp, operation := Some op, compose_id := Some c,
       server_id := srv, last_state_at := Some now\<rparr>)"

definition has_running_status_compose_deployment :: "int \<Rightarrow> panel_db \<Rightarrow> bool" where
  "has_running_status_compose_deployment c db =
     list_ex (\<lambda>r. compose_id r = Some c \<and> status r = ''RUNNING'') (deployments db)"

definition request_cancel_compose_deployment :: "int \<Rightarrow> int \<Rightarrow> panel_db \<Rightarrow> unit sqlx \<times> panel_db" where
  "request_cancel_compose_deployment now c db = map_ok (\<lambda>_. ())
     (exec_update (\<lambda>r. compose_id r = Some c \<and> status r = ''RUNNING'')
       (\<lambda>r. r\<lparr>state := ''CANCEL_REQUESTED'', last_state_at := Some now\<rparr>) db)"

definition has_running_database_deployment :: "int \<Rightarrow> panel_db \<Rightarrow> bool" where
  "has_running_database_deployment d db = list_ex (\<lambda>r. database_id r = Some d \<and> active r) (deployments db)"

definition create_queued_database_deployment ::
  "int \<Rightarrow> string \<Rightarrow> string option \<Rightarrow> string \<Rightarrow> string \<Rightarrow> int \<Rightarrow> string \<Rightarrow> int option \<Rightarrow> panel_db
   \<Rightarrow> int sqlx \<times> panel_db" where
  "create_queued_database_deployment now ttl descr lp op d kind srv =
     exec_insert ((default_deployment now)\<lparr>title := ttl, description := descr, status := ''QUEUED'',
       state := ''QUEUE'', log_path := lp, operation := Some op, database_id := Some d,
       database_kind := Some kind, server_id := srv, last_state_at := Some now\<rparr>)"

definition get_cancel_info ::
  "int \<Rightarrow> panel_db \<Rightarrow> (int option \<times> int option \<times> int option \<times> string) option" where
  "get_cancel_info i db = map_option (\<lambda>r. (application_id r, compose_id r, database_id r, status r))
     (find (\<lambda>r. dep_id r = i) (deployments db))"

definition cancel_queued_deployment :: "int \<Rightarrow> int \<Rightarrow> panel_db \<Rightarrow> bool sqlx \<times> panel_db" where
  "cancel_queued_deployment now i db = map_ok (\<lambda>n. 0 < n)
     (exec_update (\<lambda>r. dep_id r = i \<and> status r = ''QUEUED'') (set_cancelled now) db)"

definition set_cancel_requested :: "int \<Rightarrow> int \<Rightarrow> panel_db \<Rightarrow> bool sqlx \<times> panel_db" where
  "set_cancel_requested now i db = map_ok (\<lambda>n. 0 < n)
     (exec_update (\<lambda>r. dep_id r = i \<and> status r = ''RUNNING'') (set_cancelling now) db)"

section \<open>Listings\<close>

definition list_filtered ::
  "string option \<Rightarrow> string option \<Rightarrow> int option \<Rightarrow> int option \<Rightarrow> int option \<Rightarrow> int option \<Rightarrow> int \<Rightarrow> int
   \<Rightarrow> panel_db \<Rightarrow> deployment list" where
  "list_filtered st sta a c d s lim off db = sql_limit lim off
     (order_by_desc (\<lambda>r. (the (coalesce (started_at r) (Some (created_at r))), dep_id r))
       (filter (\<lambda>r. null_or_eq st (Some (status r)) \<and> null_or_eq sta (Some (state r))
                  \<and> null_or_eq a (application_id r) \<and> null_or_eq c (compose_id r)
                  \<and> null_or_eq d (database_id r) \<and> null_or_eq s (server_id r)) (deployments db)))"

definition get_status :: "int \<Rightarrow> panel_db \<Rightarrow> string option" where
  "get_status i db = map_option status (find (\<lambda>r. dep_id r = i) (deployments db))"

definition get_latest_application_deployment_id :: "int \<Rightarrow> panel_db \<Rightarrow> int option" where
  "get_latest_application_deployment_id a db = map_option dep_id (fetch_optional
     (order_by_desc dep_id (filter (\<lambda>r. application_id r = Some a) (deployments db))))"

definition get_latest_compose_deployment_id :: "int \<Rightarrow> panel_db \<Rightarrow> int option" where
  "get_latest_compose_deployment_id c db = map_option dep_id (fetch_optional
     (order_by_desc dep_id (filter (\<lambda>r. compose_id r = Some c) (deployments db))))"

definition get_latest_database_deployment_id :: "int \<Rightarrow> panel_db \<Rightarrow> int option" where
  "get_latest_database_deployment_id d db = map_option dep_id (fetch_optional
     (order_by_desc dep_id (filter (\<lambda>r. database_id r = Some d) (deployments db))))"

definition get_queued_count :: "panel_db \<Rightarrow> nat" where
  "get_queued_count db = length (filter (\<lambda>r. status r = ''QUEUED'') (deployments db))"

definition get_queued_ids_for_application :: "int \<Rightarrow> panel_db \<Rightarrow> int list" where
  "get_queued_ids_for_application a db =
     map dep_id (filter (\<lambda>r. application_id r = Some a \<and> status r = ''QUEUED'') (deployments db))"

definition cancel_queued_for_application :: "int \<Rightarrow> int \<Rightarrow> panel_db \<Rightarrow> bool sqlx \<times> panel_db" where
  "cancel_queued_for_application now a db = map_ok (\<lambda>n. 0 < n)
     (exec_update (\<lambda>r. application_id r = Some a \<and> status r = ''QUEUED'') (set_cancelled now) db)"

definition get_queued_ids_for_compose :: "int \<Rightarrow> panel_db \<Rightarrow> int list" where
  "get_queued_ids_for_compose c db =
     map dep_id (filter (\<lambda>r. compose_id r = Some c \<and> status r = ''QUEUED'') (deployments db))"

definition cancel_queued_for_compose :: "int \<Rightarrow> int \<Rightarrow> panel_db \<Rightarrow> bool sqlx \<times> panel_db" where
  "cancel_queued_for_compose now c db = map_ok (\<lambda>n. 0 < n)
     (exec_update (\<lambda>r. compose_id r = Some c \<and> status r = ''QUEUED'') (set_cancelled now) db)"

definition get_queued_ids_for_database :: "int \<Rightarrow> panel_db \<Rightarrow> int list" where
  "get_queued_ids_for_database d db =
     map dep_id (filter (\<lambda>r. database_id r = Some d \<and> status r = ''QUEUED'') (deployments db))"

definition cancel_queued_for_database :: "int \<Rightarrow> int \<Rightarrow> panel_db \<Rightarrow> bool sqlx \<times> panel_db" where
  "cancel_queued_for_database now d db = map_ok (\<lambda>n. 0 < n)
     (exec_update (\<lambda>r. database_id r = Some d \<and> status r = ''QUEUED'') (set_cancelled now) db)"

definition request_cancel_database_deployment :: "int \<Rightarrow> int \<Rightarrow> panel_db \<Rightarrow> unit sqlx \<times> panel_db" where
  "request_cancel_database_deployment now d db = map_ok (\<lambda>_. ())
     (exec_update (\<lambda>r. database_id r = Some d \<and> status r \<in> set [''RUNNING'', ''BUILDING'', ''QUEUED''])
        (set_cancelling now) db)"

section \<open>Recovery after a restart\<close>

definition mark_interrupted_as_recovered :: "int \<Rightarrow> panel_db \<Rightarrow> unit sqlx \<times> panel_db" where
  "mark_interrupted_as_recovered now db = map_ok (\<lambda>_. ())
     (exec_update (\<lambda>r. status r \<in> set [''QUEUED'', ''RUNNING'', ''CANCELLING''])
       (\<lambda>r. r\<lparr>status := ''ERROR'', state := ''RECOVERED_AFTER_RESTART'',
              error_message := coalesce (error_message r)
                (Some ''server restarted before deployment completed''),
              finished_at := Some now, last_state_at := Some now\<rparr>) db)"

definition max_id :: "deployment list \<Rightarrow> int option" where
  "max_id rows = (if rows = [] then None else Some (fold max (map dep_id rows) (dep_id (hd rows))))"

definition stale_resource :: "(deployment \<Rightarrow> bool) \<Rightarrow> deployment list \<Rightarrow> 'r resource_row_scheme \<Rightarrow> bool" where
  "stale_resource target rows x =
     (res_status x \<in> set [''QUEUED'', ''STARTING'', ''STOPPING'', ''CANCELLING'']
      \<or> list_ex (\<lambda>d. target d \<and> state d = ''RECOVERED_AFTER_RESTART''
                    \<and> Some (dep_id d) = max_id (filter target rows)) rows)"

definition recover_rows ::
  "string list \<Rightarrow> (int \<Rightarrow> deployment \<Rightarrow> bool) \<Rightarrow> deployment list \<Rightarrow> 'r resource_row_scheme list
   \<Rightarrow> 'r resource_row_scheme list sqlx" where
  "recover_rows allowed target deps rows =
     (if list_ex (\<lambda>x. stale_resource (target (res_id x)) deps x) rows \<and> ''ERROR'' \<notin> set allowed
      then Err (Constraint ''status_check'')
      else Ok (update_where (\<lambda>x. stale_resource (target (res_id x)) deps x)
                 (\<lambda>x. x\<lparr>res_status := ''ERROR''\<rparr>) rows))"

definition recover_stale_application_statuses :: "panel_db \<Rightarrow> unit sqlx \<times> panel_db" where
  "recover_stale_application_statuses db =
     (case recover_rows (application_statuses (checks db)) (\<lambda>i d. application_id d = Some i)
             (deployments db) (applications db) of
        Inl e \<Rightarrow> (Err e, db) | Inr rows \<Rightarrow> (Ok (), db\<lparr>applications := rows\<rparr>))"

definition recover_stale_compose_statuses :: "panel_db \<Rightarrow> unit sqlx \<times> panel_db" where
  "recover_stale_compose_statuses db =
     (case recover_rows (compose_statuses (checks db)) (\<lambda>i d. compose_id d = Some i)
             (deployments db) (compose_projects db) of
        Inl e \<Rightarrow> (Err e, db) | Inr rows \<Rightarrow> (Ok (), db\<lparr>compose_projects := rows\<rparr>))"

definition recover_kind :: "database_kind \<Rightarrow> panel_db \<Rightarrow> unit sqlx \<times> panel_db" where
  "recover_kind k db =
     (case recover_rows (database_statuses (checks db))
             (\<lambda>i d. database_id d = Some i
                \<and> map_option to_ascii_lowercase (database_kind d) = Some (kind_as_str k))
             (deployments db) (databases db k) of
        Inl e \<Rightarrow> (Err e, db) | Inr rows \<Rightarrow> (Ok (), db\<lparr>databases := (databases db)(k := rows)\<rparr>))"

fun recover_kinds :: "database_kind list \<Rightarrow> panel_db \<Rightarrow> unit sqlx \<times> panel_db" where
  "recover_kinds [] db = (Ok (), db)"
| "recover_kinds (k # ks) db = (case recover_kind k db of
      (Inl e, db') \<Rightarrow> (Err e, db') | (Inr _, db') \<Rightarrow> recover_kinds ks db')"

definition recover_stale_database_statuses :: "panel_db \<Rightarrow> unit sqlx \<times> panel_db" where
  "recover_stale_database_statuses = recover_kinds [Postgres, Mysql, Mariadb, Mongo, Redis, Libsql]"

section \<open>Remote jobs, the queue and the claim\<close>

definition remote_job :: "deployment \<Rightarrow> (int \<times> int \<times> string) option" where
  "remote_job r = (case (server_id r, pid r) of (Some s, Some p) \<Rightarrow> Some (dep_id r, s, p) | _ \<Rightarrow> None)"

definition get_running_remote_jobs :: "panel_db \<Rightarrow> (int \<times> int \<times> string) list" where
  "get_running_remote_jobs db =
     List.map_filter remote_job (filter (\<lambda>r. status r = ''RUNNING'') (deployments db))"

definition get_recovered_remote_jobs :: "panel_db \<Rightarrow> (int \<times> int \<times> string) list" where
  "get_recovered_remote_jobs db = List.map_filter remote_job
     (filter (\<lambda>r. status r = ''ERROR'' \<and> state r = ''RECOVERED_AFTER_RESTART'') (deployments db))"

definition set_pid :: "int \<Rightarrow> string \<Rightarrow> panel_db \<Rightarrow> unit sqlx \<times> panel_db" where
  "set_pid i p db = map_ok (\<lambda>_. ()) (exec_update (\<lambda>r. dep_id r = i) (\<lambda>r. r\<lparr>pid := Some p\<rparr>) db)"

definition set_pid_null :: "int \<Rightarrow> panel_db \<Rightarrow> unit sqlx \<times> panel_db" where
  "set_pid_null i db = map_ok (\<lambda>_. ()) (exec_update (\<lambda>r. dep_id r = i) (\<lambda>r. r\<lparr>pid := None\<rparr>) db)"

definition get_queued_deployments_grouped :: "panel_db \<Rightarrow> (int \<times> int option) list" where
  "get_queued_deployments_grouped db = map (\<lambda>r. (dep_id r, server_id r))
     (sort_key (\<lambda>r. (created_at r, dep_id r)) (filter (\<lambda>r. status r = ''QUEUED'') (deployments db)))"

definition set_claimed :: "int \<Rightarrow> deployment \<Rightarrow> deployment" where
  "set_claimed now r = r\<lparr>status := ''RUNNING'', state := ''QUEUE'',
     started_at := coalesce (started_at r) (Some now), last_state_at := Some now\<rparr>"

definition to_claim :: "deployment \<Rightarrow> deployment_claim" where
  "to_claim r = \<lparr> claim_id = dep_id r, claim_application_id = application_id r,
     claim_compose_id = compose_id r, claim_database_id = database_id r,
     claim_database_kind = database_kind r, claim_operation = operation r \<rparr>"

definition claim_queued_deployment ::
  "int \<Rightarrow> int \<Rightarrow> panel_db \<Rightarrow> deployment_claim option sqlx \<times> panel_db" where
  "claim_queued_deployment now i db =
     (let P = (\<lambda>r. dep_id r = i \<and> status r = ''QUEUED'') in
      map_ok (\<lambda>_. fetch_optional (map (to_claim \<circ> set_claimed now) (filter P (deployments db))))
        (exec_update P (set_claimed now) db))"

end
