(* ===== verification/DeploymentLaws.thy ===== *)
theory DeploymentLaws
  imports DeploymentRepo
begin

text \<open>
  Laws of the deployment repository: the table invariant (\<open>wf_db\<close>), its
  preservation by every writing operation, the effect of the statements on the
  status of a row, and the claim by which a worker takes a queued deployment.
\<close>

section \<open>The table invariant\<close>

definition wf_db :: "panel_db \<Rightarrow> bool" where
  "wf_db db = (keyed dep_id (deployments_seq db) (deployments db)
     \<and> one_active (deployments db)
     \<and> (\<forall>r \<in> set (deployments db). status_ok db r \<and> fk_ok db r))"

text \<open>The writing operations, as one type of calls and their effect on the database.\<close>

datatype repo_op =
    CreateRunning string "string option" string int "int option"
  | CreateQueuedApp string "string option" string string int "int option"
  | CreateQueuedCompose string "string option" string string int "int option"
  | CreateQueuedDatabase string "string option" string string int string "int option"
  | DeleteDeployment int
  | DeleteFinishedApp int
  | DeleteFinishedCompose int
  | DeleteFiltered "int option" "int option" "int option" "int option"
  | CancelQueued int
  | CancelQueuedApp int
  | CancelQueuedCompose int
  | CancelQueuedDatabase int
  | RequestCancelApp int
  | RequestCancelCompose int
  | RequestCancelDatabase int
  | SetCancelRequested int
  | UpdateLogPath int string
  | UpdateState int string "string option"
  | UpdateFinal int string "string option"
  | Finalize int string "string option" "int option" "int option" "int option" "string option" string
  | SetAppStatus int string
  | SetComposeStatus int string
  | UpdateDatabaseStatus int string string
  | MarkInterrupted
  | RecoverApps
  | RecoverComposes
  | RecoverDatabases
  | SetPid int string
  | SetPidNull int

fun apply_op :: "int \<Rightarrow> repo_op \<Rightarrow> panel_db \<Rightarrow> panel_db" where
  "apply_op now (CreateRunning t d op a s) db = snd (create_running_deployment now t d op a s db)"
| "apply_op now (CreateQueuedApp t d lp op a s) db = snd (create_queued_deployment now t d lp op a s db)"
| "apply_op now (CreateQueuedCompose t d lp op c s) db = snd (create_queued_compose_deployment now t d lp op c s db)"
| "apply_op now (CreateQueuedDatabase t d lp op i k s) db = snd (create_queued_database_deployment now t d lp op i k s db)"
| "apply_op now (DeleteDeployment i) db = snd (delete_deployment i db)"
| "apply_op now (DeleteFinishedApp a) db = snd (delete_finished_for_application a db)"
| "apply_op now (DeleteFinishedCompose c) db = snd (delete_finished_for_compose c db)"
| "apply_op now (DeleteFiltered a c d s) db = snd (delete_filtered_finished a c d s db)"
| "apply_op now (CancelQueued i) db = snd (cancel_queued_deployment now i db)"
| "apply_op now (CancelQueuedApp a) db = snd (cancel_queued_for_application now a db)"
| "apply_op now (CancelQueuedCompose c) db = snd (cancel_queued_for_compose now c db)"
| "apply_op now (CancelQueuedDatabase d) db = snd (cancel_queued_for_database now d db)"
| "apply_op now (RequestCancelApp a) db = snd (request_cancel_deployment now a db)"
| "apply_op now (RequestCancelCompose c) db = snd (request_cancel_compose_deployment now c db)"
| "apply_op now (RequestCancelDatabase d) db = snd (request_cancel_database_deployment now d db)"
| "apply_op now (SetCancelRequested i) db = snd (set_cancel_requested now i db)"
| "apply_op now (UpdateLogPath i lp) db = snd (update_log_path i lp db)"
| "apply_op now (UpdateState i st e) db = snd (update_state_if_running now i st e db)"
| "apply_op now (UpdateFinal i st e) db = snd (update_final_status now i st e db)"
| "apply_op now (Finalize i st e a c d k rst) db = snd (finalize_with_resource now i st e a c d k rst db)"
| "apply_op now (SetAppStatus i st) db = snd (set_application_status i st db)"
| "apply_op now (SetComposeStatus i st) db = snd (set_compose_status i st db)"
| "apply_op now (UpdateDatabaseStatus i k st) db = snd (update_database_status i k st db)"
| "apply_op now MarkInterrupted db = snd (mark_interrupted_as_recovered now db)"
| "apply_op now RecoverApps db = snd (recover_stale_application_statuses db)"
| "apply_op now RecoverComposes db = snd (recover_stale_compose_statuses db)"
| "apply_op now RecoverDatabases db = snd (recover_stale_database_statuses db)"
| "apply_op now (SetPid i p) db = snd (set_pid i p db)"
| "apply_op now (SetPidNull i) db = snd (set_pid_null i db)"

text \<open>
  The status literals the callers pass: \<open>process\<close>, the panic handler and the
  rollback service finalize with DONE, ERROR or CANCELLED only.
\<close>

fun call_ok :: "repo_op \<Rightarrow> bool" where
  "call_ok (UpdateFinal i st e) = (st \<in> set [''DONE'', ''ERROR'', ''CANCELLED''])"
| "call_ok (Finalize i st e a c d k rst) = (st \<in> set [''DONE'', ''ERROR'', ''CANCELLED''])"
| "call_ok _ = True"

section \<open>Statements keep the invariant\<close>

lemma snd_map_ok [simp]: "snd (map_ok g r) = snd r"
  by (auto simp: map_ok_def split: prod.splits sum.splits)

lemma wf_exec_update:
  assumes wf: "wf_db db"
    and keep: "\<And>r. dep_id (f r) = dep_id r" "\<And>r. application_id (f r) = application_id r"
      "\<And>r. compose_id (f r) = compose_id r" "\<And>r. server_id (f r) = server_id r"
  shows "wf_db (snd (exec_update P f db))"
proof -
  let ?rows = "update_where P f (deployments db)"
  show ?thesis
  proof (cases "list_ex (\<lambda>r. P r \<and> \<not> status_ok db (f r)) (deployments db) \<or> \<not> one_active ?rows")
    case True
    then show ?thesis using wf by (auto simp: exec_update_def Let_def)
  next
    case False
    then have res: "snd (exec_update P f db) = db\<lparr>deployments := ?rows\<rparr>"
      by (simp add: exec_update_def Let_def)
    have "fk_ok db (f r) = fk_ok db r" for r by (simp add: fk_ok_def keep)
    then have "\<forall>r \<in> set ?rows. status_ok db r \<and> fk_ok db r"
      using wf False by (auto simp: wf_db_def set_update_where list_ex_iff)
    moreover have "keyed dep_id (deployments_seq db) ?rows"
      using wf keyed_update_where [of dep_id f] keep(1) by (simp add: wf_db_def)
    ultimately show ?thesis
      using False by (simp add: res wf_db_def status_ok_def fk_ok_def)
  qed
qed

lemma wf_exec_insert:
  assumes "wf_db db"
  shows "wf_db (snd (exec_insert r db))"
  using assms keyed_insert [of dep_id "deployments_seq db" "deployments db" "r\<lparr>dep_id := deployments_seq db + 1\<rparr>"]
  by (auto simp: exec_insert_def wf_db_def Let_def status_ok_def fk_ok_def)

lemma active_keys_simps [simp]:
  "active_keys g [] = []"
  "active_keys g (r # rows) = (if active r then (case g r of None \<Rightarrow> active_keys g rows
     | Some k \<Rightarrow> k # active_keys g rows) else active_keys g rows)"
  by (simp_all add: active_keys_def map_filter_simps split: option.splits)

lemma set_active_keys: "set (active_keys g rows) = {k. \<exists>r \<in> set rows. active r \<and> g r = Some k}"
  by (induction rows) (auto split: option.splits)

lemma active_keys_delete:
  "distinct (active_keys g rows) \<Longrightarrow> distinct (active_keys g (delete_where P rows))"
  by (induction rows) (auto simp: delete_where_def set_active_keys split: option.splits if_splits)

text \<open>A statement that activates no row and moves none between resources keeps the partial indexes unique.\<close>

lemma active_keys_update:
  assumes "\<And>r. P r \<Longrightarrow> active (f r) \<Longrightarrow> active r" "\<And>r. g (f r) = g r"
  shows "distinct (active_keys g rows) \<Longrightarrow> distinct (active_keys g (update_where P f rows))"
proof (induction rows)
  case (Cons r rows)
  have "set (active_keys g (update_where P f rows)) \<subseteq> set (active_keys g rows)"
    using assms by (fastforce simp: set_active_keys update_where_def split: if_splits)
  with Cons assms(1) [of r] assms(2) [of r] show ?case
    by (auto simp: update_where_def split: option.splits if_splits)
qed (simp add: update_where_def)

lemma exec_update_ok:
  assumes "one_active (deployments db)"
    and "\<And>r. P r \<Longrightarrow> active (f r) \<Longrightarrow> active r"
    and "\<And>r. application_id (f r) = application_id r" "\<And>r. compose_id (f r) = compose_id r"
    and "\<And>r. r \<in> set (deployments db) \<Longrightarrow> P r \<Longrightarrow> status_ok db (f r)"
  shows "exec_update P f db
       = (Ok (rows_affected P (deployments db)), db\<lparr>deployments := update_where P f (deployments db)\<rparr>)"
proof -
  have "one_active (update_where P f (deployments db))"
    using assms(1-4) by (simp add: one_active_def active_keys_update)
  moreover have "\<not> list_ex (\<lambda>r. P r \<and> \<not> status_ok db (f r)) (deployments db)"
    using assms(5) by (auto simp: list_ex_iff)
  ultimately show ?thesis by (simp add: exec_update_def Let_def)
qed

lemma wf_exec_delete:
  assumes "wf_db db"
  shows "wf_db (snd (exec_delete P db))"
  using assms
  by (auto simp: exec_delete_def Let_def wf_db_def one_active_def active_keys_delete keyed_delete_where
      status_ok_def fk_ok_def)

text \<open>Statements on other tables: the deployments and the ids they refer to stay.\<close>

definition same_deployments :: "panel_db \<Rightarrow> panel_db \<Rightarrow> bool" where
  "same_deployments db db' = (deployments db' = deployments db \<and> deployments_seq db' = deployments_seq db
     \<and> map res_id (applications db') = map res_id (applications db)
     \<and> map res_id (compose_projects db') = map res_id (compose_projects db)
     \<and> servers db' = servers db \<and> checks db' = checks db)"

lemma same_deployments_refl [simp]: "same_deployments db db"
  by (simp add: same_deployments_def)

lemma same_deployments_trans:
  "same_deployments a b \<Longrightarrow> same_deployments b c \<Longrightarrow> same_deployments a c"
  by (simp add: same_deployments_def)

lemma wf_same_deployments: "same_deployments db db' \<Longrightarrow> wf_db db' = wf_db db"
  by (auto simp: same_deployments_def wf_db_def status_ok_def fk_ok_def)

lemma set_status_rows_ids:
  "set_status_rows al i st rows = Inr rows' \<Longrightarrow> map res_id rows' = map res_id rows"
  by (auto simp: set_status_rows_def map_update_where split: if_splits)

lemma recover_rows_ids:
  "recover_rows al t deps rows = Inr rows' \<Longrightarrow> map res_id rows' = map res_id rows"
  by (auto simp: recover_rows_def map_update_where split: if_splits)

lemma same_set_status [simp]:
  "same_deployments db (snd (set_application_status i st db))"
  "same_deployments db (snd (set_compose_status i st db))"
  "same_deployments db (snd (set_database_rows k i st db))"
  by (auto simp: same_deployments_def set_application_status_def set_compose_status_def
      set_database_rows_def dest: set_status_rows_ids split: sum.splits)

lemma same_recover [simp]:
  "same_deployments db (snd (recover_stale_application_statuses db))"
  "same_deployments db (snd (recover_stale_compose_statuses db))"
  "same_deployments db (snd (recover_kind k db))"
  by (auto simp: same_deployments_def recover_stale_application_statuses_def
      recover_stale_compose_statuses_def recover_kind_def dest: recover_rows_ids split: sum.splits)

lemma same_recover_kinds [simp]: "same_deployments db (snd (recover_kinds ks db))"
proof (induction ks arbitrary: db)
  case (Cons k ks)
  have "same_deployments db (snd (recover_kind k db))" by simp
  moreover obtain r db' where eq: "recover_kind k db = (r, db')" by fastforce
  ultimately have "same_deployments db db'" by simp
  with Cons.IH [of db'] eq show ?case
    by (cases r) (auto intro: same_deployments_trans)
qed simp

lemma same_update_database_status [simp]:
  "same_deployments db (snd (update_database_status i k st db))"
  by (simp add: update_database_status_def split: sum.splits)

lemma same_finalize_resource [simp]:
  "same_deployments db (snd (finalize_resource a c d k st db))"
  by (auto simp: finalize_resource_def split: option.splits sum.splits)

lemma same_finalize_previews [simp]: "same_deployments db (finalize_previews now i st db)"
  by (simp add: finalize_previews_def same_deployments_def)


text \<open>The columns every UPDATE of the repository leaves alone.\<close>

lemma set_clause_keys [simp]:
  "dep_id (set_cancelled now r) = dep_id r" "application_id (set_cancelled now r) = application_id r"
  "compose_id (set_cancelled now r) = compose_id r" "server_id (set_cancelled now r) = server_id r"
  "dep_id (set_cancelling now r) = dep_id r" "application_id (set_cancelling now r) = application_id r"
  "compose_id (set_cancelling now r) = compose_id r" "server_id (set_cancelling now r) = server_id r"
  "dep_id (set_claimed now r) = dep_id r" "application_id (set_claimed now r) = application_id r"
  "compose_id (set_claimed now r) = compose_id r" "server_id (set_claimed now r) = server_id r"
  "dep_id (set_finalized now st e r) = dep_id r"
  "application_id (set_finalized now st e r) = application_id r"
  "compose_id (set_finalized now st e r) = compose_id r"
  "server_id (set_finalized now st e r) = server_id r"
  by (simp_all add: set_cancelled_def set_cancelling_def set_claimed_def set_finalized_def)

lemma status_set_clauses [simp]:
  "status (set_finalized now st e r) = st"
  "status (set_cancelled now r) = ''CANCELLED''"
  "status (set_cancelling now r) = ''CANCELLING''"
  "status (set_claimed now r) = ''RUNNING''"
  by (simp_all add: set_cancelled_def set_cancelling_def set_claimed_def set_finalized_def)

lemma finalize_with_resource_cases:
  obtains (failed) e where "finalize_with_resource now i st err a c d k rst db = (Err e, db)"
  | (finished) n db1 db2 where
      "finalize_with_resource now i st err a c d k rst db = (Ok (), finalize_previews now i st db2)"
      "exec_update (\<lambda>r. dep_id r = i) (set_finalized now st err) db = (Ok n, db1)"
      "finalize_resource a c d k rst db1 = (Ok (), db2)"
proof (cases "exec_update (\<lambda>r. dep_id r = i) (set_finalized now st err) db")
  case (Pair res db1)
  show thesis
  proof (cases res)
    case (Inl e)
    with Pair failed show thesis by (simp add: finalize_with_resource_def)
  next
    case (Inr n)
    obtain res2 db2 where fr: "finalize_resource a c d k rst db1 = (res2, db2)" by fastforce
    show thesis
    proof (cases res2)
      case (Inl e)
      with Pair Inr fr failed show thesis by (simp add: finalize_with_resource_def)
    next
      case Inr2: (Inr u)
      with Pair Inr fr finished [of db2 n db1] show thesis
        by (simp add: finalize_with_resource_def)
    qed
  qed
qed

lemma same_finalized:
  assumes "finalize_resource a c d k rst db1 = (Ok (), db2)"
  shows "same_deployments db1 (finalize_previews now i st db2)"
  using same_finalize_resource [of db1 a c d k rst] assms same_finalize_previews [of db2]
  by (simp add: same_deployments_trans)

lemma wf_finalize_with_resource:
  assumes "wf_db db"
  shows "wf_db (snd (finalize_with_resource now i st err a c d k rst db))"
proof (cases rule: finalize_with_resource_cases [of now i st err a c d k rst db])
  case (failed e)
  then show ?thesis using assms by simp
next
  case (finished n db1 db2)
  have "wf_db db1"
    using wf_exec_update [OF assms, of "set_finalized now st err" "\<lambda>r. dep_id r = i"] finished(2) by simp
  with finished show ?thesis using wf_same_deployments [OF same_finalized [OF finished(3)]] by simp
qed

lemmas write_defs = create_running_deployment_def create_queued_deployment_def
  create_queued_compose_deployment_def create_queued_database_deployment_def delete_deployment_def
  delete_finished_for_application_def delete_finished_for_compose_def delete_filtered_finished_def
  cancel_queued_deployment_def cancel_queued_for_application_def cancel_queued_for_compose_def
  cancel_queued_for_database_def request_cancel_deployment_def request_cancel_compose_deployment_def
  request_cancel_database_deployment_def set_cancel_requested_def update_log_path_def
  update_state_if_running_def update_final_status_def mark_interrupted_as_recovered_def
  set_pid_def set_pid_null_def Let_def

lemma wf_apply_op:
  assumes "wf_db db"
  shows "wf_db (apply_op now c db)"
  by (cases c)
    (simp_all add: write_defs assms wf_exec_insert wf_exec_delete wf_exec_update
      wf_finalize_with_resource wf_same_deployments [OF same_set_status(1)]
      wf_same_deployments [OF same_set_status(2)] wf_same_deployments [OF same_update_database_status]
      wf_same_deployments [OF same_recover(1)] wf_same_deployments [OF same_recover(2)]
      wf_same_deployments [OF same_recover_kinds] recover_stale_database_statuses_def
      del: recover_kinds.simps)

lemma wf_claim_queued_deployment:
  "wf_db db \<Longrightarrow> wf_db (snd (claim_queued_deployment now i db))"
  by (simp add: claim_queued_deployment_def Let_def wf_exec_update)


section \<open>Queued rows\<close>

definition queued_ids :: "panel_db \<Rightarrow> int set" where
  "queued_ids db = set (map dep_id (filter (\<lambda>r. status r = ''QUEUED'') (deployments db)))"

lemma queued_ids_iff: "i \<in> queued_ids db \<longleftrightarrow> (\<exists>r \<in> set (deployments db). dep_id r = i \<and> status r = ''QUEUED'')"
  by (auto simp: queued_ids_def)

lemma queued_ids_le: "wf_db db \<Longrightarrow> i \<in> queued_ids db \<Longrightarrow> i \<le> deployments_seq db"
  by (auto simp: queued_ids_def wf_db_def keyed_def)

lemma get_status_queued: "wf_db db \<Longrightarrow> get_status i db = Some ''QUEUED'' \<longleftrightarrow> i \<in> queued_ids db"
proof
  assume "get_status i db = Some ''QUEUED''"
  then show "i \<in> queued_ids db"
    by (auto simp: get_status_def queued_ids_iff dest: find_Some_mem)
next
  assume "wf_db db" "i \<in> queued_ids db"
  then obtain r where "r \<in> set (deployments db)" "dep_id r = i" "status r = ''QUEUED''"
    by (auto simp: queued_ids_iff)
  moreover have "keyed dep_id (deployments_seq db) (deployments db)"
    using \<open>wf_db db\<close> by (simp add: wf_db_def)
  ultimately show "get_status i db = Some ''QUEUED''"
    using keyed_find [of dep_id "deployments_seq db" "deployments db" r] by (simp add: get_status_def)
qed

text \<open>What a writing operation may do to the set of queued ids and to the id sequence.\<close>

definition queue_step :: "panel_db \<Rightarrow> panel_db \<Rightarrow> bool" where
  "queue_step db db' = (deployments_seq db \<le> deployments_seq db' \<and> checks db' = checks db
     \<and> (\<forall>i \<in> queued_ids db'. i \<in> queued_ids db \<or> deployments_seq db < i))"

lemma queue_step_refl [simp]: "queue_step db db"
  by (simp add: queue_step_def)

lemma queue_step_trans: "queue_step a b \<Longrightarrow> queue_step b c \<Longrightarrow> queue_step a c"
  by (fastforce simp: queue_step_def)

lemma queue_step_same: "same_deployments db db' \<Longrightarrow> queue_step db db'"
  by (simp add: same_deployments_def queue_step_def queued_ids_def)

lemma queue_step_exec_update:
  assumes "\<And>r. dep_id (f r) = dep_id r"
    and "\<forall>r. P r \<longrightarrow> status (f r) = ''QUEUED'' \<longrightarrow> status r = ''QUEUED''"
  shows "queue_step db (snd (exec_update P f db))"
proof -
  have "\<exists>r \<in> set rows. dep_id r = dep_id x \<and> status r = ''QUEUED''"
    if "x \<in> set (update_where P f rows)" "status x = ''QUEUED''" for rows x
    using that assms by (auto simp: set_update_where split: if_splits)
  then show ?thesis by (auto simp: exec_update_def Let_def queue_step_def queued_ids_iff)
qed

lemma queue_step_exec_insert: "queue_step db (snd (exec_insert r db))"
  by (auto simp: exec_insert_def Let_def queue_step_def queued_ids_iff)

lemma queue_step_exec_delete: "queue_step db (snd (exec_delete P db))"
  by (auto simp: exec_delete_def Let_def queue_step_def queued_ids_iff)

lemma queue_step_finalize:
  assumes "st \<noteq> ''QUEUED''"
  shows "queue_step db (snd (finalize_with_resource now i st err a c d k rst db))"
proof (cases rule: finalize_with_resource_cases [of now i st err a c d k rst db])
  case (finished n db1 db2)
  have "queue_step db db1"
    using queue_step_exec_update [of "set_finalized now st err" "\<lambda>r. dep_id r = i" db] finished(2) assms
    by simp
  from queue_step_trans [OF this queue_step_same [OF same_finalized [OF finished(3)]]] finished(1)
  show ?thesis by simp
qed simp

lemma queue_step_apply_op:
  assumes "call_ok c"
  shows "queue_step db (apply_op now c db)"
  using assms
  by (cases c)
    (auto simp: write_defs queue_step_exec_insert queue_step_exec_delete queue_step_exec_update
      queue_step_finalize queue_step_same recover_stale_database_statuses_def
      simp del: recover_kinds.simps)

section \<open>The claim\<close>

definition schema_ok :: "panel_db \<Rightarrow> bool" where
  "schema_ok db = list_all (\<lambda>s. s \<in> set (deployment_statuses (checks db))) migrated_deployment_statuses"

lemma schema_ok_migrated: "checks db = migrated_checks \<or> checks db = declared_checks \<Longrightarrow> schema_ok db"
  by (auto simp: schema_ok_def migrated_checks_def declared_checks_def list_all_iff)

lemma schema_ok_status:
  "schema_ok db \<Longrightarrow> status r \<in> set migrated_deployment_statuses \<Longrightarrow> status_ok db r"
  by (simp add: schema_ok_def status_ok_def list_all_iff)

lemma to_claim_set_claimed [simp]: "to_claim (set_claimed now r) = to_claim r"
  by (simp add: to_claim_def set_claimed_def)

lemma keyed_filter_unique:
  assumes "keyed k sq rows" "r \<in> set rows" "P r"
  shows "filter (\<lambda>x. k x = k r \<and> P x) rows = [r]"
proof -
  have "distinct (map k rows)" using assms(1) by (simp add: keyed_def)
  then have "filter (\<lambda>x. k x = k r) rows = [r]"
    using assms(2)
  proof (induction rows)
    case (Cons a rows)
    then show ?case by (auto simp: filter_empty_conv image_iff)
  qed simp
  then have "filter P (filter (\<lambda>x. k x = k r) rows) = [r]" using assms(3) by simp
  then show ?thesis by (simp add: conj_commute)
qed

lemma claim_update:
  assumes "wf_db db" "schema_ok db"
  shows "exec_update (\<lambda>r. dep_id r = i \<and> status r = ''QUEUED'') (set_claimed now) db
    = (Ok (rows_affected (\<lambda>r. dep_id r = i \<and> status r = ''QUEUED'') (deployments db)),
       db\<lparr>deployments := update_where (\<lambda>r. dep_id r = i \<and> status r = ''QUEUED'')
                                        (set_claimed now) (deployments db)\<rparr>)"
proof (rule exec_update_ok)
  show "one_active (deployments db)" using assms by (simp add: wf_db_def)
  show "status_ok db (set_claimed now r)" for r
    using schema_ok_status [OF assms(2)] by (simp add: migrated_deployment_statuses_def)
qed (auto simp: active_def)

lemma claim_Some:
  assumes "wf_db db" "schema_ok db" "r \<in> set (deployments db)" "status r = ''QUEUED''"
  shows "claim_queued_deployment now (dep_id r) db
    = (Ok (Some (to_claim r)), db\<lparr>deployments := update_where (\<lambda>x. dep_id x = dep_id r \<and> status x = ''QUEUED'')
                                 (set_claimed now) (deployments db)\<rparr>)"
proof -
  have "keyed dep_id (deployments_seq db) (deployments db)" using assms(1) by (simp add: wf_db_def)
  from keyed_filter_unique [OF this assms(3), of "\<lambda>x. status x = ''QUEUED''"] assms(4)
  have "filter (\<lambda>x. dep_id x = dep_id r \<and> status x = ''QUEUED'') (deployments db) = [r]" by simp
  then show ?thesis
    using claim_update [OF assms(1,2), of "dep_id r" now]
    by (simp add: claim_queued_deployment_def Let_def map_ok_def fetch_optional_def)
qed

lemma claim_None:
  assumes "wf_db db" "schema_ok db" "i \<notin> queued_ids db"
  shows "claim_queued_deployment now i db = (Ok None, db)"
proof -
  have no: "\<forall>r \<in> set (deployments db). \<not> (dep_id r = i \<and> status r = ''QUEUED'')"
    using assms(3) by (auto simp: queued_ids_iff)
  then have "filter (\<lambda>r. dep_id r = i \<and> status r = ''QUEUED'') (deployments db) = []"
    by (simp add: filter_empty_conv)
  then show ?thesis
    using claim_update [OF assms(1,2), of i now] update_where_none [OF no, of "set_claimed now"]
    by (simp add: claim_queued_deployment_def Let_def map_ok_def fetch_optional_def)
qed

lemma queued_ids_claimed:
  assumes "wf_db db" "schema_ok db"
  shows "queued_ids (snd (claim_queued_deployment now i db)) = queued_ids db - {i}"
proof (cases "i \<in> queued_ids db")
  case True
  then obtain r where r: "r \<in> set (deployments db)" "dep_id r = i" "status r = ''QUEUED''"
    by (auto simp: queued_ids_iff)
  have rows: "deployments (snd (claim_queued_deployment now i db))
      = update_where (\<lambda>x. dep_id x = i \<and> status x = ''QUEUED'') (set_claimed now) (deployments db)"
    using claim_Some [OF assms r(1,3), of now] r(2) by simp
  have "filter (\<lambda>r. status r = ''QUEUED'') (update_where (\<lambda>x. dep_id x = i \<and> status x = ''QUEUED'') (set_claimed now) xs)
      = filter (\<lambda>r. dep_id r \<noteq> i) (filter (\<lambda>r. status r = ''QUEUED'') xs)" for xs
    by (induction xs) (simp_all add: update_where_def)
  then show ?thesis unfolding queued_ids_def rows by auto
next
  case False
  then show ?thesis using claim_None [OF assms] by simp
qed

lemma claim_keeps:
  "deployments_seq (snd (claim_queued_deployment now i db)) = deployments_seq db"
  "checks (snd (claim_queued_deployment now i db)) = checks db"
  by (simp_all add: claim_queued_deployment_def Let_def exec_update_def)

end
