(* ===== verification/HashStore.thy ===== *)
theory HashStore
  imports Prelude "HOL-Library.AList"
begin

text \<open>
  The hash maps of the sources (\<open>HashMap\<close>, \<open>DashMap\<close>) as association lists:
  a key occurs once, the order of the list stands for the unspecified order in
  which the map is iterated.
\<close>

type_synonym ('k, 'v) hash_map = "('k \<times> 'v) list"

definition hm_get :: "'k \<Rightarrow> ('k, 'v) hash_map \<Rightarrow> 'v option" where
  "hm_get k m = map_of m k"

definition hm_insert :: "'k \<Rightarrow> 'v \<Rightarrow> ('k, 'v) hash_map \<Rightarrow> ('k, 'v) hash_map" where
  "hm_insert k v m = AList.update k v m"

definition hm_remove :: "'k \<Rightarrow> ('k, 'v) hash_map \<Rightarrow> ('k, 'v) hash_map" where
  "hm_remove k m = AList.delete k m"

definition hm_retain :: "('k \<Rightarrow> 'v \<Rightarrow> bool) \<Rightarrow> ('k, 'v) hash_map \<Rightarrow> ('k, 'v) hash_map" where
  "hm_retain P m = filter (\<lambda>(k, v). P k v) m"

definition hm_wf :: "('k, 'v) hash_map \<Rightarrow> bool" where
  "hm_wf m = distinct (map fst m)"

text \<open>The contract of a map: what a lookup returns after each operation.\<close>

locale kv_store =
  fixes get :: "'k \<Rightarrow> 'm \<Rightarrow> 'v option"
    and ins :: "'k \<Rightarrow> 'v \<Rightarrow> 'm \<Rightarrow> 'm"
    and rem :: "'k \<Rightarrow> 'm \<Rightarrow> 'm"
    and inv :: "'m \<Rightarrow> bool"
  assumes get_ins: "inv m \<Longrightarrow> get j (ins k v m) = (if j = k then Some v else get j m)"
    and get_rem: "inv m \<Longrightarrow> get j (rem k m) = (if j = k then None else get j m)"
    and inv_ins: "inv m \<Longrightarrow> inv (ins k v m)"
    and inv_rem: "inv m \<Longrightarrow> inv (rem k m)"
begin

lemma get_modify:
  assumes "inv m" "get k m = Some v"
  shows "get j (ins k (f v) m) = (if j = k then map_option f (get j m) else get j m)"
  using assms by (simp add: get_ins)

lemma rem_ins: "inv m \<Longrightarrow> get j (rem k (ins k v m)) = get j (rem k m)"
  by (simp add: get_ins get_rem inv_ins)

lemma ins_commute:
  "inv m \<Longrightarrow> k \<noteq> l \<Longrightarrow> get j (ins k v (ins l w m)) = get j (ins l w (ins k v m))"
  by (simp add: get_ins inv_ins)

end

lemma hm_get_insert: "hm_get j (hm_insert k v m) = (if j = k then Some v else hm_get j m)"
  by (simp add: hm_get_def hm_insert_def update_conv)

lemma hm_get_remove: "hm_get j (hm_remove k m) = (if j = k then None else hm_get j m)"
  by (simp add: hm_get_def hm_remove_def delete_conv)

lemma hm_wf_insert: "hm_wf m \<Longrightarrow> hm_wf (hm_insert k v m)"
  by (simp add: hm_wf_def hm_insert_def distinct_update)

lemma hm_wf_remove: "hm_wf m \<Longrightarrow> hm_wf (hm_remove k m)"
  by (simp add: hm_wf_def hm_remove_def distinct_delete)

interpretation hm: kv_store hm_get hm_insert hm_remove hm_wf
  by unfold_locales (simp_all add: hm_get_insert hm_get_remove hm_wf_insert hm_wf_remove)

lemma hm_wf_retain: "hm_wf m \<Longrightarrow> hm_wf (hm_retain P m)"
  by (auto simp: hm_wf_def hm_retain_def distinct_map_filter)

lemma hm_get_retain:
  assumes "hm_wf m"
  shows "hm_get k (hm_retain P m) = (case hm_get k m of None \<Rightarrow> None | Some v \<Rightarrow> if P k v then Some v else None)"
proof -
  have "distinct (map fst m)" using assms by (simp add: hm_wf_def)
  then show ?thesis
  proof (induction m)
    case (Cons p m)
    have "map_of (filter (\<lambda>(k, v). P k v) m) (fst p) = None"
      using Cons.prems by (auto simp: map_of_eq_None_iff)
    with Cons show ?case
      by (cases p) (auto simp: hm_get_def hm_retain_def split: option.splits)
  qed (simp add: hm_get_def hm_retain_def)
qed

lemma hm_get_mem: "hm_wf m \<Longrightarrow> (k, v) \<in> set m \<longleftrightarrow> hm_get k m = Some v"
  by (simp add: hm_wf_def hm_get_def map_of_eq_Some_iff)

end
