(* ===== verification/ApplicationState.thy ===== *)
theory ApplicationState
  imports HashStore
begin

text \<open>
  The registry of active deployments, \<open>src/src/utils/builder/hash_state.rs\<close>
  with the types of \<open>custom_type.rs\<close>.  The watch channel, the broadcast channel
  and the cancellation token come from tokio, so they are parameters: a record
  of the operations the code calls.
\<close>

datatype id_type = AppId int | ComposeId int | DatabaseId int

datatype deploy_state =
    Queue | Preparing
  | GitClone | GitRetry | GitSuccess
  | DockerImagePull | DockerImageBuild | DockerBuildRetry | DockerBuildSuccess
  | DockerComposePull | DockerComposeDown | DockerComposeUp | DockerComposeRestart | DockerComposeRetry
  | ContainerCreating | ContainerStarting | ContainerRunning | ContainerStopping | ContainerStopped
  | ContainerRestarting
  | Building | BuildingRetry | BuildSuccess
  | Deploying | HealthCheck | WaitingForHealthy
  | Deployed | Cancelled | StoppedByUser
  | RollingBack | RollbackSuccess | RollbackFailed
  | CleaningUp | CleanupComplete | Failed string
  | RecoverAfterRestart

datatype deploy_event = StateChanged deploy_state | Log string | Message string

record ('w, 'b, 't) channel_ops =
  watch_channel :: "deploy_state \<Rightarrow> 'w"
  watch_send :: "'w \<Rightarrow> deploy_state \<Rightarrow> 'w"
  watch_subscribe :: "'w \<Rightarrow> 'w"
  watch_borrow :: "'w \<Rightarrow> deploy_state"
  broadcast_channel :: "nat \<Rightarrow> 'b"
  broadcast_send :: "'b \<Rightarrow> deploy_event \<Rightarrow> 'b"
  broadcast_subscribe :: "'b \<Rightarrow> 'b"
  token_new :: 't
  token_cancel :: "'t \<Rightarrow> 't"

record ('w, 'b, 't) app_deploy =
  ad_app_id :: id_type
  ad_project_id :: int
  ad_env_id :: int
  ad_state :: 'w
  ad_broadcast :: 'b
  ad_token :: 't

record active_deploy_snapshot =
  snap_id :: id_type
  snap_project_id :: int
  snap_env_id :: int
  snap_state :: deploy_state

type_synonym ('w, 'b, 't) app_state = "(id_type, ('w, 'b, 't) app_deploy) hash_map"

definition app_state_new :: "('w, 'b, 't) app_state" where
  "app_state_new = []"

definition set_state :: "id_type \<Rightarrow> ('w, 'b, 't) app_deploy \<Rightarrow> ('w, 'b, 't) app_state \<Rightarrow> ('w, 'b, 't) app_state" where
  "set_state i d m = hm_insert i d m"

definition default_deploy ::
  "('w, 'b, 't) channel_ops \<Rightarrow> id_type \<Rightarrow> int \<Rightarrow> int \<Rightarrow> ('w, 'b, 't) app_deploy" where
  "default_deploy C i env proj = \<lparr> ad_app_id = i, ad_project_id = proj, ad_env_id = env,
     ad_state = watch_channel C Queue, ad_broadcast = broadcast_channel C 5, ad_token = token_new C \<rparr>"

definition add_default ::
  "('w, 'b, 't) channel_ops \<Rightarrow> id_type \<Rightarrow> int \<Rightarrow> int \<Rightarrow> ('w, 'b, 't) app_state \<Rightarrow> ('w, 'b, 't) app_state" where
  "add_default C i env proj m = hm_insert i (default_deploy C i env proj) m"

definition ensure_default ::
  "('w, 'b, 't) channel_ops \<Rightarrow> id_type \<Rightarrow> int \<Rightarrow> int \<Rightarrow> ('w, 'b, 't) app_state \<Rightarrow> ('w, 'b, 't) app_state" where
  "ensure_default C i env proj m = (case hm_get i m of
      Some _ \<Rightarrow> m
    | None \<Rightarrow> hm_insert i (default_deploy C i env proj) m)"

definition reset_default ::
  "('w, 'b, 't) channel_ops \<Rightarrow> id_type \<Rightarrow> int \<Rightarrow> int \<Rightarrow> ('w, 'b, 't) app_state \<Rightarrow> ('w, 'b, 't) app_state" where
  "reset_default C i env proj m = hm_insert i (default_deploy C i env proj) m"

definition remove_state :: "id_type \<Rightarrow> ('w, 'b, 't) app_state \<Rightarrow> ('w, 'b, 't) app_state" where
  "remove_state i m = hm_remove i m"

definition cancel_entry ::
  "('w, 'b, 't) channel_ops \<Rightarrow> ('w, 'b, 't) app_deploy \<Rightarrow> ('w, 'b, 't) app_deploy" where
  "cancel_entry C d = d\<lparr>ad_token := token_cancel C (ad_token d)\<rparr>"

definition stop ::
  "('w, 'b, 't) channel_ops \<Rightarrow> ('w, 'b, 't) app_deploy \<Rightarrow> ('w, 'b, 't) app_state
   \<Rightarrow> (string, unit) result \<times> ('w, 'b, 't) app_state" where
  "stop C d m = (case hm_get (ad_app_id d) m of
      Some e \<Rightarrow> (Ok (), hm_insert (ad_app_id d) (cancel_entry C e) m)
    | None \<Rightarrow> (Err ''AppDeploy not found'', m))"

definition cancel_by_id ::
  "('w, 'b, 't) channel_ops \<Rightarrow> id_type \<Rightarrow> ('w, 'b, 't) app_state \<Rightarrow> bool \<times> ('w, 'b, 't) app_state" where
  "cancel_by_id C i m = (case hm_get i m of
      Some e \<Rightarrow> (True, hm_insert i (cancel_entry C e) m)
    | None \<Rightarrow> (False, m))"

definition cancellation_token :: "id_type \<Rightarrow> ('w, 'b, 't) app_state \<Rightarrow> 't option" where
  "cancellation_token i m = map_option ad_token (hm_get i m)"

definition state_recv ::
  "('w, 'b, 't) channel_ops \<Rightarrow> id_type \<Rightarrow> ('w, 'b, 't) app_state \<Rightarrow> 'w option \<times> ('w, 'b, 't) app_state" where
  "state_recv C i m = (case hm_get i m of
      Some e \<Rightarrow> (let w = watch_subscribe C (ad_state e) in (Some w, hm_insert i (e\<lparr>ad_state := w\<rparr>) m))
    | None \<Rightarrow> (None, m))"

definition broadcast_recv ::
  "('w, 'b, 't) channel_ops \<Rightarrow> id_type \<Rightarrow> ('w, 'b, 't) app_state \<Rightarrow> 'b option \<times> ('w, 'b, 't) app_state" where
  "broadcast_recv C i m = (case hm_get i m of
      Some e \<Rightarrow> (let b = broadcast_subscribe C (ad_broadcast e) in (Some b, hm_insert i (e\<lparr>ad_broadcast := b\<rparr>) m))
    | None \<Rightarrow> (None, m))"

definition subscribe ::
  "('w, 'b, 't) channel_ops \<Rightarrow> id_type \<Rightarrow> ('w, 'b, 't) app_state
   \<Rightarrow> ('w \<times> 'b) option \<times> ('w, 'b, 't) app_state" where
  "subscribe C i m = (case hm_get i m of
      Some e \<Rightarrow> (let w = watch_subscribe C (ad_state e); b = broadcast_subscribe C (ad_broadcast e) in
                  (Some (w, b), hm_insert i (e\<lparr>ad_state := w, ad_broadcast := b\<rparr>) m))
    | None \<Rightarrow> (None, m))"

definition active_deployments ::
  "('w, 'b, 't) channel_ops \<Rightarrow> ('w, 'b, 't) app_state \<Rightarrow> active_deploy_snapshot list" where
  "active_deployments C m = map (\<lambda>(_, d). \<lparr> snap_id = ad_app_id d, snap_project_id = ad_project_id d,
     snap_env_id = ad_env_id d, snap_state = watch_borrow C (ad_state d) \<rparr>) m"

definition get_broadcast_send :: "id_type \<Rightarrow> ('w, 'b, 't) app_state \<Rightarrow> 'b option" where
  "get_broadcast_send i m = map_option ad_broadcast (hm_get i m)"

definition get_state_send :: "id_type \<Rightarrow> ('w, 'b, 't) app_state \<Rightarrow> 'w option" where
  "get_state_send i m = map_option ad_state (hm_get i m)"

definition send_state ::
  "('w, 'b, 't) channel_ops \<Rightarrow> id_type \<Rightarrow> deploy_state \<Rightarrow> ('w, 'b, 't) app_state
   \<Rightarrow> (string, unit) result \<times> ('w, 'b, 't) app_state" where
  "send_state C i st m = (case hm_get i m of
      None \<Rightarrow> (Err ''AppDeploy not found'', m)
    | Some e \<Rightarrow> (Ok (), hm_insert i (e\<lparr>ad_state := watch_send C (ad_state e) st,
                  ad_broadcast := broadcast_send C (ad_broadcast e) (StateChanged st)\<rparr>) m))"

definition send_event ::
  "('w, 'b, 't) channel_ops \<Rightarrow> id_type \<Rightarrow> deploy_event \<Rightarrow> ('w, 'b, 't) app_state
   \<Rightarrow> (string, unit) result \<times> ('w, 'b, 't) app_state" where
  "send_event C i ev m = (case hm_get i m of
      None \<Rightarrow> (Err ''AppDeploy not found'', m)
    | Some e \<Rightarrow> (Ok (), hm_insert i (e\<lparr>ad_broadcast := broadcast_send C (ad_broadcast e) ev\<rparr>) m))"

definition send_log ::
  "('w, 'b, 't) channel_ops \<Rightarrow> id_type \<Rightarrow> string \<Rightarrow> ('w, 'b, 't) app_state
   \<Rightarrow> (string, unit) result \<times> ('w, 'b, 't) app_state" where
  "send_log C i line m = send_event C i (Log line) m"

definition send_broadcast ::
  "('w, 'b, 't) channel_ops \<Rightarrow> id_type \<Rightarrow> string \<Rightarrow> ('w, 'b, 't) app_state
   \<Rightarrow> (string, unit) result \<times> ('w, 'b, 't) app_state" where
  "send_broadcast C i ev m = send_event C i (Message ev) m"

lemma hm_get_cancel_by_id:
  "hm_get j (snd (cancel_by_id C i m)) = (if j = i then map_option (cancel_entry C) (hm_get j m) else hm_get j m)"
  by (auto simp: cancel_by_id_def hm_get_insert split: option.splits)

lemma fst_cancel_by_id: "fst (cancel_by_id C i m) \<longleftrightarrow> hm_get i m \<noteq> None"
  by (auto simp: cancel_by_id_def split: option.splits)

lemma hm_get_remove_state: "hm_get j (remove_state i m) = (if j = i then None else hm_get j m)"
  by (simp add: remove_state_def hm_get_remove)

end
