(* ===== verification/BuilderJob.thy ===== *)
theory BuilderJob
  imports DeploymentLaws ApplicationState
begin

text \<open>
  One job of the builder queue, \<open>src/src/utils/builder/queue/common.rs\<close>:
  which executor a claimed deployment is given to, how its result becomes the
  final status of the deployment and of its resource, and the notification it
  raises.  The executors (\<open>execute_operation_app\<close>, \<open>_compose\<close>, \<open>_db\<close>) drive git
  and docker; they are a parameter that yields a result.
\<close>

section \<open>Operations and events\<close>

datatype application_operation = ADeploy | ARedeploy | ARebuild | AReload | AStart
datatype compose_operation = CDeploy | CRedeploy | CReload | CStart | CStop
datatype database_operation = DDeploy | DRedeploy | DReload | DStart | DStop

definition application_op_as_str :: "application_operation \<Rightarrow> string" where
  "application_op_as_str x = (case x of ADeploy \<Rightarrow> ''deploy'' | ARedeploy \<Rightarrow> ''redeploy''
     | ARebuild \<Rightarrow> ''rebuild'' | AReload \<Rightarrow> ''reload'' | AStart \<Rightarrow> ''start'')"

definition application_op_title :: "application_operation \<Rightarrow> string" where
  "application_op_title x = (case x of ADeploy \<Rightarrow> ''Application deploy'' | ARedeploy \<Rightarrow> ''Application redeploy''
     | ARebuild \<Rightarrow> ''Application rebuild'' | AReload \<Rightarrow> ''Application reload'' | AStart \<Rightarrow> ''Application start'')"

definition compose_op_as_str :: "compose_operation \<Rightarrow> string" where
  "compose_op_as_str x = (case x of CDeploy \<Rightarrow> ''deploy'' | CRedeploy \<Rightarrow> ''redeploy''
     | CReload \<Rightarrow> ''reload'' | CStart \<Rightarrow> ''start'' | CStop \<Rightarrow> ''stop'')"

definition compose_op_title :: "compose_operation \<Rightarrow> string" where
  "compose_op_title x = (case x of CDeploy \<Rightarrow> ''Compose deploy'' | CRedeploy \<Rightarrow> ''Compose redeploy''
     | CReload \<Rightarrow> ''Compose reload'' | CStart \<Rightarrow> ''Compose start'' | CStop \<Rightarrow> ''Compose stop'')"

definition database_op_as_str :: "database_operation \<Rightarrow> string" where
  "database_op_as_str x = (case x of DDeploy \<Rightarrow> ''deploy'' | DRedeploy \<Rightarrow> ''redeploy''
     | DReload \<Rightarrow> ''reload'' | DStart \<Rightarrow> ''start'' | DStop \<Rightarrow> ''stop'')"

definition database_op_title :: "database_operation \<Rightarrow> string" where
  "database_op_title x = (case x of DDeploy \<Rightarrow> ''Deploying Database'' | DRedeploy \<Rightarrow> ''Redeploying Database''
     | DReload \<Rightarrow> ''Reloading Database'' | DStart \<Rightarrow> ''Starting Database'' | DStop \<Rightarrow> ''Stopping Database'')"

definition parse_application_operation :: "string \<Rightarrow> application_operation" where
  "parse_application_operation v =
     (if v = ''redeploy'' then ARedeploy else if v = ''rebuild'' then ARebuild
      else if v = ''reload'' then AReload else if v = ''start'' then AStart else ADeploy)"

definition parse_compose_operation :: "string \<Rightarrow> compose_operation" where
  "parse_compose_operation v =
     (if v = ''redeploy'' then CRedeploy else if v = ''reload'' then CReload
      else if v = ''start'' then CStart else if v = ''stop'' then CStop else CDeploy)"

definition parse_database_operation :: "string \<Rightarrow> database_operation" where
  "parse_database_operation v =
     (if v = ''redeploy'' then DRedeploy else if v = ''reload'' then DReload
      else if v = ''start'' then DStart else if v = ''stop'' then DStop else DDeploy)"

datatype builder_event =
    EvRecoverAfterRestart | EvPreparing | EvSourceReady | EvBuilding | EvImageReady | EvDeploying
  | EvRouting | EvHealthCheck | EvDeployed | EvCancelled | EvMessage string | EvFailed string

definition builder_event_state :: "builder_event \<Rightarrow> string" where
  "builder_event_state ev = (case ev of
      EvPreparing \<Rightarrow> ''PREPARING'' | EvSourceReady \<Rightarrow> ''SOURCE_READY'' | EvBuilding \<Rightarrow> ''BUILDING''
    | EvImageReady \<Rightarrow> ''IMAGE_READY'' | EvDeploying \<Rightarrow> ''DEPLOYING'' | EvRouting \<Rightarrow> ''ROUTING''
    | EvHealthCheck \<Rightarrow> ''HEALTH_CHECK'' | EvDeployed \<Rightarrow> ''DEPLOYED'' | EvCancelled \<Rightarrow> ''CANCELLED''
    | EvMessage _ \<Rightarrow> ''MESSAGE'' | EvFailed _ \<Rightarrow> ''FAILED''
    | EvRecoverAfterRestart \<Rightarrow> ''RECOVER_AFTER_RESTART'')"

definition builder_event_state_opt :: "builder_event \<Rightarrow> deploy_state option" where
  "builder_event_state_opt ev = (case ev of
      EvPreparing \<Rightarrow> Some Preparing | EvSourceReady \<Rightarrow> Some GitSuccess | EvBuilding \<Rightarrow> Some Building
    | EvImageReady \<Rightarrow> Some BuildSuccess | EvDeploying \<Rightarrow> Some Deploying | EvRouting \<Rightarrow> Some Deploying
    | EvHealthCheck \<Rightarrow> Some HealthCheck | EvDeployed \<Rightarrow> Some Deployed | EvCancelled \<Rightarrow> Some StoppedByUser
    | EvFailed e \<Rightarrow> Some (Failed e) | EvRecoverAfterRestart \<Rightarrow> Some RecoverAfterRestart
    | EvMessage _ \<Rightarrow> None)"

definition is_cancelled_error :: "string \<Rightarrow> bool" where
  "is_cancelled_error e = contains_str (to_ascii_lowercase e) ''cancel''"

datatype notification_trigger =
    AppDeploy | AppBuildError | DatabaseBackup | VolumeBackup | PanelRestart | DockerCleanup
  | ServerThreshold | PanelBackup | ScheduleSuccess | ScheduleFailure

definition deployment_notification_trigger :: "string \<Rightarrow> notification_trigger option" where
  "deployment_notification_trigger fs =
     (if fs = ''DONE'' then Some AppDeploy else if fs = ''CANCELLED'' then None else Some AppBuildError)"

section \<open>Running a job\<close>

record exec_ops =
  execute_operation_app :: "int \<Rightarrow> int \<Rightarrow> application_operation \<Rightarrow> (string, unit) result"
  execute_operation_compose :: "int \<Rightarrow> int \<Rightarrow> compose_operation \<Rightarrow> (string, unit) result"
  execute_operation_db :: "int \<Rightarrow> string \<Rightarrow> int \<Rightarrow> database_operation \<Rightarrow> (string, unit) result"

definition no_single_target :: "int \<Rightarrow> string" where
  "no_single_target dep = ''Execution failed: deployment '' @ int_to_dec dep
     @ '' must have exactly one of application_id, compose_id, or database_id/kind''"

definition execute_job ::
  "exec_ops \<Rightarrow> int \<Rightarrow> int option \<Rightarrow> int option \<Rightarrow> int option \<Rightarrow> string option \<Rightarrow> string
   \<Rightarrow> (string, unit) result" where
  "execute_job E dep a c d kind op =
     (case (a, c, d, kind) of
        (Some i, None, None, None) \<Rightarrow> execute_operation_app E i dep (parse_application_operation op)
      | (None, Some i, None, None) \<Rightarrow> execute_operation_compose E i dep (parse_compose_operation op)
      | (None, None, Some i, k) \<Rightarrow>
          execute_operation_db E i
            (case k of Some s \<Rightarrow> if s \<noteq> [] then s else ''postgres'' | None \<Rightarrow> ''postgres'')
            dep (parse_database_operation op)
      | _ \<Rightarrow> Err (no_single_target dep))"

definition final_status_of :: "(string, unit) result \<Rightarrow> string" where
  "final_status_of res = (case res of Inr _ \<Rightarrow> ''DONE''
     | Inl e \<Rightarrow> if is_cancelled_error e then ''CANCELLED'' else ''ERROR'')"

definition target_status_of :: "string \<Rightarrow> string \<Rightarrow> string" where
  "target_status_of fs op =
     (if fs = ''DONE'' then (if eq_ignore_ascii_case op ''stop'' then ''STOPPED'' else ''RUNNING'')
      else ''ERROR'')"

definition err_of :: "('e, 'a) result \<Rightarrow> 'e option" where
  "err_of res = (case res of Inl e \<Rightarrow> Some e | Inr _ \<Rightarrow> None)"

definition drop_states ::
  "int option \<Rightarrow> int option \<Rightarrow> int option \<Rightarrow> string option \<Rightarrow> ('w, 'b, 't) app_state \<Rightarrow> ('w, 'b, 't) app_state" where
  "drop_states a c d kind m =
     (let m1 = (case a of Some i \<Rightarrow> remove_state (AppId i) m | None \<Rightarrow> m);
          m2 = (case c of Some i \<Rightarrow> remove_state (ComposeId i) m1 | None \<Rightarrow> m1)
      in (case (d, kind) of (Some i, Some _) \<Rightarrow> remove_state (DatabaseId i) m2 | _ \<Rightarrow> m2))"

section \<open>The notification\<close>

datatype notification_level = Info | Warning | Critical

record notification_message =
  msg_title :: string
  msg_body :: string
  msg_level :: notification_level
  msg_timestamp :: int
  msg_url :: "string option"
  msg_fields :: "(string \<times> string) list"

definition message_new :: "int \<Rightarrow> string \<Rightarrow> string \<Rightarrow> notification_message" where
  "message_new now t b = \<lparr> msg_title = t, msg_body = b, msg_level = Info, msg_timestamp = now,
     msg_url = None, msg_fields = [] \<rparr>"

definition message_field :: "string \<Rightarrow> string \<Rightarrow> notification_message \<Rightarrow> notification_message" where
  "message_field k v m = m\<lparr>msg_fields := msg_fields m @ [(k, v)]\<rparr>"

definition deployment_organization_id ::
  "int option \<Rightarrow> int option \<Rightarrow> int option \<Rightarrow> string option \<Rightarrow> panel_db \<Rightarrow> int option" where
  "deployment_organization_id a c d kind db =
     (case a of Some i \<Rightarrow> (case application_organization_id i db of Inl _ \<Rightarrow> None | Inr g \<Rightarrow> Some g)
      | None \<Rightarrow> (case c of Some i \<Rightarrow> (case compose_organization_id i db of Inl _ \<Rightarrow> None | Inr g \<Rightarrow> Some g)
         | None \<Rightarrow> (case (d, kind) of
              (Some i, Some k) \<Rightarrow> (case database_organization_id i k db of Inl _ \<Rightarrow> None | Inr g \<Rightarrow> Some g)
            | _ \<Rightarrow> None)))"

definition describe_deployment_target ::
  "int option \<Rightarrow> int option \<Rightarrow> int option \<Rightarrow> string option \<Rightarrow> panel_db \<Rightarrow> string \<times> string" where
  "describe_deployment_target a c d kind db =
     (case a of
        Some i \<Rightarrow> (''Application'', case find_resource i (applications db) of
                    Some r \<Rightarrow> res_name r | None \<Rightarrow> int_to_dec i)
      | None \<Rightarrow> (case c of
           Some i \<Rightarrow> (''Compose'', case find_resource i (compose_projects db) of
                       Some r \<Rightarrow> res_name r | None \<Rightarrow> int_to_dec i)
         | None \<Rightarrow> (case (d, kind) of
              (Some i, Some k) \<Rightarrow> (''Database'', case get_database_app_name i k db of
                       Inr n \<Rightarrow> n | Inl _ \<Rightarrow> int_to_dec i)
            | _ \<Rightarrow> (''Deployment'', ''unknown''))))"

definition notify_deployment_finished ::
  "int \<Rightarrow> int \<Rightarrow> int option \<Rightarrow> int option \<Rightarrow> int option \<Rightarrow> string option \<Rightarrow> string \<Rightarrow> string \<Rightarrow> string option
   \<Rightarrow> panel_db \<Rightarrow> (int \<times> notification_trigger \<times> notification_message) option" where
  "notify_deployment_finished now dep a c d kind op fs err db =
     (case deployment_notification_trigger fs of
        None \<Rightarrow> None
      | Some trigger \<Rightarrow>
          (case describe_deployment_target a c d kind db of (k, name) \<Rightarrow>
            (case deployment_organization_id a c d kind db of
               None \<Rightarrow> None
             | Some org \<Rightarrow>
                 (let ok = (fs = ''DONE'');
                      ttl = k @ '' '' @ op @ (if ok then '' succeeded: '' else '' failed: '') @ name;
                      body = (case err of Some e \<Rightarrow> e
                              | None \<Rightarrow> k @ '' '' @ name @ '' finished '' @ op @ '' successfully.'');
                      m = (message_new now ttl body)\<lparr>msg_level := (if ok then Info else Critical)\<rparr>;
                      m = message_field ''Deployment'' (int_to_dec dep)
                            (message_field ''Status'' fs
                              (message_field ''Operation'' op
                                (message_field ''Resource'' (k @ '' '' @ name) m)));
                      m = (case err of Some e \<Rightarrow> message_field ''Error'' e m | None \<Rightarrow> m)
                  in Some (org, trigger, m)))))"

text \<open>
  \<open>process\<close>: \<open>di_ok\<close> says whether the repository resolves.  The failure of the
  final transaction is only logged.  The result carries the database, the
  registry and the notification to send.
\<close>

definition process ::
  "bool \<Rightarrow> exec_ops \<Rightarrow> int \<Rightarrow> int \<Rightarrow> int option \<Rightarrow> int option \<Rightarrow> int option \<Rightarrow> string option \<Rightarrow> string
   \<Rightarrow> panel_db \<Rightarrow> ('w, 'b, 't) app_state
   \<Rightarrow> panel_db \<times> ('w, 'b, 't) app_state \<times> (int \<times> notification_trigger \<times> notification_message) option" where
  "process di_ok E now dep a c d kind op db m =
     (let res = execute_job E dep a c d kind op;
          fs = final_status_of res;
          err = err_of res
      in if \<not> di_ok then (db, m, None)
         else (let db' = snd (finalize_with_resource now dep fs err a c d kind (target_status_of fs op) db) in
               (db', drop_states a c d kind m,
                notify_deployment_finished now dep a c d kind op fs err db')))"

lemma final_status_of_cases: "final_status_of res \<in> set [''DONE'', ''ERROR'', ''CANCELLED'']"
  by (cases res) (simp_all add: final_status_of_def)

lemma fst_process:
  "fst (process di_ok E now dep a c d kind op db m) =
     (if di_ok then apply_op now (Finalize dep (final_status_of (execute_job E dep a c d kind op))
        (err_of (execute_job E dep a c d kind op)) a c d kind
        (target_status_of (final_status_of (execute_job E dep a c d kind op)) op)) db
      else db)"
  by (simp add: process_def Let_def)

end
