(* ===== verification/BuilderQueue.thy ===== *)
theory BuilderQueue
  imports BuilderJob
begin

text \<open>
  The builder queue, \<open>src/src/utils/builder/queue/queue.rs\<close>: admission, the
  dispatcher that claims queued deployments under a limit per server, its
  workers, and the recovery after a restart.  The semaphore comes from tokio;
  it is a record of the three operations the code calls, with its documented
  behaviour as the locale \<open>semaphore\<close>.
\<close>

section \<open>State\<close>

record 'sem sem_ops =
  sem_new :: "nat \<Rightarrow> 'sem"
  sem_try_acquire :: "'sem \<Rightarrow> 'sem option"
  sem_release :: "'sem \<Rightarrow> 'sem"

locale semaphore =
  fixes S :: "'sem sem_ops" and permits :: "'sem \<Rightarrow> nat"
  assumes permits_new: "permits (sem_new S n) = n"
    and try_acquire_None: "sem_try_acquire S s = None \<longleftrightarrow> permits s = 0"
    and try_acquire_Some: "sem_try_acquire S s = Some s' \<Longrightarrow> Suc (permits s') = permits s"
    and permits_release: "permits (sem_release S s) = Suc (permits s)"

record worker =
  w_claim :: deployment_claim
  w_server :: "int option"

text \<open>
  \<open>pending\<close> is the rest of the list the dispatcher is walking through;
  \<open>spawned\<close> is a history variable, the ids a worker was started for.
\<close>

record 'sem builder_queue =
  q_db :: panel_db
  slots :: "(int option, 'sem) hash_map"
  per_server_limit :: nat
  started :: bool
  pending :: "(int \<times> int option) list"
  workers :: "worker list"
  spawned :: "int list"

definition per_server_limit_of :: "string option \<Rightarrow> nat" where
  "per_server_limit_of env = max 1 (case env of None \<Rightarrow> 1
     | Some v \<Rightarrow> (case parse_unsigned usize_max v of Some n \<Rightarrow> n | None \<Rightarrow> 1))"

definition builder_queue_new :: "string option \<Rightarrow> panel_db \<Rightarrow> 'sem builder_queue" where
  "builder_queue_new env db = \<lparr> q_db = db, slots = [], per_server_limit = per_server_limit_of env,
     started = False, pending = [], workers = [], spawned = [] \<rparr>"

section \<open>Admission and cancellation of queued deployments\<close>

definition queue_max_size :: "string option \<Rightarrow> int" where
  "queue_max_size env = max 1 (case env of None \<Rightarrow> 100
     | Some v \<Rightarrow> (case parse_signed i64_max v of Some n \<Rightarrow> n | None \<Rightarrow> 100))"

definition ensure_capacity :: "string option \<Rightarrow> panel_db \<Rightarrow> unit sqlx" where
  "ensure_capacity env db =
     (let max_size = queue_max_size env; queued = int (get_queued_count db) in
      if max_size \<le> queued
      then Err (Protocol (''deployment queue is full ('' @ int_to_dec queued @ ''/''
             @ int_to_dec max_size @ ''); try again later''))
      else Ok ())"

text \<open>
  The three cancellations return the flag, the database and the ids whose log
  file gets the cancellation line (none when nothing was cancelled).
\<close>

definition cancel_logs :: "bool sqlx \<times> panel_db \<Rightarrow> int list \<Rightarrow> bool sqlx \<times> panel_db \<times> int list" where
  "cancel_logs r ids = (case r of (Inr True, db) \<Rightarrow> (Ok True, db, ids) | (x, db) \<Rightarrow> (x, db, []))"

definition cancel_queued_application :: "int \<Rightarrow> int \<Rightarrow> panel_db \<Rightarrow> bool sqlx \<times> panel_db \<times> int list" where
  "cancel_queued_application now a db =
     cancel_logs (cancel_queued_for_application now a db) (get_queued_ids_for_application a db)"

definition cancel_queued_compose :: "int \<Rightarrow> int \<Rightarrow> panel_db \<Rightarrow> bool sqlx \<times> panel_db \<times> int list" where
  "cancel_queued_compose now c db =
     cancel_logs (cancel_queued_for_compose now c db) (get_queued_ids_for_compose c db)"

definition cancel_queued_database :: "int \<Rightarrow> int \<Rightarrow> panel_db \<Rightarrow> bool sqlx \<times> panel_db \<times> int list" where
  "cancel_queued_database now d db =
     cancel_logs (cancel_queued_for_database now d db) (get_queued_ids_for_database d db)"

section \<open>Recovery\<close>

text \<open>
  \<open>kill server pid\<close> is the outcome of reaching the server and killing the
  process named by the pid file.
\<close>

definition kill_remote_pid :: "(int \<Rightarrow> string \<Rightarrow> bool) \<Rightarrow> int \<times> int \<times> string \<Rightarrow> panel_db \<Rightarrow> bool \<times> panel_db" where
  "kill_remote_pid kill job db = (case job of (dep, srv, p) \<Rightarrow>
     if kill srv p then (True, snd (set_pid_null dep db)) else (False, db))"

definition kill_jobs ::
  "(int \<Rightarrow> string \<Rightarrow> bool) \<Rightarrow> (int \<times> int \<times> string) list \<Rightarrow> panel_db \<Rightarrow> nat \<times> panel_db" where
  "kill_jobs kill jobs db = fold (\<lambda>j (n, db). case kill_remote_pid kill j db of
     (killed, db') \<Rightarrow> (if killed then n else Suc n, db')) jobs (0, db)"

definition cleanup_stale_remote_jobs :: "(int \<Rightarrow> string \<Rightarrow> bool) \<Rightarrow> panel_db \<Rightarrow> panel_db" where
  "cleanup_stale_remote_jobs kill db = snd (kill_jobs kill (get_running_remote_jobs db) db)"

text \<open>\<open>kill\<close> also depends on the attempt: a server may come back between two of them.\<close>

function retry_stale_remote_cleanup :: "nat \<Rightarrow> (nat \<Rightarrow> int \<Rightarrow> string \<Rightarrow> bool) \<Rightarrow> panel_db \<Rightarrow> panel_db" where
  "retry_stale_remote_cleanup attempt kill db =
     (if 20 < attempt then db
      else let rows = get_recovered_remote_jobs db in
        if rows = [] then db
        else (case kill_jobs (kill attempt) rows db of (unkilled, db') \<Rightarrow>
           if unkilled = 0 then db' else retry_stale_remote_cleanup (Suc attempt) kill db'))"
  by pat_completeness auto
termination by (relation "measure (\<lambda>(attempt, kill, db). 21 - attempt)") auto

declare retry_stale_remote_cleanup.simps [simp del]

definition recover_stale_deployments :: "int \<Rightarrow> (int \<Rightarrow> string \<Rightarrow> bool) \<Rightarrow> panel_db \<Rightarrow> panel_db" where
  "recover_stale_deployments now kill db =
     (let db1 = cleanup_stale_remote_jobs kill db;
          db2 = snd (mark_interrupted_as_recovered now db1);
          db3 = snd (recover_stale_application_statuses db2);
          db4 = snd (recover_stale_compose_statuses db3)
      in snd (recover_stale_database_statuses db4))"

text \<open>
  \<open>start\<close> runs the recovery once; a second call does nothing.  The spawned
  dispatcher loop and the two-second ticker only call the steps below.
\<close>

definition queue_start :: "int \<Rightarrow> (int \<Rightarrow> string \<Rightarrow> bool) \<Rightarrow> 'sem builder_queue \<Rightarrow> 'sem builder_queue" where
  "queue_start now kill q =
     (if started q then q
      else q\<lparr>started := True, q_db := recover_stale_deployments now kill (q_db q)\<rparr>)"

section \<open>Dispatch\<close>

definition semaphore_for ::
  "'sem sem_ops \<Rightarrow> int option \<Rightarrow> 'sem builder_queue \<Rightarrow> 'sem \<times> 'sem builder_queue" where
  "semaphore_for S srv q = (case hm_get srv (slots q) of
      Some s \<Rightarrow> (s, q)
    | None \<Rightarrow> (let s = sem_new S (per_server_limit q) in (s, q\<lparr>slots := hm_insert srv s (slots q)\<rparr>)))"

text \<open>
  One round of the dispatcher's loop.  \<open>claim\<close> is the repository call, which
  may also fail; acquiring touches only the slots and claiming only the
  database, so the two are one step here.
\<close>

definition dispatch_one ::
  "'sem sem_ops \<Rightarrow> (int \<Rightarrow> panel_db \<Rightarrow> deployment_claim option sqlx \<times> panel_db)
   \<Rightarrow> int \<times> int option \<Rightarrow> 'sem builder_queue \<Rightarrow> 'sem builder_queue" where
  "dispatch_one S claim row q = (case row of (dep, srv) \<Rightarrow>
     (case semaphore_for S srv q of (s, q1) \<Rightarrow>
       (case sem_try_acquire S s of
          None \<Rightarrow> q1
        | Some s' \<Rightarrow>
            (case claim dep (q_db q1) of
               (Inr (Some c), db') \<Rightarrow>
                 q1\<lparr>slots := hm_insert srv s' (slots q1), q_db := db',
                    workers := workers q1 @ [\<lparr> w_claim = c, w_server = srv \<rparr>],
                    spawned := spawned q1 @ [claim_id c]\<rparr>
             | (_, db') \<Rightarrow>
                 q1\<lparr>slots := hm_insert srv (sem_release S s') (slots q1), q_db := db'\<rparr>))))"

definition dispatch_available ::
  "'sem sem_ops \<Rightarrow> (int \<Rightarrow> panel_db \<Rightarrow> deployment_claim option sqlx \<times> panel_db)
   \<Rightarrow> 'sem builder_queue \<Rightarrow> 'sem builder_queue" where
  "dispatch_available S claim q = fold (dispatch_one S claim) (get_queued_deployments_grouped (q_db q)) q"

section \<open>Workers\<close>

definition release_slot :: "'sem sem_ops \<Rightarrow> int option \<Rightarrow> 'sem builder_queue \<Rightarrow> 'sem builder_queue" where
  "release_slot S srv q = (case hm_get srv (slots q) of
      None \<Rightarrow> q
    | Some s \<Rightarrow> q\<lparr>slots := hm_insert srv (sem_release S s) (slots q)\<rparr>)"

definition claim_op :: "deployment_claim \<Rightarrow> string" where
  "claim_op c = (case claim_operation c of Some op \<Rightarrow> op | None \<Rightarrow> ''deploy'')"

definition worker_finish ::
  "'sem sem_ops \<Rightarrow> bool \<Rightarrow> exec_ops \<Rightarrow> int \<Rightarrow> worker \<Rightarrow> 'sem builder_queue \<Rightarrow> 'sem builder_queue" where
  "worker_finish S di_ok E now w q =
     (let c = w_claim w;
          db' = fst (process di_ok E now (claim_id c) (claim_application_id c) (claim_compose_id c)
                  (claim_database_id c) (claim_database_kind c) (claim_op c) (q_db q)
                  (app_state_new :: (unit, unit, unit) app_state))
      in release_slot S (w_server w) (q\<lparr>q_db := db', workers := remove1 w (workers q)\<rparr>))"

definition worker_panic :: "'sem sem_ops \<Rightarrow> bool \<Rightarrow> int \<Rightarrow> worker \<Rightarrow> 'sem builder_queue \<Rightarrow> 'sem builder_queue" where
  "worker_panic S di_ok now w q =
     (let c = w_claim w;
          db' = (if di_ok then snd (finalize_with_resource now (claim_id c) ''ERROR''
                    (Some ''builder worker panicked'') (claim_application_id c) (claim_compose_id c)
                    (claim_database_id c) (claim_database_kind c) ''ERROR'' (q_db q))
                 else q_db q)
      in release_slot S (w_server w) (q\<lparr>q_db := db', workers := remove1 w (workers q)\<rparr>))"

section \<open>The queue as a transition system\<close>

text \<open>A call of the claim: the repository's statement, or a failure of the database that changes nothing.\<close>

definition claim_call :: "int \<Rightarrow> (int \<Rightarrow> panel_db \<Rightarrow> deployment_claim option sqlx \<times> panel_db) \<Rightarrow> bool" where
  "claim_call now claim = (\<forall>i db. claim i db = claim_queued_deployment now i db
     \<or> (\<exists>e. claim i db = (Err e, db)))"

text \<open>
  The steps: the dispatcher starts a pass or takes the next row, a service, an
  executor or another task calls the repository, a worker finishes or panics.
\<close>

inductive qstep :: "'sem sem_ops \<Rightarrow> 'sem builder_queue \<Rightarrow> 'sem builder_queue \<Rightarrow> bool" for S where
  pass_start: "pending q = [] \<Longrightarrow> qstep S q (q\<lparr>pending := get_queued_deployments_grouped (q_db q)\<rparr>)"
| pass_next: "pending q = row # rows \<Longrightarrow> claim_call now claim \<Longrightarrow>
    qstep S q (dispatch_one S claim row (q\<lparr>pending := rows\<rparr>))"
| repo_call: "call_ok c \<Longrightarrow> qstep S q (q\<lparr>q_db := apply_op now c (q_db q)\<rparr>)"
| finish: "w \<in> set (workers q) \<Longrightarrow> qstep S q (worker_finish S di_ok E now w q)"
| panic: "w \<in> set (workers q) \<Longrightarrow> qstep S q (worker_panic S di_ok now w q)"

inductive queue_reachable :: "'sem sem_ops \<Rightarrow> string option \<Rightarrow> panel_db \<Rightarrow> 'sem builder_queue \<Rightarrow> bool"
  for S env db0 where
  start: "queue_reachable S env db0 (queue_start now kill (builder_queue_new env db0))"
| step: "queue_reachable S env db0 q \<Longrightarrow> qstep S q q' \<Longrightarrow> queue_reachable S env db0 q'"

end
