(* ===== verification/QueueLaws.thy ===== *)
theory QueueLaws
  imports BuilderQueue
begin

text \<open>
  Laws of the builder queue: the invariant of the transition system, the order
  in which a dispatcher pass starts deployments, and the recovery.
\<close>

definition on_server :: "int option \<Rightarrow> worker list \<Rightarrow> worker list" where
  "on_server srv ws = filter (\<lambda>w. w_server w = srv) ws"

definition worker_ids :: "worker list \<Rightarrow> int list" where
  "worker_ids ws = map (\<lambda>w. claim_id (w_claim w)) ws"

lemma on_server_append [simp]: "on_server srv (ws @ vs) = on_server srv ws @ on_server srv vs"
  by (simp add: on_server_def)

lemma length_on_server_remove1:
  "w \<in> set ws \<Longrightarrow> length (on_server srv (remove1 w ws))
     = (if w_server w = srv then length (on_server srv ws) - 1 else length (on_server srv ws))"
  by (simp add: on_server_def filter_remove1 length_remove1)

lemma on_server_mem: "w \<in> set ws \<Longrightarrow> 0 < length (on_server (w_server w) ws)"
  by (auto simp: on_server_def length_greater_0_conv filter_empty_conv)

lemma claim_call_cases:
  assumes "claim_call now claim"
  obtains "claim i db = claim_queued_deployment now i db" | e where "claim i db = (Err e, db)"
  using assms by (auto simp: claim_call_def)

lemma claim_id_to_claim [simp]: "claim_id (to_claim r) = dep_id r"
  by (simp add: to_claim_def)

text \<open>A successful claim names a queued deployment and removes it from the queued ones.\<close>

lemma claim_call_Some:
  assumes "claim_call now claim" "wf_db db" "schema_ok db" "claim i db = (Ok (Some c), db')"
  shows "claim_id c = i \<and> i \<in> queued_ids db \<and> queued_ids db' = queued_ids db - {i}
    \<and> wf_db db' \<and> deployments_seq db' = deployments_seq db \<and> checks db' = checks db"
proof (cases rule: claim_call_cases [OF assms(1), of i db])
  case 1
  then have eq: "claim_queued_deployment now i db = (Ok (Some c), db')" using assms(4) by simp
  have i: "i \<in> queued_ids db"
    using claim_None [OF assms(2,3), of i now] eq by (cases "i \<in> queued_ids db") auto
  then obtain r where "r \<in> set (deployments db)" "dep_id r = i" "status r = ''QUEUED''"
    by (auto simp: queued_ids_iff)
  then have "c = to_claim r" using claim_Some [OF assms(2,3), of r now] eq by auto
  with i \<open>dep_id r = i\<close> show ?thesis
    using queued_ids_claimed [OF assms(2,3), of now i] wf_claim_queued_deployment [OF assms(2), of now i]
      claim_keeps [of now i db] eq by simp
next
  case (2 e)
  then show ?thesis using assms(4) by simp
qed

lemma claim_call_other:
  assumes "claim_call now claim" "wf_db db" "schema_ok db" "claim i db = (x, db')"
    "\<And>c. x \<noteq> Ok (Some c)"
  shows "db' = db"
proof (cases rule: claim_call_cases [OF assms(1), of i db])
  case 1
  then have eq: "claim_queued_deployment now i db = (x, db')" using assms(4) by simp
  have "i \<notin> queued_ids db"
  proof
    assume "i \<in> queued_ids db"
    then obtain r where "r \<in> set (deployments db)" "dep_id r = i" "status r = ''QUEUED''"
      by (auto simp: queued_ids_iff)
    then show False using claim_Some [OF assms(2,3), of r now] eq assms(5) by auto
  qed
  then show ?thesis using claim_None [OF assms(2,3), of i now] eq by simp
next
  case (2 e)
  then show ?thesis using assms(4) by simp
qed

section \<open>Recovery\<close>

lemma wf_set_pid_null: "wf_db db \<Longrightarrow> wf_db (snd (set_pid_null i db))"
  using wf_apply_op [of db 0 "SetPidNull i"] by simp

lemma step_set_pid_null: "queue_step db (snd (set_pid_null i db))"
  using queue_step_apply_op [of "SetPidNull i" db 0] by simp

lemma kill_remote_pid_keeps:
  "wf_db db \<Longrightarrow> wf_db (snd (kill_remote_pid kill j db))"
  "queue_step db (snd (kill_remote_pid kill j db))"
  by (auto simp: kill_remote_pid_def wf_set_pid_null step_set_pid_null split: prod.splits)

lemma kill_fold_keeps:
  fixes kill jobs
  defines "g \<equiv> \<lambda>j (n, db). case kill_remote_pid kill j db of (killed, db') \<Rightarrow> (if killed then n else Suc n, db')"
  shows "(wf_db db \<longrightarrow> wf_db (snd (fold g jobs (n, db)))) \<and> queue_step db (snd (fold g jobs (n, db)))"
proof (induction jobs arbitrary: n db)
  case (Cons j jobs)
  obtain k db' where eq: "kill_remote_pid kill j db = (k, db')" by fastforce
  have "wf_db db \<longrightarrow> wf_db db'" "queue_step db db'"
    using kill_remote_pid_keeps [of db kill j] eq by simp_all
  with Cons.IH [of db' "if k then n else Suc n"] eq show ?case
    by (auto simp: g_def intro: queue_step_trans)
qed simp

lemma cleanup_keeps:
  "wf_db db \<Longrightarrow> wf_db (cleanup_stale_remote_jobs kill db)"
  "queue_step db (cleanup_stale_remote_jobs kill db)"
  using kill_fold_keeps by (simp_all add: cleanup_stale_remote_jobs_def kill_jobs_def)

lemma recover_keeps:
  "wf_db db \<Longrightarrow> wf_db (recover_stale_deployments now kill db)"
  "queue_step db (recover_stale_deployments now kill db)"
proof -
  let ?ops = "[MarkInterrupted, RecoverApps, RecoverComposes, RecoverDatabases]"
  have "(wf_db db \<longrightarrow> wf_db (fold (apply_op now) ops db)) \<and> queue_step db (fold (apply_op now) ops db)"
    if "list_all call_ok ops" for ops db
    using that
  proof (induction ops arbitrary: db)
    case (Cons c ops)
    then have "queue_step db (apply_op now c db)" by (simp add: queue_step_apply_op)
    with Cons.IH [of "apply_op now c db"] Cons.prems wf_apply_op [of db now c] show ?case
      by (auto intro: queue_step_trans)
  qed simp
  from this [of ?ops] have all: "wf_db db \<longrightarrow> wf_db (fold (apply_op now) ?ops db)"
    "queue_step db (fold (apply_op now) ?ops db)" for db by auto
  have eq: "recover_stale_deployments now kill db
      = fold (apply_op now) ?ops (cleanup_stale_remote_jobs kill db)"
    by (simp add: recover_stale_deployments_def Let_def)
  show "wf_db db \<Longrightarrow> wf_db (recover_stale_deployments now kill db)"
    using all(1) cleanup_keeps(1) [of db kill] unfolding eq by blast
  show "queue_step db (recover_stale_deployments now kill db)"
    using all(2) cleanup_keeps(2) [of db kill] queue_step_trans unfolding eq by blast
qed


section \<open>The invariant of the queue\<close>

definition slots_inv :: "('sem \<Rightarrow> nat) \<Rightarrow> 'sem builder_queue \<Rightarrow> bool" where
  "slots_inv permits q = (hm_wf (slots q) \<and> (\<forall>srv. case hm_get srv (slots q) of
      None \<Rightarrow> on_server srv (workers q) = []
    | Some s \<Rightarrow> permits s + length (on_server srv (workers q)) = per_server_limit q))"

definition history_inv :: "'sem builder_queue \<Rightarrow> bool" where
  "history_inv q = (wf_db (q_db q) \<and> schema_ok (q_db q) \<and> distinct (spawned q)
     \<and> (\<forall>i \<in> set (spawned q). i \<le> deployments_seq (q_db q) \<and> i \<notin> queued_ids (q_db q))
     \<and> distinct (worker_ids (workers q)) \<and> set (worker_ids (workers q)) \<subseteq> set (spawned q))"

lemma history_inv_db:
  assumes "history_inv q" "wf_db db'" "queue_step (q_db q) db'"
  shows "history_inv (q\<lparr>q_db := db'\<rparr>)"
proof -
  have "i \<le> deployments_seq db' \<and> i \<notin> queued_ids db'"
    if "i \<le> deployments_seq (q_db q)" "i \<notin> queued_ids (q_db q)" for i
    using that assms(3) by (auto simp: queue_step_def)
  moreover have "schema_ok db'"
    using assms(1,3) by (simp add: history_inv_def queue_step_def schema_ok_def)
  ultimately show ?thesis using assms(1,2) by (simp add: history_inv_def)
qed

lemma history_inv_remove:
  assumes "history_inv q"
  shows "history_inv (q\<lparr>workers := remove1 w (workers q)\<rparr>)"
proof -
  have sub: "set (worker_ids (remove1 w ws)) \<subseteq> set (worker_ids ws)" for ws
    using set_remove1_subset [of w ws] by (auto simp: worker_ids_def)
  have dis: "distinct (worker_ids ws) \<Longrightarrow> distinct (worker_ids (remove1 w ws))" for ws
    using sub by (induction ws) (auto simp: worker_ids_def)
  show ?thesis
    using assms sub [of "workers q"] dis [of "workers q"] unfolding history_inv_def by auto
qed

lemma history_inv_slots [simp]: "history_inv (q\<lparr>slots := x\<rparr>) = history_inv q"
  "history_inv (q\<lparr>pending := y\<rparr>) = history_inv q"
  by (simp_all add: history_inv_def)

lemma history_inv_release [simp]: "history_inv (release_slot S srv q) = history_inv q"
  by (simp add: release_slot_def split: option.splits)

lemma semaphore_for_keeps:
  assumes "semaphore_for S srv q = (s, q1)"
  shows "q_db q1 = q_db q" "workers q1 = workers q" "spawned q1 = spawned q" "pending q1 = pending q"
    "per_server_limit q1 = per_server_limit q" "hm_get srv (slots q1) = Some s"
    "srv' \<noteq> srv \<Longrightarrow> hm_get srv' (slots q1) = hm_get srv' (slots q)"
    "hm_wf (slots q) \<Longrightarrow> hm_wf (slots q1)"
  using assms
  by (auto simp: semaphore_for_def Let_def hm_get_insert hm_wf_insert split: option.splits)

lemma dispatch_one_cases:
  obtains (busy) s q1 where "semaphore_for S srv q = (s, q1)" "sem_try_acquire S s = None"
      "dispatch_one S claim (dep, srv) q = q1"
  | (spawn) s q1 s' c db' where "semaphore_for S srv q = (s, q1)" "sem_try_acquire S s = Some s'"
      "claim dep (q_db q1) = (Ok (Some c), db')"
      "dispatch_one S claim (dep, srv) q = q1\<lparr>slots := hm_insert srv s' (slots q1), q_db := db',
          workers := workers q1 @ [\<lparr> w_claim = c, w_server = srv \<rparr>], spawned := spawned q1 @ [claim_id c]\<rparr>"
  | (skip) s q1 s' x db' where "semaphore_for S srv q = (s, q1)" "sem_try_acquire S s = Some s'"
      "claim dep (q_db q1) = (x, db')" "\<And>c. x \<noteq> Ok (Some c)"
      "dispatch_one S claim (dep, srv) q = q1\<lparr>slots := hm_insert srv (sem_release S s') (slots q1), q_db := db'\<rparr>"
proof -
  obtain s q1 where sf: "semaphore_for S srv q = (s, q1)" by fastforce
  show thesis
  proof (cases "sem_try_acquire S s")
    case None
    with sf busy show thesis by (simp add: dispatch_one_def)
  next
    case (Some s')
    obtain x db' where cl: "claim dep (q_db q1) = (x, db')" by fastforce
    show thesis
    proof (cases "\<exists>c. x = Ok (Some c)")
      case True
      then obtain c where "x = Ok (Some c)" by blast
      with sf Some cl spawn show thesis by (simp add: dispatch_one_def)
    next
      case False
      then have "dispatch_one S claim (dep, srv) q
          = q1\<lparr>slots := hm_insert srv (sem_release S s') (slots q1), q_db := db'\<rparr>"
        using sf Some cl by (auto simp: dispatch_one_def split: sum.splits option.splits)
      with sf Some cl False skip show thesis by blast
    qed
  qed
qed

lemma history_inv_dispatch:
  assumes inv: "history_inv q" and call: "claim_call now claim"
  shows "history_inv (dispatch_one S claim (dep, srv) q)"
proof (cases rule: dispatch_one_cases [of S srv q claim dep])
  case (busy s q1)
  then show ?thesis using semaphore_for_keeps [OF busy(1)] inv by (simp add: history_inv_def)
next
  case (spawn s q1 s' c db')
  note k = semaphore_for_keeps [OF spawn(1)]
  have wf: "wf_db (q_db q1)" "schema_ok (q_db q1)" using inv k by (simp_all add: history_inv_def)
  note c = claim_call_Some [OF call wf spawn(3)]
  have cid: "claim_id c = dep" "dep \<in> queued_ids (q_db q)" using c k(1) by simp_all
  have dep: "dep \<le> deployments_seq (q_db q)" "dep \<notin> set (spawned q)"
    using inv cid(2) queued_ids_le by (auto simp: history_inv_def)
  have db': "wf_db db'" "schema_ok db'" "queued_ids db' = queued_ids (q_db q) - {dep}"
      "deployments_seq db' = deployments_seq (q_db q)"
    using c wf(2) k(1) by (simp_all add: schema_ok_def)
  have "set (worker_ids (workers q)) \<subseteq> set (spawned q)" using inv by (simp add: history_inv_def)
  with inv dep show ?thesis
    unfolding spawn(4) history_inv_def by (auto simp: worker_ids_def cid(1) db' k(1-3))
next
  case (skip s q1 s' x db')
  note k = semaphore_for_keeps [OF skip(1)]
  have wf: "wf_db (q_db q1)" "schema_ok (q_db q1)" using inv k by (simp_all add: history_inv_def)
  have "db' = q_db q1" by (rule claim_call_other [OF call wf skip(3,4)])
  with inv k show ?thesis unfolding skip(5) by (simp add: history_inv_def)
qed

lemma final_status_not_queued: "final_status_of res \<noteq> ''QUEUED''"
  by (cases res) (simp_all add: final_status_of_def)

lemma history_inv_finish: "history_inv q \<Longrightarrow> history_inv (worker_finish S di_ok E now w q)"
proof -
  assume inv: "history_inv q"
  let ?c = "w_claim w"
  define db' where "db' = fst (process di_ok E now (claim_id ?c) (claim_application_id ?c) (claim_compose_id ?c)
     (claim_database_id ?c) (claim_database_kind ?c) (claim_op ?c) (q_db q) (app_state_new :: (unit, unit, unit) app_state))"
  have "wf_db db'" "queue_step (q_db q) db'"
    using inv final_status_not_queued
    by (auto simp: db'_def fst_process history_inv_def wf_finalize_with_resource queue_step_finalize)
  from history_inv_remove [OF history_inv_db [OF inv this]] show ?thesis
    by (simp add: worker_finish_def Let_def db'_def)
qed

lemma history_inv_panic: "history_inv q \<Longrightarrow> history_inv (worker_panic S di_ok now w q)"
proof -
  assume inv: "history_inv q"
  let ?c = "w_claim w"
  define db' where "db' = (if di_ok then snd (finalize_with_resource now (claim_id ?c) ''ERROR''
     (Some ''builder worker panicked'') (claim_application_id ?c) (claim_compose_id ?c)
     (claim_database_id ?c) (claim_database_kind ?c) ''ERROR'' (q_db q)) else q_db q)"
  have "wf_db db'" "queue_step (q_db q) db'"
    using inv by (auto simp: db'_def history_inv_def wf_finalize_with_resource queue_step_finalize)
  from history_inv_remove [OF history_inv_db [OF inv this]] show ?thesis
    by (simp add: worker_panic_def Let_def db'_def)
qed

lemma history_inv_step:
  assumes "qstep S q q'" "history_inv q"
  shows "history_inv q'"
  using assms
proof (induction rule: qstep.induct)
  case (pass_next q row rows now claim)
  then show ?case by (cases row) (auto intro: history_inv_dispatch)
next
  case (repo_call c q now)
  then have "wf_db (q_db q)" by (simp add: history_inv_def)
  with repo_call show ?case
    using history_inv_db [OF _ wf_apply_op queue_step_apply_op] by blast
qed (simp_all add: history_inv_finish history_inv_panic)

lemma history_inv_reachable:
  assumes "queue_reachable S env db0 q" "wf_db db0" "schema_ok db0"
  shows "history_inv q"
  using assms
proof (induction rule: queue_reachable.induct)
  case (start now kill)
  then have "history_inv (builder_queue_new env db0)"
    by (simp add: history_inv_def builder_queue_new_def worker_ids_def)
  from history_inv_db [OF this recover_keeps(1) recover_keeps(2)] start show ?case
    by (simp add: queue_start_def builder_queue_new_def history_inv_def)
qed (blast intro: history_inv_step)


section \<open>Permits and workers\<close>

definition free_permits :: "('sem \<Rightarrow> nat) \<Rightarrow> int option \<Rightarrow> 'sem builder_queue \<Rightarrow> nat" where
  "free_permits permits srv q =
     (case hm_get srv (slots q) of None \<Rightarrow> per_server_limit q | Some s \<Rightarrow> permits s)"

lemma slots_invI:
  assumes "hm_wf (slots q)"
    and "\<And>srv. hm_get srv (slots q) = None \<Longrightarrow> on_server srv (workers q) = []"
    and "\<And>srv s. hm_get srv (slots q) = Some s \<Longrightarrow> permits s + length (on_server srv (workers q)) = per_server_limit q"
  shows "slots_inv permits q"
  using assms by (auto simp: slots_inv_def split: option.splits)

lemma slots_invD:
  assumes "slots_inv permits q"
  shows "hm_wf (slots q)"
    "hm_get srv (slots q) = None \<Longrightarrow> on_server srv (workers q) = []"
    "hm_get srv (slots q) = Some s \<Longrightarrow> permits s + length (on_server srv (workers q)) = per_server_limit q"
  using assms unfolding slots_inv_def by (force split: option.splits)+

lemma slots_inv_other [simp]:
  "slots_inv permits (q\<lparr>pending := rows\<rparr>) = slots_inv permits q"
  "slots_inv permits (q\<lparr>q_db := db\<rparr>) = slots_inv permits q"
  by (simp_all add: slots_inv_def cong: option.case_cong)

lemma slots_inv_bound:
  "slots_inv permits q \<Longrightarrow> length (on_server srv (workers q)) \<le> per_server_limit q"
  using slots_invD(2,3) [of permits q srv] by (cases "hm_get srv (slots q)") fastforce+

context semaphore
begin

lemma slots_inv_semaphore_for:
  assumes "slots_inv permits q" "semaphore_for S srv q = (s, q1)"
  shows "slots_inv permits q1" "permits s = free_permits permits srv q"
proof -
  note k = semaphore_for_keeps [OF assms(2)]
  have s: "permits s = free_permits permits srv q"
    using assms(2) by (auto simp: semaphore_for_def free_permits_def Let_def permits_new split: option.splits)
  then show "permits s = free_permits permits srv q" .
  have len: "permits s + length (on_server srv (workers q)) = per_server_limit q"
    using slots_invD(2,3) [OF assms(1), of srv] unfolding s
    by (cases "hm_get srv (slots q)") (simp_all add: free_permits_def)
  show "slots_inv permits q1"
  proof (rule slots_invI)
    fix srv' t
    show "hm_wf (slots q1)" using k(8) slots_invD(1) [OF assms(1)] by blast
    show "on_server srv' (workers q1) = []" if "hm_get srv' (slots q1) = None"
      using that k(2,6) k(7) [of srv'] slots_invD(2) [OF assms(1), of srv'] by (cases "srv' = srv") auto
    show "permits t + length (on_server srv' (workers q1)) = per_server_limit q1"
      if "hm_get srv' (slots q1) = Some t"
      using that len k(2,5,6) k(7) [of srv'] slots_invD(3) [OF assms(1), of srv' t] by (cases "srv' = srv") auto
  qed
qed

lemma slots_inv_set:
  assumes "slots_inv permits q" "per_server_limit q' = per_server_limit q"
    and "slots q' = hm_insert srv t (slots q)"
    and "permits t + length (on_server srv (workers q')) = per_server_limit q"
    and "\<And>srv'. srv' \<noteq> srv \<Longrightarrow> on_server srv' (workers q') = on_server srv' (workers q)"
  shows "slots_inv permits q'"
proof (rule slots_invI)
  fix srv' u
  show "hm_wf (slots q')" using assms(3) slots_invD(1) [OF assms(1)] by (simp add: hm_wf_insert)
  show "on_server srv' (workers q') = []" if "hm_get srv' (slots q') = None"
    using that assms(3,5) slots_invD(2) [OF assms(1), of srv']
    by (cases "srv' = srv") (auto simp: hm_get_insert)
  show "permits u + length (on_server srv' (workers q')) = per_server_limit q'"
    if "hm_get srv' (slots q') = Some u"
    using that assms(2-5) slots_invD(3) [OF assms(1), of srv' u]
    by (cases "srv' = srv") (auto simp: hm_get_insert)
qed

lemma slots_inv_dispatch:
  assumes "slots_inv permits q"
  shows "slots_inv permits (dispatch_one S claim (dep, srv) q)"
proof (cases rule: dispatch_one_cases [of S srv q claim dep])
  case (busy s q1)
  then show ?thesis using slots_inv_semaphore_for(1) [OF assms busy(1)] by simp
next
  case (spawn s q1 s' c db')
  note k = semaphore_for_keeps [OF spawn(1)] and i1 = slots_inv_semaphore_for(1) [OF assms spawn(1)]
  from slots_invD(3) [OF i1 k(6)] try_acquire_Some [OF spawn(2)]
  have "permits s' + Suc (length (on_server srv (workers q1))) = per_server_limit q1" by simp
  with i1 show ?thesis
    unfolding spawn(4) by (rule_tac slots_inv_set [OF i1, of _ srv s']) (simp_all add: on_server_def)
next
  case (skip s q1 s' x db')
  note k = semaphore_for_keeps [OF skip(1)] and i1 = slots_inv_semaphore_for(1) [OF assms skip(1)]
  from slots_invD(3) [OF i1 k(6)] try_acquire_Some [OF skip(2)] permits_release [of s']
  have "permits (sem_release S s') + length (on_server srv (workers q1)) = per_server_limit q1" by simp
  with i1 show ?thesis
    unfolding skip(5) by (rule_tac slots_inv_set [OF i1, of _ srv "sem_release S s'"]) simp_all
qed

lemma slots_inv_release:
  assumes "slots_inv permits q" "w \<in> set (workers q)"
  shows "slots_inv permits (release_slot S (w_server w) (q\<lparr>q_db := db', workers := remove1 w (workers q)\<rparr>))"
proof -
  have pos: "0 < length (on_server (w_server w) (workers q))" using on_server_mem [OF assms(2)] .
  then obtain s where s: "hm_get (w_server w) (slots q) = Some s"
    using slots_invD(2) [OF assms(1), of "w_server w"] by (cases "hm_get (w_server w) (slots q)") auto
  have "permits (sem_release S s) + length (on_server (w_server w) (remove1 w (workers q))) = per_server_limit q"
    using slots_invD(3) [OF assms(1) s] pos length_on_server_remove1 [OF assms(2), of "w_server w"]
      permits_release [of s] by (simp del: length_greater_0_conv)
  then show ?thesis
    using s by (intro slots_inv_set [OF assms(1), of _ "w_server w" "sem_release S s"])
      (auto simp: release_slot_def on_server_def filter_remove1 remove1_idem)
qed

lemma slots_inv_step:
  assumes "qstep S q q'" "slots_inv permits q"
  shows "slots_inv permits q'"
  using assms
proof (induction rule: qstep.induct)
  case (pass_next q row rows now claim)
  then show ?case by (cases row) (simp add: slots_inv_dispatch)
next
  case (finish w q di_ok E now)
  then show ?case by (simp add: worker_finish_def Let_def slots_inv_release)
next
  case (panic w q di_ok now)
  then show ?case by (simp add: worker_panic_def Let_def slots_inv_release)
qed simp_all

lemma limit_step: "qstep S q q' \<Longrightarrow> per_server_limit q' = per_server_limit q"
proof (induction rule: qstep.induct)
  case (pass_next q row rows now claim)
  obtain dep srv where "row = (dep, srv)" by fastforce
  then show ?case
    by (cases rule: dispatch_one_cases [of S srv "q\<lparr>pending := rows\<rparr>" claim dep])
      (auto dest: semaphore_for_keeps(5))
qed (auto simp: worker_finish_def worker_panic_def release_slot_def Let_def split: option.splits)

lemma slots_inv_reachable:
  assumes "queue_reachable S env db0 q"
  shows "slots_inv permits q \<and> per_server_limit q = per_server_limit_of env"
  using assms
proof (induction rule: queue_reachable.induct)
  case (start now kill)
  show ?case
    by (simp add: slots_inv_def queue_start_def builder_queue_new_def hm_wf_def hm_get_def on_server_def)
qed (auto simp: limit_step intro: slots_inv_step)

text \<open>
  One pass of the dispatcher, with no other step in between: on every server it
  starts the oldest queued deployments, as many as there are free permits.
\<close>

lemma dispatch_one_free:
  fixes now srv t
  assumes "wf_db (q_db q)" "schema_ok (q_db q)" "dep \<in> queued_ids (q_db q)"
  defines "q' \<equiv> dispatch_one S (claim_queued_deployment now) (dep, srv) q"
  shows "free_permits permits srv q = 0 \<Longrightarrow> workers q' = workers q \<and> q_db q' = q_db q"
    and "0 < free_permits permits srv q \<Longrightarrow>
      (\<exists>c. claim_id c = dep \<and> workers q' = workers q @ [\<lparr> w_claim = c, w_server = srv \<rparr>])
      \<and> wf_db (q_db q') \<and> schema_ok (q_db q') \<and> queued_ids (q_db q') = queued_ids (q_db q) - {dep}"
    and "free_permits permits t q' = (if t = srv then free_permits permits t q - 1 else free_permits permits t q)"
proof -
  have call: "claim_call now (claim_queued_deployment now)" by (simp add: claim_call_def)
  have s: "permits s = free_permits permits srv q" if "semaphore_for S srv q = (s, q1)" for s q1
    using that by (auto simp: semaphore_for_def free_permits_def Let_def permits_new split: option.splits)
  have "(free_permits permits srv q = 0 \<longrightarrow> workers q' = workers q \<and> q_db q' = q_db q)
    \<and> (0 < free_permits permits srv q \<longrightarrow>
      (\<exists>c. claim_id c = dep \<and> workers q' = workers q @ [\<lparr> w_claim = c, w_server = srv \<rparr>])
      \<and> wf_db (q_db q') \<and> schema_ok (q_db q') \<and> queued_ids (q_db q') = queued_ids (q_db q) - {dep})
    \<and> free_permits permits t q' = (if t = srv then free_permits permits t q - 1 else free_permits permits t q)"
  proof (cases rule: dispatch_one_cases [of S srv q "claim_queued_deployment now" dep])
    case (busy s q1)
    note k = semaphore_for_keeps [OF busy(1)] semaphore_for_keeps(7) [OF busy(1), of t]
    have "permits s = 0" using try_acquire_None busy(2) by simp
    with k s [OF busy(1)] show ?thesis
      unfolding q'_def busy(3) by (auto simp: free_permits_def split: option.splits)
  next
    case (spawn s q1 s' c db')
    note k = semaphore_for_keeps [OF spawn(1)] semaphore_for_keeps(7) [OF spawn(1), of t]
    have c: "claim_id c = dep" "wf_db db'" "schema_ok db'" "queued_ids db' = queued_ids (q_db q) - {dep}"
      using claim_call_Some [OF call, of "q_db q1" dep c db'] assms(1,2) k(1) spawn(3)
      by (simp_all add: schema_ok_def)
    have "Suc (permits s') = free_permits permits srv q"
      using try_acquire_Some [OF spawn(2)] s [OF spawn(1)] by simp
    with c k show ?thesis
      unfolding q'_def spawn(4) by (auto simp: free_permits_def hm_get_insert split: option.splits)
  next
    case (skip s q1 s' x db')
    have "q_db q1 = q_db q" using semaphore_for_keeps(1) [OF skip(1)] .
    moreover obtain r where "r \<in> set (deployments (q_db q))" "dep_id r = dep" "status r = ''QUEUED''"
      using assms(3) by (auto simp: queued_ids_iff)
    ultimately show ?thesis using claim_Some [OF assms(1,2), of r now] skip(3,4) by auto
  qed
  then show "free_permits permits srv q = 0 \<Longrightarrow> workers q' = workers q \<and> q_db q' = q_db q"
    and "0 < free_permits permits srv q \<Longrightarrow>
      (\<exists>c. claim_id c = dep \<and> workers q' = workers q @ [\<lparr> w_claim = c, w_server = srv \<rparr>])
      \<and> wf_db (q_db q') \<and> schema_ok (q_db q') \<and> queued_ids (q_db q') = queued_ids (q_db q) - {dep}"
    and "free_permits permits t q' = (if t = srv then free_permits permits t q - 1 else free_permits permits t q)"
    by blast+
qed

lemma dispatch_fold:
  assumes "wf_db (q_db q)" "schema_ok (q_db q)" "distinct (map fst rows)"
    "set (map fst rows) \<subseteq> queued_ids (q_db q)"
  shows "\<exists>new. workers (fold (dispatch_one S (claim_queued_deployment now)) rows q) = workers q @ new
    \<and> (\<forall>srv. worker_ids (on_server srv new)
              = take (free_permits permits srv q) (map fst (filter (\<lambda>p. snd p = srv) rows)))"
  using assms
proof (induction rows arbitrary: q)
  case (Cons row rows)
  obtain dep srv where row: "row = (dep, srv)" by fastforce
  let ?q' = "dispatch_one S (claim_queued_deployment now) row q"
  have dep: "dep \<in> queued_ids (q_db q)" "dep \<notin> set (map fst rows)" using Cons.prems row by auto
  note d = dispatch_one_free(1,2) [OF Cons.prems(1,2) dep(1), where srv = srv and now = now]
  have fr: "free_permits permits t ?q' = (if t = srv then free_permits permits t q - 1 else free_permits permits t q)" for t
    using dispatch_one_free(3) [OF Cons.prems(1,2) dep(1), where srv = srv and now = now and t = t] row by simp
  show ?case
  proof (cases "free_permits permits srv q")
    case 0
    with d(1) row have e: "workers ?q' = workers q" "q_db ?q' = q_db q" by auto
    then obtain new where new: "workers (fold (dispatch_one S (claim_queued_deployment now)) rows ?q') = workers q @ new"
        "\<And>t. worker_ids (on_server t new) = take (free_permits permits t ?q') (map fst (filter (\<lambda>p. snd p = t) rows))"
      using Cons.IH [of ?q'] Cons.prems by auto
    then show ?thesis using fr 0 row by (intro exI [of _ new]) simp
  next
    case (Suc n)
    with d(2) row obtain c where e: "claim_id c = dep" "workers ?q' = workers q @ [\<lparr> w_claim = c, w_server = srv \<rparr>]"
        "wf_db (q_db ?q')" "schema_ok (q_db ?q')" "queued_ids (q_db ?q') = queued_ids (q_db q) - {dep}"
      by auto
    have sub: "set (map fst rows) \<subseteq> queued_ids (q_db ?q')"
      using Cons.prems(4) dep(2) unfolding e(5) by auto
    have "distinct (map fst rows)" using Cons.prems(3) by simp
    from Cons.IH [OF e(3,4) this sub] obtain new where
        new: "workers (fold (dispatch_one S (claim_queued_deployment now)) rows ?q')
          = workers q @ \<lparr> w_claim = c, w_server = srv \<rparr> # new"
        "\<And>t. worker_ids (on_server t new) = take (free_permits permits t ?q') (map fst (filter (\<lambda>p. snd p = t) rows))"
      unfolding e(2) by auto
    have "worker_ids (on_server t (\<lparr> w_claim = c, w_server = srv \<rparr> # new))
        = take (free_permits permits t q) (map fst (filter (\<lambda>p. snd p = t) (row # rows)))" for t
    proof (cases "t = srv")
      case True
      then show ?thesis using new(2) [of t] fr [of t] Suc row e(1) by (simp add: on_server_def worker_ids_def)
    next
      case False
      then show ?thesis using new(2) [of t] fr [of t] row by (simp add: on_server_def worker_ids_def)
    qed
    with new(1) show ?thesis by (intro exI [of _ "\<lparr> w_claim = c, w_server = srv \<rparr> # new"]) simp
  qed
qed (auto intro: exI [of _ "[]"] simp: on_server_def worker_ids_def)

end

definition counting_semaphore :: "nat sem_ops" where
  "counting_semaphore = \<lparr> sem_new = (\<lambda>n. n),
     sem_try_acquire = (\<lambda>n. case n of 0 \<Rightarrow> None | Suc m \<Rightarrow> Some m), sem_release = Suc \<rparr>"

interpretation counting: semaphore counting_semaphore "\<lambda>n. n"
  by unfold_locales (auto simp: counting_semaphore_def split: nat.splits)

text \<open>The rows of a pass: the queued deployments, each once.\<close>

lemma queued_grouped:
  assumes "wf_db db"
  shows "distinct (map fst (get_queued_deployments_grouped db))"
    "set (map fst (get_queued_deployments_grouped db)) = queued_ids db"
proof -
  let ?rows = "filter (\<lambda>r. status r = ''QUEUED'') (deployments db)"
  have "distinct (map dep_id ?rows)"
    using assms by (simp add: wf_db_def keyed_def distinct_map_filter)
  then have "distinct (map dep_id (sort_key (\<lambda>r. (created_at r, dep_id r)) ?rows))"
    by (simp add: distinct_map)
  then show "distinct (map fst (get_queued_deployments_grouped db))"
    by (simp add: get_queued_deployments_grouped_def comp_def)
  show "set (map fst (get_queued_deployments_grouped db)) = queued_ids db"
    by (auto simp: get_queued_deployments_grouped_def queued_ids_def)
qed

end
