(* ===== verification/StringEnum.thy ===== *)
theory StringEnum
  imports RustStrings
begin

text \<open>
  The \<open>string_enum!\<close> macro of \<open>src/crates/os/src/macros/string_enum.rs\<close> and
  the enums the program declares with it: \<open>as_str\<close> is the table of the
  invocation, \<open>from_str\<close> trims, upper-cases and looks the text up, and the
  conversion \<open>From<&str>\<close> falls back to the declared default.
\<close>

definition enum_from_str :: "('a \<Rightarrow> string) \<Rightarrow> 'a list \<Rightarrow> string \<Rightarrow> 'a option" where
  "enum_from_str as_str variants s = find (\<lambda>v. as_str v = to_ascii_uppercase (trim s)) variants"

definition enum_from :: "('a \<Rightarrow> string) \<Rightarrow> 'a list \<Rightarrow> 'a \<Rightarrow> string \<Rightarrow> 'a" where
  "enum_from as_str variants dflt s = (case enum_from_str as_str variants s of Some v \<Rightarrow> v | None \<Rightarrow> dflt)"

section \<open>The enums\<close>

datatype application_status = AsIdle | AsQueued | AsBuilding | AsDeploying | AsStarting | AsRunning | AsHealthy | AsStopping | AsStopped | AsCancelling | AsCancelled | AsDone | AsFailed | AsError

definition application_status_as_str :: "application_status \<Rightarrow> string" where
  "application_status_as_str v = (case v of AsIdle \<Rightarrow> ''IDLE''
     | AsQueued \<Rightarrow> ''QUEUED''
     | AsBuilding \<Rightarrow> ''BUILDING''
     | AsDeploying \<Rightarrow> ''DEPLOYING''
     | AsStarting \<Rightarrow> ''STARTING''
     | AsRunning \<Rightarrow> ''RUNNING''
     | AsHealthy \<Rightarrow> ''HEALTHY''
     | AsStopping \<Rightarrow> ''STOPPING''
     | AsStopped \<Rightarrow> ''STOPPED''
     | AsCancelling \<Rightarrow> ''CANCELLING''
     | AsCancelled \<Rightarrow> ''CANCELLED''
     | AsDone \<Rightarrow> ''DONE''
     | AsFailed \<Rightarrow> ''FAILED''
     | AsError \<Rightarrow> ''ERROR'')"

definition application_status_variants :: "application_status list" where
  "application_status_variants = [AsIdle, AsQueued, AsBuilding, AsDeploying, AsStarting, AsRunning, AsHealthy, AsStopping, AsStopped, AsCancelling, AsCancelled, AsDone, AsFailed, AsError]"

definition application_status_from_str :: "string \<Rightarrow> application_status option" where
  "application_status_from_str s = enum_from_str application_status_as_str application_status_variants s"

definition application_status_from :: "string \<Rightarrow> application_status" where
  "application_status_from s = enum_from application_status_as_str application_status_variants AsIdle s"

datatype compose_status = CsIdle | CsQueued | CsStarting | CsRunning | CsStopping | CsStopped | CsCancelling | CsCancelled | CsDone | CsError

definition compose_status_as_str :: "compose_status \<Rightarrow> string" where
  "compose_status_as_str v = (case v of CsIdle \<Rightarrow> ''IDLE''
     | CsQueued \<Rightarrow> ''QUEUED''
     | CsStarting \<Rightarrow> ''STARTING''
     | CsRunning \<Rightarrow> ''RUNNING''
     | CsStopping \<Rightarrow> ''STOPPING''
     | CsStopped \<Rightarrow> ''STOPPED''
     | CsCancelling \<Rightarrow> ''CANCELLING''
     | CsCancelled \<Rightarrow> ''CANCELLED''
     | CsDone \<Rightarrow> ''DONE''
     | CsError \<Rightarrow> ''ERROR'')"

definition compose_status_variants :: "compose_status list" where
  "compose_status_variants = [CsIdle, CsQueued, CsStarting, CsRunning, CsStopping, CsStopped, CsCancelling, CsCancelled, CsDone, CsError]"

definition compose_status_from_str :: "string \<Rightarrow> compose_status option" where
  "compose_status_from_str s = enum_from_str compose_status_as_str compose_status_variants s"

definition compose_status_from :: "string \<Rightarrow> compose_status" where
  "compose_status_from s = enum_from compose_status_as_str compose_status_variants CsIdle s"

datatype compose_type = CtDockerCompose | CtStack

definition compose_type_as_str :: "compose_type \<Rightarrow> string" where
  "compose_type_as_str v = (case v of CtDockerCompose \<Rightarrow> ''DOCKER-COMPOSE''
     | CtStack \<Rightarrow> ''STACK'')"

definition compose_type_variants :: "compose_type list" where
  "compose_type_variants = [CtDockerCompose, CtStack]"

definition compose_type_from_str :: "string \<Rightarrow> compose_type option" where
  "compose_type_from_str s = enum_from_str compose_type_as_str compose_type_variants s"

definition compose_type_from :: "string \<Rightarrow> compose_type" where
  "compose_type_from s = enum_from compose_type_as_str compose_type_variants CtStack s"

datatype database_runtime_status = DsIdle | DsQueued | DsBuilding | DsDeploying | DsStarting | DsRunning | DsHealthy | DsStopping | DsStopped | DsCancelling | DsCancelled | DsDone | DsFailed

definition database_runtime_status_as_str :: "database_runtime_status \<Rightarrow> string" where
  "database_runtime_status_as_str v = (case v of DsIdle \<Rightarrow> ''IDLE''
     | DsQueued \<Rightarrow> ''QUEUED''
     | DsBuilding \<Rightarrow> ''BUILDING''
     | DsDeploying \<Rightarrow> ''DEPLOYING''
     | DsStarting \<Rightarrow> ''STARTING''
     | DsRunning \<Rightarrow> ''RUNNING''
     | DsHealthy \<Rightarrow> ''HEALTHY''
     | DsStopping \<Rightarrow> ''STOPPING''
     | DsStopped \<Rightarrow> ''STOPPED''
     | DsCancelling \<Rightarrow> ''CANCELLING''
     | DsCancelled \<Rightarrow> ''CANCELLED''
     | DsDone \<Rightarrow> ''DONE''
     | DsFailed \<Rightarrow> ''FAILED'')"

definition database_runtime_status_variants :: "database_runtime_status list" where
  "database_runtime_status_variants = [DsIdle, DsQueued, DsBuilding, DsDeploying, DsStarting, DsRunning, DsHealthy, DsStopping, DsStopped, DsCancelling, DsCancelled, DsDone, DsFailed]"

definition database_runtime_status_from_str :: "string \<Rightarrow> database_runtime_status option" where
  "database_runtime_status_from_str s = enum_from_str database_runtime_status_as_str database_runtime_status_variants s"

definition database_runtime_status_from :: "string \<Rightarrow> database_runtime_status" where
  "database_runtime_status_from s = enum_from database_runtime_status_as_str database_runtime_status_variants DsIdle s"

datatype user_role = RoleOwner | RoleAdmin | RoleMember

definition user_role_as_str :: "user_role \<Rightarrow> string" where
  "user_role_as_str v = (case v of RoleOwner \<Rightarrow> ''OWNER''
     | RoleAdmin \<Rightarrow> ''ADMIN''
     | RoleMember \<Rightarrow> ''MEMBER'')"

definition user_role_variants :: "user_role list" where
  "user_role_variants = [RoleOwner, RoleAdmin, RoleMember]"

definition user_role_from_str :: "string \<Rightarrow> user_role option" where
  "user_role_from_str s = enum_from_str user_role_as_str user_role_variants s"

definition user_role_from :: "string \<Rightarrow> user_role" where
  "user_role_from s = enum_from user_role_as_str user_role_variants RoleMember s"

datatype policy_effect = EffectGrant | EffectDeny

definition policy_effect_as_str :: "policy_effect \<Rightarrow> string" where
  "policy_effect_as_str v = (case v of EffectGrant \<Rightarrow> ''GRANT''
     | EffectDeny \<Rightarrow> ''DENY'')"

definition policy_effect_variants :: "policy_effect list" where
  "policy_effect_variants = [EffectGrant, EffectDeny]"

definition policy_effect_from_str :: "string \<Rightarrow> policy_effect option" where
  "policy_effect_from_str s = enum_from_str policy_effect_as_str policy_effect_variants s"

definition policy_effect_from :: "string \<Rightarrow> policy_effect" where
  "policy_effect_from s = enum_from policy_effect_as_str policy_effect_variants EffectGrant s"

datatype resource_type = RtProject | RtServer | RtEnvironment | RtService | RtGitProvider

definition resource_type_as_str :: "resource_type \<Rightarrow> string" where
  "resource_type_as_str v = (case v of RtProject \<Rightarrow> ''PROJECT''
     | RtServer \<Rightarrow> ''SERVER''
     | RtEnvironment \<Rightarrow> ''ENVIRONMENT''
     | RtService \<Rightarrow> ''SERVICE''
     | RtGitProvider \<Rightarrow> ''GIT_PROVIDER'')"

definition resource_type_variants :: "resource_type list" where
  "resource_type_variants = [RtProject, RtServer, RtEnvironment, RtService, RtGitProvider]"

definition resource_type_from_str :: "string \<Rightarrow> resource_type option" where
  "resource_type_from_str s = enum_from_str resource_type_as_str resource_type_variants s"

definition resource_type_from :: "string \<Rightarrow> resource_type" where
  "resource_type_from s = enum_from resource_type_as_str resource_type_variants RtProject s"

datatype alert_event_state = AeFiring | AeResolved | AeNoData

definition alert_event_state_as_str :: "alert_event_state \<Rightarrow> string" where
  "alert_event_state_as_str v = (case v of AeFiring \<Rightarrow> ''FIRING''
     | AeResolved \<Rightarrow> ''RESOLVED''
     | AeNoData \<Rightarrow> ''NO_DATA'')"

definition alert_event_state_variants :: "alert_event_state list" where
  "alert_event_state_variants = [AeFiring, AeResolved, AeNoData]"

definition alert_event_state_from_str :: "string \<Rightarrow> alert_event_state option" where
  "alert_event_state_from_str s = enum_from_str alert_event_state_as_str alert_event_state_variants s"

definition alert_event_state_from :: "string \<Rightarrow> alert_event_state" where
  "alert_event_state_from s = enum_from alert_event_state_as_str alert_event_state_variants AeFiring s"

datatype git_trigger = TriggerPush | TriggerTag

definition git_trigger_as_str :: "git_trigger \<Rightarrow> string" where
  "git_trigger_as_str v = (case v of TriggerPush \<Rightarrow> ''PUSH''
     | TriggerTag \<Rightarrow> ''TAG'')"

definition git_trigger_variants :: "git_trigger list" where
  "git_trigger_variants = [TriggerPush, TriggerTag]"

definition git_trigger_from_str :: "string \<Rightarrow> git_trigger option" where
  "git_trigger_from_str s = enum_from_str git_trigger_as_str git_trigger_variants s"

definition git_trigger_from :: "string \<Rightarrow> git_trigger" where
  "git_trigger_from s = enum_from git_trigger_as_str git_trigger_variants TriggerPush s"

datatype git_provider_type = GpGithub | GpGitlab | GpGitea | GpBitbucket

definition git_provider_type_as_str :: "git_provider_type \<Rightarrow> string" where
  "git_provider_type_as_str v = (case v of GpGithub \<Rightarrow> ''GITHUB''
     | GpGitlab \<Rightarrow> ''GITLAB''
     | GpGitea \<Rightarrow> ''GITEA''
     | GpBitbucket \<Rightarrow> ''BITBUCKET'')"

definition git_provider_type_variants :: "git_provider_type list" where
  "git_provider_type_variants = [GpGithub, GpGitlab, GpGitea, GpBitbucket]"

definition git_provider_type_from_str :: "string \<Rightarrow> git_provider_type option" where
  "git_provider_type_from_str s = enum_from_str git_provider_type_as_str git_provider_type_variants s"

definition git_provider_type_from :: "string \<Rightarrow> git_provider_type" where
  "git_provider_type_from s = enum_from git_provider_type_as_str git_provider_type_variants GpGithub s"

datatype build_type = BtDockerfile | BtNixpacks | BtPaketo | BtHeroku | BtRailpack | BtStatic

definition build_type_as_str :: "build_type \<Rightarrow> string" where
  "build_type_as_str v = (case v of BtDockerfile \<Rightarrow> ''DOCKERFILE''
     | BtNixpacks \<Rightarrow> ''NIXPACKS''
     | BtPaketo \<Rightarrow> ''PAKETO_BUILDPACKS''
     | BtHeroku \<Rightarrow> ''HEROKU''
     | BtRailpack \<Rightarrow> ''RAILPACK''
     | BtStatic \<Rightarrow> ''STATIC'')"

definition build_type_variants :: "build_type list" where
  "build_type_variants = [BtDockerfile, BtNixpacks, BtPaketo, BtHeroku, BtRailpack, BtStatic]"

definition build_type_from_str :: "string \<Rightarrow> build_type option" where
  "build_type_from_str s = enum_from_str build_type_as_str build_type_variants s"

definition build_type_from :: "string \<Rightarrow> build_type" where
  "build_type_from s = enum_from build_type_as_str build_type_variants BtDockerfile s"

datatype schedule_action = SaExec | SaDeploy | SaRedeploy | SaRebuild | SaReload | SaStart | SaStop

definition schedule_action_as_str :: "schedule_action \<Rightarrow> string" where
  "schedule_action_as_str v = (case v of SaExec \<Rightarrow> ''EXEC''
     | SaDeploy \<Rightarrow> ''DEPLOY''
     | SaRedeploy \<Rightarrow> ''REDEPLOY''
     | SaRebuild \<Rightarrow> ''REBUILD''
     | SaReload \<Rightarrow> ''RELOAD''
     | SaStart \<Rightarrow> ''START''
     | SaStop \<Rightarrow> ''STOP'')"

definition schedule_action_variants :: "schedule_action list" where
  "schedule_action_variants = [SaExec, SaDeploy, SaRedeploy, SaRebuild, SaReload, SaStart, SaStop]"

definition schedule_action_from_str :: "string \<Rightarrow> schedule_action option" where
  "schedule_action_from_str s = enum_from_str schedule_action_as_str schedule_action_variants s"

definition schedule_action_from :: "string \<Rightarrow> schedule_action" where
  "schedule_action_from s = enum_from schedule_action_as_str schedule_action_variants SaExec s"

datatype backup_kind = BkDatabase | BkVolume | BkPanel | BkComposeConfig

definition backup_kind_as_str :: "backup_kind \<Rightarrow> string" where
  "backup_kind_as_str v = (case v of BkDatabase \<Rightarrow> ''DATABASE''
     | BkVolume \<Rightarrow> ''VOLUME''
     | BkPanel \<Rightarrow> ''PANEL''
     | BkComposeConfig \<Rightarrow> ''COMPOSE_CONFIG'')"

definition backup_kind_variants :: "backup_kind list" where
  "backup_kind_variants = [BkDatabase, BkVolume, BkPanel, BkComposeConfig]"

definition backup_kind_from_str :: "string \<Rightarrow> backup_kind option" where
  "backup_kind_from_str s = enum_from_str backup_kind_as_str backup_kind_variants s"

definition backup_kind_from :: "string \<Rightarrow> backup_kind" where
  "backup_kind_from s = enum_from backup_kind_as_str backup_kind_variants BkDatabase s"

datatype source_type = SrcDocker | SrcGit | SrcGithub | SrcGitlab | SrcBitbucket | SrcGitea | SrcRaw | SrcDrop

definition source_type_as_str :: "source_type \<Rightarrow> string" where
  "source_type_as_str v = (case v of SrcDocker \<Rightarrow> ''DOCKER''
     | SrcGit \<Rightarrow> ''GIT''
     | SrcGithub \<Rightarrow> ''GITHUB''
     | SrcGitlab \<Rightarrow> ''GITLAB''
     | SrcBitbucket \<Rightarrow> ''BITBUCKET''
     | SrcGitea \<Rightarrow> ''GITEA''
     | SrcRaw \<Rightarrow> ''RAW''
     | SrcDrop \<Rightarrow> ''DROP'')"

definition source_type_variants :: "source_type list" where
  "source_type_variants = [SrcDocker, SrcGit, SrcGithub, SrcGitlab, SrcBitbucket, SrcGitea, SrcRaw, SrcDrop]"

definition source_type_from_str :: "string \<Rightarrow> source_type option" where
  "source_type_from_str s = enum_from_str source_type_as_str source_type_variants s"

definition source_type_from :: "string \<Rightarrow> source_type" where
  "source_type_from s = enum_from source_type_as_str source_type_variants SrcDocker s"

datatype notification_provider = NpSlack | NpTelegram | NpDiscord | NpEmail | NpResend | NpGotify | NpNtfy | NpMattermost | NpPushover | NpCustom | NpLark | NpTeams

definition notification_provider_as_str :: "notification_provider \<Rightarrow> string" where
  "notification_provider_as_str v = (case v of NpSlack \<Rightarrow> ''SLACK''
     | NpTelegram \<Rightarrow> ''TELEGRAM''
     | NpDiscord \<Rightarrow> ''DISCORD''
     | NpEmail \<Rightarrow> ''EMAIL''
     | NpResend \<Rightarrow> ''RESEND''
     | NpGotify \<Rightarrow> ''GOTIFY''
     | NpNtfy \<Rightarrow> ''NTFY''
     | NpMattermost \<Rightarrow> ''MATTERMOST''
     | NpPushover \<Rightarrow> ''PUSHOVER''
     | NpCustom \<Rightarrow> ''CUSTOM''
     | NpLark \<Rightarrow> ''LARK''
     | NpTeams \<Rightarrow> ''TEAMS'')"

definition notification_provider_variants :: "notification_provider list" where
  "notification_provider_variants = [NpSlack, NpTelegram, NpDiscord, NpEmail, NpResend, NpGotify, NpNtfy, NpMattermost, NpPushover, NpCustom, NpLark, NpTeams]"

definition notification_provider_from_str :: "string \<Rightarrow> notification_provider option" where
  "notification_provider_from_str s = enum_from_str notification_provider_as_str notification_provider_variants s"

definition notification_provider_from :: "string \<Rightarrow> notification_provider" where
  "notification_provider_from s = enum_from notification_provider_as_str notification_provider_variants NpSlack s"

datatype heroku_builder_image = HerokuBuilder22 | HerokuBuilder20 | HerokuBuilder24

definition heroku_builder_image_as_str :: "heroku_builder_image \<Rightarrow> string" where
  "heroku_builder_image_as_str v = (case v of HerokuBuilder22 \<Rightarrow> ''heroku/builder:22''
     | HerokuBuilder20 \<Rightarrow> ''heroku/builder:20''
     | HerokuBuilder24 \<Rightarrow> ''heroku/builder:24'')"

definition heroku_builder_image_variants :: "heroku_builder_image list" where
  "heroku_builder_image_variants = [HerokuBuilder22, HerokuBuilder20, HerokuBuilder24]"

definition heroku_builder_image_from_str :: "string \<Rightarrow> heroku_builder_image option" where
  "heroku_builder_image_from_str s = enum_from_str heroku_builder_image_as_str heroku_builder_image_variants s"

definition heroku_builder_image_from :: "string \<Rightarrow> heroku_builder_image" where
  "heroku_builder_image_from s = enum_from heroku_builder_image_as_str heroku_builder_image_variants HerokuBuilder22 s"

datatype paketo_builder_image = PaketoJammyFull | PaketoJammyBase | PaketoJammyTiny | PaketoBionicFull | PaketoBionicBase

definition paketo_builder_image_as_str :: "paketo_builder_image \<Rightarrow> string" where
  "paketo_builder_image_as_str v = (case v of PaketoJammyFull \<Rightarrow> ''paketobuildpacks/builder-jammy-full''
     | PaketoJammyBase \<Rightarrow> ''paketobuildpacks/builder-jammy-base''
     | PaketoJammyTiny \<Rightarrow> ''paketobuildpacks/builder-jammy-tiny''
     | PaketoBionicFull \<Rightarrow> ''paketobuildpacks/builder-bionic-full''
     | PaketoBionicBase \<Rightarrow> ''paketobuildpacks/builder-bionic-base'')"

definition paketo_builder_image_variants :: "paketo_builder_image list" where
  "paketo_builder_image_variants = [PaketoJammyFull, PaketoJammyBase, PaketoJammyTiny, PaketoBionicFull, PaketoBionicBase]"

definition paketo_builder_image_from_str :: "string \<Rightarrow> paketo_builder_image option" where
  "paketo_builder_image_from_str s = enum_from_str paketo_builder_image_as_str paketo_builder_image_variants s"

definition paketo_builder_image_from :: "string \<Rightarrow> paketo_builder_image" where
  "paketo_builder_image_from s = enum_from paketo_builder_image_as_str paketo_builder_image_variants PaketoJammyFull s"

datatype rclone_command = RcloneRcat | RcloneCat | RcloneLsf | RcloneCopyto | RcloneSync | RcloneDelete | RclonePurge | RcloneCheck

definition rclone_command_as_str :: "rclone_command \<Rightarrow> string" where
  "rclone_command_as_str v = (case v of RcloneRcat \<Rightarrow> ''rcat''
     | RcloneCat \<Rightarrow> ''cat''
     | RcloneLsf \<Rightarrow> ''lsf''
     | RcloneCopyto \<Rightarrow> ''copyto''
     | RcloneSync \<Rightarrow> ''sync''
     | RcloneDelete \<Rightarrow> ''delete''
     | RclonePurge \<Rightarrow> ''purge''
     | RcloneCheck \<Rightarrow> ''check'')"

definition rclone_command_variants :: "rclone_command list" where
  "rclone_command_variants = [RcloneRcat, RcloneCat, RcloneLsf, RcloneCopyto, RcloneSync, RcloneDelete, RclonePurge, RcloneCheck]"

definition rclone_command_from_str :: "string \<Rightarrow> rclone_command option" where
  "rclone_command_from_str s = enum_from_str rclone_command_as_str rclone_command_variants s"

definition rclone_command_from :: "string \<Rightarrow> rclone_command" where
  "rclone_command_from s = enum_from rclone_command_as_str rclone_command_variants RcloneRcat s"

text \<open>The status groups the services ask for.\<close>

definition application_is_building :: "application_status \<Rightarrow> bool" where
  "application_is_building s = (s \<in> set [AsQueued, AsBuilding, AsDeploying, AsStarting, AsCancelling])"

definition compose_is_building :: "compose_status \<Rightarrow> bool" where
  "compose_is_building s = (s \<in> set [CsQueued, CsStarting, CsCancelling])"

definition database_is_building :: "database_runtime_status \<Rightarrow> bool" where
  "database_is_building s = (s \<in> set [DsQueued, DsBuilding, DsDeploying, DsStarting, DsCancelling])"

section \<open>The contract of an enum\<close>

definition canonical :: "string \<Rightarrow> bool" where
  "canonical s = (to_ascii_uppercase (trim s) = s)"

text \<open>A table is usable when its texts are canonical and distinct and it lists every variant.\<close>

locale string_enum =
  fixes as_str :: "'a \<Rightarrow> string" and variants :: "'a list"
  assumes texts_canonical: "v \<in> set variants \<Longrightarrow> canonical (as_str v)"
    and texts_distinct: "distinct (map as_str variants)"
    and exhaustive: "v \<in> set variants"
begin

lemma from_str_as_str: "enum_from_str as_str variants (as_str v) = Some v"
  using distinct_map_find_eq [OF texts_distinct exhaustive [of v]] texts_canonical [OF exhaustive, of v]
  by (simp add: enum_from_str_def canonical_def)

lemma from_str_Some_iff: "enum_from_str as_str variants s = Some v \<longleftrightarrow> to_ascii_uppercase (trim s) = as_str v"
proof
  assume "enum_from_str as_str variants s = Some v"
  then show "to_ascii_uppercase (trim s) = as_str v"
    by (auto simp: enum_from_str_def dest: find_Some_mem)
next
  assume *: "to_ascii_uppercase (trim s) = as_str v"
  show "enum_from_str as_str variants s = Some v"
    using distinct_map_find_eq [OF texts_distinct exhaustive [of v]] by (simp add: enum_from_str_def *)
qed

lemma as_str_inject: "as_str v = as_str w \<longleftrightarrow> v = w"
  using from_str_as_str by (metis option.inject)

end

text \<open>Lower-case texts never match: the argument is upper-cased before the lookup.\<close>

lemma upper_no_lowercase: "c \<in> set (to_ascii_uppercase s) \<Longrightarrow> \<not> is_ascii_lowercase c"
proof -
  have "\<not> is_ascii_lowercase (upper_char d)" for d
    by (simp add: is_ascii_lowercase_def upper_char_code) arith
  then show "c \<in> set (to_ascii_uppercase s) \<Longrightarrow> \<not> is_ascii_lowercase c"
    by (auto simp: to_ascii_uppercase_def)
qed

lemma lowercase_text_unreachable:
  assumes "\<And>v. v \<in> set variants \<Longrightarrow> list_ex is_ascii_lowercase (as_str v)"
  shows "enum_from_str as_str variants s = None"
proof -
  have "as_str v \<noteq> to_ascii_uppercase (trim s)" if "v \<in> set variants" for v
    using assms [OF that] upper_no_lowercase by (metis list_ex_iff)
  then show ?thesis by (auto simp: enum_from_str_def find_None_iff)
qed

definition enum_table_check :: "('a \<Rightarrow> string) \<Rightarrow> 'a list \<Rightarrow> bool" where
  "enum_table_check as_str variants =
     (list_all (\<lambda>v. canonical (as_str v)) variants \<and> distinct (map as_str variants))"

lemma string_enumI:
  assumes "enum_table_check as_str variants" "\<And>v. v \<in> set variants"
  shows "string_enum as_str variants"
  using assms by unfold_locales (simp_all add: enum_table_check_def list_all_iff)

interpretation as_enum: string_enum application_status_as_str application_status_variants
  by (rule string_enumI, code_simp, case_tac v) (simp_all add: application_status_variants_def)

interpretation cs_enum: string_enum compose_status_as_str compose_status_variants
  by (rule string_enumI, code_simp, case_tac v) (simp_all add: compose_status_variants_def)

interpretation ct_enum: string_enum compose_type_as_str compose_type_variants
  by (rule string_enumI, code_simp, case_tac v) (simp_all add: compose_type_variants_def)

interpretation ds_enum: string_enum database_runtime_status_as_str database_runtime_status_variants
  by (rule string_enumI, code_simp, case_tac v) (simp_all add: database_runtime_status_variants_def)

interpretation role_enum: string_enum user_role_as_str user_role_variants
  by (rule string_enumI, code_simp, case_tac v) (simp_all add: user_role_variants_def)

interpretation effect_enum: string_enum policy_effect_as_str policy_effect_variants
  by (rule string_enumI, code_simp, case_tac v) (simp_all add: policy_effect_variants_def)

interpretation rt_enum: string_enum resource_type_as_str resource_type_variants
  by (rule string_enumI, code_simp, case_tac v) (simp_all add: resource_type_variants_def)

interpretation ae_enum: string_enum alert_event_state_as_str alert_event_state_variants
  by (rule string_enumI, code_simp, case_tac v) (simp_all add: alert_event_state_variants_def)

interpretation trigger_enum: string_enum git_trigger_as_str git_trigger_variants
  by (rule string_enumI, code_simp, case_tac v) (simp_all add: git_trigger_variants_def)

interpretation gp_enum: string_enum git_provider_type_as_str git_provider_type_variants
  by (rule string_enumI, code_simp, case_tac v) (simp_all add: git_provider_type_variants_def)

interpretation bt_enum: string_enum build_type_as_str build_type_variants
  by (rule string_enumI, code_simp, case_tac v) (simp_all add: build_type_variants_def)

interpretation sa_enum: string_enum schedule_action_as_str schedule_action_variants
  by (rule string_enumI, code_simp, case_tac v) (simp_all add: schedule_action_variants_def)

interpretation bk_enum: string_enum backup_kind_as_str backup_kind_variants
  by (rule string_enumI, code_simp, case_tac v) (simp_all add: backup_kind_variants_def)

interpretation src_enum: string_enum source_type_as_str source_type_variants
  by (rule string_enumI, code_simp, case_tac v) (simp_all add: source_type_variants_def)

interpretation np_enum: string_enum notification_provider_as_str notification_provider_variants
  by (rule string_enumI, code_simp, case_tac v) (simp_all add: notification_provider_variants_def)

end
