(* ===== verification/DeploymentService.thy ===== *)
theory DeploymentService
  imports BuilderQueue StringEnum
begin

text \<open>
  The services that put deployments into the queue and take them out:
  \<open>operations.rs\<close> of \<open>src/src/services/application\<close>, \<open>compose\<close> and
  \<open>database\<close>, and \<open>src/src/services/deployment/service.rs\<close>.  Records are read
  from the database: the cache facade in front of it always runs the read.  Container
  commands run in spawned tasks; what such a task does to the database at its
  end is an operation of its own.  \<open>mgmt\<close> is the maintenance row of a server.
\<close>

section \<open>Shared parts\<close>

type_synonym maintenance = "int \<Rightarrow> int \<times> string option"

definition assert_deployable :: "maintenance \<Rightarrow> int option \<Rightarrow> unit sqlx" where
  "assert_deployable mgmt srv = (case srv of
      None \<Rightarrow> Ok ()
    | Some s \<Rightarrow> (case mgmt s of (mode, msg) \<Rightarrow>
        if mode \<noteq> 0
        then Err (Protocol (case msg of Some m \<Rightarrow> m | None \<Rightarrow> ''server is in maintenance mode''))
        else Ok ()))"

definition deployment_log_file :: "string \<Rightarrow> int \<Rightarrow> string" where
  "deployment_log_file base dep = base @ ''/logs/deployments/'' @ int_to_dec dep @ ''.log''"

text \<open>Errors of a cached lookup reach the caller as protocol errors with the error's text.\<close>

definition row_not_found_text :: string where
  "row_not_found_text = ''no rows returned by a query that expected to return at least one row''"

definition cached_get :: "'r option \<Rightarrow> 'r sqlx" where
  "cached_get r = (case r of Some x \<Rightarrow> Ok x | None \<Rightarrow> Err (Protocol row_not_found_text))"

text \<open>Sequencing of calls with \<open>?\<close>: the first error returns, earlier writes stay.\<close>

definition and_then :: "'a sqlx \<times> panel_db \<Rightarrow> ('a \<Rightarrow> panel_db \<Rightarrow> 'b sqlx \<times> panel_db) \<Rightarrow> 'b sqlx \<times> panel_db" where
  "and_then r k = (case r of (Inl e, db) \<Rightarrow> (Err e, db) | (Inr x, db) \<Rightarrow> k x db)"

section \<open>Applications\<close>

definition application_get :: "int \<Rightarrow> panel_db \<Rightarrow> resource_row sqlx" where
  "application_get i db = cached_get (find_resource i (applications db))"

definition application_update_status :: "int \<Rightarrow> string \<Rightarrow> panel_db \<Rightarrow> resource_row sqlx \<times> panel_db" where
  "application_update_status i st db = and_then (set_application_status i st db)
     (\<lambda>_ db'. (fetch_one (find_resource i (applications db')), db'))"

definition application_run_operation ::
  "string option \<Rightarrow> maintenance \<Rightarrow> string \<Rightarrow> int \<Rightarrow> int \<Rightarrow> application_operation \<Rightarrow> panel_db
   \<Rightarrow> (resource_row \<times> int option \<times> application_operation) sqlx \<times> panel_db" where
  "application_run_operation env mgmt base now i op db =
     (if has_running_deployment i db
      then (Err (Protocol ''application deployment already queued or running; cancel it first''), db)
      else and_then (ensure_capacity env db, db) (\<lambda>_ db.
        and_then (application_get i db, db) (\<lambda>app db.
        and_then (assert_deployable mgmt (res_server_id app), db) (\<lambda>_ db.
        and_then (create_queued_deployment now (application_op_title op)
                    (Some (application_op_as_str op @ '' requested for '' @ res_name app))
                    (''pending-app-'' @ int_to_dec i) (application_op_as_str op) i (res_server_id app) db)
          (\<lambda>dep db.
        and_then (application_update_status i ''STARTING'' db) (\<lambda>_ db.
        and_then (update_log_path dep (deployment_log_file base dep) db) (\<lambda>_ db.
          (Ok (app, Some dep, op), db))))))))"

definition application_stop_statuses :: "string \<Rightarrow> string \<times> string" where
  "application_stop_statuses cur =
     (let st = (case application_status_from_str cur of Some s \<Rightarrow> s | None \<Rightarrow> AsIdle) in
      if application_is_building st
      then (application_status_as_str AsCancelling, application_status_as_str AsCancelled)
      else (application_status_as_str AsStopping, application_status_as_str AsStopped))"

text \<open>The result carries the status the spawned task writes at its end.\<close>

definition application_stop_or_cancel_smart ::
  "('w, 'b, 't) channel_ops \<Rightarrow> int \<Rightarrow> int \<Rightarrow> panel_db \<Rightarrow> ('w, 'b, 't) app_state
   \<Rightarrow> (bool \<times> string) sqlx \<times> panel_db \<times> ('w, 'b, 't) app_state" where
  "application_stop_or_cancel_smart C now i db m = (case application_get i db of
      Inl e \<Rightarrow> (Err e, db, m)
    | Inr app \<Rightarrow> (case application_stop_statuses (res_status app) of (intermediate, final_st) \<Rightarrow>
        (let db1 = snd (application_update_status i intermediate db);
             db2 = fst (snd (cancel_queued_application now i db1));
             m' = snd (cancel_by_id C (AppId i) m);
             db3 = snd (request_cancel_deployment now i db2)
         in (Ok (True, final_st), db3, m'))))"

definition application_stop_task :: "int \<Rightarrow> string \<Rightarrow> panel_db \<Rightarrow> panel_db" where
  "application_stop_task i final_st db = snd (application_update_status i final_st db)"

definition application_clear_deployment_history ::
  "int \<Rightarrow> panel_db \<Rightarrow> (nat \<times> int list) sqlx \<times> panel_db" where
  "application_clear_deployment_history i db =
     and_then (application_get i db, db) (\<lambda>_ db.
       (let ids = list_finished_ids_for_application i db in
        and_then (delete_finished_for_application i db) (\<lambda>n db. (Ok (n, ids), db))))"

definition application_cleanup_deployment_queue :: "int \<Rightarrow> int \<Rightarrow> panel_db \<Rightarrow> nat sqlx \<times> panel_db" where
  "application_cleanup_deployment_queue now i db =
     and_then (application_get i db, db) (\<lambda>_ db.
       cancel_queued_for_application_count now i (fst (snd (cancel_queued_application now i db))))"

section \<open>Compose projects\<close>

definition compose_get :: "int \<Rightarrow> panel_db \<Rightarrow> resource_row sqlx" where
  "compose_get i db = cached_get (find_resource i (compose_projects db))"

definition compose_update_status :: "int \<Rightarrow> string \<Rightarrow> panel_db \<Rightarrow> resource_row sqlx \<times> panel_db" where
  "compose_update_status i st db = and_then (set_compose_status i st db)
     (\<lambda>_ db'. (fetch_one (find_resource i (compose_projects db')), db'))"

definition compose_stop_statuses :: "string \<Rightarrow> string \<times> string" where
  "compose_stop_statuses cur =
     (let st = (case compose_status_from_str cur of Some s \<Rightarrow> s | None \<Rightarrow> CsIdle) in
      if compose_is_building st
      then (compose_status_as_str CsCancelling, compose_status_as_str CsCancelled)
      else (compose_status_as_str CsStopping, compose_status_as_str CsStopped))"

definition compose_stop_or_cancel_smart ::
  "('w, 'b, 't) channel_ops \<Rightarrow> int \<Rightarrow> int \<Rightarrow> panel_db \<Rightarrow> ('w, 'b, 't) app_state
   \<Rightarrow> (bool \<times> string) sqlx \<times> panel_db \<times> ('w, 'b, 't) app_state" where
  "compose_stop_or_cancel_smart C now i db m = (case compose_get i db of
      Inl e \<Rightarrow> (Err e, db, m)
    | Inr cmp \<Rightarrow> (case compose_stop_statuses (res_status cmp) of (intermediate, final_st) \<Rightarrow>
        (let db1 = snd (compose_update_status i intermediate db);
             db2 = fst (snd (cancel_queued_compose now i db1));
             m' = snd (cancel_by_id C (ComposeId i) m);
             db3 = snd (request_cancel_compose_deployment now i db2)
         in (Ok (True, final_st), db3, m'))))"

definition compose_run_operation ::
  "('w, 'b, 't) channel_ops \<Rightarrow> string option \<Rightarrow> maintenance \<Rightarrow> string \<Rightarrow> int \<Rightarrow> int \<Rightarrow> compose_operation
   \<Rightarrow> panel_db \<Rightarrow> ('w, 'b, 't) app_state
   \<Rightarrow> (resource_row \<times> int option \<times> compose_operation) sqlx \<times> panel_db \<times> ('w, 'b, 't) app_state" where
  "compose_run_operation C env mgmt base now i op db m =
     (if has_running_compose_deployment i db
      then (if op = CStop
            then (case compose_stop_or_cancel_smart C now i db m of
                    (Inl e, db', m') \<Rightarrow> (Err e, db', m')
                  | (Inr _, db', m') \<Rightarrow>
                      (case compose_get i db' of Inl e \<Rightarrow> (Err e, db', m')
                       | Inr r \<Rightarrow> (Ok (r, None, CStop), db', m')))
            else (Err (Protocol ''compose deployment already queued or running''), db, m))
      else (case and_then (ensure_capacity env db, db) (\<lambda>_ db.
          and_then (compose_get i db, db) (\<lambda>cmp db.
          and_then (if op = CStop then Ok () else assert_deployable mgmt (res_server_id cmp), db) (\<lambda>_ db.
          and_then (create_queued_compose_deployment now (compose_op_title op)
                      (Some (compose_op_as_str op @ '' requested for '' @ res_name cmp))
                      (''pending-compose-'' @ int_to_dec i) (compose_op_as_str op) i (res_server_id cmp) db)
            (\<lambda>dep db.
          and_then (update_log_path dep (deployment_log_file base dep) db) (\<lambda>_ db.
          and_then (compose_update_status i
                     (if op = CStop then compose_status_as_str CsStopping else compose_status_as_str CsStarting) db)
            (\<lambda>r db. (Ok (r, Some dep, op), db)))))))
        of (res, db') \<Rightarrow> (res, db', m)))"

definition compose_cleanup_queue :: "int \<Rightarrow> int \<Rightarrow> panel_db \<Rightarrow> nat sqlx \<times> panel_db" where
  "compose_cleanup_queue now i db =
     and_then (compose_get i db, db) (\<lambda>_ db.
       cancel_queued_for_compose_count now i (fst (snd (cancel_queued_compose now i db))))"

definition compose_clear_history :: "int \<Rightarrow> panel_db \<Rightarrow> (nat \<times> int list) sqlx \<times> panel_db" where
  "compose_clear_history i db =
     and_then (compose_get i db, db) (\<lambda>_ db.
       (let ids = list_finished_ids_for_compose i db in
        and_then (delete_finished_for_compose i db) (\<lambda>n db. (Ok (n, ids), db))))"

section \<open>Databases\<close>

definition database_get :: "database_kind \<Rightarrow> int \<Rightarrow> panel_db \<Rightarrow> database_row sqlx" where
  "database_get k i db = cached_get (find_resource i (databases db k))"

definition database_update_status :: "database_kind \<Rightarrow> int \<Rightarrow> string \<Rightarrow> panel_db \<Rightarrow> unit sqlx \<times> panel_db" where
  "database_update_status k i st db = set_database_rows k i (to_ascii_uppercase st) db"

definition database_stop_statuses :: "string \<Rightarrow> string \<times> string" where
  "database_stop_statuses cur =
     (let st = (case database_runtime_status_from_str cur of Some s \<Rightarrow> s | None \<Rightarrow> DsIdle) in
      if database_is_building st
      then (database_runtime_status_as_str DsCancelling, database_runtime_status_as_str DsCancelled)
      else (database_runtime_status_as_str DsStopping, database_runtime_status_as_str DsStopped))"

definition database_cancel_operation ::
  "('w, 'b, 't) channel_ops \<Rightarrow> int \<Rightarrow> database_kind \<Rightarrow> int \<Rightarrow> panel_db \<Rightarrow> ('w, 'b, 't) app_state
   \<Rightarrow> (bool \<times> string) sqlx \<times> panel_db \<times> ('w, 'b, 't) app_state" where
  "database_cancel_operation C now k i db m =
     (case database_stop_statuses (case database_get k i db of Inr d \<Rightarrow> res_status d | Inl _ \<Rightarrow> ''IDLE'') of
        (intermediate, final_st) \<Rightarrow>
        (let db1 = snd (database_update_status k i intermediate db);
             db2 = fst (snd (cancel_queued_database now i db1));
             m' = snd (cancel_by_id C (DatabaseId i) m);
             db3 = snd (cancel_queued_for_database now i db2);
             db4 = snd (request_cancel_database_deployment now i db3)
         in (Ok (True, final_st), db4, m')))"

definition get_server_id_and_name :: "database_kind \<Rightarrow> int \<Rightarrow> panel_db \<Rightarrow> (int option \<times> string) sqlx" where
  "get_server_id_and_name k i db =
     fetch_one (map_option (\<lambda>d. (res_server_id d, res_name d)) (find_resource i (databases db k)))"

definition database_run_operation ::
  "('w, 'b, 't) channel_ops \<Rightarrow> string option \<Rightarrow> maintenance \<Rightarrow> string \<Rightarrow> int \<Rightarrow> database_kind \<Rightarrow> int
   \<Rightarrow> database_operation \<Rightarrow> panel_db \<Rightarrow> ('w, 'b, 't) app_state
   \<Rightarrow> (database_row \<times> database_operation) sqlx \<times> panel_db \<times> ('w, 'b, 't) app_state" where
  "database_run_operation C env mgmt base now k i op db m =
     (if op = DStop
      then (case database_cancel_operation C now k i db m of
              (Inl e, db', m') \<Rightarrow> (Err e, db', m')
            | (Inr _, db', m') \<Rightarrow> (case database_get k i db' of Inl e \<Rightarrow> (Err e, db', m')
                | Inr r \<Rightarrow> (Ok (r, DStop), db', m')))
      else if has_running_database_deployment i db
      then (Err (Protocol ''database deployment already queued or running; cancel it first''), db, m)
      else (case and_then (ensure_capacity env db, db) (\<lambda>_ db.
          and_then (get_server_id_and_name k i db, db) (\<lambda>(srv, name) db.
          and_then (assert_deployable mgmt srv, db) (\<lambda>_ db.
          and_then (database_update_status k i ''STARTING'' db) (\<lambda>_ db.
          and_then (create_queued_database_deployment now (database_op_title op)
                      (Some (database_op_as_str op @ '' requested for database '' @ name))
                      (''pending-db-'' @ int_to_dec i) (database_op_as_str op) i (kind_as_str k) srv db)
            (\<lambda>dep db.
          and_then (update_log_path dep (deployment_log_file base dep) db) (\<lambda>_ db.
          and_then (database_get k i db, db) (\<lambda>r db. (Ok (r, op), db))))))))
        of (res, db') \<Rightarrow> (res, db', m)))"

section \<open>The deployment service\<close>

datatype cancel_deployment_result = CancelRequested | NotRunning | NotCancellable | NotActiveInThisProcess

definition cancel_target :: "int option \<Rightarrow> int option \<Rightarrow> int option \<Rightarrow> id_type option" where
  "cancel_target a c d = (case a of Some i \<Rightarrow> Some (AppId i)
     | None \<Rightarrow> (case c of Some i \<Rightarrow> Some (ComposeId i) | None \<Rightarrow> map_option DatabaseId d))"

definition deployment_cancel ::
  "('w, 'b, 't) channel_ops \<Rightarrow> int \<Rightarrow> int \<Rightarrow> panel_db \<Rightarrow> ('w, 'b, 't) app_state
   \<Rightarrow> cancel_deployment_result sqlx \<times> panel_db \<times> ('w, 'b, 't) app_state" where
  "deployment_cancel C now dep db m = (case get_cancel_info dep db of
      None \<Rightarrow> (Err RowNotFound, db, m)
    | Some (a, c, d, st) \<Rightarrow>
        if st = ''QUEUED''
        then (case cancel_queued_deployment now dep db of
                (Inl e, db') \<Rightarrow> (Err e, db', m) | (Inr _, db') \<Rightarrow> (Ok CancelRequested, db', m))
        else if st \<noteq> ''RUNNING'' then (Ok NotRunning, db, m)
        else (case cancel_target a c d of
            None \<Rightarrow> (Ok NotCancellable, db, m)
          | Some target \<Rightarrow> (case cancel_by_id C target m of
              (False, m') \<Rightarrow> (Ok NotActiveInThisProcess, db, m')
            | (True, m') \<Rightarrow> (case set_cancel_requested now dep db of
                  (Inl e, db') \<Rightarrow> (Err e, db', m')
                | (Inr _, db') \<Rightarrow> (Ok CancelRequested, db', m')))))"

text \<open>The log file to remove is part of the result.\<close>

definition deployment_delete ::
  "('w, 'b, 't) channel_ops \<Rightarrow> int \<Rightarrow> int \<Rightarrow> panel_db \<Rightarrow> ('w, 'b, 't) app_state
   \<Rightarrow> (bool \<times> string option) sqlx \<times> panel_db \<times> ('w, 'b, 't) app_state" where
  "deployment_delete C now dep db m = (case get_deployment dep db of
      None \<Rightarrow> (Ok (False, None), db, m)
    | Some r \<Rightarrow>
        (let (db1, m1) = (if status r = ''QUEUED'' \<or> status r = ''RUNNING''
                          then snd (deployment_cancel C now dep db m) else (db, m))
         in (case delete_deployment dep db1 of
               (Inl e, db2) \<Rightarrow> (Err e, db2, m1)
             | (Inr _, db2) \<Rightarrow> (Ok (True, if log_path r = [] then None else Some (log_path r)), db2, m1))))"

definition deployment_clear_all ::
  "int option \<Rightarrow> int option \<Rightarrow> int option \<Rightarrow> int option \<Rightarrow> panel_db \<Rightarrow> (nat \<times> string list) sqlx \<times> panel_db" where
  "deployment_clear_all a c d s db = map_ok (\<lambda>paths. (length paths, filter (\<lambda>p. p \<noteq> []) paths))
     (delete_filtered_finished a c d s db)"

definition normalize_filter_text :: "string option \<Rightarrow> string option" where
  "normalize_filter_text v = (case v of None \<Rightarrow> None
     | Some s \<Rightarrow> (let t = to_ascii_uppercase (trim s) in if t = [] then None else Some t))"

definition clamp :: "int \<Rightarrow> int \<Rightarrow> int \<Rightarrow> int" where
  "clamp lo hi x = (if x < lo then lo else if hi < x then hi else x)"

definition deployment_list ::
  "string option \<Rightarrow> string option \<Rightarrow> int option \<Rightarrow> int option \<Rightarrow> int option \<Rightarrow> int option \<Rightarrow> int \<Rightarrow> int
   \<Rightarrow> panel_db \<Rightarrow> deployment list" where
  "deployment_list st sta a c d s lim off db =
     list_filtered (normalize_filter_text st) (normalize_filter_text sta) a c d s (clamp 1 200 lim) (max 0 off) db"

definition compose_force_kill ::
  "('w, 'b, 't) channel_ops \<Rightarrow> int \<Rightarrow> int \<Rightarrow> panel_db \<Rightarrow> ('w, 'b, 't) app_state
   \<Rightarrow> cancel_deployment_result sqlx \<times> panel_db \<times> ('w, 'b, 't) app_state" where
  "compose_force_kill C now i db m = (case compose_get i db of
      Inl e \<Rightarrow> (Err e, db, m)
    | Inr _ \<Rightarrow> (case running_for_compose i db of
        None \<Rightarrow> (Err (Protocol ''compose has no running deployment''), db, m)
      | Some r \<Rightarrow> deployment_cancel C now (run_id r) db m))"

end
