(* ===== verification/DeploymentProps.thy ===== *)
theory DeploymentProps
  imports QueueLaws DeploymentService
begin

text \<open>
  The properties of deployments across the repository, the queue and the
  services.
\<close>

section \<open>Insertion\<close>

lemma active_keys_append: "active_keys g (xs @ ys) = active_keys g xs @ active_keys g ys"
  by (induction xs) (auto split: option.splits)

lemma one_active_insert:
  assumes "one_active rows" "\<not> list_ex (\<lambda>r. active r \<and> application_id r \<noteq> None \<and> application_id r = application_id x) rows"
    "\<not> list_ex (\<lambda>r. active r \<and> compose_id r \<noteq> None \<and> compose_id r = compose_id x) rows"
  shows "one_active (rows @ [x])"
  using assms
  by (auto simp: one_active_def active_keys_append set_active_keys list_ex_iff split: option.splits)

lemma exec_insert_ok:
  assumes "wf_db db" "status_ok db r" "fk_ok db r"
    "\<not> list_ex (\<lambda>x. active x \<and> application_id x \<noteq> None \<and> application_id x = application_id r) (deployments db)"
    "\<not> list_ex (\<lambda>x. active x \<and> compose_id x \<noteq> None \<and> compose_id x = compose_id r) (deployments db)"
  shows "exec_insert r db = (Ok (deployments_seq db + 1),
    db\<lparr>deployments := deployments db @ [r\<lparr>dep_id := deployments_seq db + 1\<rparr>],
       deployments_seq := deployments_seq db + 1\<rparr>)"
proof -
  have "one_active (deployments db @ [r\<lparr>dep_id := deployments_seq db + 1\<rparr>])"
    using assms by (intro one_active_insert) (simp_all add: wf_db_def)
  with assms show ?thesis by (simp add: exec_insert_def Let_def)
qed

section \<open>The queue\<close>

text \<open>
  C1. At every moment of every run of the queue, whatever the services, the
  executors and failing database calls do in between, each server has at most
  as many running workers as the configured limit (and the limit is at least
  one).
\<close>

theorem queue_per_server_bound:
  assumes "semaphore S permits" "queue_reachable S env db0 q"
  shows "length (on_server srv (workers q)) \<le> per_server_limit_of env \<and> 1 \<le> per_server_limit_of env"
  using semaphore.slots_inv_reachable [OF assms] slots_inv_bound [of permits q srv]
  by (simp add: per_server_limit_of_def)

text \<open>
  C2. No deployment is ever executed twice: over every run of the queue from a
  well-formed database the workers are started for pairwise distinct
  deployments, and a deployment a worker was started for is never queued again.
\<close>

theorem queue_at_most_once:
  assumes "queue_reachable S env db0 q" "wf_db db0" "schema_ok db0"
  shows "distinct (spawned q) \<and> (\<forall>i \<in> set (spawned q). get_status i (q_db q) \<noteq> Some ''QUEUED'')"
  using history_inv_reachable [OF assms] get_status_queued by (auto simp: history_inv_def)

text \<open>
  C3. One pass of the dispatcher starts, on every server, the oldest queued
  deployments (by creation time, then id), exactly as many as the server has
  free permits, and touches no running worker.
\<close>

theorem dispatch_fifo:
  assumes "semaphore S permits" "wf_db (q_db q)" "schema_ok (q_db q)"
  shows "\<exists>new. workers (dispatch_available S (claim_queued_deployment now) q) = workers q @ new
    \<and> (\<forall>srv. worker_ids (on_server srv new)
         = take (free_permits permits srv q)
             (map fst (filter (\<lambda>p. snd p = srv) (get_queued_deployments_grouped (q_db q)))))"
  unfolding dispatch_available_def
  using semaphore.dispatch_fold [OF assms queued_grouped(1) [OF assms(2)]] queued_grouped(2) [OF assms(2)]
  by simp


text \<open>
  A queued deployment is claimed by exactly one caller: the first claim
  returns its row and makes it RUNNING, every later claim returns nothing and
  changes nothing, until the row is gone.
\<close>

theorem claim_exclusive:
  assumes "wf_db db" "schema_ok db" "get_status i db = Some ''QUEUED''"
  shows "\<exists>r db'. claim_queued_deployment now i db = (Ok (Some (to_claim r)), db')
    \<and> r \<in> set (deployments db) \<and> dep_id r = i \<and> get_status i db' = Some ''RUNNING''
    \<and> claim_queued_deployment later i db' = (Ok None, db')"
proof -
  obtain r where r: "r \<in> set (deployments db)" "dep_id r = i" "status r = ''QUEUED''"
    using assms by (auto simp: get_status_queued queued_ids_iff)
  let ?db' = "db\<lparr>deployments := update_where (\<lambda>x. dep_id x = i \<and> status x = ''QUEUED'')
                                 (set_claimed now) (deployments db)\<rparr>"
  have eq: "claim_queued_deployment now i db = (Ok (Some (to_claim r)), ?db')"
    using claim_Some [OF assms(1,2) r(1,3)] r(2) by simp
  have "wf_db ?db'" "schema_ok ?db'" "i \<notin> queued_ids ?db'"
    using wf_claim_queued_deployment [OF assms(1), of now i] queued_ids_claimed [OF assms(1,2), of now i] eq assms(2)
    by (simp_all add: schema_ok_def)
  then have "claim_queued_deployment later i ?db' = (Ok None, ?db')" by (rule claim_None)
  moreover have "find (\<lambda>x. dep_id x = i) (deployments db) = Some r"
    using assms(1) r keyed_find [of dep_id "deployments_seq db" "deployments db" r] by (simp add: wf_db_def)
  then have "get_status i ?db' = Some ''RUNNING''"
    using r by (simp add: get_status_def find_update_where)
  ultimately show ?thesis using eq r by blast
qed

section \<open>Recovery\<close>

definition in_progress :: "string list" where
  "in_progress = [''QUEUED'', ''RUNNING'', ''CANCELLING'']"

definition transitional :: "string list" where
  "transitional = [''QUEUED'', ''STARTING'', ''STOPPING'', ''CANCELLING'']"

lemma recover_rows_clears:
  assumes "''ERROR'' \<in> set allowed"
  shows "\<exists>rows'. recover_rows allowed target deps rows = Ok rows'
    \<and> (\<forall>x \<in> set rows'. res_status x \<notin> set transitional)"
  using assms by (auto simp: recover_rows_def set_update_where stale_resource_def transitional_def)

lemma recover_kind_clears:
  assumes "''ERROR'' \<in> set (database_statuses (checks db))"
  shows "\<exists>db'. recover_kind k db = (Ok (), db') \<and> checks db' = checks db
    \<and> (\<forall>x \<in> set (databases db' k). res_status x \<notin> set transitional)
    \<and> (\<forall>k'. k' \<noteq> k \<longrightarrow> databases db' k' = databases db k')
    \<and> applications db' = applications db \<and> compose_projects db' = compose_projects db"
proof -
  obtain rows' where "recover_rows (database_statuses (checks db))
        (\<lambda>i d. database_id d = Some i
           \<and> map_option to_ascii_lowercase (database_kind d) = Some (kind_as_str k))
        (deployments db) (databases db k) = Ok rows'" "\<forall>x \<in> set rows'. res_status x \<notin> set transitional"
    using recover_rows_clears [OF assms] by blast
  then show ?thesis by (simp add: recover_kind_def)
qed

lemma recover_kinds_clears:
  assumes "''ERROR'' \<in> set (database_statuses (checks db))"
  shows "(\<forall>k \<in> set ks. \<forall>x \<in> set (databases (snd (recover_kinds ks db)) k). res_status x \<notin> set transitional)
    \<and> (\<forall>k. k \<notin> set ks \<longrightarrow> databases (snd (recover_kinds ks db)) k = databases db k)
    \<and> applications (snd (recover_kinds ks db)) = applications db
    \<and> compose_projects (snd (recover_kinds ks db)) = compose_projects db"
  using assms
proof (induction ks arbitrary: db)
  case (Cons k ks)
  obtain db' where k: "recover_kind k db = (Ok (), db')" "checks db' = checks db"
      "\<forall>x \<in> set (databases db' k). res_status x \<notin> set transitional"
      "\<forall>k'. k' \<noteq> k \<longrightarrow> databases db' k' = databases db k'"
      "applications db' = applications db" "compose_projects db' = compose_projects db"
    using recover_kind_clears [OF Cons.prems] by blast
  with Cons.IH [of db'] Cons.prems show ?case
    by (cases "k \<in> set ks") auto
qed simp

lemma recover_applications_clears:
  assumes "''ERROR'' \<in> set (application_statuses (checks db))"
  shows "\<exists>ra. recover_stale_application_statuses db = (Ok (), db\<lparr>applications := ra\<rparr>)
    \<and> (\<forall>x \<in> set ra. res_status x \<notin> set transitional)"
  using recover_rows_clears [OF assms, of "\<lambda>i d. application_id d = Some i" "deployments db" "applications db"]
  by (auto simp: recover_stale_application_statuses_def)

lemma recover_composes_clears:
  assumes "''ERROR'' \<in> set (compose_statuses (checks db))"
  shows "\<exists>rc. recover_stale_compose_statuses db = (Ok (), db\<lparr>compose_projects := rc\<rparr>)
    \<and> (\<forall>x \<in> set rc. res_status x \<notin> set transitional)"
  using recover_rows_clears [OF assms, of "\<lambda>i d. compose_id d = Some i" "deployments db" "compose_projects db"]
  by (auto simp: recover_stale_compose_statuses_def)

lemma cleanup_checks: "checks (cleanup_stale_remote_jobs kill db) = checks db"
  using cleanup_keeps(2) by (simp add: queue_step_def)

lemma mark_interrupted_clears:
  assumes "wf_db db" "schema_ok db"
  shows "\<exists>db'. mark_interrupted_as_recovered now db = (Ok (), db') \<and> checks db' = checks db
    \<and> (\<forall>r \<in> set (deployments db'). status r \<notin> set in_progress)"
proof -
  let ?P = "\<lambda>r. status r \<in> set [''QUEUED'', ''RUNNING'', ''CANCELLING'']"
  let ?f = "\<lambda>r. r\<lparr>status := ''ERROR'', state := ''RECOVERED_AFTER_RESTART'',
              error_message := coalesce (error_message r)
                (Some ''server restarted before deployment completed''),
              finished_at := Some now, last_state_at := Some now\<rparr>"
  have "exec_update ?P ?f db = (Ok (rows_affected ?P (deployments db)),
      db\<lparr>deployments := update_where ?P ?f (deployments db)\<rparr>)"
  proof (rule exec_update_ok)
    show "one_active (deployments db)" using assms(1) by (simp add: wf_db_def)
    show "status_ok db (?f r)" for r
      using schema_ok_status [OF assms(2)] by (simp add: migrated_deployment_statuses_def)
  qed (simp_all add: active_def)
  then show ?thesis
    by (auto simp: mark_interrupted_as_recovered_def map_ok_def set_update_where in_progress_def)
qed


section \<open>Finalization\<close>

lemma get_deployment_mem:
  "wf_db db \<Longrightarrow> get_deployment i db = Some r \<longleftrightarrow> r \<in> set (deployments db) \<and> dep_id r = i"
  using keyed_find [of dep_id "deployments_seq db" "deployments db" r]
  by (auto simp: get_deployment_def wf_db_def dest: find_Some_mem)

lemma get_status_alt: "get_status i db = map_option status (get_deployment i db)"
  by (simp add: get_status_def get_deployment_def)

lemma set_status_rows_sets:
  "set_status_rows al i st rows = Inr rows' \<Longrightarrow> r \<in> set rows' \<Longrightarrow> res_id r = i \<Longrightarrow> res_status r = st"
proof -
  assume *: "set_status_rows al i st rows = Inr rows'" "r \<in> set rows'" "res_id r = i"
  then have "rows' = update_where (\<lambda>r. res_id r = i) (\<lambda>r. r\<lparr>res_status := st\<rparr>) rows"
    by (simp add: set_status_rows_def split: if_splits)
  with *(2) have "(\<exists>x \<in> set rows. res_id x = i \<and> r = x\<lparr>res_status := st\<rparr>) \<or> r \<in> set rows \<and> res_id r \<noteq> i"
    by (simp only: mem_update_where)
  with *(3) show "res_status r = st" by (elim disjE bexE conjE) simp_all
qed

lemma finalize_resource_sets:
  assumes "finalize_resource a c d kind rst db = (Ok (), db')"
  shows "a = Some x \<Longrightarrow> r \<in> set (applications db') \<Longrightarrow> res_id r = x \<Longrightarrow> res_status r = rst"
    and "a = None \<Longrightarrow> c = Some x \<Longrightarrow> r \<in> set (compose_projects db') \<Longrightarrow> res_id r = x \<Longrightarrow> res_status r = rst"
    and "a = None \<Longrightarrow> c = None \<Longrightarrow> d = Some x \<Longrightarrow> kind = Some k \<Longrightarrow> kind_from_str k = Some t
      \<Longrightarrow> s \<in> set (databases db' t) \<Longrightarrow> res_id s = x \<Longrightarrow> res_status s = rst"
  using assms
  by (auto simp: finalize_resource_def set_application_status_def set_compose_status_def
      set_database_rows_def db_kind_to_table_def dest: set_status_rows_sets split: sum.splits)

text \<open>
  C6. Finalizing a deployment is atomic: either the call fails and nothing
  changed, or the deployment has its final status and the resource it was for
  (the application, else the compose project, else the database of the given
  kind) has the status that goes with it.
\<close>

theorem finalize_atomic:
  assumes "get_deployment i db = Some r0"
  shows "case finalize_with_resource now i dst err a c d kind rst db of
      (Inl e, db') \<Rightarrow> db' = db
    | (Inr _, db') \<Rightarrow> get_status i db' = Some dst
        \<and> (\<forall>x r. a = Some x \<and> r \<in> set (applications db') \<and> res_id r = x \<longrightarrow> res_status r = rst)
        \<and> (\<forall>x r. a = None \<and> c = Some x \<and> r \<in> set (compose_projects db') \<and> res_id r = x \<longrightarrow> res_status r = rst)
        \<and> (\<forall>x k t r. a = None \<and> c = None \<and> d = Some x \<and> kind = Some k \<and> kind_from_str k = Some t
             \<and> r \<in> set (databases db' t) \<and> res_id r = x \<longrightarrow> res_status r = rst)"
proof (cases rule: finalize_with_resource_cases [of now i dst err a c d kind rst db])
  case (failed e)
  then show ?thesis by simp
next
  case (finished n db1 db2)
  have d1: "deployments db1 = update_where (\<lambda>r. dep_id r = i) (set_finalized now dst err) (deployments db)"
    using finished(2) by (auto simp: exec_update_def Let_def split: if_splits)
  have d2: "deployments (finalize_previews now i dst db2) = deployments db1"
    using same_finalized [OF finished(3)] by (simp add: same_deployments_def)
  have "find (\<lambda>r. dep_id r = i) (deployments db) = Some r0" "dep_id r0 = i"
    using assms by (auto simp: get_deployment_def dest: find_Some_mem)
  then have "get_status i (finalize_previews now i dst db2) = Some dst"
    by (simp add: get_status_def d2 d1 find_update_where)
  moreover have "applications (finalize_previews now i dst db2) = applications db2"
      "compose_projects (finalize_previews now i dst db2) = compose_projects db2"
      "databases (finalize_previews now i dst db2) = databases db2"
    by (simp_all add: finalize_previews_def)
  ultimately show ?thesis
    using finished(1) finalize_resource_sets [OF finished(3)] by simp
qed

section \<open>What the migrated schema refuses\<close>

lemma cancelling_refused:
  assumes "checks db = migrated_checks" "r \<in> set (deployments db)" "P r"
  shows "exec_update P (set_cancelling now) db = (Err (Constraint ''deployment_status_check''), db)"
proof -
  have "\<not> status_ok db (set_cancelling now r)"
    by (simp add: status_ok_def assms(1) migrated_checks_def migrated_deployment_statuses_def)
  with assms(2,3) have "list_ex (\<lambda>r. P r \<and> \<not> status_ok db (set_cancelling now r)) (deployments db)"
    by (auto simp: list_ex_iff)
  then show ?thesis by (simp add: exec_update_def)
qed

text \<open>
  C7. On the migrated database a running deployment cannot be marked as being
  cancelled: the status CANCELLING violates the CHECK constraint, so the cancel
  call reports an error and leaves the row RUNNING, although it has already
  cancelled the job's token.
\<close>

theorem cancel_running_reports_error:
  assumes "checks db = migrated_checks" "get_deployment dep db = Some r" "status r = ''RUNNING''"
    "cancel_target (application_id r) (compose_id r) (database_id r) = Some target" "hm_get target m = Some e"
  shows "deployment_cancel C now dep db m
    = (Err (Constraint ''deployment_status_check''), db, hm_insert target (cancel_entry C e) m)"
proof -
  have info: "get_cancel_info dep db = Some (application_id r, compose_id r, database_id r, ''RUNNING'')"
    using assms(2,3) by (simp add: get_cancel_info_def get_deployment_def)
  have r: "r \<in> set (deployments db)" "dep_id r = dep"
    using assms(2) by (auto simp: get_deployment_def dest: find_Some_mem)
  have "set_cancel_requested now dep db = (Err (Constraint ''deployment_status_check''), db)"
    using cancelling_refused [OF assms(1) r(1), of "\<lambda>r. dep_id r = dep \<and> status r = ''RUNNING''" now] r(2) assms(3)
    by (simp add: set_cancel_requested_def map_ok_def)
  then show ?thesis using info assms(4,5) by (simp add: deployment_cancel_def cancel_by_id_def)
qed

text \<open>
  C8. On the migrated database a compose job that stops its project
  successfully is not recorded: STOPPED violates the CHECK constraint of
  compose_projects, the final transaction is rolled back, and the deployment
  stays RUNNING, so the project keeps counting as being deployed.
\<close>

theorem compose_stop_not_recorded:
  assumes "checks db = migrated_checks" "find_resource cmp (compose_projects db) = Some row"
    "get_deployment dep db = Some r" "status r = ''RUNNING''" "compose_id r = Some cmp"
    "execute_operation_compose E cmp dep CStop = Ok ()"
  shows "fst (process True E now dep None (Some cmp) None None ''stop'' db m) = db
    \<and> has_running_compose_deployment cmp db"
proof -
  have op: "execute_job E dep None (Some cmp) None None ''stop'' = Ok ()"
    using assms(6) by (simp add: execute_job_def parse_compose_operation_def)
  have row: "list_ex (\<lambda>r. res_id r = cmp) (compose_projects db)"
    using assms(2) by (auto simp: find_resource_def list_ex_iff dest: find_Some_mem)
  have "''STOPPED'' \<notin> set (compose_statuses (checks db))"
    by (simp add: assms(1) migrated_checks_def)
  have "\<exists>e. finalize_with_resource now dep ''DONE'' None None (Some cmp) None None ''STOPPED'' db = (Err e, db)"
  proof (cases rule: finalize_with_resource_cases [of now dep "''DONE''" None None "Some cmp" None None "''STOPPED''" db])
    case (finished n db1 db2)
    have "compose_projects db1 = compose_projects db" "checks db1 = checks db"
      using finished(2) by (auto simp: exec_update_def Let_def split: if_splits)
    then have "finalize_resource None (Some cmp) None None ''STOPPED'' db1 = (Err (Constraint ''status_check''), db1)"
      using row assms(1)
      by (simp add: finalize_resource_def set_compose_status_def set_status_rows_def migrated_checks_def)
    with finished(3) show ?thesis by simp
  qed blast
  moreover have "target_status_of ''DONE'' ''stop'' = ''STOPPED''"
    by (simp add: target_status_of_def eq_ignore_ascii_case_def)
  ultimately have "fst (process True E now dep None (Some cmp) None None ''stop'' db m) = db"
    by (auto simp: fst_process op final_status_of_def err_of_def)
  moreover have "has_running_compose_deployment cmp db"
    using assms(3-5) by (auto simp: has_running_compose_deployment_def get_deployment_def list_ex_iff active_def
        dest: find_Some_mem)
  ultimately show ?thesis by simp
qed

section \<open>Admission\<close>

lemma and_then_simps [simp]:
  "and_then (Inl e, db) k = (Err e, db)" "and_then (Inr x, db) k = k x db"
  by (simp_all add: and_then_def)

text \<open>The row and the database after a successful request for an application.\<close>

definition queued_row :: "int \<Rightarrow> application_operation \<Rightarrow> int \<Rightarrow> resource_row \<Rightarrow> deployment" where
  "queued_row now op i app = (default_deployment now)\<lparr>title := application_op_title op,
     description := Some (application_op_as_str op @ '' requested for '' @ res_name app), status := ''QUEUED'',
     state := ''QUEUE'', log_path := ''pending-app-'' @ int_to_dec i, operation := Some (application_op_as_str op),
     application_id := Some i, server_id := res_server_id app, last_state_at := Some now\<rparr>"

lemma create_queued_ok:
  assumes "wf_db db" "schema_ok db" "\<not> has_running_deployment i db"
    "find_resource i (applications db) = Some app" "fk_opt (servers db) (res_server_id app)"
  shows "create_queued_deployment now (application_op_title op)
      (Some (application_op_as_str op @ '' requested for '' @ res_name app))
      (''pending-app-'' @ int_to_dec i) (application_op_as_str op) i (res_server_id app) db
    = (Ok (deployments_seq db + 1),
       db\<lparr>deployments := deployments db @ [(queued_row now op i app)\<lparr>dep_id := deployments_seq db + 1\<rparr>],
          deployments_seq := deployments_seq db + 1\<rparr>)"
  unfolding create_queued_deployment_def queued_row_def
proof (rule exec_insert_ok [OF assms(1)], goal_cases)
  case 1
  show ?case using schema_ok_status [OF assms(2)] by (simp add: migrated_deployment_statuses_def)
next
  case 2
  have "i \<in> set (map res_id (applications db))"
    using assms(4) by (auto simp: find_resource_def dest: find_Some_mem)
  with assms(5) show ?case by (simp add: fk_ok_def fk_opt_def default_deployment_def)
next
  case 3
  show ?case using assms(3) by (auto simp: has_running_deployment_def list_ex_iff)
next
  case 4
  show ?case by (auto simp: default_deployment_def list_ex_iff)
qed

lemma application_run_start:
  assumes "\<not> has_running_deployment i db" "ensure_capacity env db = Ok ()"
    "find_resource i (applications db) = Some app" "assert_deployable mgmt (res_server_id app) = Ok ()"
  shows "application_run_operation env mgmt base now i op db =
    and_then (create_queued_deployment now (application_op_title op)
        (Some (application_op_as_str op @ '' requested for '' @ res_name app))
        (''pending-app-'' @ int_to_dec i) (application_op_as_str op) i (res_server_id app) db)
      (\<lambda>dep db. and_then (application_update_status i ''STARTING'' db) (\<lambda>_ db.
         and_then (update_log_path dep (deployment_log_file base dep) db) (\<lambda>_ db. (Ok (app, Some dep, op), db))))"
  using assms by (simp add: application_run_operation_def application_get_def cached_get_def)

text \<open>
  C9. On the migrated database a deployment request for an application that
  passes every check still fails: its row is inserted as QUEUED, then the status
  STARTING violates the CHECK constraint of applications, so the caller gets an
  error while the deployment stays in the queue.
\<close>

theorem application_request_fails_but_queues:
  assumes "wf_db db" "checks db = migrated_checks" "\<not> has_running_deployment i db"
    "ensure_capacity env db = Ok ()" "find_resource i (applications db) = Some app"
    "assert_deployable mgmt (res_server_id app) = Ok ()" "fk_opt (servers db) (res_server_id app)"
  shows "\<exists>db'. application_run_operation env mgmt base now i op db = (Err (Constraint ''status_check''), db')
    \<and> deployments_seq db + 1 \<in> queued_ids db'"
proof -
  let ?row = "(queued_row now op i app)\<lparr>dep_id := deployments_seq db + 1\<rparr>"
  let ?db1 = "db\<lparr>deployments := deployments db @ [?row], deployments_seq := deployments_seq db + 1\<rparr>"
  have "list_ex (\<lambda>r. res_id r = i) (applications db)"
    using assms(5) by (auto simp: find_resource_def list_ex_iff dest: find_Some_mem)
  then have "application_update_status i ''STARTING'' ?db1 = (Err (Constraint ''status_check''), ?db1)"
    using assms(2)
    by (simp add: application_update_status_def set_application_status_def set_status_rows_def migrated_checks_def)
  moreover have "deployments_seq db + 1 \<in> queued_ids ?db1" by (simp add: queued_ids_def queued_row_def)
  moreover have "schema_ok db" using assms(2) schema_ok_migrated by blast
  ultimately show ?thesis
    using application_run_start [OF assms(3-6)] create_queued_ok [OF assms(1) _ assms(3,5,7)] by simp
qed

text \<open>
  On a database with the constraints that db/schema declares the same
  request succeeds: one QUEUED deployment with the next id, its log file path
  stored, and the application STARTING.
\<close>

theorem application_request_queues:
  assumes "wf_db db" "checks db = declared_checks" "\<not> has_running_deployment i db"
    "ensure_capacity env db = Ok ()" "find_resource i (applications db) = Some app"
    "assert_deployable mgmt (res_server_id app) = Ok ()" "fk_opt (servers db) (res_server_id app)"
  shows "\<exists>db'. application_run_operation env mgmt base now i op db
      = (Ok (app, Some (deployments_seq db + 1), op), db')
    \<and> map_option (\<lambda>r. (status r, log_path r, application_id r)) (get_deployment (deployments_seq db + 1) db')
      = Some (''QUEUED'', deployment_log_file base (deployments_seq db + 1), Some i)
    \<and> map_option res_status (find_resource i (applications db')) = Some ''STARTING''
    \<and> get_queued_count db' = Suc (get_queued_count db)"
proof -
  define n where "n = deployments_seq db + 1"
  define row where "row = (queued_row now op i app)\<lparr>dep_id := n\<rparr>"
  define apps where "apps = update_where (\<lambda>r. res_id r = i) (\<lambda>r. r\<lparr>res_status := ''STARTING''\<rparr>) (applications db)"
  define db1 where "db1 = db\<lparr>deployments := deployments db @ [row], deployments_seq := n\<rparr>"
  define db2 where "db2 = db1\<lparr>applications := apps\<rparr>"
  define lp where "lp = deployment_log_file base n"
  have row: "dep_id row = n" "status row = ''QUEUED''" "application_id row = Some i"
    by (simp_all add: row_def queued_row_def)
  have sch: "schema_ok db" using assms(2) schema_ok_migrated by blast
  have c: "create_queued_deployment now (application_op_title op)
      (Some (application_op_as_str op @ '' requested for '' @ res_name app))
      (''pending-app-'' @ int_to_dec i) (application_op_as_str op) i (res_server_id app) db = (Ok n, db1)"
    using create_queued_ok [OF assms(1) sch assms(3,5,7)] by (simp add: n_def db1_def row_def)
  have fa: "find_resource i apps = Some (app\<lparr>res_status := ''STARTING''\<rparr>)"
    using assms(5) find_Some_mem [of "\<lambda>r. res_id r = i" "applications db" app]
    by (simp add: apps_def find_resource_def find_update_where)
  have u: "application_update_status i ''STARTING'' db1 = (Ok (app\<lparr>res_status := ''STARTING''\<rparr>), db2)"
    using assms(2) fa
    by (simp add: application_update_status_def set_application_status_def set_status_rows_def db1_def
        declared_checks_def db2_def apps_def fetch_one_def)
  have wf1: "wf_db db1"
    using wf_exec_insert [OF assms(1), of "queued_row now op i app"] c
    unfolding create_queued_deployment_def queued_row_def by simp
  have one: "one_active (deployments db2)" using wf1 by (simp add: wf_db_def db2_def)
  have ids: "\<forall>r \<in> set (deployments db). dep_id r \<noteq> n"
    using assms(1) by (auto simp: wf_db_def keyed_def n_def)
  have upd: "update_where (\<lambda>r. dep_id r = n) (\<lambda>r. r\<lparr>log_path := lp\<rparr>) (deployments db2)
      = deployments db @ [row\<lparr>log_path := lp\<rparr>]"
    using ids row(1) update_where_none [of "deployments db" "\<lambda>r. dep_id r = n"]
    by (simp add: db2_def db1_def update_where_def)
  have "\<forall>r \<in> set (deployments db2). status_ok db2 r"
    using wf1 by (simp add: wf_db_def db2_def status_ok_def)
  then have l: "update_log_path n lp db2 = (Ok (), db2\<lparr>deployments := deployments db @ [row\<lparr>log_path := lp\<rparr>]\<rparr>)"
    using exec_update_ok [OF one, of "\<lambda>r. dep_id r = n" "\<lambda>r. r\<lparr>log_path := lp\<rparr>"] upd
    by (simp add: update_log_path_def map_ok_def active_def status_ok_def)
  have res: "application_run_operation env mgmt base now i op db
      = (Ok (app, Some n, op), db2\<lparr>deployments := deployments db @ [row\<lparr>log_path := lp\<rparr>]\<rparr>)"
    using application_run_start [OF assms(3-6), of base now op] c u l by (simp add: lp_def)
  have "find (\<lambda>r. dep_id r = n) (deployments db) = None" using ids by (simp add: find_None_iff)
  then have g: "find (\<lambda>r. dep_id r = n) (deployments db @ [row\<lparr>log_path := lp\<rparr>]) = Some (row\<lparr>log_path := lp\<rparr>)"
    using row(1) by (simp add: find_append_None)
  show ?thesis
    unfolding n_def [symmetric] using res g fa row
    by (intro exI [of _ "db2\<lparr>deployments := deployments db @ [row\<lparr>log_path := lp\<rparr>]\<rparr>"])
      (simp add: get_deployment_def lp_def db2_def db1_def get_queued_count_def)
qed

text \<open>
  A second deployment of an application cannot enter the queue: while one
  is queued or running the request is refused, and a request that slipped past
  that check is refused by the partial UNIQUE index; neither changes the
  database.
\<close>

theorem second_deployment_refused:
  assumes "has_running_deployment i db"
  shows "snd (application_run_operation env mgmt base now i op db) = db
    \<and> \<not> is_ok (fst (application_run_operation env mgmt base now i op db))
    \<and> snd (create_queued_deployment now ttl descr lp opr i srv db) = db
    \<and> \<not> is_ok (fst (create_queued_deployment now ttl descr lp opr i srv db))"
proof -
  obtain r where r: "r \<in> set (deployments db)" "application_id r = Some i" "active r"
    using assms by (auto simp: has_running_deployment_def list_ex_iff)
  have "\<not> one_active (deployments db @ [x])" if "application_id x = Some i" "active x" for x
    using r that by (auto simp: one_active_def active_keys_append set_active_keys)
  then show ?thesis
    using assms
    by (simp add: application_run_operation_def create_queued_deployment_def exec_insert_def Let_def active_def
        default_deployment_def)
qed


section \<open>Witnesses\<close>

text \<open>A panel with one application, one compose project and the given deployments.\<close>

definition example_db :: "status_checks \<Rightarrow> deployment list \<Rightarrow> panel_db" where
  "example_db ch deps = \<lparr> deployments = deps, deployments_seq = int (length deps),
     applications = [\<lparr> res_id = 1, res_name = ''web'', res_app_name = ''web-a1'', res_status = ''IDLE'',
        res_server_id = None, res_environment_id = 1 \<rparr>],
     compose_projects = [\<lparr> res_id = 2, res_name = ''stack'', res_app_name = ''stack-b2'', res_status = ''RUNNING'',
        res_server_id = None, res_environment_id = 1 \<rparr>],
     databases = (\<lambda>_. []), preview_deployments = [], servers = [], environments = [(1, 1)],
     projects = [(1, 1)], checks = ch \<rparr>"

definition example_app_row :: deployment where
  "example_app_row = (default_deployment 100)\<lparr>dep_id := 1, application_id := Some 1, operation := Some ''deploy''\<rparr>"

definition example_compose_row :: deployment where
  "example_compose_row = (default_deployment 100)\<lparr>dep_id := 1, status := ''RUNNING'', compose_id := Some 2,
     operation := Some ''stop''\<rparr>"

lemma example_wf:
  "wf_db (example_db migrated_checks [])" "wf_db (example_db declared_checks [])"
  "wf_db (example_db migrated_checks [example_app_row])"
  "wf_db (example_db migrated_checks [example_compose_row])"
  by code_simp+

lemma example_schema [simp]: "schema_ok (example_db migrated_checks deps)" "schema_ok (example_db declared_checks deps)"
  by (rule schema_ok_migrated, simp add: example_db_def)+

text \<open>A run of the queue: recovery, a request, and a pass of the dispatcher that starts one worker.\<close>

definition example_queue :: "nat builder_queue" where
  "example_queue =
     (let q0 = queue_start 100 (\<lambda>_ _. True) (builder_queue_new None (example_db migrated_checks []));
          q1 = q0\<lparr>q_db := apply_op 101 (CreateQueuedApp ''t'' None ''p'' ''deploy'' 1 None) (q_db q0)\<rparr>;
          q2 = q1\<lparr>pending := get_queued_deployments_grouped (q_db q1)\<rparr>
      in dispatch_one counting_semaphore (claim_queued_deployment 102) (1, None) (q2\<lparr>pending := []\<rparr>))"

lemma example_queue_reachable:
  "queue_reachable counting_semaphore None (example_db migrated_checks []) example_queue"
proof -
  let ?S = counting_semaphore and ?db = "example_db migrated_checks []"
  define q0 where "q0 = queue_start 100 (\<lambda>_ _. True) (builder_queue_new None ?db :: nat builder_queue)"
  define q1 where "q1 = q0\<lparr>q_db := apply_op 101 (CreateQueuedApp ''t'' None ''p'' ''deploy'' 1 None) (q_db q0)\<rparr>"
  define q2 where "q2 = q1\<lparr>pending := get_queued_deployments_grouped (q_db q1)\<rparr>"
  have "queue_reachable ?S None ?db q0" unfolding q0_def by (rule queue_reachable.start)
  moreover have "qstep ?S q0 q1" unfolding q1_def by (rule qstep.repo_call) simp
  moreover have p: "pending q1 = []"
    by (simp add: q1_def q0_def queue_start_def builder_queue_new_def)
  then have "qstep ?S q1 q2" unfolding q2_def by (rule qstep.pass_start)
  moreover have "get_queued_deployments_grouped (q_db q1) = [(1, None)]"
    unfolding q1_def q0_def by code_simp
  then have "pending q2 = [(1, None)]" by (simp add: q2_def)
  then have "qstep ?S q2 (dispatch_one ?S (claim_queued_deployment 102) (1, None) (q2\<lparr>pending := []\<rparr>))"
    by (rule qstep.pass_next [where now = 102]) (simp add: claim_call_def)
  ultimately have "queue_reachable ?S None ?db (dispatch_one ?S (claim_queued_deployment 102) (1, None) (q2\<lparr>pending := []\<rparr>))"
    by (meson queue_reachable.step)
  then show ?thesis by (simp add: example_queue_def Let_def q0_def q1_def q2_def)
qed

lemma example_queue_workers: "worker_ids (on_server None (workers example_queue)) = [1]" "spawned example_queue = [1]"
  by code_simp+

theorem queue_per_server_bound_witness:
  "worker_ids (on_server None (workers example_queue)) = [1]
   \<and> length (on_server None (workers example_queue)) \<le> per_server_limit_of None"
  using queue_per_server_bound [OF counting.semaphore_axioms example_queue_reachable, of None] example_queue_workers
  by simp

theorem queue_at_most_once_witness:
  "spawned example_queue = [1] \<and> get_status 1 (q_db example_queue) \<noteq> Some ''QUEUED''"
  using queue_at_most_once [OF example_queue_reachable example_wf(1) example_schema(1)] example_queue_workers(2)
  by simp

theorem dispatch_fifo_witness:
  "\<exists>new. workers (dispatch_available counting_semaphore (claim_queued_deployment 102)
        (builder_queue_new None (example_db migrated_checks [example_app_row]))) = new
    \<and> worker_ids (on_server None new) = [1]"
proof -
  let ?q = "builder_queue_new None (example_db migrated_checks [example_app_row]) :: nat builder_queue"
  have "wf_db (q_db ?q)" "schema_ok (q_db ?q)"
    using example_wf(3) by (simp_all add: builder_queue_new_def)
  from dispatch_fifo [OF counting.semaphore_axioms this, of 102] obtain new where
    "workers (dispatch_available counting_semaphore (claim_queued_deployment 102) ?q) = workers ?q @ new"
    "worker_ids (on_server None new) = take (free_permits (\<lambda>n. n) None ?q)
             (map fst (filter (\<lambda>p. snd p = None) (get_queued_deployments_grouped (q_db ?q))))" by auto
  moreover have "workers ?q = []" by (simp add: builder_queue_new_def)
  moreover have "take (free_permits (\<lambda>n. n) None ?q)
             (map fst (filter (\<lambda>p. snd p = None) (get_queued_deployments_grouped (q_db ?q)))) = [1]"
    by code_simp
  ultimately show ?thesis by simp
qed


theorem claim_exclusive_witness:
  "\<exists>r db'. claim_queued_deployment 5 1 (example_db migrated_checks [example_app_row]) = (Ok (Some (to_claim r)), db')
    \<and> r \<in> set (deployments (example_db migrated_checks [example_app_row])) \<and> dep_id r = 1
    \<and> get_status 1 db' = Some ''RUNNING'' \<and> claim_queued_deployment 6 1 db' = (Ok None, db')"
proof -
  have "get_status 1 (example_db migrated_checks [example_app_row]) = Some ''QUEUED''" by code_simp
  from claim_exclusive [OF example_wf(3) example_schema(1) this] show ?thesis .
qed


theorem finalize_atomic_witness:
  "\<exists>db'. finalize_with_resource 9 1 ''DONE'' None (Some 1) None None None ''RUNNING''
      (example_db migrated_checks [example_app_row]) = (Ok (), db') \<and> get_status 1 db' = Some ''DONE''"
proof -
  let ?db = "example_db migrated_checks [example_app_row]"
  have g: "get_deployment 1 ?db = Some example_app_row" by (simp add: get_deployment_def example_db_def example_app_row_def)
  have "is_ok (fst (finalize_with_resource 9 1 ''DONE'' None (Some 1) None None None ''RUNNING'' ?db))" by code_simp
  then obtain db' where f: "finalize_with_resource 9 1 ''DONE'' None (Some 1) None None None ''RUNNING'' ?db = (Ok (), db')"
    by (cases "finalize_with_resource 9 1 ''DONE'' None (Some 1) None None None ''RUNNING'' ?db") (auto simp: is_ok_def split: sum.splits)
  then show ?thesis
    using finalize_atomic [OF g, where now = 9 and dst = "''DONE''" and err = None and a = "Some 1" and c = None
        and d = None and kind = None and rst = "''RUNNING''"] by simp
qed

definition example_channels :: "(unit, unit, bool) channel_ops" where
  "example_channels = \<lparr> watch_channel = (\<lambda>_. ()), watch_send = (\<lambda>_ _. ()), watch_subscribe = (\<lambda>_. ()),
     watch_borrow = (\<lambda>_. Queue), broadcast_channel = (\<lambda>_. ()), broadcast_send = (\<lambda>_ _. ()),
     broadcast_subscribe = (\<lambda>_. ()), token_new = False, token_cancel = (\<lambda>_. True) \<rparr>"

theorem cancel_running_reports_error_witness:
  "fst (deployment_cancel example_channels 8 1 (example_db migrated_checks [example_compose_row])
     (add_default example_channels (ComposeId 2) 1 1 [])) = Err (Constraint ''deployment_status_check'')"
proof -
  let ?db = "example_db migrated_checks [example_compose_row]" and ?m = "add_default example_channels (ComposeId 2) 1 1 []"
  have "get_deployment 1 ?db = Some example_compose_row"
    by (simp add: get_deployment_def example_db_def example_compose_row_def)
  moreover have "checks ?db = migrated_checks" by (simp add: example_db_def)
  moreover have "hm_get (ComposeId 2) ?m = Some (default_deploy example_channels (ComposeId 2) 1 1)"
    by (simp add: add_default_def hm_get_insert)
  ultimately show ?thesis
    using cancel_running_reports_error [of ?db 1 example_compose_row "ComposeId 2" ?m]
    by (simp add: example_compose_row_def cancel_target_def default_deployment_def)
qed

definition example_exec :: exec_ops where
  "example_exec = \<lparr> execute_operation_app = (\<lambda>_ _ _. Ok ()), execute_operation_compose = (\<lambda>_ _ _. Ok ()),
     execute_operation_db = (\<lambda>_ _ _ _. Ok ()) \<rparr>"

theorem compose_stop_not_recorded_witness:
  "fst (process True example_exec 8 1 None (Some 2) None None ''stop''
     (example_db migrated_checks [example_compose_row]) ([] :: (unit, unit, bool) app_state))
   = example_db migrated_checks [example_compose_row]"
proof -
  let ?db = "example_db migrated_checks [example_compose_row]"
  have "get_deployment 1 ?db = Some example_compose_row" "checks ?db = migrated_checks"
      "\<exists>r. find_resource 2 (compose_projects ?db) = Some r"
    by (simp_all add: get_deployment_def example_db_def example_compose_row_def find_resource_def)
  then show ?thesis
    using compose_stop_not_recorded [of ?db 2 _ 1 example_compose_row example_exec]
    by (auto simp: example_compose_row_def example_exec_def)
qed

lemma example_request:
  "\<not> has_running_deployment 1 (example_db ch [])" "ensure_capacity None (example_db ch []) = Ok ()"
  "\<exists>app. find_resource 1 (applications (example_db ch [])) = Some app \<and> res_server_id app = None"
  "checks (example_db ch []) = ch"
  by (simp_all add: has_running_deployment_def example_db_def ensure_capacity_def queue_max_size_def
      get_queued_count_def find_resource_def)

theorem application_request_fails_but_queues_witness:
  "\<exists>db'. application_run_operation None (\<lambda>_. (0, None)) ''/etc/openoxide'' 9 1 ADeploy (example_db migrated_checks [])
      = (Err (Constraint ''status_check''), db') \<and> 1 \<in> queued_ids db'"
proof -
  obtain app where app: "find_resource 1 (applications (example_db migrated_checks [])) = Some app" "res_server_id app = None"
    using example_request(3) by blast
  then show ?thesis
    using application_request_fails_but_queues [OF example_wf(1) example_request(4,1,2) app(1),
        of "\<lambda>_. (0, None)" "''/etc/openoxide''" 9 ADeploy]
    by (simp add: assert_deployable_def fk_opt_def example_db_def)
qed

theorem application_request_queues_witness:
  "\<exists>db' app. application_run_operation None (\<lambda>_. (0, None)) ''/etc/openoxide'' 9 1 ADeploy (example_db declared_checks [])
      = (Ok (app, Some 1, ADeploy), db')
    \<and> map_option res_status (find_resource 1 (applications db')) = Some ''STARTING''"
proof -
  obtain app where app: "find_resource 1 (applications (example_db declared_checks [])) = Some app" "res_server_id app = None"
    using example_request(3) by blast
  then show ?thesis
    using application_request_queues [OF example_wf(2) example_request(4,1,2) app(1),
        of "\<lambda>_. (0, None)" "''/etc/openoxide''" 9 ADeploy]
    by (auto simp: assert_deployable_def fk_opt_def example_db_def)
qed

theorem second_deployment_refused_witness:
  "snd (application_run_operation None (\<lambda>_. (0, None)) ''/b'' 9 1 ARedeploy (example_db migrated_checks [example_app_row]))
   = example_db migrated_checks [example_app_row]"
proof -
  have "has_running_deployment 1 (example_db migrated_checks [example_app_row])" by code_simp
  from second_deployment_refused [OF this] show ?thesis by blast
qed


end
