(* ===== verification/Alert.thy ===== *)
theory Alert
  imports Complex_Main BuilderJob
begin

text \<open>
  The alert engine, \<open>src/src/services/alert/\<close>: parsing of stored rules, the
  sliding window per rule and target, evaluation of a batch of readings with
  cooldown, and the dispatch of the alerts that fired.  Readings and thresholds
  (\<open>f64\<close>) are real numbers; comparisons are exact.
\<close>

section \<open>Rules\<close>

datatype alert_parse_error =
    TargetError string | MetricError string | OperatorError string | EventStateError string | MissingId string

datatype metric_kind = Cpu | Memory | Disk

definition metric_label :: "metric_kind \<Rightarrow> string" where
  "metric_label k = (case k of Cpu \<Rightarrow> ''CPU'' | Memory \<Rightarrow> ''Memory'' | Disk \<Rightarrow> ''Disk'')"

definition metric_from_str :: "string \<Rightarrow> (alert_parse_error, metric_kind) result" where
  "metric_from_str raw = (let s = to_ascii_uppercase (trim raw) in
     if s \<in> set [''CPU'', ''CPU_PERCENT''] then Ok Cpu
     else if s \<in> set [''MEMORY'', ''MEM'', ''MEMORY_PERCENT'', ''RAM''] then Ok Memory
     else if s \<in> set [''DISK'', ''DISK_PERCENT'', ''STORAGE''] then Ok Disk
     else Err (MetricError s))"

datatype operator = GreaterThan | GreaterOrEqual | LessThan | LessOrEqual | Equal

definition operator_symbol :: "operator \<Rightarrow> string" where
  "operator_symbol p = (case p of GreaterThan \<Rightarrow> ''>'' | GreaterOrEqual \<Rightarrow> ''>='' | LessThan \<Rightarrow> ''<''
     | LessOrEqual \<Rightarrow> ''<='' | Equal \<Rightarrow> ''=='')"

definition operator_from_str :: "string \<Rightarrow> (alert_parse_error, operator) result" where
  "operator_from_str raw = (let s = to_ascii_uppercase (trim raw) in
     if s \<in> set [''>'', ''GT'', ''GREATER_THAN''] then Ok GreaterThan
     else if s \<in> set [''>='', ''GTE'', ''GREATER_OR_EQUAL''] then Ok GreaterOrEqual
     else if s \<in> set [''<'', ''LT'', ''LESS_THAN''] then Ok LessThan
     else if s \<in> set [''<='', ''LTE'', ''LESS_OR_EQUAL''] then Ok LessOrEqual
     else if s \<in> set [''=='', ''='', ''EQ'', ''EQUAL''] then Ok Equal
     else Err (OperatorError s))"

definition f64_epsilon :: real where
  "f64_epsilon = 1 / 2 ^ 52"

definition compare :: "operator \<Rightarrow> real \<Rightarrow> real \<Rightarrow> bool" where
  "compare p v t = (case p of
      GreaterThan \<Rightarrow> t < v
    | GreaterOrEqual \<Rightarrow> t \<le> v
    | LessThan \<Rightarrow> v < t
    | LessOrEqual \<Rightarrow> v \<le> t
    | Equal \<Rightarrow> \<bar>v - t\<bar> < max f64_epsilon (\<bar>t\<bar> / 10 ^ 9))"

datatype target_kind = TServer | TApplication | TDatabase | TCompose

definition target_from_str :: "string \<Rightarrow> (alert_parse_error, target_kind) result" where
  "target_from_str raw = (let s = to_ascii_uppercase (trim raw) in
     if s = ''SERVER'' then Ok TServer
     else if s \<in> set [''APPLICATION'', ''APP''] then Ok TApplication
     else if s \<in> set [''DATABASE'', ''DB''] then Ok TDatabase
     else if s = ''COMPOSE'' then Ok TCompose
     else Err (TargetError s))"

record alert_rule =
  ar_id :: "int option"
  ar_name :: string
  ar_target_type :: string
  ar_target_id :: int
  ar_metric_name :: string
  ar_operator :: string
  ar_threshold :: real
  ar_duration_seconds :: int
  ar_notification_channel :: string
  ar_enabled :: int
  ar_organization_id :: int
  ar_created_at :: int
  ar_updated_at :: int

record parsed_rule =
  rule_id :: int
  rule_name :: string
  rule_target_kind :: target_kind
  rule_target_id :: int
  rule_metric :: metric_kind
  rule_operator :: operator
  rule_threshold :: real
  rule_window_samples :: nat
  rule_cooldown_seconds :: int
  rule_organization_id :: int

definition window_samples_for :: "int \<Rightarrow> int \<Rightarrow> nat" where
  "window_samples_for duration interval =
     (if duration \<le> 0 then 15
      else min (nat (max (duration div max interval 1) 1)) 300)"

definition cooldown_for :: "int \<Rightarrow> int" where
  "cooldown_for duration = (if duration \<le> 0 then 300 else max 1 (min 3600 duration))"

definition from_row :: "alert_rule \<Rightarrow> int \<Rightarrow> (alert_parse_error, parsed_rule option) result" where
  "from_row r interval =
     (if ar_enabled r = 0 then Ok None
      else (case ar_id r of
        None \<Rightarrow> Err (MissingId (ar_name r))
      | Some i \<Rightarrow> (case target_from_str (ar_target_type r) of
          Inl e \<Rightarrow> Err e
        | Inr k \<Rightarrow> (case metric_from_str (ar_metric_name r) of
            Inl e \<Rightarrow> Err e
          | Inr mk \<Rightarrow> (case operator_from_str (ar_operator r) of
              Inl e \<Rightarrow> Err e
            | Inr p \<Rightarrow> Ok (Some \<lparr> rule_id = i, rule_name = ar_name r, rule_target_kind = k,
                rule_target_id = ar_target_id r, rule_metric = mk, rule_operator = p,
                rule_threshold = ar_threshold r,
                rule_window_samples = window_samples_for (ar_duration_seconds r) interval,
                rule_cooldown_seconds = cooldown_for (ar_duration_seconds r),
                rule_organization_id = ar_organization_id r \<rparr>))))))"

definition state_key :: "int \<Rightarrow> string \<Rightarrow> string" where
  "state_key rid target = int_to_dec rid @ '':'' @ target"

section \<open>Windows\<close>

record metric_sample =
  cpu_percent :: real
  memory_percent :: real
  disk_percent :: real

definition value_for :: "metric_sample \<Rightarrow> metric_kind \<Rightarrow> real" where
  "value_for s k = (case k of Cpu \<Rightarrow> cpu_percent s | Memory \<Rightarrow> memory_percent s | Disk \<Rightarrow> disk_percent s)"

record sample_window =
  win_capacity :: nat
  win_samples :: "bool list"

definition window_new :: "nat \<Rightarrow> sample_window" where
  "window_new c = \<lparr> win_capacity = max c 1, win_samples = [] \<rparr>"

text \<open>
  The quotient \<open>breaches / len\<close> is compared with 0.8 in \<open>f64\<close>: for windows of
  at most 300 samples a quotient other than 4/5 differs from it by far more
  than the rounding error, so the comparison is \<open>4 * len \<le> 5 * breaches\<close>.
\<close>

definition window_push :: "bool \<Rightarrow> sample_window \<Rightarrow> bool \<times> sample_window" where
  "window_push breached w =
     (let kept = (if length (win_samples w) = win_capacity w then tl (win_samples w) else win_samples w);
          samples = kept @ [breached];
          w' = w\<lparr>win_samples := samples\<rparr>
      in if length samples < win_capacity w then (False, w')
         else (4 * length samples \<le> 5 * length (filter (\<lambda>b. b) samples), w'))"

definition window_reset :: "sample_window \<Rightarrow> sample_window" where
  "window_reset w = w\<lparr>win_samples := []\<rparr>"

section \<open>Evaluation\<close>

record target_reading =
  read_kind :: target_kind
  read_key :: string
  read_display_name :: string
  read_sample :: metric_sample

record fired_alert =
  fired_rule_id :: int
  fired_rule_name :: string
  fired_target_key :: string
  fired_target_kind :: target_kind
  fired_target_display :: string
  fired_metric_label :: string
  fired_operator_symbol :: string
  fired_value :: real
  fired_threshold :: real
  fired_window_samples :: nat
  fired_organization_id :: int

record engine_entry =
  entry_window :: sample_window
  last_fired_at :: "int option"

type_synonym alert_engine = "(string, engine_entry) hash_map"

definition i64_saturating_sub :: "int \<Rightarrow> int \<Rightarrow> int" where
  "i64_saturating_sub a b = max (- (2 ^ 63)) (min (2 ^ 63 - 1) (a - b))"

definition rule_covers :: "parsed_rule \<Rightarrow> target_reading \<Rightarrow> bool" where
  "rule_covers rule rd =
     (if rule_target_kind rule \<noteq> read_kind rd then False
      else if rule_target_id rule = 0 then True
      else read_key rd = int_to_dec (rule_target_id rule))"

definition fired_of :: "parsed_rule \<Rightarrow> target_reading \<Rightarrow> fired_alert" where
  "fired_of rule rd = \<lparr> fired_rule_id = rule_id rule, fired_rule_name = rule_name rule,
     fired_target_key = read_key rd, fired_target_kind = read_kind rd,
     fired_target_display = read_display_name rd, fired_metric_label = metric_label (rule_metric rule),
     fired_operator_symbol = operator_symbol (rule_operator rule),
     fired_value = value_for (read_sample rd) (rule_metric rule), fired_threshold = rule_threshold rule,
     fired_window_samples = rule_window_samples rule, fired_organization_id = rule_organization_id rule \<rparr>"

definition evaluate_entry :: "parsed_rule \<Rightarrow> bool \<Rightarrow> int \<Rightarrow> engine_entry option \<Rightarrow> bool \<times> engine_entry" where
  "evaluate_entry rule breached now old =
     (let e0 = (case old of Some e \<Rightarrow> e
                | None \<Rightarrow> \<lparr> entry_window = window_new (rule_window_samples rule), last_fired_at = None \<rparr>);
          e1 = (if win_capacity (entry_window e0) \<noteq> rule_window_samples rule
                then e0\<lparr>entry_window := window_new (rule_window_samples rule)\<rparr> else e0)
      in (case window_push breached (entry_window e1) of (full, w) \<Rightarrow>
           (let e2 = e1\<lparr>entry_window := w\<rparr> in
            if \<not> full then (False, e2)
            else if (case last_fired_at e2 of None \<Rightarrow> False
                     | Some l \<Rightarrow> i64_saturating_sub now l < rule_cooldown_seconds rule) then (False, e2)
            else (True, e2\<lparr>last_fired_at := Some now, entry_window := window_reset w\<rparr>))))"

definition evaluate_one ::
  "int \<Rightarrow> parsed_rule \<Rightarrow> target_reading \<Rightarrow> fired_alert list \<times> alert_engine \<Rightarrow> fired_alert list \<times> alert_engine" where
  "evaluate_one now rule rd acc = (case acc of (fired, st) \<Rightarrow>
     if \<not> rule_covers rule rd then (fired, st)
     else (let breached = compare (rule_operator rule) (value_for (read_sample rd) (rule_metric rule)) (rule_threshold rule);
               key = state_key (rule_id rule) (read_key rd)
           in (case evaluate_entry rule breached now (hm_get key st) of (fires, e) \<Rightarrow>
                (if fires then fired @ [fired_of rule rd] else fired, hm_insert key e st))))"

definition evaluate ::
  "parsed_rule list \<Rightarrow> target_reading list \<Rightarrow> int \<Rightarrow> alert_engine \<Rightarrow> fired_alert list \<times> alert_engine" where
  "evaluate rules readings now st =
     fold (\<lambda>rule. fold (evaluate_one now rule) readings) rules ([], st)"

definition retain_rules :: "parsed_rule list \<Rightarrow> alert_engine \<Rightarrow> alert_engine" where
  "retain_rules rules st =
     hm_retain (\<lambda>key _. list_ex (\<lambda>r. starts_with key (int_to_dec (rule_id r) @ '':'')) rules) st"

definition tracked_targets :: "alert_engine \<Rightarrow> nat" where
  "tracked_targets st = length st"

section \<open>The service\<close>

definition fmt_one_decimal :: "real \<Rightarrow> string" where
  "fmt_one_decimal x =
     (let y = \<bar>x\<bar> * 10; f = \<lfloor>y\<rfloor>; r = y - of_int f;
          n = nat (if r < 1 / 2 then f else if 1 / 2 < r then f + 1 else if even f then f else f + 1)
      in (if x < 0 then ''-'' else []) @ nat_to_dec (n div 10) @ ''.'' @ nat_to_dec (n mod 10))"

definition to_message :: "int \<Rightarrow> fired_alert \<Rightarrow> notification_message" where
  "to_message now a =
     (let m = (message_new now (fired_metric_label a @ '' alert: '' @ fired_target_display a)
                (fired_metric_label a @ '' on '' @ fired_target_display a @ '' is ''
                 @ fmt_one_decimal (fired_value a) @ ''% ('' @ fired_operator_symbol a @ '' ''
                 @ fmt_one_decimal (fired_threshold a) @ ''%), sustained over ''
                 @ nat_to_dec (fired_window_samples a) @ '' samples.''))\<lparr>msg_level := Warning\<rparr>
      in message_field ''Threshold'' (fired_operator_symbol a @ '' '' @ fmt_one_decimal (fired_threshold a) @ ''%'')
           (message_field ''Value'' (fmt_one_decimal (fired_value a) @ ''%'')
             (message_field ''Metric'' (fired_metric_label a)
               (message_field ''Target'' (fired_target_display a)
                 (message_field ''Rule'' (fired_rule_name a) m)))))"

record server_metric =
  sm_server_id :: int
  sm_timestamp :: "int option"
  sm_distro :: string
  sm_cpu :: real
  sm_mem_used :: real
  sm_disk_used :: real

definition evaluation_interval_secs :: int where
  "evaluation_interval_secs = 10"

definition host_readings :: "int \<Rightarrow> server_metric list \<Rightarrow> target_reading list" where
  "host_readings now metrics =
     map (\<lambda>sm. \<lparr> read_kind = TServer, read_key = int_to_dec (sm_server_id sm),
                 read_display_name = (if sm_distro sm = [] then ''server '' @ int_to_dec (sm_server_id sm) else sm_distro sm),
                 read_sample = \<lparr> cpu_percent = sm_cpu sm, memory_percent = sm_mem_used sm, disk_percent = sm_disk_used sm \<rparr> \<rparr>)
       (filter (\<lambda>sm. case sm_timestamp sm of None \<Rightarrow> False
                     | Some t \<Rightarrow> i64_saturating_sub now t \<le> evaluation_interval_secs * 3) metrics)"

text \<open>
  A container metric with its JSON payload already decoded: \<open>None\<close> when the text
  is not JSON, and per field \<open>None\<close> when it is missing or not a number.
\<close>

record container_metric =
  cm_server_id :: int
  cm_timestamp :: int
  cm_container_name :: string
  cm_application_id :: "int option"
  cm_compose_id :: "int option"
  cm_payload :: "(real option \<times> real option) option"

definition container_reading :: "container_metric \<Rightarrow> target_reading option" where
  "container_reading cm =
     (case (case cm_application_id cm of Some i \<Rightarrow> Some (TApplication, i)
            | None \<Rightarrow> (case cm_compose_id cm of Some i \<Rightarrow> Some (TCompose, i) | None \<Rightarrow> None)) of
        None \<Rightarrow> None
      | Some (k, i) \<Rightarrow> (case cm_payload cm of
          None \<Rightarrow> None
        | Some (cpu, mem) \<Rightarrow> Some \<lparr> read_kind = k, read_key = int_to_dec i,
            read_display_name = cm_container_name cm @ '' (server '' @ int_to_dec (cm_server_id cm) @ '')'',
            read_sample = \<lparr> cpu_percent = (case cpu of Some v \<Rightarrow> v | None \<Rightarrow> 0),
              memory_percent = (case mem of Some v \<Rightarrow> v | None \<Rightarrow> 0), disk_percent = 0 \<rparr> \<rparr>))"

definition container_readings :: "int \<Rightarrow> container_metric list \<Rightarrow> target_reading list" where
  "container_readings now metrics = List.map_filter container_reading
     (filter (\<lambda>cm. i64_saturating_sub now (cm_timestamp cm) \<le> evaluation_interval_secs * 3) metrics)"

definition parse_rules :: "alert_rule list \<Rightarrow> parsed_rule list" where
  "parse_rules rows = List.map_filter (\<lambda>r. case from_row r evaluation_interval_secs of
     Inr (Some p) \<Rightarrow> Some p | _ \<Rightarrow> None) rows"

record alert_service =
  svc_engine :: alert_engine
  svc_rules_cache :: "parsed_rule list option"

definition invalidate_rules_cache :: "alert_service \<Rightarrow> alert_service" where
  "invalidate_rules_cache s = s\<lparr>svc_rules_cache := None\<rparr>"

text \<open>
  \<open>in_maintenance org server\<close> is the lookup of the monitoring lifecycle
  repository; it is asked for server targets only.
\<close>

definition suppressed :: "(int \<Rightarrow> int \<Rightarrow> bool) \<Rightarrow> fired_alert \<Rightarrow> bool" where
  "suppressed in_maintenance a =
     (fired_target_kind a = TServer
      \<and> in_maintenance (fired_organization_id a)
          (case parse_signed i64_max (fired_target_key a) of Some n \<Rightarrow> n | None \<Rightarrow> 0))"

type_synonym alert_notification = "int \<times> notification_trigger \<times> notification_message"

definition dispatch_alerts :: "(int \<Rightarrow> int \<Rightarrow> bool) \<Rightarrow> int \<Rightarrow> fired_alert list \<Rightarrow> alert_notification list" where
  "dispatch_alerts in_maintenance now fired =
     map (\<lambda>a. (fired_organization_id a, ServerThreshold, to_message now a))
       (filter (\<lambda>a. \<not> suppressed in_maintenance a) fired)"

definition load_rules :: "alert_rule list sqlx \<Rightarrow> alert_service \<Rightarrow> parsed_rule list sqlx \<times> alert_service" where
  "load_rules rows s =
     (case svc_rules_cache s of
        Some rules \<Rightarrow> (Ok rules, s)
      | None \<Rightarrow> (case rows of Inl e \<Rightarrow> (Err e, s)
          | Inr rs \<Rightarrow> (let p = parse_rules rs in (Ok p, s\<lparr>svc_rules_cache := Some p\<rparr>))))"

text \<open>
  One pass: \<open>None\<close> when a query fails, otherwise the number of alerts and the
  notifications sent.
\<close>

definition evaluate_once ::
  "alert_rule list sqlx \<Rightarrow> (string, server_metric list) result \<Rightarrow> (string, container_metric list) result
   \<Rightarrow> (int \<Rightarrow> int \<Rightarrow> bool) \<Rightarrow> int \<Rightarrow> alert_service
   \<Rightarrow> (nat \<times> alert_notification list) option \<times> alert_service" where
  "evaluate_once rows hosts containers in_maintenance now s =
     (case load_rules rows s of
        (Inl _, s1) \<Rightarrow> (None, s1)
      | (Inr rules, s1) \<Rightarrow>
          if rules = [] then (Some (0, []), s1\<lparr>svc_engine := retain_rules [] (svc_engine s1)\<rparr>)
          else (case hosts of Inl _ \<Rightarrow> (None, s1) | Inr hs \<Rightarrow>
            (case containers of Inl _ \<Rightarrow> (None, s1) | Inr cs \<Rightarrow>
              (let readings = host_readings now hs @ container_readings now cs in
               if readings = [] then (Some (0, []), s1)
               else (case evaluate rules readings now (retain_rules rules (svc_engine s1)) of (fired, st) \<Rightarrow>
                 (Some (length fired, dispatch_alerts in_maintenance now fired), s1\<lparr>svc_engine := st\<rparr>))))))"

section \<open>Stored rules and maintenance windows\<close>

record maintenance_window =
  mw_id :: int
  mw_organization_id :: int
  mw_server_id :: "int option"
  mw_starts_at :: int
  mw_ends_at :: int
  mw_reason :: string

record alert_db =
  alert_rules :: "alert_rule list"
  alert_rules_seq :: int
  windows :: "maintenance_window list"
  windows_seq :: int
  alert_organizations :: "int list"
  alert_servers :: "int list"

text \<open>SQLite's \<open>trim\<close> removes spaces only.\<close>

definition sql_trim :: "string \<Rightarrow> string" where
  "sql_trim s = rev (dropWhile (\<lambda>c. c = CHR '' '') (rev (dropWhile (\<lambda>c. c = CHR '' '') s)))"

definition rule_check :: "alert_rule \<Rightarrow> bool" where
  "rule_check r =
     (1 \<le> length (sql_trim (ar_name r)) \<and> length (sql_trim (ar_name r)) \<le> 255
      \<and> ar_target_type r \<in> set [''SERVER'', ''APPLICATION'', ''DATABASE'', ''COMPOSE'']
      \<and> 0 \<le> ar_target_id r
      \<and> ar_metric_name r \<in> set [''CPU'', ''MEMORY'', ''DISK'']
      \<and> ar_operator r \<in> set [''GT'', ''GTE'', ''LT'', ''LTE'', ''EQ'']
      \<and> 0 \<le> ar_threshold r \<and> ar_threshold r \<le> 100
      \<and> 0 \<le> ar_duration_seconds r \<and> ar_duration_seconds r \<le> 86400
      \<and> ar_notification_channel r = ''SYSTEM''
      \<and> ar_enabled r \<in> set [0, 1])"

definition alert_list :: "alert_db \<Rightarrow> alert_rule list" where
  "alert_list db = order_by_desc ar_created_at (alert_rules db)"

definition list_by_organization :: "int \<Rightarrow> alert_db \<Rightarrow> alert_rule list" where
  "list_by_organization org db =
     order_by_desc ar_created_at (filter (\<lambda>r. ar_organization_id r = org) (alert_rules db))"

definition get_by_id_for_organization :: "int \<Rightarrow> int \<Rightarrow> alert_db \<Rightarrow> alert_rule option" where
  "get_by_id_for_organization i org db =
     find (\<lambda>r. ar_id r = Some i \<and> ar_organization_id r = org) (alert_rules db)"

definition alert_create :: "int \<Rightarrow> alert_rule \<Rightarrow> alert_db \<Rightarrow> int sqlx \<times> alert_db" where
  "alert_create now r db =
     (let i = alert_rules_seq db + 1;
          row = r\<lparr>ar_id := Some i, ar_created_at := now, ar_updated_at := now\<rparr>
      in if \<not> rule_check row then (Err (Constraint ''CHECK''), db)
         else if ar_organization_id r \<notin> set (alert_organizations db)
         then (Err (Constraint ''FOREIGN KEY''), db)
         else (Ok i, db\<lparr>alert_rules := alert_rules db @ [row], alert_rules_seq := i\<rparr>))"

definition alert_update :: "int \<Rightarrow> int \<Rightarrow> alert_rule \<Rightarrow> alert_db \<Rightarrow> unit sqlx \<times> alert_db" where
  "alert_update now i r db =
     (let P = (\<lambda>x. ar_id x = Some i \<and> ar_organization_id x = ar_organization_id r);
          f = (\<lambda>x. x\<lparr>ar_name := ar_name r, ar_target_type := ar_target_type r, ar_target_id := ar_target_id r,
                     ar_metric_name := ar_metric_name r, ar_operator := ar_operator r,
                     ar_threshold := ar_threshold r, ar_duration_seconds := ar_duration_seconds r,
                     ar_notification_channel := ar_notification_channel r, ar_enabled := ar_enabled r,
                     ar_updated_at := now\<rparr>)
      in if list_ex (\<lambda>x. P x \<and> \<not> rule_check (f x)) (alert_rules db)
         then (Err (Constraint ''CHECK''), db)
         else (Ok (), db\<lparr>alert_rules := update_where P f (alert_rules db)\<rparr>))"

definition alert_delete :: "int \<Rightarrow> int \<Rightarrow> alert_db \<Rightarrow> bool sqlx \<times> alert_db" where
  "alert_delete i org db =
     (let P = (\<lambda>x. ar_id x = Some i \<and> ar_organization_id x = org)
      in (Ok (0 < rows_affected P (alert_rules db)), db\<lparr>alert_rules := delete_where P (alert_rules db)\<rparr>))"

definition create_window ::
  "int \<Rightarrow> int option \<Rightarrow> int \<Rightarrow> int \<Rightarrow> string \<Rightarrow> alert_db \<Rightarrow> int sqlx \<times> alert_db" where
  "create_window org srv starts ends reason db =
     (let i = windows_seq db + 1 in
      if \<not> starts < ends then (Err (Constraint ''CHECK''), db)
      else if org \<notin> set (alert_organizations db) \<or> \<not> fk_opt (alert_servers db) srv
      then (Err (Constraint ''FOREIGN KEY''), db)
      else (Ok i, db\<lparr>windows := windows db @ [\<lparr> mw_id = i, mw_organization_id = org, mw_server_id = srv,
                mw_starts_at = starts, mw_ends_at = ends, mw_reason = reason \<rparr>], windows_seq := i\<rparr>))"

definition list_windows :: "int \<Rightarrow> alert_db \<Rightarrow> maintenance_window list" where
  "list_windows org db = order_by_desc mw_starts_at (filter (\<lambda>w. mw_organization_id w = org) (windows db))"

definition delete_window :: "int \<Rightarrow> int \<Rightarrow> alert_db \<Rightarrow> bool sqlx \<times> alert_db" where
  "delete_window i org db =
     (let P = (\<lambda>w. mw_id w = i \<and> mw_organization_id w = org)
      in (Ok (0 < rows_affected P (windows db)), db\<lparr>windows := delete_where P (windows db)\<rparr>))"

definition is_in_maintenance :: "int \<Rightarrow> alert_db \<Rightarrow> int \<Rightarrow> int \<Rightarrow> bool" where
  "is_in_maintenance now db org srv =
     list_ex (\<lambda>w. mw_organization_id w = org \<and> (mw_server_id w = None \<or> mw_server_id w = Some srv)
                \<and> mw_starts_at w \<le> now \<and> now < mw_ends_at w) (windows db)"

text \<open>The operations of the service on rules; a change drops the cache of parsed rules.\<close>

definition create_rule :: "int \<Rightarrow> alert_rule \<Rightarrow> alert_db \<times> alert_service \<Rightarrow> int sqlx \<times> alert_db \<times> alert_service" where
  "create_rule now r ds = (case ds of (db, s) \<Rightarrow> (case alert_create now r db of
      (Inl e, db') \<Rightarrow> (Err e, db', s)
    | (Inr i, db') \<Rightarrow> (Ok i, db', invalidate_rules_cache s)))"

definition update_rule ::
  "int \<Rightarrow> int \<Rightarrow> alert_rule \<Rightarrow> alert_db \<times> alert_service \<Rightarrow> unit sqlx \<times> alert_db \<times> alert_service" where
  "update_rule now i r ds = (case ds of (db, s) \<Rightarrow> (case alert_update now i r db of
      (Inl e, db') \<Rightarrow> (Err e, db', s)
    | (Inr u, db') \<Rightarrow> (Ok u, db', invalidate_rules_cache s)))"

definition delete_rule ::
  "int \<Rightarrow> int \<Rightarrow> alert_db \<times> alert_service \<Rightarrow> bool sqlx \<times> alert_db \<times> alert_service" where
  "delete_rule i org ds = (case ds of (db, s) \<Rightarrow> (case alert_delete i org db of
      (Inl e, db') \<Rightarrow> (Err e, db', s)
    | (Inr removed, db') \<Rightarrow> (Ok removed, db', if removed then invalidate_rules_cache s else s)))"

definition alert_pass ::
  "(string, server_metric list) result \<Rightarrow> (string, container_metric list) result \<Rightarrow> int
   \<Rightarrow> alert_db \<times> alert_service \<Rightarrow> (nat \<times> alert_notification list) option \<times> alert_db \<times> alert_service" where
  "alert_pass hosts containers now ds = (case ds of (db, s) \<Rightarrow>
     (case evaluate_once (Ok (alert_list db)) hosts containers (is_in_maintenance now db) now s of
        (out, s') \<Rightarrow> (out, db, s')))"

end
