(* ===== verification/AlertLaws.thy ===== *)
theory AlertLaws
  imports Alert
begin

text \<open>
  What the alert engine promises: windows against a reference definition over
  the whole history of samples, the cooldown between two alerts of a rule on a
  target over any sequence of passes, the state that survives a change of the
  rules, and where notifications come from.
\<close>

section \<open>Windows and histories\<close>

text \<open>
  \<open>sustained n h\<close> is the meaning of a window of \<open>n\<close> samples: the last \<open>n\<close>
  samples exist and at least four fifths of them breached.
\<close>

definition sustained :: "nat \<Rightarrow> bool list \<Rightarrow> bool" where
  "sustained n h = (n \<le> length h \<and> 4 * n \<le> 5 * length (filter id (drop (length h - n) h)))"

definition window_of :: "nat \<Rightarrow> bool list \<Rightarrow> sample_window" where
  "window_of n h = \<lparr> win_capacity = n, win_samples = drop (length h - n) h \<rparr>"

definition push_all :: "bool list \<Rightarrow> sample_window \<Rightarrow> sample_window" where
  "push_all h w = foldl (\<lambda>w b. snd (window_push b w)) w h"

lemma window_push_window_of:
  assumes "0 < n"
  shows "window_push b (window_of n h) = (sustained n (h @ [b]), window_of n (h @ [b]))"
proof (cases "length h < n")
  case True
  then show ?thesis
    by (auto simp: window_push_def window_of_def sustained_def Let_def id_def)
next
  case False
  then have *: "length h - n \<le> length h" "Suc (length h) - n = Suc (length h - n)" by auto
  have "tl (drop (length h - n) h) @ [b] = drop (Suc (length h) - n) (h @ [b])"
    using assms False * by (simp add: tl_drop drop_Suc)
  with assms False show ?thesis
    by (simp add: window_push_def window_of_def sustained_def Let_def id_def)
qed

lemma push_all_window_of:
  assumes "0 < n"
  shows "push_all h (window_of n g) = window_of n (g @ h)"
  using assms by (induction h arbitrary: g) (simp_all add: push_all_def window_push_window_of)

lemma window_new_window_of: "window_new c = window_of (max c 1) []"
  by (simp add: window_new_def window_of_def)

section \<open>Keys\<close>

lemma nat_to_dec_no_colon: "CHR '':'' \<notin> set (nat_to_dec n)"
  using nat_to_dec_digits [of n] by (auto simp: list_all_iff is_ascii_digit_def char_code_def)

lemma int_to_dec_no_colon: "CHR '':'' \<notin> set (int_to_dec i)"
  by (simp add: int_to_dec_def nat_to_dec_no_colon)

lemma split_at_sep:
  assumes "xs @ c # ys = xs' @ c # ys'" "c \<notin> set xs" "c \<notin> set xs'"
  shows "xs = xs' \<and> ys = ys'"
  using assms
proof (induction xs arbitrary: xs')
  case Nil
  then show ?case by (cases xs') auto
next
  case (Cons a xs)
  then show ?case by (cases xs') auto
qed

lemma state_key_inject [simp]: "state_key i k = state_key j l \<longleftrightarrow> i = j \<and> k = l"
proof
  assume "state_key i k = state_key j l"
  then have "int_to_dec i @ CHR '':'' # k = int_to_dec j @ CHR '':'' # l"
    by (simp add: state_key_def)
  then show "i = j \<and> k = l"
    using split_at_sep [OF _ int_to_dec_no_colon int_to_dec_no_colon] by fastforce
qed simp

lemma state_key_prefix: "starts_with (state_key i k) (int_to_dec j @ '':'') \<longleftrightarrow> i = j"
proof
  assume "starts_with (state_key i k) (int_to_dec j @ '':'')"
  then obtain r where "int_to_dec i @ CHR '':'' # k = int_to_dec j @ CHR '':'' # r"
    by (auto simp: starts_with_iff state_key_def)
  then show "i = j"
    using split_at_sep [OF _ int_to_dec_no_colon int_to_dec_no_colon] by fastforce
qed (auto simp: state_key_def starts_with_iff)

lemma hm_get_retain_rules:
  assumes "hm_wf st"
  shows "hm_get (state_key i k) (retain_rules rules st)
       = (if i \<in> rule_id ` set rules then hm_get (state_key i k) st else None)"
  using assms
  by (auto simp: retain_rules_def hm_get_retain state_key_prefix list_ex_iff split: option.splits)

lemma hm_wf_retain_rules: "hm_wf st \<Longrightarrow> hm_wf (retain_rules rules st)"
  by (simp add: retain_rules_def hm_wf_retain)

section \<open>Runs of the engine\<close>

text \<open>
  A run is a sequence of passes of \<open>evaluate_once\<close> over the same rules: each
  drops the state of dead rules and evaluates a batch of readings at its time.
  The log pairs every alert with the time it fired.
\<close>

fun alert_run ::
  "parsed_rule list \<Rightarrow> (target_reading list \<times> int) list \<Rightarrow> (int \<times> fired_alert) list \<Rightarrow> alert_engine
   \<Rightarrow> (int \<times> fired_alert) list \<times> alert_engine" where
  "alert_run rules [] hist st = (hist, st)"
| "alert_run rules ((readings, now) # passes) hist st =
     (case evaluate rules readings now (retain_rules rules st) of
        (fired, st') \<Rightarrow> alert_run rules passes (hist @ map (Pair now) fired) st')"

definition alerts_for :: "int \<Rightarrow> string \<Rightarrow> (int \<times> fired_alert) list \<Rightarrow> int list" where
  "alerts_for i key hist =
     map fst (filter (\<lambda>(_, a). fired_rule_id a = i \<and> fired_target_key a = key) hist)"

definition cooled :: "int \<Rightarrow> int list \<Rightarrow> bool" where
  "cooled c ts = sorted_wrt (\<lambda>s t. s + c \<le> t) ts"

lemma alerts_for_append [simp]: "alerts_for i key (l @ l') = alerts_for i key l @ alerts_for i key l'"
  by (simp add: alerts_for_def)

definition cooldown_inv :: "parsed_rule \<Rightarrow> string \<Rightarrow> int \<Rightarrow> int list \<Rightarrow> alert_engine \<Rightarrow> bool" where
  "cooldown_inv r key now ts st =
     (hm_wf st \<and> cooled (rule_cooldown_seconds r) ts \<and> list_all (\<lambda>t. 0 \<le> t \<and> t \<le> now) ts
      \<and> (ts \<noteq> [] \<longrightarrow> (\<exists>e. hm_get (state_key (rule_id r) key) st = Some e \<and> last_fired_at e = Some (last ts))))"

lemma cooled_snoc:
  assumes "cooled c ts" "ts \<noteq> [] \<Longrightarrow> last ts + c \<le> t" "0 \<le> c"
  shows "cooled c (ts @ [t])"
proof (cases ts rule: rev_cases)
  case (snoc us u)
  then have "u + c \<le> t" using assms(2) by simp
  with assms(1,3) snoc show ?thesis
    by (force simp: cooled_def sorted_wrt_append)
qed (simp add: cooled_def)

lemma saturating_sub_small:
  "0 \<le> l \<Longrightarrow> l \<le> now \<Longrightarrow> now < 2 ^ 63 \<Longrightarrow> i64_saturating_sub now l = now - l"
  by (simp add: i64_saturating_sub_def)

text \<open>The two outcomes of an entry: an alert after its cooldown, or the old firing time is kept.\<close>

lemma evaluate_entry_cases:
  assumes "evaluate_entry r b now old = (fires, e)"
  shows "(fires \<longrightarrow> last_fired_at e = Some now
            \<and> (\<forall>e0 l. old = Some e0 \<longrightarrow> last_fired_at e0 = Some l
                 \<longrightarrow> rule_cooldown_seconds r \<le> i64_saturating_sub now l))
       \<and> (\<not> fires \<longrightarrow> last_fired_at e = (case old of Some e0 \<Rightarrow> last_fired_at e0 | None \<Rightarrow> None))"
  using assms
  by (auto simp: evaluate_entry_def Let_def split: prod.splits option.splits if_splits)

lemma cooldown_inv_one:
  assumes inv: "cooldown_inv r key now (alerts_for (rule_id r) key (hist @ map (Pair now) fired)) st"
    and r: "rule_id r' = rule_id r \<Longrightarrow> r' = r"
    and t: "0 \<le> now" "now < 2 ^ 63" and c: "0 \<le> rule_cooldown_seconds r"
    and ev: "evaluate_one now r' rd (fired, st) = (fired', st')"
  shows "cooldown_inv r key now (alerts_for (rule_id r) key (hist @ map (Pair now) fired')) st'"
proof (cases "rule_covers r' rd")
  case False
  with inv ev show ?thesis by (simp add: evaluate_one_def)
next
  case True
  let ?k = "state_key (rule_id r') (read_key rd)"
  let ?b = "compare (rule_operator r') (value_for (read_sample rd) (rule_metric r')) (rule_threshold r')"
  obtain fires e where ee: "evaluate_entry r' ?b now (hm_get ?k st) = (fires, e)" by fastforce
  with True ev have st': "st' = hm_insert ?k e st"
    and f': "fired' = (if fires then fired @ [fired_of r' rd] else fired)"
    by (auto simp: evaluate_one_def Let_def)
  have new: "alerts_for (rule_id r) key [(now, fired_of r' rd)]
      = (if rule_id r' = rule_id r \<and> read_key rd = key then [now] else [])"
    by (simp add: alerts_for_def fired_of_def)
  show ?thesis
  proof (cases "rule_id r' = rule_id r \<and> read_key rd = key")
    case False
    with inv new show ?thesis
      by (auto simp: cooldown_inv_def st' f' hm_get_insert hm_wf_insert)
  next
    case True
    with r have [simp]: "r' = r" "read_key rd = key" by auto
    let ?ts = "alerts_for (rule_id r) key (hist @ map (Pair now) fired)"
    note cs = evaluate_entry_cases [OF ee]
    have "fires \<Longrightarrow> ?ts \<noteq> [] \<Longrightarrow> last ?ts + rule_cooldown_seconds r \<le> now"
    proof -
      assume f: "fires" and ne: "?ts \<noteq> []"
      with inv obtain e0 where "hm_get ?k st = Some e0" "last_fired_at e0 = Some (last ?ts)"
        by (auto simp: cooldown_inv_def)
      moreover have "0 \<le> last ?ts \<and> last ?ts \<le> now"
        using inv ne last_in_set [OF ne] by (simp add: cooldown_inv_def list_all_iff)
      ultimately show ?thesis using cs f t saturating_sub_small [of "last ?ts" now] by force
    qed
    then have "fires \<Longrightarrow> cooled (rule_cooldown_seconds r) (?ts @ [now])"
      using inv c by (intro cooled_snoc) (auto simp: cooldown_inv_def)
    with inv cs new t show ?thesis
      by (cases fires) (auto simp: cooldown_inv_def st' f' hm_get_insert hm_wf_insert)
  qed
qed

lemma cooldown_inv_readings:
  assumes "cooldown_inv r key now (alerts_for (rule_id r) key (hist @ map (Pair now) fired)) st"
    and "rule_id r' = rule_id r \<Longrightarrow> r' = r"
    and "0 \<le> now" "now < 2 ^ 63" "0 \<le> rule_cooldown_seconds r"
    and "fold (evaluate_one now r') readings (fired, st) = (fired', st')"
  shows "cooldown_inv r key now (alerts_for (rule_id r) key (hist @ map (Pair now) fired')) st'"
  using assms(1,6)
proof (induction readings arbitrary: fired st)
  case (Cons rd readings)
  obtain f1 s1 where one: "evaluate_one now r' rd (fired, st) = (f1, s1)" by fastforce
  note inv = cooldown_inv_one [OF Cons.prems(1) assms(2-5) one]
  show ?case using Cons.IH [OF inv] Cons.prems(2) by (simp add: one)
qed simp

lemma cooldown_inv_rules:
  assumes "cooldown_inv r key now (alerts_for (rule_id r) key (hist @ map (Pair now) fired)) st"
    and "\<forall>r' \<in> set rules. rule_id r' = rule_id r \<longrightarrow> r' = r"
    and "0 \<le> now" "now < 2 ^ 63" "0 \<le> rule_cooldown_seconds r"
    and "fold (\<lambda>rule. fold (evaluate_one now rule) readings) rules (fired, st) = (fired', st')"
  shows "cooldown_inv r key now (alerts_for (rule_id r) key (hist @ map (Pair now) fired')) st'"
  using assms(1,2,6)
proof (induction rules arbitrary: fired st)
  case (Cons r' rules)
  obtain f1 s1 where one: "fold (evaluate_one now r') readings (fired, st) = (f1, s1)" by fastforce
  have r': "rule_id r' = rule_id r \<Longrightarrow> r' = r" using Cons.prems(2) by simp
  note inv = cooldown_inv_readings [OF Cons.prems(1) r' assms(3-5) one]
  show ?case using Cons.IH [OF inv] Cons.prems(2,3) by (simp add: one)
qed simp

lemma cooldown_inv_later:
  "cooldown_inv r key t ts st \<Longrightarrow> t \<le> t' \<Longrightarrow> cooldown_inv r key t' ts st"
  by (auto simp: cooldown_inv_def list_all_iff)

lemma cooldown_inv_retain:
  "cooldown_inv r key t ts st \<Longrightarrow> r \<in> set rules \<Longrightarrow> cooldown_inv r key t ts (retain_rules rules st)"
  by (auto simp: cooldown_inv_def hm_get_retain_rules hm_wf_retain_rules)

lemma cooldown_inv_run:
  assumes "cooldown_inv r key t (alerts_for (rule_id r) key hist) st"
    and "sorted (t # map snd passes)" "\<forall>p \<in> set passes. 0 \<le> snd p \<and> snd p < 2 ^ 63"
    and "r \<in> set rules" "\<forall>r' \<in> set rules. rule_id r' = rule_id r \<longrightarrow> r' = r"
    and "0 \<le> rule_cooldown_seconds r"
    and "alert_run rules passes hist st = (hist', st')"
  shows "cooled (rule_cooldown_seconds r) (alerts_for (rule_id r) key hist')"
  using assms(1-3,7)
proof (induction passes arbitrary: t hist st)
  case Nil
  then show ?case by (simp add: cooldown_inv_def)
next
  case (Cons p passes)
  obtain readings now where p: "p = (readings, now)" by fastforce
  obtain fired s1 where ev: "evaluate rules readings now (retain_rules rules st) = (fired, s1)"
    by fastforce
  have "cooldown_inv r key now (alerts_for (rule_id r) key (hist @ map (Pair now) []))
          (retain_rules rules st)"
    using cooldown_inv_retain [OF cooldown_inv_later [OF Cons.prems(1)] assms(4), of now]
      Cons.prems(2) p by simp
  moreover have "0 \<le> now" "now < 2 ^ 63" using Cons.prems(3) p by simp_all
  ultimately have "cooldown_inv r key now (alerts_for (rule_id r) key (hist @ map (Pair now) fired)) s1"
    using ev unfolding evaluate_def by (rule cooldown_inv_rules [OF _ assms(5) _ _ assms(6)])
  note IH = Cons.IH [OF this]
  show ?case using Cons.prems(2-4) by (intro IH) (simp_all add: p ev)
qed

section \<open>Origin of alerts\<close>

definition alert_origin :: "parsed_rule list \<Rightarrow> target_reading list \<Rightarrow> fired_alert \<Rightarrow> bool" where
  "alert_origin rules readings a =
     (\<exists>r rd. r \<in> set rules \<and> rd \<in> set readings \<and> rule_covers r rd \<and> a = fired_of r rd)"

lemma evaluate_one_origin:
  assumes "\<forall>a \<in> set (fst acc). alert_origin rules readings a" "r \<in> set rules" "rd \<in> set readings"
  shows "\<forall>a \<in> set (fst (evaluate_one now r rd acc)). alert_origin rules readings a"
  using assms
  by (cases acc) (auto simp: evaluate_one_def Let_def alert_origin_def split: prod.splits if_splits)

lemma evaluate_readings_origin:
  assumes "\<forall>a \<in> set (fst acc). alert_origin rules readings a" "r \<in> set rules"
    "set rds \<subseteq> set readings"
  shows "\<forall>a \<in> set (fst (fold (evaluate_one now r) rds acc)). alert_origin rules readings a"
  using assms
proof (induction rds arbitrary: acc)
  case (Cons rd rds)
  have "\<forall>a \<in> set (fst (evaluate_one now r rd acc)). alert_origin rules readings a"
    using Cons.prems by (intro evaluate_one_origin) simp_all
  then show ?case unfolding fold_Cons comp_apply using Cons.prems by (intro Cons.IH) simp_all
qed simp

lemma evaluate_rules_origin:
  assumes "\<forall>a \<in> set (fst acc). alert_origin rules readings a" "set rs \<subseteq> set rules"
  shows "\<forall>a \<in> set (fst (fold (\<lambda>r. fold (evaluate_one now r) readings) rs acc)). alert_origin rules readings a"
  using assms
proof (induction rs arbitrary: acc)
  case (Cons r rs)
  have "\<forall>a \<in> set (fst (fold (evaluate_one now r) readings acc)). alert_origin rules readings a"
    using Cons.prems by (intro evaluate_readings_origin) simp_all
  then show ?case unfolding fold_Cons comp_apply using Cons.prems by (intro Cons.IH) simp_all
qed simp

lemma evaluate_origin:
  "a \<in> set (fst (evaluate rules readings now st)) \<Longrightarrow> alert_origin rules readings a"
  using evaluate_rules_origin [of "([], st)" rules readings rules now] by (simp add: evaluate_def)

lemma load_rules_cached:
  "load_rules rows s = (Ok rules, s') \<Longrightarrow> svc_rules_cache s' = Some rules \<and> svc_engine s' = svc_engine s"
  by (auto simp: load_rules_def Let_def split: option.splits sum.splits)

lemma evaluate_once_notes:
  assumes "evaluate_once rows (Ok hs) (Ok cs) maint now s = (Some (n, notes), s')" "x \<in> set notes"
  shows "\<exists>rules fired st a. svc_rules_cache s' = Some rules
    \<and> evaluate rules (host_readings now hs @ container_readings now cs) now st = (fired, svc_engine s')
    \<and> a \<in> set fired \<and> \<not> suppressed maint a
    \<and> x = (fired_organization_id a, ServerThreshold, to_message now a)"
proof -
  obtain r s1 where l: "load_rules rows s = (r, s1)" by fastforce
  show ?thesis
  proof (cases r)
    case (Inr rules)
    then have s1: "svc_rules_cache s1 = Some rules" using load_rules_cached l by blast
    obtain fired st where ev: "evaluate rules (host_readings now hs @ container_readings now cs) now
        (retain_rules rules (svc_engine s1)) = (fired, st)" by fastforce
    from assms(1) assms(2) have "notes = dispatch_alerts maint now fired \<and> s' = s1\<lparr>svc_engine := st\<rparr>"
      unfolding evaluate_once_def l Inr prod.case sum.case Let_def ev
      by (simp split: if_splits)
    with assms(2) s1 ev show ?thesis by (auto simp: dispatch_alerts_def)
  qed (use assms l in \<open>simp add: evaluate_once_def\<close>)
qed

section \<open>The cache of parsed rules\<close>

datatype alert_op =
    CreateRule int alert_rule
  | UpdateRule int int alert_rule
  | DeleteRule int int
  | AlertPass "(string, server_metric list) result" "(string, container_metric list) result" int

fun apply_alert_op :: "alert_op \<Rightarrow> alert_db \<times> alert_service \<Rightarrow> alert_db \<times> alert_service" where
  "apply_alert_op (CreateRule now r) ds = snd (create_rule now r ds)"
| "apply_alert_op (UpdateRule now i r) ds = snd (update_rule now i r ds)"
| "apply_alert_op (DeleteRule i org) ds = snd (delete_rule i org ds)"
| "apply_alert_op (AlertPass hosts containers now) ds = snd (alert_pass hosts containers now ds)"

definition cache_ok :: "alert_db \<times> alert_service \<Rightarrow> bool" where
  "cache_ok ds = (svc_rules_cache (snd ds) \<in> {None, Some (parse_rules (alert_list (fst ds)))})"

lemma cache_ok_invalidated [simp]: "cache_ok (db, invalidate_rules_cache s)"
  by (simp add: cache_ok_def invalidate_rules_cache_def)

lemma evaluate_once_cache:
  assumes "evaluate_once (Ok rows) hosts containers maint now s = (out, s')"
  shows "svc_rules_cache s' = (case svc_rules_cache s of None \<Rightarrow> Some (parse_rules rows) | Some c \<Rightarrow> Some c)"
  using assms
  by (auto simp: evaluate_once_def load_rules_def Let_def split: option.splits sum.splits if_splits prod.splits)

lemma delete_none:
  assumes "\<not> 0 < rows_affected P rows"
  shows "delete_where P rows = rows"
proof -
  have "\<forall>r \<in> set rows. \<not> P r" using assms unfolding rows_affected_pos by blast
  then show ?thesis by (simp add: delete_where_def)
qed

lemma cache_ok_apply_alert_op:
  assumes "cache_ok ds"
  shows "cache_ok (apply_alert_op p ds)"
proof (cases p)
  case (CreateRule now r)
  with assms show ?thesis
    by (cases ds) (auto simp: create_rule_def alert_create_def Let_def split: prod.splits)
next
  case (UpdateRule now i r)
  with assms show ?thesis
    by (cases ds) (auto simp: update_rule_def alert_update_def Let_def split: prod.splits)
next
  case (DeleteRule i org)
  obtain db s where [simp]: "ds = (db, s)" by fastforce
  let ?P = "\<lambda>x. ar_id x = Some i \<and> ar_organization_id x = org"
  have "\<not> 0 < rows_affected ?P (alert_rules db) \<Longrightarrow> delete_where ?P (alert_rules db) = alert_rules db"
    by (rule delete_none)
  with assms show ?thesis
    by (auto simp: DeleteRule delete_rule_def alert_delete_def Let_def)
next
  case (AlertPass hosts containers now)
  obtain db s where [simp]: "ds = (db, s)" by fastforce
  obtain out s' where ev: "evaluate_once (Ok (alert_list db)) hosts containers (is_in_maintenance now db) now s
      = (out, s')" by fastforce
  show ?thesis
    using assms evaluate_once_cache [OF ev]
    by (auto simp: AlertPass alert_pass_def ev cache_ok_def)
qed

section \<open>Parsing of stored texts\<close>

lemma server_target: "target_from_str ''SERVER'' = Ok TServer"
  by code_simp

lemma cpu_metric: "metric_from_str ''CPU'' = Ok Cpu"
  by code_simp

lemma gt_operator: "operator_from_str ''GT'' = Ok GreaterThan"
  by code_simp

lemma parse_signed_int_to_dec:
  assumes "- (2 ^ 63) \<le> i" "i < 2 ^ 63"
  shows "parse_signed i64_max (int_to_dec i) = Some i"
proof (cases "i < 0")
  case True
  with assms(1) show ?thesis by (simp add: parse_signed_def int_to_dec_def)
next
  case False
  obtain c cs where d: "nat_to_dec (nat i) = c # cs" by (meson list.exhaust nat_to_dec_nonempty)
  have dig: "is_ascii_digit c" using nat_to_dec_digits [of "nat i"] d by simp
  then have "c \<noteq> CHR ''-''" "c \<noteq> CHR ''+''" by (auto simp: is_ascii_digit_def char_code_def)
  moreover have "parse_digits (c # cs) = Some (nat i)" using parse_digits_nat_to_dec [of "nat i"] d by simp
  ultimately show ?thesis using False assms(2)
    by (simp add: parse_signed_def parse_unsigned_def int_to_dec_def d)
qed

section \<open>Example data\<close>

definition example_rule :: parsed_rule where
  "example_rule = \<lparr> rule_id = 7, rule_name = ''cpu'', rule_target_kind = TServer, rule_target_id = 0,
     rule_metric = Cpu, rule_operator = GreaterThan, rule_threshold = 80, rule_window_samples = 1,
     rule_cooldown_seconds = 60, rule_organization_id = 1 \<rparr>"

definition example_reading :: target_reading where
  "example_reading = \<lparr> read_kind = TServer, read_key = ''3'', read_display_name = ''server 3'',
     read_sample = \<lparr> cpu_percent = 95, memory_percent = 10, disk_percent = 10 \<rparr> \<rparr>"

definition example_passes :: "(target_reading list \<times> int) list" where
  "example_passes = [([example_reading], 10), ([example_reading], 20), ([example_reading], 70)]"

definition example_row :: alert_rule where
  "example_row = \<lparr> ar_id = Some 7, ar_name = ''cpu'', ar_target_type = ''SERVER'', ar_target_id = 0,
     ar_metric_name = ''CPU'', ar_operator = ''GT'', ar_threshold = 80, ar_duration_seconds = 10,
     ar_notification_channel = ''SYSTEM'', ar_enabled = 1, ar_organization_id = 1,
     ar_created_at = 0, ar_updated_at = 0 \<rparr>"

definition example_metric :: server_metric where
  "example_metric = \<lparr> sm_server_id = 3, sm_timestamp = Some 100, sm_distro = ''debian'',
     sm_cpu = 95, sm_mem_used = 10, sm_disk_used = 10 \<rparr>"

definition example_entry :: engine_entry where
  "example_entry = \<lparr> entry_window = window_new 1, last_fired_at = None \<rparr>"

definition fresh_service :: alert_service where
  "fresh_service = \<lparr> svc_engine = [], svc_rules_cache = None \<rparr>"

section \<open>Properties\<close>

text \<open>
  C11. Cooldown of alerts.  Over any sequence of passes with the same rules and
  increasing times, two alerts of one rule on one target are at least the
  cooldown of the rule apart, also within one pass and across changes of the
  window; the engine may start in any state.
\<close>
theorem alert_cooldown:
  assumes "distinct (map rule_id rules)" "r \<in> set rules" "0 \<le> rule_cooldown_seconds r"
    and "sorted (map snd passes)" "\<forall>p \<in> set passes. 0 \<le> snd p \<and> snd p < 2 ^ 63"
    and "hm_wf st" "alert_run rules passes [] st = (hist, st')"
  shows "sorted_wrt (\<lambda>s t. s + rule_cooldown_seconds r \<le> t) (alerts_for (rule_id r) key hist)"
proof -
  have uniq: "\<forall>r' \<in> set rules. rule_id r' = rule_id r \<longrightarrow> r' = r"
    using distinct_map_inj [OF assms(1) _ assms(2)] by blast
  have "cooldown_inv r key 0 (alerts_for (rule_id r) key []) st"
    using assms(6) by (simp add: cooldown_inv_def cooled_def alerts_for_def)
  moreover have "sorted (0 # map snd passes)" using assms(4,5) by auto
  ultimately show ?thesis
    using cooldown_inv_run [OF _ _ assms(5) assms(2) uniq assms(3,7)] by (simp add: cooled_def)
qed

theorem alert_cooldown_witness:
  "alerts_for 7 ''3'' (fst (alert_run [example_rule] example_passes [] [])) = [10, 70]
   \<and> sorted_wrt (\<lambda>s t. s + 60 \<le> t) (alerts_for 7 ''3'' (fst (alert_run [example_rule] example_passes [] [])))"
proof
  show "alerts_for 7 ''3'' (fst (alert_run [example_rule] example_passes [] [])) = [10, 70]"
    by code_simp
  obtain hist st' where run: "alert_run [example_rule] example_passes [] [] = (hist, st')" by fastforce
  have "sorted_wrt (\<lambda>s t. s + rule_cooldown_seconds example_rule \<le> t)
      (alerts_for (rule_id example_rule) ''3'' hist)"
    by (rule alert_cooldown [OF _ _ _ _ _ _ run])
       (simp_all add: example_rule_def example_passes_def hm_wf_def)
  then show "sorted_wrt (\<lambda>s t. s + 60 \<le> t)
      (alerts_for 7 ''3'' (fst (alert_run [example_rule] example_passes [] [])))"
    by (simp add: run) (simp add: example_rule_def)
qed

text \<open>
  C12. Meaning of the sliding window.  After any history of samples, pushing one
  more into a window of a rule reports a sustained breach exactly when the
  window's number of samples has been seen and at least four fifths of the last
  ones breached; the window keeps exactly these samples.
\<close>
theorem window_sustained:
  "window_push b (push_all h (window_new c))
     = (sustained (max c 1) (h @ [b]), window_of (max c 1) (h @ [b]))"
  by (simp add: window_new_window_of push_all_window_of window_push_window_of)

text \<open>
  State of dead rules.  Dropping the state of rules that no longer exist
  keeps the entries of every live rule unchanged and removes every other entry,
  also when the number of one rule is a prefix of the number of another.
\<close>
theorem retain_rules_exact:
  assumes "hm_wf st"
  shows "hm_get (state_key i k) (retain_rules rules st)
       = (if i \<in> rule_id ` set rules then hm_get (state_key i k) st else None)"
  using assms by (rule hm_get_retain_rules)

theorem retain_rules_exact_witness:
  "hm_get (state_key 7 ''3'') (retain_rules [example_rule] [(state_key 7 ''3'', example_entry), (state_key 71 ''3'', example_entry)]) = Some example_entry
   \<and> hm_get (state_key 71 ''3'') (retain_rules [example_rule] [(state_key 7 ''3'', example_entry), (state_key 71 ''3'', example_entry)]) = None"
  by (subst (1 2) retain_rules_exact) (simp_all add: hm_wf_def hm_get_def example_rule_def)

text \<open>
  C13. Origin of notifications.  Every notification of a pass of the alert
  service goes to the organization of a rule in the cache that covers a fresh
  reading of this pass, in particular one of the kind of target the rule names,
  and none is about a server that is in maintenance for that organization.
\<close>
theorem evaluate_once_notifications:
  assumes "evaluate_once rows (Ok hs) (Ok cs) maint now s = (Some (n, notes), s')"
    and "(org, trig, msg) \<in> set notes"
  shows "\<exists>rules r rd. svc_rules_cache s' = Some rules \<and> r \<in> set rules
      \<and> rd \<in> set (host_readings now hs @ container_readings now cs) \<and> rule_covers r rd
      \<and> org = rule_organization_id r \<and> trig = ServerThreshold \<and> msg = to_message now (fired_of r rd)
      \<and> (read_kind rd = TServer
           \<longrightarrow> \<not> maint org (case parse_signed i64_max (read_key rd) of Some n \<Rightarrow> n | None \<Rightarrow> 0))"
proof -
  let ?rds = "host_readings now hs @ container_readings now cs"
  from evaluate_once_notes [OF assms] obtain rules fired st a where
    c: "svc_rules_cache s' = Some rules" and ev: "evaluate rules ?rds now st = (fired, svc_engine s')"
    and a: "a \<in> set fired" "\<not> suppressed maint a"
    and out: "(org, trig, msg) = (fired_organization_id a, ServerThreshold, to_message now a)"
    by metis
  have "alert_origin rules ?rds a" using evaluate_origin [of a rules ?rds now st] ev a by simp
  then obtain r rd where "r \<in> set rules" "rd \<in> set ?rds" "rule_covers r rd" "a = fired_of r rd"
    unfolding alert_origin_def by blast
  with c a out show ?thesis by (auto simp: fired_of_def suppressed_def)
qed

theorem evaluate_once_notifications_witness:
  "\<exists>org trig msg rules r rd. snd (the (fst (evaluate_once (Ok [example_row]) (Ok [example_metric]) (Ok []) (\<lambda>_ _. False) 100 fresh_service)))
       = [(org, trig, msg)]
     \<and> org = 1 \<and> r \<in> set rules \<and> rule_covers r rd \<and> org = rule_organization_id r"
proof -
  let ?ev = "evaluate_once (Ok [example_row]) (Ok [example_metric]) (Ok []) (\<lambda>_ _. False) 100 fresh_service"
  define msg where "msg = snd (snd (hd (snd (the (fst ?ev)))))"
  have out: "fst ?ev = Some (1, [(1, ServerThreshold, msg)])"
    unfolding msg_def by code_simp
  then have "?ev = (Some (1, [(1, ServerThreshold, msg)]), snd ?ev)" by (metis prod.collapse)
  from evaluate_once_notifications [OF this, of 1 ServerThreshold msg]
  show ?thesis using out by auto
qed





end
