(* ===== verification/Permissions.thy ===== *)
theory Permissions
  imports SqlTable StringEnum "HOL-Library.List_Lexorder" "HOL-Library.Char_ord"
begin

text \<open>
  The tables of users, organizations and permissions with the repositories on
  them: \<open>src/src/db/repository/{permission_groups,groups,organization_members,
  organization_invites,user_policy,resource_access,organization,users}.rs\<close>.
  UNIQUE indexes, CHECK constraints and foreign keys are those of
  \<open>src/db/migrations/\<close> (0001, 0006, 0042, 0043).  A statement that violates
  one is rolled back; a transaction that fails leaves the tables as they were.
\<close>

section \<open>Tables\<close>

record user_row =
  usr_id :: int
  usr_email :: "string option"
  usr_last_name :: "string option"
  usr_first_name :: "string option"
  usr_avatar :: string
  usr_role :: "string option"
  usr_about_me :: "string option"
  usr_password :: string
  usr_is_email_verify :: "int option"
  usr_email_verify_at :: "int option"
  usr_two_factor_enable :: "int option"
  usr_is_registered :: int
  usr_added_by :: "int option"
  usr_group_id :: int
  usr_created_at :: int
  usr_updated_at :: int

record organization_row =
  org_id :: int
  org_name :: string
  org_logo :: "string option"
  org_slug :: string
  org_owner_id :: int
  org_created_at :: int
  org_updated_at :: int

record group_row =
  grp_id :: int
  grp_name :: string
  grp_is_system :: bool
  grp_organization_id :: "int option"
  grp_created_at :: int
  grp_updated_at :: int

record policy_row =
  pol_id :: int
  pol_action :: string

record member_row =
  mem_id :: int
  mem_role :: "string option"
  mem_user_id :: int
  mem_organization_id :: int
  mem_group_id :: "int option"
  mem_created_at :: int
  mem_updated_at :: int

record invite_row =
  inv_id :: int
  inv_email :: string
  inv_role :: "string option"
  inv_status :: "string option"
  inv_token :: string
  inv_group_id :: int
  inv_organization_id :: int
  inv_invited_by :: int
  inv_expired_at :: int
  inv_created_at :: int

record user_policy_row =
  up_user_id :: int
  up_org_id :: int
  up_policy_id :: int
  up_effect :: string

record resource_access_row =
  ra_user_id :: int
  ra_org_id :: int
  ra_resource_type :: string
  ra_resource_id :: int

datatype audit_metadata =
    InviteMeta string string
  | RoleMeta string
  | GroupMeta int
  | PoliciesMeta "(int \<times> string) list"

record audit_row =
  aud_user_email :: string
  aud_user_role :: string
  aud_action :: string
  aud_resource_type :: string
  aud_resource_id :: "string option"
  aud_metadata :: "audit_metadata option"
  aud_organization_id :: "int option"
  aud_user_id :: "int option"
  aud_created_at :: int

record rbac_db =
  users :: "user_row list"
  users_seq :: int
  organizations :: "organization_row list"
  organizations_seq :: int
  groups :: "group_row list"
  groups_seq :: int
  policies :: "policy_row list"
  group_policy :: "(int \<times> int) list"
  members :: "member_row list"
  members_seq :: int
  invites :: "invite_row list"
  invites_seq :: int
  user_policies :: "user_policy_row list"
  resource_accesses :: "resource_access_row list"
  audit_log :: "audit_row list"

section \<open>Users and organizations\<close>

definition user_by_id :: "int \<Rightarrow> rbac_db \<Rightarrow> user_row option" where
  "user_by_id i db = find (\<lambda>u. usr_id u = i) (users db)"

definition user_by_email :: "string \<Rightarrow> rbac_db \<Rightarrow> user_row option" where
  "user_by_email e db = find (\<lambda>u. usr_email u = Some e) (users db)"

definition null_or_in :: "string option \<Rightarrow> string list \<Rightarrow> bool" where
  "null_or_in c vs = (case c of None \<Rightarrow> True | Some v \<Rightarrow> v \<in> set vs)"

definition user_create :: "user_row \<Rightarrow> rbac_db \<Rightarrow> int sqlx \<times> rbac_db" where
  "user_create u db =
     (let i = users_seq db + 1 in
      if \<not> null_or_in (usr_role u) [''OWNER'', ''ADMIN'', ''MEMBER'']
      then (Err (Constraint ''role_check''), db)
      else if usr_email u \<noteq> None \<and> list_ex (\<lambda>x. usr_email x = usr_email u) (users db)
      then (Err (Constraint ''UNIQUE users.email''), db)
      else if usr_group_id u \<notin> set (map grp_id (groups db))
              \<or> (case usr_added_by u of None \<Rightarrow> False | Some a \<Rightarrow> a \<notin> set (map usr_id (users db)))
      then (Err (Constraint ''FOREIGN KEY''), db)
      else (Ok i, db\<lparr>users := users db @ [u\<lparr>usr_id := i\<rparr>], users_seq := i\<rparr>))"

definition organization_by_id :: "int \<Rightarrow> rbac_db \<Rightarrow> organization_row option" where
  "organization_by_id i db = find (\<lambda>x. org_id x = i) (organizations db)"

definition organization_list_by_owner :: "int \<Rightarrow> rbac_db \<Rightarrow> organization_row list" where
  "organization_list_by_owner owner db =
     order_by_desc (\<lambda>x. (org_created_at x, org_id x)) (filter (\<lambda>x. org_owner_id x = owner) (organizations db))"

definition organization_insert ::
  "int \<Rightarrow> string \<Rightarrow> string option \<Rightarrow> string \<Rightarrow> int \<Rightarrow> rbac_db \<Rightarrow> organization_row sqlx \<times> rbac_db" where
  "organization_insert now name logo slug owner db =
     (let i = organizations_seq db + 1;
          row = \<lparr> org_id = i, org_name = name, org_logo = logo, org_slug = slug, org_owner_id = owner,
                  org_created_at = now, org_updated_at = now \<rparr>
      in if list_ex (\<lambda>x. org_name x = name \<or> org_slug x = slug) (organizations db)
         then (Err (Constraint ''UNIQUE organization''), db)
         else if owner \<notin> set (map usr_id (users db)) then (Err (Constraint ''FOREIGN KEY''), db)
         else (Ok row, db\<lparr>organizations := organizations db @ [row], organizations_seq := i\<rparr>))"

text \<open>\<open>UPDATE \<dots> RETURNING\<close> of one row; the trigger sets \<open>updated_at\<close> after the row is returned.\<close>

definition organization_update_and_return ::
  "int \<Rightarrow> int \<Rightarrow> string \<Rightarrow> string option \<Rightarrow> string \<Rightarrow> rbac_db \<Rightarrow> organization_row sqlx \<times> rbac_db" where
  "organization_update_and_return now i name logo slug db =
     (case organization_by_id i db of
        None \<Rightarrow> (Err RowNotFound, db)
      | Some x \<Rightarrow>
          if list_ex (\<lambda>y. org_id y \<noteq> i \<and> (org_name y = name \<or> org_slug y = slug)) (organizations db)
          then (Err (Constraint ''UNIQUE organization''), db)
          else (let f = (\<lambda>y. y\<lparr>org_name := name, org_logo := logo, org_slug := slug\<rparr>) in
            (Ok (f x), db\<lparr>organizations := update_where (\<lambda>y. org_id y = i)
               (\<lambda>y. (f y)\<lparr>org_updated_at := now\<rparr>) (organizations db)\<rparr>)))"

text \<open>
  Deleting an organization deletes its members, groups, invites, policies and
  accesses; \<open>group_policy.group_id\<close> and \<open>users.group_id\<close> do not cascade, so the
  statement fails when a deleted group is still referenced there.
\<close>

definition organization_delete :: "int \<Rightarrow> rbac_db \<Rightarrow> unit sqlx \<times> rbac_db" where
  "organization_delete i db =
     (let gone = map grp_id (filter (\<lambda>g. grp_organization_id g = Some i) (groups db)) in
      if list_ex (\<lambda>(g, _). g \<in> set gone) (group_policy db) \<or> list_ex (\<lambda>u. usr_group_id u \<in> set gone) (users db)
      then (Err (Constraint ''FOREIGN KEY''), db)
      else (Ok (), db\<lparr>organizations := delete_where (\<lambda>x. org_id x = i) (organizations db),
             groups := delete_where (\<lambda>g. grp_organization_id g = Some i) (groups db),
             members := update_where (\<lambda>m. case mem_group_id m of None \<Rightarrow> False | Some g \<Rightarrow> g \<in> set gone)
               (\<lambda>m. m\<lparr>mem_group_id := None\<rparr>) (delete_where (\<lambda>m. mem_organization_id m = i) (members db)),
             invites := delete_where (\<lambda>v. inv_organization_id v = i \<or> inv_group_id v \<in> set gone) (invites db),
             user_policies := delete_where (\<lambda>u. up_org_id u = i) (user_policies db),
             resource_accesses := delete_where (\<lambda>r. ra_org_id r = i) (resource_accesses db),
             audit_log := update_where (\<lambda>a. aud_organization_id a = Some i)
               (\<lambda>a. a\<lparr>aud_organization_id := None\<rparr>) (audit_log db)\<rparr>))"

section \<open>Members\<close>

definition first_organization_id :: "int \<Rightarrow> rbac_db \<Rightarrow> int option" where
  "first_organization_id u db =
     map_option mem_organization_id (fetch_optional (sort_key mem_id (filter (\<lambda>m. mem_user_id m = u) (members db))))"

definition member_of :: "int \<Rightarrow> int \<Rightarrow> member_row \<Rightarrow> bool" where
  "member_of u org m = (mem_user_id m = u \<and> mem_organization_id m = org)"

text \<open>The scalar query decodes a \<open>String\<close>, so a NULL role is an error.\<close>

definition member_role :: "int \<Rightarrow> int \<Rightarrow> rbac_db \<Rightarrow> string option sqlx" where
  "member_role u org db =
     (case find (member_of u org) (members db) of
        None \<Rightarrow> Ok None
      | Some m \<Rightarrow> (case mem_role m of None \<Rightarrow> Err (Protocol ''unexpected null'') | Some r \<Rightarrow> Ok (Some r)))"

definition list_with_user_for_organization :: "int \<Rightarrow> rbac_db \<Rightarrow> (member_row \<times> user_row) list" where
  "list_with_user_for_organization org db =
     List.map_filter (\<lambda>m. map_option (Pair m) (user_by_id (mem_user_id m) db))
       (sort_key (\<lambda>m. (mem_created_at m, mem_id m)) (filter (\<lambda>m. mem_organization_id m = org) (members db)))"

definition role_check :: "string option \<Rightarrow> bool" where
  "role_check r = null_or_in r [''ADMIN'', ''MEMBER'']"

definition update_role :: "int \<Rightarrow> int \<Rightarrow> int \<Rightarrow> string \<Rightarrow> rbac_db \<Rightarrow> bool sqlx \<times> rbac_db" where
  "update_role now u org role db =
     (let n = rows_affected (member_of u org) (members db) in
      if 0 < n \<and> \<not> role_check (Some role) then (Err (Constraint ''role_check''), db)
      else (Ok (0 < n), db\<lparr>members := update_where (member_of u org)
              (\<lambda>m. m\<lparr>mem_role := Some role, mem_updated_at := now\<rparr>) (members db)\<rparr>))"

definition member_remove :: "int \<Rightarrow> int \<Rightarrow> rbac_db \<Rightarrow> bool sqlx \<times> rbac_db" where
  "member_remove u org db =
     (Ok (0 < rows_affected (member_of u org) (members db)),
      db\<lparr>members := delete_where (member_of u org) (members db)\<rparr>)"

definition member_insert :: "int \<Rightarrow> string \<Rightarrow> int \<Rightarrow> int \<Rightarrow> int option \<Rightarrow> rbac_db \<Rightarrow> unit sqlx \<times> rbac_db" where
  "member_insert now role u org grp db =
     (let i = members_seq db + 1;
          row = \<lparr> mem_id = i, mem_role = Some role, mem_user_id = u, mem_organization_id = org,
                  mem_group_id = grp, mem_created_at = now, mem_updated_at = now \<rparr>
      in if \<not> role_check (Some role) then (Err (Constraint ''role_check''), db)
         else if list_ex (member_of u org) (members db)
         then (Err (Constraint ''idx_organization_members_unique''), db)
         else if u \<notin> set (map usr_id (users db)) \<or> org \<notin> set (map org_id (organizations db))
              \<or> (case grp of None \<Rightarrow> False | Some g \<Rightarrow> g \<notin> set (map grp_id (groups db)))
         then (Err (Constraint ''FOREIGN KEY''), db)
         else (Ok (), db\<lparr>members := members db @ [row], members_seq := i\<rparr>))"

definition add_member_in_transaction :: "int \<Rightarrow> string \<Rightarrow> int \<Rightarrow> int \<Rightarrow> rbac_db \<Rightarrow> unit sqlx \<times> rbac_db" where
  "add_member_in_transaction now role u org db = member_insert now role u org None db"

definition add_member_with_group :: "int \<Rightarrow> string \<Rightarrow> int \<Rightarrow> int \<Rightarrow> int \<Rightarrow> rbac_db \<Rightarrow> unit sqlx \<times> rbac_db" where
  "add_member_with_group now role u org grp db = member_insert now role u org (Some grp) db"

section \<open>Groups and policies\<close>

definition group_insert ::
  "int \<Rightarrow> string \<Rightarrow> bool \<Rightarrow> int option \<Rightarrow> rbac_db \<Rightarrow> int sqlx \<times> rbac_db" where
  "group_insert now name is_system org db =
     (let i = groups_seq db + 1;
          row = \<lparr> grp_id = i, grp_name = name, grp_is_system = is_system, grp_organization_id = org,
                  grp_created_at = now, grp_updated_at = now \<rparr>
      in if list_ex (\<lambda>g. grp_name g = name) (groups db) then (Err (Constraint ''UNIQUE groups.name''), db)
         else if (case org of None \<Rightarrow> False | Some x \<Rightarrow> x \<notin> set (map org_id (organizations db)))
         then (Err (Constraint ''FOREIGN KEY''), db)
         else (Ok i, db\<lparr>groups := groups db @ [row], groups_seq := i\<rparr>))"

fun group_policy_insert_all :: "int \<Rightarrow> int list \<Rightarrow> rbac_db \<Rightarrow> rbac_db sqlx" where
  "group_policy_insert_all g [] db = Ok db"
| "group_policy_insert_all g (p # ps) db =
     (if (g, p) \<in> set (group_policy db) then Err (Constraint ''idx_group_policy_unique'')
      else if g \<notin> set (map grp_id (groups db)) \<or> p \<notin> set (map pol_id (policies db))
      then Err (Constraint ''FOREIGN KEY'')
      else group_policy_insert_all g ps (db\<lparr>group_policy := group_policy db @ [(g, p)]\<rparr>))"

text \<open>\<open>LIKE\<close> ignores the case of ASCII letters.\<close>

definition like_suffix :: "string \<Rightarrow> string \<Rightarrow> bool" where
  "like_suffix s suf = ends_with (to_ascii_lowercase s) (to_ascii_lowercase suf)"

definition default_admin_policies :: "rbac_db \<Rightarrow> int list" where
  "default_admin_policies db = map pol_id (filter (\<lambda>p. list_ex (like_suffix (pol_action p))
     ['':read'', '':create'', '':update'', '':delete'']) (policies db))"

definition group_policy_insert_or_ignore :: "int \<Rightarrow> int \<Rightarrow> rbac_db \<Rightarrow> rbac_db" where
  "group_policy_insert_or_ignore g p db =
     (if (g, p) \<in> set (group_policy db) then db else db\<lparr>group_policy := group_policy db @ [(g, p)]\<rparr>)"

definition seed_organization_defaults :: "int \<Rightarrow> int \<Rightarrow> rbac_db \<Rightarrow> int sqlx \<times> rbac_db" where
  "seed_organization_defaults now org db =
     (case find (\<lambda>g. grp_organization_id g = Some org \<and> grp_name g = ''Organization Admin'') (groups db) of
        Some g \<Rightarrow> (Ok (grp_id g), db)
      | None \<Rightarrow> (case group_insert now ''Organization Admin'' True (Some org) db of
          (Inl e, _) \<Rightarrow> (Err e, db)
        | (Inr admin, db') \<Rightarrow>
            (Ok admin, fold (group_policy_insert_or_ignore admin) (default_admin_policies db') db')))"

definition list_groups :: "int \<Rightarrow> rbac_db \<Rightarrow> group_row list" where
  "list_groups org db =
     sort_key (\<lambda>g. (\<not> grp_is_system g, grp_name g))
       (filter (\<lambda>g. grp_organization_id g = None \<or> grp_organization_id g = Some org) (groups db))"

definition actions_of_group :: "int \<Rightarrow> rbac_db \<Rightarrow> string list" where
  "actions_of_group g db = concat (map (\<lambda>(g', p). if g' = g
     then map pol_action (filter (\<lambda>x. pol_id x = p) (policies db)) else []) (group_policy db))"

definition group_actions :: "int \<Rightarrow> rbac_db \<Rightarrow> string list" where
  "group_actions g db = sort (actions_of_group g db)"

definition all_policies :: "rbac_db \<Rightarrow> policy_row list" where
  "all_policies db = sort_key pol_action (policies db)"

text \<open>The sub-queries of the two permission queries: actions of the member's group, and the user's overrides.\<close>

definition member_group_actions :: "int \<Rightarrow> int \<Rightarrow> rbac_db \<Rightarrow> string list" where
  "member_group_actions u org db = concat (map (\<lambda>m. case mem_group_id m of
     None \<Rightarrow> [] | Some g \<Rightarrow> actions_of_group g db) (filter (member_of u org) (members db)))"

definition override_actions :: "string \<Rightarrow> int \<Rightarrow> int \<Rightarrow> rbac_db \<Rightarrow> string list" where
  "override_actions effect u org db = concat (map
     (\<lambda>ov. map pol_action (filter (\<lambda>x. pol_id x = up_policy_id ov) (policies db)))
     (filter (\<lambda>ov. up_user_id ov = u \<and> up_org_id ov = org \<and> up_effect ov = effect) (user_policies db)))"

definition get_user_final_permissions :: "int \<Rightarrow> int \<Rightarrow> rbac_db \<Rightarrow> string list" where
  "get_user_final_permissions u org db =
     remdups (filter (\<lambda>a. a \<notin> set (override_actions ''DENY'' u org db))
       (member_group_actions u org db @ override_actions ''GRANT'' u org db))"

definition effective_actions :: "int \<Rightarrow> int \<Rightarrow> rbac_db \<Rightarrow> string list" where
  "effective_actions u org db =
     sort (remdups (filter (\<lambda>a. a \<notin> set (override_actions ''DENY'' u org db))
       (member_group_actions u org db @ override_actions ''GRANT'' u org db)))"

definition group_create :: "int \<Rightarrow> int \<Rightarrow> string \<Rightarrow> int list \<Rightarrow> rbac_db \<Rightarrow> int sqlx \<times> rbac_db" where
  "group_create now org name ps db =
     (case group_insert now name False (Some org) db of
        (Inl e, _) \<Rightarrow> (Err e, db)
      | (Inr g, db1) \<Rightarrow> (case group_policy_insert_all g ps db1 of
          Inl e \<Rightarrow> (Err e, db) | Inr db2 \<Rightarrow> (Ok g, db2)))"

definition group_update :: "int \<Rightarrow> int \<Rightarrow> int \<Rightarrow> string \<Rightarrow> int list \<Rightarrow> rbac_db \<Rightarrow> bool sqlx \<times> rbac_db" where
  "group_update now org g name ps db =
     (let P = (\<lambda>x. grp_id x = g \<and> grp_organization_id x = Some org \<and> \<not> grp_is_system x) in
      if rows_affected P (groups db) = 0 then (Ok False, db)
      else if list_ex (\<lambda>x. grp_id x \<noteq> g \<and> grp_name x = name) (groups db)
      then (Err (Constraint ''UNIQUE groups.name''), db)
      else (case group_policy_insert_all g ps
              (db\<lparr>groups := update_where P (\<lambda>x. x\<lparr>grp_name := name, grp_updated_at := now\<rparr>) (groups db),
                  group_policy := delete_where (\<lambda>(g', _). g' = g) (group_policy db)\<rparr>) of
             Inl e \<Rightarrow> (Err e, db) | Inr db2 \<Rightarrow> (Ok True, db2)))"

text \<open>
  \<open>DELETE FROM groups\<close>: rows of \<open>group_policy\<close> and \<open>users\<close> that reference the
  group make it fail, invites for it are deleted, members lose it.
\<close>

definition group_delete :: "int \<Rightarrow> int \<Rightarrow> rbac_db \<Rightarrow> bool sqlx \<times> rbac_db" where
  "group_delete org g db =
     (if list_ex (\<lambda>m. mem_organization_id m = org \<and> mem_group_id m = Some g) (members db) then (Ok False, db)
      else (let P = (\<lambda>x. grp_id x = g \<and> grp_organization_id x = Some org \<and> \<not> grp_is_system x) in
        if rows_affected P (groups db) = 0 then (Ok False, db)
        else if list_ex (\<lambda>(g', _). g' = g) (group_policy db) \<or> list_ex (\<lambda>u. usr_group_id u = g) (users db)
        then (Err (Constraint ''FOREIGN KEY''), db)
        else (Ok True, db\<lparr>groups := delete_where P (groups db),
                invites := delete_where (\<lambda>v. inv_group_id v = g) (invites db),
                members := update_where (\<lambda>m. mem_group_id m = Some g) (\<lambda>m. m\<lparr>mem_group_id := None\<rparr>) (members db)\<rparr>)))"

definition group_assign :: "int \<Rightarrow> int \<Rightarrow> int \<Rightarrow> int \<Rightarrow> rbac_db \<Rightarrow> bool sqlx \<times> rbac_db" where
  "group_assign now org u g db =
     (if \<not> list_ex (\<lambda>x. grp_id x = g \<and> (grp_organization_id x = None \<or> grp_organization_id x = Some org)) (groups db)
      then (Ok False, db)
      else (Ok (0 < rows_affected (member_of u org) (members db)),
            db\<lparr>members := update_where (member_of u org)
                 (\<lambda>m. m\<lparr>mem_group_id := Some g, mem_updated_at := now\<rparr>) (members db)\<rparr>))"

fun user_policy_insert_all :: "int \<Rightarrow> int \<Rightarrow> (int \<times> string) list \<Rightarrow> rbac_db \<Rightarrow> rbac_db sqlx" where
  "user_policy_insert_all u org [] db = Ok db"
| "user_policy_insert_all u org ((p, effect) # ps) db =
     (if effect \<notin> set [''GRANT'', ''DENY''] then Err (Constraint ''effect_check'')
      else if list_ex (\<lambda>ov. up_user_id ov = u \<and> up_org_id ov = org \<and> up_policy_id ov = p) (user_policies db)
      then Err (Constraint ''UNIQUE user_policy'')
      else if u \<notin> set (map usr_id (users db)) \<or> org \<notin> set (map org_id (organizations db))
           \<or> p \<notin> set (map pol_id (policies db)) then Err (Constraint ''FOREIGN KEY'')
      else user_policy_insert_all u org ps (db\<lparr>user_policies := user_policies db
             @ [\<lparr> up_user_id = u, up_org_id = org, up_policy_id = p, up_effect = effect \<rparr>]\<rparr>))"

definition user_policies_replace :: "int \<Rightarrow> int \<Rightarrow> (int \<times> string) list \<Rightarrow> rbac_db \<Rightarrow> bool sqlx \<times> rbac_db" where
  "user_policies_replace org u ps db =
     (if \<not> list_ex (member_of u org) (members db) then (Ok False, db)
      else (case user_policy_insert_all u org ps
              (db\<lparr>user_policies := delete_where (\<lambda>ov. up_user_id ov = u \<and> up_org_id ov = org) (user_policies db)\<rparr>) of
             Inl e \<Rightarrow> (Err e, db) | Inr db2 \<Rightarrow> (Ok True, db2)))"

definition user_policy_upsert :: "int \<Rightarrow> int \<Rightarrow> int \<Rightarrow> string \<Rightarrow> rbac_db \<Rightarrow> user_policy_row sqlx \<times> rbac_db" where
  "user_policy_upsert u org p effect db =
     (let P = (\<lambda>ov. up_user_id ov = u \<and> up_org_id ov = org \<and> up_policy_id ov = p);
          row = \<lparr> up_user_id = u, up_org_id = org, up_policy_id = p, up_effect = effect \<rparr>
      in if effect \<notin> set [''GRANT'', ''DENY''] then (Err (Constraint ''effect_check''), db)
         else if u \<notin> set (map usr_id (users db)) \<or> org \<notin> set (map org_id (organizations db))
              \<or> p \<notin> set (map pol_id (policies db)) then (Err (Constraint ''FOREIGN KEY''), db)
         else if list_ex P (user_policies db)
         then (Ok row, db\<lparr>user_policies := update_where P (\<lambda>ov. ov\<lparr>up_effect := effect\<rparr>) (user_policies db)\<rparr>)
         else (Ok row, db\<lparr>user_policies := user_policies db @ [row]\<rparr>))"

definition user_policy_delete :: "int \<Rightarrow> int \<Rightarrow> int \<Rightarrow> rbac_db \<Rightarrow> unit sqlx \<times> rbac_db" where
  "user_policy_delete u org p db =
     (Ok (), db\<lparr>user_policies :=
        delete_where (\<lambda>ov. up_user_id ov = u \<and> up_org_id ov = org \<and> up_policy_id ov = p) (user_policies db)\<rparr>)"

section \<open>Resource access\<close>

definition access_eq :: "int \<Rightarrow> int \<Rightarrow> string \<Rightarrow> int \<Rightarrow> resource_access_row \<Rightarrow> bool" where
  "access_eq u org t i r = (ra_user_id r = u \<and> ra_org_id r = org \<and> ra_resource_type r = t \<and> ra_resource_id r = i)"

definition check_access :: "int \<Rightarrow> int \<Rightarrow> string \<Rightarrow> int \<Rightarrow> rbac_db \<Rightarrow> bool" where
  "check_access u org t i db = (0 < length (filter (access_eq u org t i) (resource_accesses db)))"

definition grant_access :: "int \<Rightarrow> int \<Rightarrow> string \<Rightarrow> int \<Rightarrow> rbac_db \<Rightarrow> resource_access_row sqlx \<times> rbac_db" where
  "grant_access u org t i db =
     (let row = \<lparr> ra_user_id = u, ra_org_id = org, ra_resource_type = t, ra_resource_id = i \<rparr> in
      if t \<notin> set [''PROJECT'', ''SERVER'', ''ENVIRONMENT'', ''SERVICE'', ''GIT_PROVIDER'']
      then (Err (Constraint ''resource_type_check''), db)
      else if list_ex (access_eq u org t i) (resource_accesses db)
      then (Err (Constraint ''idx_resource_access_unique''), db)
      else if u \<notin> set (map usr_id (users db)) \<or> org \<notin> set (map org_id (organizations db))
      then (Err (Constraint ''FOREIGN KEY''), db)
      else (Ok row, db\<lparr>resource_accesses := resource_accesses db @ [row]\<rparr>))"

definition revoke_access :: "int \<Rightarrow> int \<Rightarrow> string \<Rightarrow> int \<Rightarrow> rbac_db \<Rightarrow> unit sqlx \<times> rbac_db" where
  "revoke_access u org t i db =
     (Ok (), db\<lparr>resource_accesses := delete_where (access_eq u org t i) (resource_accesses db)\<rparr>)"

section \<open>Invitations\<close>

definition invite_by_id :: "int \<Rightarrow> rbac_db \<Rightarrow> invite_row option" where
  "invite_by_id i db = find (\<lambda>v. inv_id v = i) (invites db)"

definition invite_create :: "invite_row \<Rightarrow> rbac_db \<Rightarrow> int sqlx \<times> rbac_db" where
  "invite_create v db =
     (let i = invites_seq db + 1 in
      if \<not> role_check (inv_role v) then (Err (Constraint ''role_check''), db)
      else if \<not> null_or_in (inv_status v) [''PENDING'', ''ACCEPTED'', ''REJECTED'']
      then (Err (Constraint ''status_check''), db)
      else if list_ex (\<lambda>x. inv_token x = inv_token v) (invites db)
      then (Err (Constraint ''UNIQUE organization_invites.token''), db)
      else if inv_group_id v \<notin> set (map grp_id (groups db))
           \<or> inv_organization_id v \<notin> set (map org_id (organizations db))
           \<or> inv_invited_by v \<notin> set (map usr_id (users db)) then (Err (Constraint ''FOREIGN KEY''), db)
      else (Ok i, db\<lparr>invites := invites db @ [v\<lparr>inv_id := i\<rparr>], invites_seq := i\<rparr>))"

definition list_pending_for_organization :: "int \<Rightarrow> int \<Rightarrow> rbac_db \<Rightarrow> invite_row list" where
  "list_pending_for_organization now org db = order_by_desc inv_created_at
     (filter (\<lambda>v. inv_organization_id v = org \<and> inv_status v = Some ''PENDING'' \<and> now < inv_expired_at v) (invites db))"

definition find_pending_by_token :: "int \<Rightarrow> string \<Rightarrow> rbac_db \<Rightarrow> invite_row option" where
  "find_pending_by_token now h db =
     find (\<lambda>v. inv_token v = h \<and> inv_status v = Some ''PENDING'' \<and> now < inv_expired_at v) (invites db)"

definition invite_set_status :: "int \<Rightarrow> string \<Rightarrow> rbac_db \<Rightarrow> bool sqlx \<times> rbac_db" where
  "invite_set_status i st db =
     (let P = (\<lambda>v. inv_id v = i \<and> inv_status v = Some ''PENDING'') in
      if 0 < rows_affected P (invites db) \<and> st \<notin> set [''PENDING'', ''ACCEPTED'', ''REJECTED'']
      then (Err (Constraint ''status_check''), db)
      else (Ok (0 < rows_affected P (invites db)),
            db\<lparr>invites := update_where P (\<lambda>v. v\<lparr>inv_status := Some st\<rparr>) (invites db)\<rparr>))"

definition purge_expired :: "int \<Rightarrow> rbac_db \<Rightarrow> nat \<times> rbac_db" where
  "purge_expired now db =
     (let P = (\<lambda>v. inv_status v = Some ''PENDING'' \<and> inv_expired_at v \<le> now) in
      (rows_affected P (invites db),
       db\<lparr>invites := update_where P (\<lambda>v. v\<lparr>inv_status := Some ''REJECTED''\<rparr>) (invites db)\<rparr>))"

end
