(* ===== verification/PermissionService.thy ===== *)
theory PermissionService
  imports Permissions
begin

text \<open>
  The services on the permission tables:
  \<open>src/src/services/permission/{permission_service,group_service}.rs\<close>,
  \<open>src/src/services/organization.rs\<close>, and the extractor that guards handlers,
  \<open>src/src/core/middleware/permission/extractor.rs\<close>.  The random token, the
  digest (crate \<open>sha2\<close>) and the password hash (crate \<open>argon2\<close>) are arguments;
  the e-mail of an invitation is not modelled, its outcome is ignored by the code.
\<close>

section \<open>Permission checks\<close>

definition is_platform_owner :: "int \<Rightarrow> rbac_db \<Rightarrow> bool" where
  "is_platform_owner u db =
     (case user_by_id u db of
        None \<Rightarrow> False
      | Some row \<Rightarrow> (case usr_role row of None \<Rightarrow> False | Some r \<Rightarrow> user_role_from r = RoleOwner))"

definition admin_role :: "string \<Rightarrow> bool" where
  "admin_role r = (let upper = to_ascii_uppercase r in upper = ''ADMIN'' \<or> upper = ''OWNER'')"

definition resolve_organization :: "int \<Rightarrow> rbac_db \<Rightarrow> int option" where
  "resolve_organization u db = first_organization_id u db"

record policy_action =
  pa_resource :: string
  pa_operation :: string

definition policy_action_as_str :: "policy_action \<Rightarrow> string" where
  "policy_action_as_str a = pa_resource a @ '':'' @ pa_operation a"

definition check_permission :: "int \<Rightarrow> int \<Rightarrow> policy_action \<Rightarrow> rbac_db \<Rightarrow> bool sqlx" where
  "check_permission u org a db =
     (if is_platform_owner u db then Ok True
      else (case member_role u org db of
        Inl e \<Rightarrow> Err e
      | Inr None \<Rightarrow> Ok False
      | Inr (Some role) \<Rightarrow>
          if admin_role role then Ok True
          else Ok (list_ex (\<lambda>p. p = policy_action_as_str a) (get_user_final_permissions u org db))))"

definition check_resource_access :: "int \<Rightarrow> int \<Rightarrow> resource_type \<Rightarrow> int \<Rightarrow> rbac_db \<Rightarrow> bool" where
  "check_resource_access u org t i db =
     (if is_platform_owner u db then True else check_access u org (resource_type_as_str t) i db)"

definition set_user_policy_override ::
  "int \<Rightarrow> int \<Rightarrow> int \<Rightarrow> policy_effect \<Rightarrow> rbac_db \<Rightarrow> user_policy_row sqlx \<times> rbac_db" where
  "set_user_policy_override u org p e db = user_policy_upsert u org p (policy_effect_as_str e) db"

definition remove_user_policy_override :: "int \<Rightarrow> int \<Rightarrow> int \<Rightarrow> rbac_db \<Rightarrow> unit sqlx \<times> rbac_db" where
  "remove_user_policy_override u org p db = user_policy_delete u org p db"

section \<open>The guard of handlers\<close>

datatype permission_rejection = NoOrganization | Denied string | Internal string

text \<open>
  \<open>header\<close> is the value of \<open>x-organization-id\<close> when present; a value that is
  not an \<open>i64\<close> counts as absent.  The result is the organization the handler
  runs in.
\<close>

definition require_permission ::
  "int \<Rightarrow> string option \<Rightarrow> policy_action \<Rightarrow> rbac_db \<Rightarrow> (permission_rejection, int) result" where
  "require_permission u header required db =
     (case (case (case header of None \<Rightarrow> None | Some v \<Rightarrow> parse_signed i64_max v) of
              Some i \<Rightarrow> Some i | None \<Rightarrow> resolve_organization u db) of
        None \<Rightarrow> Err NoOrganization
      | Some org \<Rightarrow> (case check_permission u org required db of
          Inl _ \<Rightarrow> Err (Internal ''failed to evaluate permission'')
        | Inr allowed \<Rightarrow> if allowed then Ok org else Err (Denied (policy_action_as_str required))))"

section \<open>Groups, members and invitations\<close>

datatype permission_group_error =
    Invalid string
  | Escalation string
  | NotFound
  | Database sql_error

type_synonym 'a perm = "(permission_group_error, 'a) result"

definition from_sql :: "'a sqlx \<Rightarrow> 'a perm" where
  "from_sql r = (case r of Inl e \<Rightarrow> Err (Database e) | Inr x \<Rightarrow> Ok x)"

definition actor_is_privileged :: "int \<Rightarrow> int \<Rightarrow> rbac_db \<Rightarrow> bool perm" where
  "actor_is_privileged actor org db =
     (if is_platform_owner actor db then Ok True
      else (case member_role actor org db of
        Inl e \<Rightarrow> Err (Database e)
      | Inr None \<Rightarrow> Ok False
      | Inr (Some r) \<Rightarrow> Ok (admin_role r)))"

definition missing_delegated_action :: "string set \<Rightarrow> string list \<Rightarrow> string option" where
  "missing_delegated_action owned requested = find (\<lambda>a. a \<notin> owned) requested"

definition ensure_subset :: "int \<Rightarrow> int \<Rightarrow> string list \<Rightarrow> rbac_db \<Rightarrow> unit perm" where
  "ensure_subset actor org requested db =
     (case actor_is_privileged actor org db of
        Inl e \<Rightarrow> Err e
      | Inr True \<Rightarrow> Ok ()
      | Inr False \<Rightarrow> (case missing_delegated_action (set (effective_actions actor org db)) requested of
          Some a \<Rightarrow> Err (Escalation a) | None \<Rightarrow> Ok ()))"

definition ensure_manageable_target :: "int \<Rightarrow> int \<Rightarrow> int \<Rightarrow> rbac_db \<Rightarrow> unit perm" where
  "ensure_manageable_target actor u org db =
     (case actor_is_privileged actor org db of
        Inl e \<Rightarrow> Err e
      | Inr True \<Rightarrow> Ok ()
      | Inr False \<Rightarrow> (case member_role u org db of
          Inl e \<Rightarrow> Err (Database e)
        | Inr role \<Rightarrow> if role \<noteq> Some (user_role_as_str RoleMember)
            then Err (Escalation ''cannot manage an admin or non-member'') else Ok ()))"

text \<open>\<open>HashMap::collect\<close> keeps the last entry of a key.\<close>

definition policy_by_action :: "rbac_db \<Rightarrow> string \<Rightarrow> int option" where
  "policy_by_action db a = map_of (rev (map (\<lambda>p. (pol_action p, pol_id p)) (all_policies db))) a"

definition policy_by_id :: "rbac_db \<Rightarrow> int \<Rightarrow> string option" where
  "policy_by_id db i = map_of (rev (map (\<lambda>p. (pol_id p, pol_action p)) (all_policies db))) i"

fun lookup_policy_ids :: "rbac_db \<Rightarrow> string list \<Rightarrow> int list perm" where
  "lookup_policy_ids db [] = Ok []"
| "lookup_policy_ids db (a # as) =
     (case policy_by_action db a of
        None \<Rightarrow> Err (Invalid (''unknown action: '' @ a))
      | Some i \<Rightarrow> (case lookup_policy_ids db as of Inl e \<Rightarrow> Err e | Inr is \<Rightarrow> Ok (i # is)))"

definition validated_policy_ids :: "int \<Rightarrow> int \<Rightarrow> string list \<Rightarrow> rbac_db \<Rightarrow> int list perm" where
  "validated_policy_ids actor org requested db =
     (case ensure_subset actor org requested db of
        Inl e \<Rightarrow> Err e | Inr _ \<Rightarrow> lookup_policy_ids db requested)"

definition audit ::
  "int \<Rightarrow> int \<Rightarrow> int \<Rightarrow> string \<Rightarrow> string \<Rightarrow> string option \<Rightarrow> audit_metadata option \<Rightarrow> rbac_db \<Rightarrow> rbac_db" where
  "audit now actor org action resource rid meta db =
     (let u = user_by_id actor db;
          row = \<lparr> aud_user_email = (case u of None \<Rightarrow> [] | Some x \<Rightarrow> (case usr_email x of None \<Rightarrow> [] | Some e \<Rightarrow> e)),
                  aud_user_role = (case u of None \<Rightarrow> ''MEMBER'' | Some x \<Rightarrow> (case usr_role x of None \<Rightarrow> ''MEMBER'' | Some r \<Rightarrow> r)),
                  aud_action = action, aud_resource_type = resource, aud_resource_id = rid, aud_metadata = meta,
                  aud_organization_id = Some org, aud_user_id = Some actor, aud_created_at = now \<rparr>
      in if actor \<notin> set (map usr_id (users db)) \<or> org \<notin> set (map org_id (organizations db)) then db
         else db\<lparr>audit_log := audit_log db @ [row]\<rparr>)"

definition list_invites :: "int \<Rightarrow> int \<Rightarrow> rbac_db \<Rightarrow> invite_row list \<times> rbac_db" where
  "list_invites now org db = (case purge_expired now db of
     (_, db') \<Rightarrow> (list_pending_for_organization now org db', db'))"

definition hash_token :: "(string \<Rightarrow> string) \<Rightarrow> string \<Rightarrow> string" where
  "hash_token sha256_hex token = sha256_hex (trim token)"

definition create_invite ::
  "(string \<Rightarrow> string) \<Rightarrow> string option \<Rightarrow> int \<Rightarrow> int \<Rightarrow> int \<Rightarrow> string \<Rightarrow> string \<Rightarrow> int
   \<Rightarrow> rbac_db \<Rightarrow> string perm \<times> rbac_db" where
  "create_invite sha256_hex random_token now actor org raw_email raw_role grp db =
     (let email = to_ascii_lowercase (trim raw_email); role = to_ascii_uppercase raw_role in
      if CHR 0x40 \<notin> set email then (Err (Invalid ''invalid email''), db)
      else if role \<notin> set [''ADMIN'', ''MEMBER''] then (Err (Invalid ''role must be ADMIN or MEMBER''), db)
      else (case actor_is_privileged actor org db of
        Inl e \<Rightarrow> (Err e, db)
      | Inr privileged \<Rightarrow>
          if role = ''ADMIN'' \<and> \<not> privileged
          then (Err (Escalation ''only admins can invite another admin''), db)
          else (case (if privileged then Ok () else ensure_subset actor org (group_actions grp db) db) of
            Inl e \<Rightarrow> (Err e, db)
          | Inr _ \<Rightarrow> (case random_token of
              None \<Rightarrow> (Err (Invalid ''could not generate invite token''), db)
            | Some token \<Rightarrow>
                (case invite_create \<lparr> inv_id = 0, inv_email = email, inv_role = Some role,
                        inv_status = Some ''PENDING'', inv_token = hash_token sha256_hex token,
                        inv_group_id = grp, inv_organization_id = org, inv_invited_by = actor,
                        inv_expired_at = now + 7 * 86400, inv_created_at = now \<rparr> db of
                   (Inl e, db') \<Rightarrow> (Err (Database e), db')
                 | (Inr _, db') \<Rightarrow> (Ok token, audit now actor org ''INVITE_CREATED'' ''organization_invite'' None
                      (Some (InviteMeta email role)) db'))))))"

definition cancel_invite :: "int \<Rightarrow> int \<Rightarrow> int \<Rightarrow> int \<Rightarrow> rbac_db \<Rightarrow> unit perm \<times> rbac_db" where
  "cancel_invite now actor org i db =
     (case invite_by_id i db of
        None \<Rightarrow> (Err NotFound, db)
      | Some v \<Rightarrow>
          if inv_organization_id v \<noteq> org \<or> inv_status v \<noteq> Some ''PENDING'' then (Err NotFound, db)
          else (case invite_set_status i ''REJECTED'' db of
            (Inl e, db') \<Rightarrow> (Err (Database e), db')
          | (Inr changed, db') \<Rightarrow>
              if \<not> changed then (Err NotFound, db')
              else (Ok (), audit now actor org ''INVITE_CANCELLED'' ''organization_invite'' (Some (int_to_dec i)) None db')))"

definition accept_invite :: "(string \<Rightarrow> string) \<Rightarrow> int \<Rightarrow> int \<Rightarrow> string \<Rightarrow> rbac_db \<Rightarrow> unit perm \<times> rbac_db" where
  "accept_invite sha256_hex now u token db =
     (case find_pending_by_token now (hash_token sha256_hex token) db of
        None \<Rightarrow> (Err NotFound, db)
      | Some v \<Rightarrow> (case user_by_id u db of
          None \<Rightarrow> (Err NotFound, db)
        | Some row \<Rightarrow>
            if map_option to_ascii_lowercase (usr_email row) \<noteq> Some (inv_email v)
            then (Err (Escalation ''invite email does not match authenticated user''), db)
            else (case member_role u (inv_organization_id v) db of
              Inl e \<Rightarrow> (Err (Database e), db)
            | Inr (Some _) \<Rightarrow> (Err (Invalid ''user is already an organization member''), db)
            | Inr None \<Rightarrow>
                (case add_member_with_group now (case inv_role v of Some r \<Rightarrow> r | None \<Rightarrow> ''MEMBER'') u
                        (inv_organization_id v) (inv_group_id v) db of
                   (Inl e, db1) \<Rightarrow> (Err (Database e), db1)
                 | (Inr _, db1) \<Rightarrow> (case invite_set_status (inv_id v) ''ACCEPTED'' db1 of
                     (Inl e, db2) \<Rightarrow> (Err (Database e), db2)
                   | (Inr _, db2) \<Rightarrow> (Ok (), audit now u (inv_organization_id v) ''INVITE_ACCEPTED''
                        ''organization_invite'' (Some (int_to_dec (inv_id v))) None db2))))))"

definition list_groups_with_actions :: "int \<Rightarrow> rbac_db \<Rightarrow> (group_row \<times> string list) list" where
  "list_groups_with_actions org db = map (\<lambda>g. (g, group_actions (grp_id g) db)) (list_groups org db)"

definition member_account :: "int \<Rightarrow> string \<Rightarrow> string \<Rightarrow> user_row" where
  "member_account now email h =
     \<lparr> usr_id = 0, usr_email = Some email, usr_last_name = None, usr_first_name = None, usr_avatar = [],
       usr_role = Some ''member'', usr_about_me = None, usr_password = h, usr_is_email_verify = Some 1,
       usr_email_verify_at = Some now, usr_two_factor_enable = Some 0, usr_is_registered = 1,
       usr_added_by = None, usr_group_id = 1, usr_created_at = now, usr_updated_at = now \<rparr>"

definition add_member ::
  "(string \<Rightarrow> (unit, string) result) \<Rightarrow> int \<Rightarrow> int \<Rightarrow> int \<Rightarrow> string \<Rightarrow> string \<Rightarrow> string option
   \<Rightarrow> rbac_db \<Rightarrow> unit perm \<times> rbac_db" where
  "add_member hash_password now actor org raw_email raw_role password db =
     (case actor_is_privileged actor org db of
        Inl e \<Rightarrow> (Err e, db)
      | Inr False \<Rightarrow> (Err (Escalation ''only organization admins can add members''), db)
      | Inr True \<Rightarrow>
         (let email = to_ascii_lowercase (trim raw_email); role = to_ascii_uppercase raw_role in
          if CHR 0x40 \<notin> set email then (Err (Invalid ''invalid email''), db)
          else if role \<notin> set [''ADMIN'', ''MEMBER''] then (Err (Invalid ''role must be ADMIN or MEMBER''), db)
          else (case (case user_by_email email db of
                  Some row \<Rightarrow> (Ok (usr_id row), db)
                | None \<Rightarrow> (case hash_password (case password of Some p \<Rightarrow> p | None \<Rightarrow> ''ChangeMe123!'') of
                    Inl _ \<Rightarrow> (Err (Invalid ''failed to hash password''), db)
                  | Inr h \<Rightarrow> (case user_create (member_account now email h) db of
                      (r, db') \<Rightarrow> (from_sql r, db')))) of
             (Inl e, db1) \<Rightarrow> (Err e, db1)
           | (Inr u, db1) \<Rightarrow> (case member_role u org db1 of
               Inl e \<Rightarrow> (Err (Database e), db1)
             | Inr (Some _) \<Rightarrow> (Err (Invalid ''user is already a member of this organization''), db1)
             | Inr None \<Rightarrow> (case add_member_with_group now role u org 1 db1 of
                 (r, db2) \<Rightarrow> (from_sql r, db2))))))"

definition update_member_role :: "int \<Rightarrow> int \<Rightarrow> int \<Rightarrow> int \<Rightarrow> string \<Rightarrow> rbac_db \<Rightarrow> unit perm \<times> rbac_db" where
  "update_member_role now actor org u raw_role db =
     (case actor_is_privileged actor org db of
        Inl e \<Rightarrow> (Err e, db)
      | Inr False \<Rightarrow> (Err (Escalation ''only organization admins can change roles''), db)
      | Inr True \<Rightarrow>
         (let role = to_ascii_uppercase raw_role in
          if role \<notin> set [''ADMIN'', ''MEMBER''] then (Err (Invalid ''role must be ADMIN or MEMBER''), db)
          else if u = actor \<and> role \<noteq> ''ADMIN'' then (Err (Invalid ''you cannot demote yourself''), db)
          else (case update_role now u org role db of
             (Inl e, db') \<Rightarrow> (Err (Database e), db')
           | (Inr changed, db') \<Rightarrow>
               if \<not> changed then (Err NotFound, db')
               else (Ok (), audit now actor org ''MEMBER_ROLE_UPDATED'' ''organization_member''
                        (Some (int_to_dec u)) (Some (RoleMeta role)) db'))))"

definition remove_member :: "int \<Rightarrow> int \<Rightarrow> int \<Rightarrow> int \<Rightarrow> rbac_db \<Rightarrow> unit perm \<times> rbac_db" where
  "remove_member now actor org u db =
     (case actor_is_privileged actor org db of
        Inl e \<Rightarrow> (Err e, db)
      | Inr False \<Rightarrow> (Err (Escalation ''only organization admins can remove members''), db)
      | Inr True \<Rightarrow>
          if u = actor then (Err (Invalid ''you cannot remove yourself''), db)
          else (case member_remove u org db of
             (Inl e, db') \<Rightarrow> (Err (Database e), db')
           | (Inr removed, db') \<Rightarrow>
               if \<not> removed then (Err NotFound, db')
               else (Ok (), audit now actor org ''MEMBER_REMOVED'' ''organization_member'' (Some (int_to_dec u)) None db')))"

definition list_policies :: "rbac_db \<Rightarrow> policy_row list" where
  "list_policies db = all_policies db"

definition create_group :: "int \<Rightarrow> int \<Rightarrow> int \<Rightarrow> string \<Rightarrow> string list \<Rightarrow> rbac_db \<Rightarrow> int perm \<times> rbac_db" where
  "create_group now actor org name actions db =
     (case validated_policy_ids actor org actions db of
        Inl e \<Rightarrow> (Err e, db)
      | Inr ids \<Rightarrow> (case group_create now org (trim name) ids db of
          (Inl e, db') \<Rightarrow> (Err (Database e), db')
        | (Inr g, db') \<Rightarrow> (Ok g, audit now actor org ''PERMISSION_GROUP_CREATED'' ''permission_group''
             (Some (int_to_dec g)) None db')))"

definition update_group ::
  "int \<Rightarrow> int \<Rightarrow> int \<Rightarrow> int \<Rightarrow> string \<Rightarrow> string list \<Rightarrow> rbac_db \<Rightarrow> unit perm \<times> rbac_db" where
  "update_group now actor org g name actions db =
     (case validated_policy_ids actor org actions db of
        Inl e \<Rightarrow> (Err e, db)
      | Inr ids \<Rightarrow> (case group_update now org g (trim name) ids db of
          (Inl e, db') \<Rightarrow> (Err (Database e), db')
        | (Inr updated, db') \<Rightarrow>
            if \<not> updated then (Err NotFound, db')
            else (Ok (), audit now actor org ''PERMISSION_GROUP_UPDATED'' ''permission_group''
                     (Some (int_to_dec g)) None db')))"

definition delete_group :: "int \<Rightarrow> int \<Rightarrow> int \<Rightarrow> int \<Rightarrow> rbac_db \<Rightarrow> unit perm \<times> rbac_db" where
  "delete_group now actor org g db =
     (case group_delete org g db of
        (Inl e, db') \<Rightarrow> (Err (Database e), db')
      | (Inr deleted, db') \<Rightarrow>
          if \<not> deleted
          then (Err (Invalid ''group is protected, missing, or still assigned to members''), db')
          else (Ok (), audit now actor org ''PERMISSION_GROUP_DELETED'' ''permission_group''
                   (Some (int_to_dec g)) None db'))"

definition assign_group :: "int \<Rightarrow> int \<Rightarrow> int \<Rightarrow> int \<Rightarrow> int \<Rightarrow> rbac_db \<Rightarrow> unit perm \<times> rbac_db" where
  "assign_group now actor org u g db =
     (case ensure_manageable_target actor u org db of
        Inl e \<Rightarrow> (Err e, db)
      | Inr _ \<Rightarrow> (case ensure_subset actor org (group_actions g db) db of
          Inl e \<Rightarrow> (Err e, db)
        | Inr _ \<Rightarrow> (case group_assign now org u g db of
            (Inl e, db') \<Rightarrow> (Err (Database e), db')
          | (Inr assigned, db') \<Rightarrow>
              if \<not> assigned then (Err NotFound, db')
              else (Ok (), audit now actor org ''PERMISSION_GROUP_ASSIGNED'' ''organization_member''
                       (Some (int_to_dec u)) (Some (GroupMeta g)) db'))))"

fun resolve_overrides :: "rbac_db \<Rightarrow> (int \<times> string) list \<Rightarrow> (string list \<times> (int \<times> string) list) perm" where
  "resolve_overrides db [] = Ok ([], [])"
| "resolve_overrides db ((p, raw) # es) =
     (let effect = to_ascii_uppercase raw in
      if effect \<noteq> ''GRANT'' \<and> effect \<noteq> ''DENY'' then Err (Invalid (''invalid effect: '' @ raw))
      else (case policy_by_id db p of
        None \<Rightarrow> Err (Invalid (''unknown policy id: '' @ int_to_dec p))
      | Some a \<Rightarrow> (case resolve_overrides db es of
          Inl e \<Rightarrow> Err e | Inr (as, ps) \<Rightarrow> Ok (a # as, (p, effect) # ps))))"

definition replace_user_policies ::
  "int \<Rightarrow> int \<Rightarrow> int \<Rightarrow> int \<Rightarrow> (int \<times> string) list \<Rightarrow> rbac_db \<Rightarrow> unit perm \<times> rbac_db" where
  "replace_user_policies now actor org u entries db =
     (case ensure_manageable_target actor u org db of
        Inl e \<Rightarrow> (Err e, db)
      | Inr _ \<Rightarrow> (case resolve_overrides db entries of
          Inl e \<Rightarrow> (Err e, db)
        | Inr (actions, ps) \<Rightarrow> (case ensure_subset actor org actions db of
            Inl e \<Rightarrow> (Err e, db)
          | Inr _ \<Rightarrow> (case user_policies_replace org u ps db of
              (Inl e, db') \<Rightarrow> (Err (Database e), db')
            | (Inr replaced, db') \<Rightarrow>
                if \<not> replaced then (Err NotFound, db')
                else (Ok (), audit now actor org ''USER_POLICIES_REPLACED'' ''organization_member''
                         (Some (int_to_dec u)) (Some (PoliciesMeta ps)) db')))))"

section \<open>Organizations\<close>

fun slug_fold :: "string \<Rightarrow> bool \<Rightarrow> string \<Rightarrow> string" where
  "slug_fold out sep [] = out"
| "slug_fold out sep (c # cs) =
     (if is_ascii_alphanumeric c then slug_fold (out @ [c]) False cs
      else if out \<noteq> [] \<and> \<not> sep then slug_fold (out @ ''-'') True cs
      else slug_fold out sep cs)"

definition trim_end_char :: "char \<Rightarrow> string \<Rightarrow> string" where
  "trim_end_char c s = rev (dropWhile (\<lambda>x. x = c) (rev s))"

definition normalize_slug :: "string \<Rightarrow> string" where
  "normalize_slug v = trim_end_char (CHR ''-'') (slug_fold [] False (to_ascii_lowercase (trim v)))"

definition organization_get :: "int \<Rightarrow> rbac_db \<Rightarrow> organization_row sqlx" where
  "organization_get i db = (case organization_by_id i db of None \<Rightarrow> Err RowNotFound | Some x \<Rightarrow> Ok x)"

definition organization_create ::
  "int \<Rightarrow> int \<Rightarrow> string \<Rightarrow> string option \<Rightarrow> string option \<Rightarrow> rbac_db \<Rightarrow> organization_row sqlx \<times> rbac_db" where
  "organization_create now owner name logo slug_in db =
     (let slug = normalize_slug (case slug_in of Some s \<Rightarrow> s | None \<Rightarrow> name) in
      if slug = [] then (Err (Protocol ''organization slug cannot be empty''), db)
      else (case organization_insert now name logo slug owner db of
        (Inl e, _) \<Rightarrow> (Err e, db)
      | (Inr row, db1) \<Rightarrow> (case add_member_in_transaction now ''ADMIN'' owner (org_id row) db1 of
          (Inl e, _) \<Rightarrow> (Err e, db)
        | (Inr _, db2) \<Rightarrow> (case seed_organization_defaults now (org_id row) db2 of
            (Inl e, db3) \<Rightarrow> (Err e, db3)
          | (Inr _, db3) \<Rightarrow> (Ok row, db3)))))"

definition organization_update ::
  "int \<Rightarrow> int \<Rightarrow> string option \<Rightarrow> string option \<Rightarrow> string option \<Rightarrow> rbac_db \<Rightarrow> organization_row sqlx \<times> rbac_db" where
  "organization_update now i name_in logo_in slug_in db =
     (case organization_get i db of
        Inl e \<Rightarrow> (Err e, db)
      | Inr cur \<Rightarrow>
         (let name = (case name_in of Some n \<Rightarrow> n | None \<Rightarrow> org_name cur);
              logo = coalesce logo_in (org_logo cur);
              slug = (case slug_in of Some s \<Rightarrow> normalize_slug s | None \<Rightarrow> org_slug cur)
          in if slug = [] then (Err (Protocol ''organization slug cannot be empty''), db)
             else organization_update_and_return now i name logo slug db))"

definition organization_remove :: "int \<Rightarrow> rbac_db \<Rightarrow> unit sqlx \<times> rbac_db" where
  "organization_remove i db =
     (case organization_get i db of Inl e \<Rightarrow> (Err e, db) | Inr _ \<Rightarrow> organization_delete i db)"

end
