(* ===== verification/PermissionLaws.thy ===== *)
theory PermissionLaws
  imports PermissionService
begin

text \<open>
  What the permission services promise: who may act where, that a member cannot
  hand out more than they hold, that operations in one organization leave the
  others alone, and the behaviours that the constraints of the migrated schema
  force on the operations.
\<close>

section \<open>The permission relation\<close>

text \<open>\<open>permits u org s db\<close>: the check for the action with text \<open>s\<close> answers yes.\<close>

definition permits :: "int \<Rightarrow> int \<Rightarrow> string \<Rightarrow> rbac_db \<Rightarrow> bool" where
  "permits u org s db =
     (is_platform_owner u db
      \<or> (case find (member_of u org) (members db) of
           None \<Rightarrow> False
         | Some m \<Rightarrow> (case mem_role m of None \<Rightarrow> False
             | Some r \<Rightarrow> admin_role r \<or> s \<in> set (get_user_final_permissions u org db))))"

lemma check_permission_permits:
  "check_permission u org a db = Ok True \<longleftrightarrow> permits u org (policy_action_as_str a) db"
  by (auto simp: check_permission_def permits_def member_role_def list_ex_iff split: option.splits)

lemma set_final_permissions:
  "set (get_user_final_permissions u org db)
     = (set (member_group_actions u org db) \<union> set (override_actions ''GRANT'' u org db))
       - set (override_actions ''DENY'' u org db)"
  by (auto simp: get_user_final_permissions_def)

lemma set_effective_actions:
  "set (effective_actions u org db) = set (get_user_final_permissions u org db)"
  by (simp add: effective_actions_def get_user_final_permissions_def)

lemma set_actions_of_group:
  "set (actions_of_group g db)
     = {pol_action x | x p. (g, p) \<in> set (group_policy db) \<and> x \<in> set (policies db) \<and> pol_id x = p}"
  by (fastforce simp: actions_of_group_def split: if_splits)

lemma mem_member_group_actions:
  "s \<in> set (member_group_actions u org db)
     \<longleftrightarrow> (\<exists>m g. m \<in> set (members db) \<and> member_of u org m \<and> mem_group_id m = Some g
            \<and> s \<in> set (actions_of_group g db))"
proof -
  have "s \<in> set (case mem_group_id m of None \<Rightarrow> [] | Some g \<Rightarrow> actions_of_group g db)
      \<longleftrightarrow> (\<exists>g. mem_group_id m = Some g \<and> s \<in> set (actions_of_group g db))" for m
    by (cases "mem_group_id m") simp_all
  then show ?thesis by (auto simp: member_group_actions_def) (metis option.inject)
qed

lemma set_override_actions:
  "set (override_actions e u org db)
     = {pol_action x | x ov. ov \<in> set (user_policies db) \<and> up_user_id ov = u \<and> up_org_id ov = org
          \<and> up_effect ov = e \<and> x \<in> set (policies db) \<and> pol_id x = up_policy_id ov}"
  by (auto simp: override_actions_def)

text \<open>An unprivileged actor: no owner of the platform, no admin of the organization.\<close>

lemma unprivileged_cases:
  assumes "actor_is_privileged a org db = Ok False"
  shows "\<not> is_platform_owner a db"
    and "permits a org s db \<longleftrightarrow> find (member_of a org) (members db) \<noteq> None
           \<and> s \<in> set (effective_actions a org db)"
  using assms
  by (auto simp: actor_is_privileged_def permits_def member_role_def set_effective_actions
      split: if_splits option.splits)

lemma ensure_subset_Ok:
  assumes "actor_is_privileged a org db = Ok False" "ensure_subset a org req db = Ok ()"
  shows "set req \<subseteq> set (effective_actions a org db)"
  using assms
  by (auto simp: ensure_subset_def missing_delegated_action_def find_None_iff split: option.splits)

lemma policy_by_action_Some:
  "policy_by_action db a = Some i \<Longrightarrow> \<exists>x \<in> set (policies db). pol_action x = a \<and> pol_id x = i"
  by (auto simp: policy_by_action_def all_policies_def dest!: map_of_SomeD)

lemma policy_by_id_Some:
  "policy_by_id db i = Some a \<Longrightarrow> \<exists>x \<in> set (policies db). pol_action x = a \<and> pol_id x = i"
  by (auto simp: policy_by_id_def all_policies_def dest!: map_of_SomeD)

lemma lookup_policy_ids_Ok:
  "lookup_policy_ids db as = Ok is
   \<Longrightarrow> \<forall>i \<in> set is. \<exists>x \<in> set (policies db). pol_action x \<in> set as \<and> pol_id x = i"
proof (induction as arbitrary: "is")
  case (Cons a as)
  then obtain i js where "policy_by_action db a = Some i" "lookup_policy_ids db as = Ok js" "is = i # js"
    by (auto split: option.splits sum.splits)
  with Cons.IH [of js] policy_by_action_Some [of db a i] show ?case by auto
qed simp

lemma resolve_overrides_Ok:
  "resolve_overrides db es = Ok (as, ps)
   \<Longrightarrow> \<forall>(i, e) \<in> set ps. \<exists>x \<in> set (policies db). pol_action x \<in> set as \<and> pol_id x = i"
proof (induction es arbitrary: as ps)
  case (Cons en es)
  obtain p raw where en: "en = (p, raw)" by fastforce
  with Cons.prems obtain a as' ps' where "policy_by_id db p = Some a" "resolve_overrides db es = Ok (as', ps')"
    "as = a # as'" "ps = (p, to_ascii_uppercase raw) # ps'"
    by (auto simp: Let_def split: if_splits option.splits sum.splits)
  with Cons.IH [of as' ps'] policy_by_id_Some [of db p a] show ?case by auto
qed auto

section \<open>Effects of the statements\<close>

lemma audit_frame [simp]:
  "users (audit now a org ac re i mt db) = users db" "members (audit now a org ac re i mt db) = members db"
  "groups (audit now a org ac re i mt db) = groups db" "policies (audit now a org ac re i mt db) = policies db"
  "group_policy (audit now a org ac re i mt db) = group_policy db"
  "user_policies (audit now a org ac re i mt db) = user_policies db"
  by (simp_all add: audit_def Let_def)

lemma group_policy_insert_all_Ok:
  "group_policy_insert_all g ps db = Ok db'
   \<Longrightarrow> db' = db\<lparr>group_policy := group_policy db @ map (Pair g) ps\<rparr>"
  by (induction g ps db arbitrary: db' rule: group_policy_insert_all.induct) (auto split: if_splits)

lemma user_policy_insert_all_Ok:
  "user_policy_insert_all u org ps db = Ok db'
   \<Longrightarrow> db' = db\<lparr>user_policies := user_policies db @ map (\<lambda>(p, e).
         \<lparr> up_user_id = u, up_org_id = org, up_policy_id = p, up_effect = e \<rparr>) ps\<rparr>"
  by (induction u org ps db arbitrary: db' rule: user_policy_insert_all.induct) (auto split: if_splits)

lemma group_create_effect:
  assumes "group_create now org name ps db = (r, db')"
  shows "users db' = users db \<and> members db' = members db \<and> policies db' = policies db
    \<and> user_policies db' = user_policies db
    \<and> group_policy db' \<in> {group_policy db, group_policy db @ map (Pair (groups_seq db + 1)) ps}"
  using assms
  by (auto simp: group_create_def group_insert_def Let_def split: if_splits sum.splits prod.splits
      dest!: group_policy_insert_all_Ok)

lemma group_update_effect:
  assumes "group_update now org g name ps db = (r, db')"
  shows "users db' = users db \<and> members db' = members db \<and> policies db' = policies db
    \<and> user_policies db' = user_policies db
    \<and> (group_policy db' = group_policy db
       \<or> group_policy db' = delete_where (\<lambda>(g', _). g' = g) (group_policy db) @ map (Pair g) ps
         \<and> (\<exists>x \<in> set (groups db). grp_id x = g \<and> grp_organization_id x = Some org))"
proof (cases "\<exists>x \<in> set (groups db). grp_id x = g \<and> grp_organization_id x = Some org")
  case True
  with assms show ?thesis
    by (auto simp: group_update_def Let_def split: if_splits sum.splits dest!: group_policy_insert_all_Ok)
next
  case False
  then have "rows_affected (\<lambda>x. grp_id x = g \<and> grp_organization_id x = Some org \<and> \<not> grp_is_system x) (groups db) = 0"
    by (auto simp: rows_affected_def filter_empty_conv)
  with assms show ?thesis by (auto simp: group_update_def Let_def)
qed

lemma group_delete_effect:
  assumes "group_delete org g db = (r, db')"
  shows "users db' = users db \<and> policies db' = policies db \<and> user_policies db' = user_policies db
    \<and> group_policy db' = group_policy db
    \<and> (members db' = members db
       \<or> members db' = update_where (\<lambda>m. mem_group_id m = Some g) (\<lambda>m. m\<lparr>mem_group_id := None\<rparr>) (members db)
         \<and> (\<exists>x \<in> set (groups db). grp_id x = g \<and> grp_organization_id x = Some org))"
proof (cases "\<exists>x \<in> set (groups db). grp_id x = g \<and> grp_organization_id x = Some org")
  case True
  with assms show ?thesis
    by (auto simp: group_delete_def Let_def split: if_splits)
next
  case False
  then have "rows_affected (\<lambda>x. grp_id x = g \<and> grp_organization_id x = Some org \<and> \<not> grp_is_system x) (groups db) = 0"
    by (auto simp: rows_affected_def filter_empty_conv)
  with assms show ?thesis by (auto simp: group_delete_def Let_def split: if_splits)
qed

lemma user_policies_replace_Ok:
  assumes "user_policies_replace org u ps db = (r, db')"
  shows "db' = db \<or> db' = db\<lparr>user_policies :=
      delete_where (\<lambda>ov. up_user_id ov = u \<and> up_org_id ov = org) (user_policies db) @ map (\<lambda>(p, e).
         \<lparr> up_user_id = u, up_org_id = org, up_policy_id = p, up_effect = e \<rparr>) ps\<rparr>"
  using assms
  by (auto simp: user_policies_replace_def split: if_splits sum.splits dest!: user_policy_insert_all_Ok)

section \<open>Requests\<close>

text \<open>The operations of the group service that an actor calls in an organization.\<close>

datatype group_request =
    CreateGroup string "string list"
  | UpdateGroup int string "string list"
  | DeleteGroup int
  | AssignGroup int int
  | ReplacePolicies int "(int \<times> string) list"
  | UpdateMemberRole int string
  | RemoveMember int
  | AddMember string string "string option"
  | CreateInvite string string int "string option"
  | CancelInvite int

record crypto =
  digest :: "string \<Rightarrow> string"
  password_hash :: "string \<Rightarrow> (unit, string) result"

fun run_request :: "crypto \<Rightarrow> int \<Rightarrow> int \<Rightarrow> int \<Rightarrow> group_request \<Rightarrow> rbac_db \<Rightarrow> rbac_db" where
  "run_request c now actor org (CreateGroup name as) db = snd (create_group now actor org name as db)"
| "run_request c now actor org (UpdateGroup g name as) db = snd (update_group now actor org g name as db)"
| "run_request c now actor org (DeleteGroup g) db = snd (delete_group now actor org g db)"
| "run_request c now actor org (AssignGroup u g) db = snd (assign_group now actor org u g db)"
| "run_request c now actor org (ReplacePolicies u es) db = snd (replace_user_policies now actor org u es db)"
| "run_request c now actor org (UpdateMemberRole u r) db = snd (update_member_role now actor org u r db)"
| "run_request c now actor org (RemoveMember u) db = snd (remove_member now actor org u db)"
| "run_request c now actor org (AddMember e r p) db = snd (add_member (password_hash c) now actor org e r p db)"
| "run_request c now actor org (CreateInvite e r g t) db = snd (create_invite (digest c) t now actor org e r g db)"
| "run_request c now actor org (CancelInvite i) db = snd (cancel_invite now actor org i db)"

definition role_in :: "int \<Rightarrow> int \<Rightarrow> rbac_db \<Rightarrow> string option option" where
  "role_in u org db = map_option mem_role (find (member_of u org) (members db))"

lemma permits_iff:
  "permits u org s db \<longleftrightarrow> is_platform_owner u db
     \<or> (\<exists>r. role_in u org db = Some (Some r) \<and> (admin_role r \<or> s \<in> set (get_user_final_permissions u org db)))"
  by (auto simp: permits_def role_in_def split: option.splits)

lemma role_in_cong: "members db' = members db \<Longrightarrow> role_in u org db' = role_in u org db"
  by (simp add: role_in_def)

lemma owner_cong: "users db' = users db \<Longrightarrow> is_platform_owner u db' = is_platform_owner u db"
  by (simp add: is_platform_owner_def user_by_id_def)

lemma role_in_update_where:
  assumes "\<And>m. mem_role (f m) = mem_role m" "\<And>m. member_of u org (f m) = member_of u org m"
    and "members db' = update_where P f (members db)"
  shows "role_in u org db' = role_in u org db"
proof -
  have "find (member_of u org) (update_where P f ms)
      = map_option (\<lambda>m. if P m then f m else m) (find (member_of u org) ms)" for ms
    by (induction ms) (auto simp: update_where_def assms(2))
  then show ?thesis
    by (simp add: role_in_def assms(3) option.map_comp comp_def assms(1) if_distrib [of mem_role] cong: if_cong)
qed

lemma role_in_group_change:
  assumes "members db' = update_where P (\<lambda>m. m\<lparr>mem_group_id := x, mem_updated_at := t m\<rparr>) (members db)"
  shows "role_in u org db' = role_in u org db"
  by (rule role_in_update_where [OF _ _ assms]) (simp_all add: member_of_def)

lemma role_in_group_reset:
  assumes "members db' = update_where P (\<lambda>m. m\<lparr>mem_group_id := x\<rparr>) (members db)"
  shows "role_in u org db' = role_in u org db"
  by (rule role_in_update_where [OF _ _ assms]) (simp_all add: member_of_def)

text \<open>A permission that a change adds comes from a new action of the user.\<close>

lemma permits_gain:
  assumes "permits u org s db'" "is_platform_owner u db' = is_platform_owner u db"
    and "role_in u org db' = role_in u org db"
    and "s \<in> set (get_user_final_permissions u org db') \<Longrightarrow> s \<in> set (get_user_final_permissions u org db) \<or> Q"
  shows "permits u org s db \<or> Q"
  using assms by (auto simp: permits_iff)

lemma final_permissions_gain:
  assumes "s \<in> set (get_user_final_permissions u org db')"
    and "s \<in> set (member_group_actions u org db') \<Longrightarrow> s \<in> set (member_group_actions u org db) \<or> Q"
    and "s \<in> set (override_actions ''GRANT'' u org db') \<Longrightarrow> s \<in> set (override_actions ''GRANT'' u org db) \<or> Q"
    and "s \<in> set (override_actions ''DENY'' u org db) \<Longrightarrow> s \<in> set (override_actions ''DENY'' u org db') \<or> Q"
  shows "s \<in> set (get_user_final_permissions u org db) \<or> Q"
  using assms by (auto simp: set_final_permissions)

lemma override_cong:
  "policies db' = policies db \<Longrightarrow> user_policies db' = user_policies db
   \<Longrightarrow> override_actions e u org db' = override_actions e u org db"
  by (simp add: override_actions_def)

text \<open>Rows added to \<open>group_policy\<close> for validated ids bring only requested actions.\<close>

lemma actions_of_group_gain:
  assumes "s \<in> set (actions_of_group g' db')" "policies db' = policies db"
    and "set (group_policy db') \<subseteq> set (group_policy db) \<union> Pair g ` set ids"
    and "distinct (map pol_id (policies db))"
    and "\<forall>i \<in> set ids. \<exists>x \<in> set (policies db). pol_action x \<in> A \<and> pol_id x = i"
  shows "s \<in> set (actions_of_group g' db) \<or> s \<in> A"
proof -
  from assms(1,2) obtain x where x: "(g', pol_id x) \<in> set (group_policy db')" "x \<in> set (policies db)"
    "s = pol_action x" by (auto simp: set_actions_of_group)
  show ?thesis
  proof (cases "(g', pol_id x) \<in> set (group_policy db)")
    case True
    with x show ?thesis by (auto simp: set_actions_of_group)
  next
    case False
    with x assms(3) have "pol_id x \<in> set ids" by auto
    with assms(5) obtain y where "y \<in> set (policies db)" "pol_action y \<in> A" "pol_id y = pol_id x" by blast
    with distinct_map_inj [OF assms(4)] x have "y = x" by blast
    with \<open>pol_action y \<in> A\<close> x show ?thesis by simp
  qed
qed

lemma member_group_actions_gain:
  assumes "s \<in> set (member_group_actions u org db')" "members db' = members db"
    and "\<And>g. s \<in> set (actions_of_group g db') \<Longrightarrow> s \<in> set (actions_of_group g db) \<or> Q"
  shows "s \<in> set (member_group_actions u org db) \<or> Q"
  using assms by (auto simp: mem_member_group_actions)

lemma validated_policy_ids_Ok:
  assumes "actor_is_privileged a org db = Ok False" "validated_policy_ids a org as db = Ok ids"
  shows "\<forall>i \<in> set ids. \<exists>x \<in> set (policies db). pol_action x \<in> set (effective_actions a org db) \<and> pol_id x = i"
proof -
  from assms(2) have "ensure_subset a org as db = Ok ()" "lookup_policy_ids db as = Ok ids"
    by (auto simp: validated_policy_ids_def split: sum.splits)
  with ensure_subset_Ok [OF assms(1)] lookup_policy_ids_Ok show ?thesis by (meson subsetD)
qed

lemma group_change_gain:
  assumes "permits u org s db'" "users db' = users db" "members db' = members db" "policies db' = policies db"
    and "user_policies db' = user_policies db"
    and "set (group_policy db') \<subseteq> set (group_policy db) \<union> Pair g ` set ids"
    and "distinct (map pol_id (policies db))"
    and "\<forall>i \<in> set ids. \<exists>x \<in> set (policies db). pol_action x \<in> A \<and> pol_id x = i"
  shows "permits u org s db \<or> s \<in> A"
proof (rule permits_gain [OF assms(1) owner_cong [OF assms(2)] role_in_cong [OF assms(3)]])
  assume "s \<in> set (get_user_final_permissions u org db')"
  then show "s \<in> set (get_user_final_permissions u org db) \<or> s \<in> A"
  proof (rule final_permissions_gain)
    assume "s \<in> set (member_group_actions u org db')"
    then show "s \<in> set (member_group_actions u org db) \<or> s \<in> A"
      by (rule member_group_actions_gain [OF _ assms(3)]) (rule actions_of_group_gain [OF _ assms(4,6,7,8)])
  qed (simp_all add: override_cong [OF assms(4,5)])
qed

lemma permits_frame:
  assumes "users db' = users db" "members db' = members db" "policies db' = policies db"
    "user_policies db' = user_policies db" "group_policy db' = group_policy db"
  shows "permits u org s db' = permits u org s db"
  unfolding permits_def is_platform_owner_def user_by_id_def get_user_final_permissions_def
    member_group_actions_def actions_of_group_def override_actions_def assms ..

lemma permits_audit [simp]: "permits u k s (audit now a org ac re i mt db) = permits u k s db"
  by (rule permits_frame) simp_all

lemma create_group_gain:
  assumes "actor_is_privileged a org db = Ok False" "distinct (map pol_id (policies db))"
    and "permits u org' s (snd (create_group now a org name as db))"
  shows "permits u org' s db \<or> s \<in> set (effective_actions a org db)"
proof (cases "validated_policy_ids a org as db")
  case (Inr ids)
  obtain r db' where gc: "group_create now org (trim name) ids db = (r, db')" by fastforce
  have "permits u org' s db'"
    using assms(3) by (auto simp: create_group_def Inr gc split: sum.splits)
  then show ?thesis
    using group_create_effect [OF gc] validated_policy_ids_Ok [OF assms(1) Inr]
    by (intro group_change_gain [where db' = db' and g = "groups_seq db + 1" and ids = ids, OF _ _ _ _ _ _ assms(2)]) auto
qed (use assms in \<open>simp add: create_group_def\<close>)

lemma update_group_gain:
  assumes "actor_is_privileged a org db = Ok False" "distinct (map pol_id (policies db))"
    and "permits u org' s (snd (update_group now a org g name as db))"
  shows "permits u org' s db \<or> s \<in> set (effective_actions a org db)"
proof (cases "validated_policy_ids a org as db")
  case (Inr ids)
  obtain r db' where gu: "group_update now org g (trim name) ids db = (r, db')" by fastforce
  have "permits u org' s db'"
    using assms(3) by (auto simp: update_group_def Inr gu split: sum.splits if_splits)
  then show ?thesis
    using group_update_effect [OF gu] validated_policy_ids_Ok [OF assms(1) Inr]
    by (intro group_change_gain [where db' = db' and g = g and ids = ids, OF _ _ _ _ _ _ assms(2)]) auto
qed (use assms in \<open>simp add: update_group_def\<close>)

lemma actions_of_group_cong:
  assumes "policies db' = policies db" "group_policy db' = group_policy db"
  shows "actions_of_group g db' = actions_of_group g db"
  unfolding actions_of_group_def assms ..

text \<open>A change of group memberships that keeps roles and users.\<close>

lemma member_change_gain:
  assumes "permits u org s db'" "users db' = users db" "role_in u org db' = role_in u org db"
    and "policies db' = policies db" "user_policies db' = user_policies db" "group_policy db' = group_policy db"
    and "\<And>m g. m \<in> set (members db') \<Longrightarrow> member_of u org m \<Longrightarrow> mem_group_id m = Some g
          \<Longrightarrow> (\<exists>m' \<in> set (members db). member_of u org m' \<and> mem_group_id m' = Some g) \<or> set (actions_of_group g db) \<subseteq> A"
  shows "permits u org s db \<or> s \<in> A"
proof (rule permits_gain [OF assms(1) owner_cong [OF assms(2)] assms(3)])
  assume "s \<in> set (get_user_final_permissions u org db')"
  then show "s \<in> set (get_user_final_permissions u org db) \<or> s \<in> A"
  proof (rule final_permissions_gain)
    assume "s \<in> set (member_group_actions u org db')"
    then obtain m g where "m \<in> set (members db')" "member_of u org m" "mem_group_id m = Some g"
      "s \<in> set (actions_of_group g db)"
      by (auto simp: mem_member_group_actions actions_of_group_cong [OF assms(4,6)])
    with assms(7) [of m g] show "s \<in> set (member_group_actions u org db) \<or> s \<in> A"
      by (auto simp: mem_member_group_actions)
  qed (simp_all add: override_cong [OF assms(4,5)])
qed

lemma delete_group_gain:
  assumes "permits u org' s (snd (delete_group now a org g db))"
  shows "permits u org' s db"
proof -
  obtain r db' where gd: "group_delete org g db = (r, db')" by fastforce
  note eff = group_delete_effect [OF gd]
  have p: "permits u org' s db'"
    using assms by (auto simp: delete_group_def gd split: sum.splits if_splits)
  have "role_in u org' db' = role_in u org' db"
    using eff by (elim conjE disjE) (auto intro: role_in_cong elim!: role_in_group_change role_in_group_reset)
  with p eff have "permits u org' s db \<or> s \<in> {}"
    by (intro member_change_gain [where db' = db']) (auto simp: mem_update_where)
  then show ?thesis by simp
qed

lemma group_assign_effect:
  assumes "group_assign now org u g db = (r, db')"
  shows "users db' = users db \<and> policies db' = policies db \<and> user_policies db' = user_policies db
    \<and> group_policy db' = group_policy db
    \<and> (members db' = members db
       \<or> members db' = update_where (member_of u org) (\<lambda>m. m\<lparr>mem_group_id := Some g, mem_updated_at := now\<rparr>) (members db))"
  using assms by (auto simp: group_assign_def split: if_splits)

lemma assign_group_gain:
  assumes "actor_is_privileged a org db = Ok False"
    and "permits u org' s (snd (assign_group now a org v g db))"
  shows "permits u org' s db \<or> s \<in> set (effective_actions a org db)"
proof (cases "ensure_manageable_target a v org db = Ok () \<and> ensure_subset a org (group_actions g db) db = Ok ()")
  case True
  obtain r db' where ga: "group_assign now org v g db = (r, db')" by fastforce
  note eff = group_assign_effect [OF ga]
  have p: "permits u org' s db'"
    using assms(2) True by (auto simp: assign_group_def ga split: sum.splits if_splits)
  have role: "role_in u org' db' = role_in u org' db"
    using eff by (elim conjE disjE) (auto intro: role_in_cong elim!: role_in_group_change role_in_group_reset)
  have sub: "set (actions_of_group g db) \<subseteq> set (effective_actions a org db)"
    using ensure_subset_Ok [OF assms(1), of "group_actions g db"] True by (simp add: group_actions_def)
  show ?thesis
  proof (rule member_change_gain [OF p _ role])
    fix m h
    assume "m \<in> set (members db')" "member_of u org' m" "mem_group_id m = Some h"
    with eff have "(\<exists>m' \<in> set (members db). member_of u org' m' \<and> mem_group_id m' = Some h) \<or> h = g"
      by (auto simp: mem_update_where)
    with sub show "(\<exists>m' \<in> set (members db). member_of u org' m' \<and> mem_group_id m' = Some h)
        \<or> set (actions_of_group h db) \<subseteq> set (effective_actions a org db)"
      by blast
  qed (use eff in auto)
qed (use assms in \<open>auto simp: assign_group_def split: sum.splits\<close>)

lemma replace_policies_gain:
  assumes "actor_is_privileged a org db = Ok False" "distinct (map pol_id (policies db))"
    and "permits u org' s (snd (replace_user_policies now a org v es db))"
  shows "permits u org' s db \<or> s \<in> set (effective_actions a org db)
    \<or> (u = v \<and> org' = org \<and> s \<in> set (override_actions ''DENY'' v org db))"
proof (cases "ensure_manageable_target a v org db = Ok () \<and> (\<exists>as ps. resolve_overrides db es = Ok (as, ps)
    \<and> ensure_subset a org as db = Ok ())")
  case True
  then obtain as ps where ok: "ensure_manageable_target a v org db = Ok ()"
    "resolve_overrides db es = Ok (as, ps)" "ensure_subset a org as db = Ok ()" by blast
  obtain r db' where ur: "user_policies_replace org v ps db = (r, db')" by fastforce
  have p: "permits u org' s db'"
    using assms(3) ok by (auto simp: replace_user_policies_def ur split: sum.splits if_splits)
  let ?E = "set (effective_actions a org db)"
  let ?new = "map (\<lambda>(p, e). \<lparr> up_user_id = v, up_org_id = org, up_policy_id = p, up_effect = e \<rparr>) ps"
  from user_policies_replace_Ok [OF ur] show ?thesis
  proof
    assume db': "db' = db\<lparr>user_policies :=
      delete_where (\<lambda>ov. up_user_id ov = v \<and> up_org_id ov = org) (user_policies db) @ ?new\<rparr>"
    have new: "x \<in> set (policies db) \<Longrightarrow> pol_id x = i \<Longrightarrow> (i, e) \<in> set ps \<Longrightarrow> pol_action x \<in> ?E" for x i e
    proof -
      assume x: "x \<in> set (policies db)" "pol_id x = i" "(i, e) \<in> set ps"
      with resolve_overrides_Ok [OF ok(2)] obtain y where y: "y \<in> set (policies db)" "pol_action y \<in> set as" "pol_id y = i"
        by fastforce
      then have "y = x" using distinct_map_inj [OF assms(2)] x by metis
      with y ensure_subset_Ok [OF assms(1) ok(3)] show ?thesis by blast
    qed
    let ?Q = "s \<in> ?E \<or> (u = v \<and> org' = org \<and> s \<in> set (override_actions ''DENY'' v org db))"
    show ?thesis
    proof (rule permits_gain [OF p])
      assume "s \<in> set (get_user_final_permissions u org' db')"
      then show "s \<in> set (get_user_final_permissions u org' db) \<or> ?Q"
      proof (rule final_permissions_gain)
        assume "s \<in> set (override_actions ''GRANT'' u org' db')"
        then show "s \<in> set (override_actions ''GRANT'' u org' db) \<or> ?Q"
          using new by (fastforce simp: set_override_actions db')
      next
        assume "s \<in> set (override_actions ''DENY'' u org' db)"
        then show "s \<in> set (override_actions ''DENY'' u org' db') \<or> ?Q"
          by (fastforce simp: set_override_actions db')
      qed (auto simp: db' member_group_actions_def actions_of_group_def)
    qed (simp_all add: db' is_platform_owner_def user_by_id_def role_in_def)
  qed (use p in simp)
qed (use assms in \<open>auto simp: replace_user_policies_def split: sum.splits\<close>)

section \<open>Requests that need an admin\<close>

lemma admin_only:
  assumes "actor_is_privileged a org db = Ok False"
  shows "snd (update_member_role now a org u r db) = db" "snd (remove_member now a org u db) = db"
    "snd (add_member hp now a org e r p db) = db"
  using assms by (simp_all add: update_member_role_def remove_member_def add_member_def)

lemma permits_invites:
  "permits u k s (snd (create_invite sha t now a org e r g db)) = permits u k s db"
  "permits u k s (snd (cancel_invite now a org i db)) = permits u k s db"
proof -
  have *: "permits u k s (snd (invite_create v db)) = permits u k s db" for v
    by (rule permits_frame) (simp_all add: invite_create_def Let_def)
  have "permits u k s (snd (invite_set_status i st db)) = permits u k s db" for st
    by (rule permits_frame) (simp_all add: invite_set_status_def Let_def)
  then show "permits u k s (snd (cancel_invite now a org i db)) = permits u k s db"
    by (auto simp: cancel_invite_def split: option.splits prod.splits sum.splits)
      (metis snd_conv)+
  show "permits u k s (snd (create_invite sha t now a org e r g db)) = permits u k s db"
    using * by (auto simp: create_invite_def Let_def split: option.splits prod.splits sum.splits)
      (metis snd_conv)+
qed

section \<open>Other organizations\<close>

lemma find_filter: "find P xs = fetch_optional (filter P xs)"
  by (induction xs) (auto simp: fetch_optional_def)

lemma filter_update_other:
  "\<forall>r \<in> set rows. P r \<longrightarrow> \<not> Q r \<and> \<not> Q (f r) \<Longrightarrow> filter Q (update_where P f rows) = filter Q rows"
  by (induction rows) (auto simp: update_where_def)

lemma filter_delete_other:
  "\<forall>r \<in> set rows. P r \<longrightarrow> \<not> Q r \<Longrightarrow> filter Q (delete_where P rows) = filter Q rows"
  by (induction rows) (auto simp: delete_where_def)

lemma permits_other:
  assumes "users db' = users db" "policies db' = policies db"
    and "filter (member_of u k) (members db') = filter (member_of u k) (members db)"
    and "\<And>g m. m \<in> set (members db) \<Longrightarrow> member_of u k m \<Longrightarrow> mem_group_id m = Some g
           \<Longrightarrow> set (actions_of_group g db') = set (actions_of_group g db)"
    and "filter (\<lambda>ov. up_user_id ov = u \<and> up_org_id ov = k) (user_policies db')
           = filter (\<lambda>ov. up_user_id ov = u \<and> up_org_id ov = k) (user_policies db)"
  shows "permits u k s db' = permits u k s db"
proof -
  have mem: "m \<in> set (members db') \<and> member_of u k m \<longleftrightarrow> m \<in> set (members db) \<and> member_of u k m" for m
    using arg_cong [OF assms(3), of set] by (auto simp: set_eq_iff)
  have "set (member_group_actions u k db') = set (member_group_actions u k db)"
    unfolding set_eq_iff mem_member_group_actions using mem assms(4) by metis
  moreover have "set (override_actions e u k db') = set (override_actions e u k db)" for e
  proof -
    have "ov \<in> set (user_policies db') \<and> up_user_id ov = u \<and> up_org_id ov = k
        \<longleftrightarrow> ov \<in> set (user_policies db) \<and> up_user_id ov = u \<and> up_org_id ov = k" for ov
      using arg_cong [OF assms(5), of set] by (auto simp: set_eq_iff)
    then show ?thesis by (simp add: set_override_actions assms(2)) blast
  qed
  ultimately show ?thesis
    by (simp add: permits_iff role_in_def find_filter assms(3) owner_cong [OF assms(1)] set_final_permissions)
qed

definition groups_scoped :: "rbac_db \<Rightarrow> bool" where
  "groups_scoped db = list_all (\<lambda>m. case mem_group_id m of None \<Rightarrow> True
     | Some g \<Rightarrow> list_ex (\<lambda>x. grp_id x = g
         \<and> (grp_organization_id x = None \<or> grp_organization_id x = Some (mem_organization_id m))) (groups db)) (members db)"

lemma groups_scopedD:
  "groups_scoped db \<Longrightarrow> m \<in> set (members db) \<Longrightarrow> mem_group_id m = Some g
   \<Longrightarrow> \<exists>x \<in> set (groups db). grp_id x = g
         \<and> (grp_organization_id x = None \<or> grp_organization_id x = Some (mem_organization_id m))"
  by (fastforce simp: groups_scoped_def list_all_iff list_ex_iff)

text \<open>The group of a member of \<open>k\<close> is neither new nor a group of another organization.\<close>

lemma scoped_group:
  assumes "groups_scoped db" "keyed grp_id (groups_seq db) (groups db)"
    and "m \<in> set (members db)" "mem_group_id m = Some g"
  shows "g \<noteq> groups_seq db + 1"
    and "x \<in> set (groups db) \<Longrightarrow> grp_id x = g \<Longrightarrow> grp_organization_id x = Some org \<Longrightarrow> mem_organization_id m = org"
proof -
  from groups_scopedD [OF assms(1,3,4)] obtain y where y: "y \<in> set (groups db)" "grp_id y = g"
    "grp_organization_id y = None \<or> grp_organization_id y = Some (mem_organization_id m)" by blast
  with assms(2) show "g \<noteq> groups_seq db + 1" by (auto simp: keyed_def)
  assume "x \<in> set (groups db)" "grp_id x = g" "grp_organization_id x = Some org"
  moreover from this y assms(2) have "x = y" by (metis distinct_map_inj keyed_def)
  ultimately show "mem_organization_id m = org" using y by auto
qed

lemma group_policy_other:
  assumes "policies db' = policies db"
    and "\<And>p. (h, p) \<in> set (group_policy db') \<longleftrightarrow> (h, p) \<in> set (group_policy db)"
  shows "set (actions_of_group h db') = set (actions_of_group h db)"
  using assms by (simp add: set_actions_of_group)

lemma group_create_other:
  assumes "groups_scoped db" "keyed grp_id (groups_seq db) (groups db)" "group_create now org n ps db = (r, db')"
  shows "permits u k s db' = permits u k s db"
proof (rule permits_other)
  note e = group_create_effect [OF assms(3)]
  fix h m assume "m \<in> set (members db)" "member_of u k m" "mem_group_id m = Some h"
  with scoped_group(1) [OF assms(1,2)] have "h \<noteq> groups_seq db + 1" by blast
  with e show "set (actions_of_group h db') = set (actions_of_group h db)"
    by (intro group_policy_other) auto
qed (use group_create_effect [OF assms(3)] in simp_all)

lemma group_update_other:
  assumes "groups_scoped db" "keyed grp_id (groups_seq db) (groups db)" "group_update now org g n ps db = (r, db')"
    and "k \<noteq> org"
  shows "permits u k s db' = permits u k s db"
proof (rule permits_other)
  note e = group_update_effect [OF assms(3)]
  fix h m assume "m \<in> set (members db)" "member_of u k m" "mem_group_id m = Some h"
  with scoped_group(2) [OF assms(1,2)] assms(4) e
  have "h \<noteq> g \<or> group_policy db' = group_policy db" by (auto simp: member_of_def)
  with e show "set (actions_of_group h db') = set (actions_of_group h db)"
    by (intro group_policy_other) auto
qed (use group_update_effect [OF assms(3)] in simp_all)

lemma group_delete_other:
  assumes "groups_scoped db" "keyed grp_id (groups_seq db) (groups db)" "group_delete org g db = (r, db')" "k \<noteq> org"
  shows "permits u k s db' = permits u k s db"
proof (rule permits_other)
  show "filter (member_of u k) (members db') = filter (member_of u k) (members db)"
    using group_delete_effect [OF assms(3)] scoped_group(2) [OF assms(1,2)] assms(4)
    by (elim conjE disjE) (auto intro!: filter_update_other simp: member_of_def)
qed (use group_delete_effect [OF assms(3)] in \<open>auto intro!: group_policy_other\<close>)

lemma group_assign_other:
  assumes "group_assign now org v g db = (r, db')" "k \<noteq> org"
  shows "permits u k s db' = permits u k s db"
proof (rule permits_other)
  show "filter (member_of u k) (members db') = filter (member_of u k) (members db)"
    using group_assign_effect [OF assms(1)] assms(2)
    by (elim conjE disjE) (auto intro!: filter_update_other simp: member_of_def)
qed (use group_assign_effect [OF assms(1)] in \<open>auto intro!: group_policy_other\<close>)

lemma user_policies_replace_other:
  assumes "user_policies_replace org v ps db = (r, db')" "k \<noteq> org"
  shows "permits u k s db' = permits u k s db"
  using user_policies_replace_Ok [OF assms(1)]
proof
  assume db': "db' = db\<lparr>user_policies :=
      delete_where (\<lambda>ov. up_user_id ov = v \<and> up_org_id ov = org) (user_policies db) @ map (\<lambda>(p, e).
         \<lparr> up_user_id = v, up_org_id = org, up_policy_id = p, up_effect = e \<rparr>) ps\<rparr>"
  have "filter (\<lambda>ov. up_user_id ov = u \<and> up_org_id ov = k) (map (\<lambda>(p, e).
      \<lparr> up_user_id = v, up_org_id = org, up_policy_id = p, up_effect = e \<rparr>) ps) = []"
    using assms(2) by (auto simp: filter_empty_conv)
  then show ?thesis
    using assms(2) by (intro permits_other) (auto simp: db' intro!: group_policy_other filter_delete_other)
qed simp

lemma members_other:
  assumes "filter (member_of u k) ms = filter (member_of u k) (members db)"
  shows "permits u k s (db\<lparr>members := ms\<rparr>) = permits u k s db"
    and "permits u k s (db\<lparr>members := ms, members_seq := i\<rparr>) = permits u k s db"
  by (rule permits_other; simp add: assms actions_of_group_def)+

lemma member_statements_other:
  assumes "k \<noteq> org"
  shows "permits u k s (snd (update_role now v org r db)) = permits u k s db"
    and "permits u k s (snd (member_remove v org db)) = permits u k s db"
    and "permits u k s (snd (member_insert now r v org g db)) = permits u k s db"
proof -
  have "filter (member_of u k) (update_where (member_of v org)
      (\<lambda>m. m\<lparr>mem_role := Some r, mem_updated_at := now\<rparr>) (members db)) = filter (member_of u k) (members db)"
    using assms by (intro filter_update_other) (auto simp: member_of_def)
  then show "permits u k s (snd (update_role now v org r db)) = permits u k s db"
    by (simp add: update_role_def Let_def members_other)
  have "filter (member_of u k) (delete_where (member_of v org) (members db)) = filter (member_of u k) (members db)"
    using assms by (intro filter_delete_other) (auto simp: member_of_def)
  then show "permits u k s (snd (member_remove v org db)) = permits u k s db"
    by (simp add: member_remove_def members_other)
  show "permits u k s (snd (member_insert now r v org g db)) = permits u k s db"
    using assms by (simp add: member_insert_def Let_def members_other member_of_def)
qed

text \<open>New users are refused by the role constraint, so no request of the group service adds one.\<close>

lemma user_create_member_role:
  "user_create (member_account now email h) db = (Err (Constraint ''role_check''), db)"
  by (simp add: user_create_def member_account_def null_or_in_def Let_def)

section \<open>Example data\<close>

definition example_member :: "int \<Rightarrow> string \<Rightarrow> int \<Rightarrow> int option \<Rightarrow> member_row" where
  "example_member i role u g = \<lparr> mem_id = i, mem_role = Some role, mem_user_id = u, mem_organization_id = 1,
     mem_group_id = g, mem_created_at = 0, mem_updated_at = 0 \<rparr>"

definition example_group :: "int \<Rightarrow> string \<Rightarrow> bool \<Rightarrow> int option \<Rightarrow> group_row" where
  "example_group i name sys org = \<lparr> grp_id = i, grp_name = name, grp_is_system = sys, grp_organization_id = org,
     grp_created_at = 0, grp_updated_at = 0 \<rparr>"

definition example_user :: "int \<Rightarrow> string \<Rightarrow> user_row" where
  "example_user i role = \<lparr> usr_id = i, usr_email = None, usr_last_name = None, usr_first_name = None,
     usr_avatar = [], usr_role = Some role, usr_about_me = None, usr_password = [], usr_is_email_verify = Some 0,
     usr_email_verify_at = None, usr_two_factor_enable = Some 0, usr_is_registered = 1, usr_added_by = None,
     usr_group_id = 1, usr_created_at = 0, usr_updated_at = 0 \<rparr>"

text \<open>Organization 1 with an admin (4), a lead (2) and a developer (3) to whom \<open>app:read\<close> is denied.\<close>

definition example_rbac :: rbac_db where
  "example_rbac = \<lparr> users = [example_user 2 ''MEMBER'', example_user 3 ''MEMBER'', example_user 4 ''MEMBER''], users_seq = 4,
     organizations = [\<lparr> org_id = 1, org_name = ''acme'', org_logo = None, org_slug = ''acme'', org_owner_id = 4,
       org_created_at = 0, org_updated_at = 0 \<rparr>], organizations_seq = 1,
     groups = [example_group 1 ''owner'' True None, example_group 2 ''devs'' False (Some 1),
       example_group 3 ''leads'' False (Some 1), example_group 4 ''Organization Admin'' True (Some 1)], groups_seq = 4,
     policies = [\<lparr> pol_id = 1, pol_action = ''app:read'' \<rparr>, \<lparr> pol_id = 2, pol_action = ''app:delete'' \<rparr>,
       \<lparr> pol_id = 3, pol_action = ''group:update'' \<rparr>],
     group_policy = [(2, 1), (3, 3), (4, 1)],
     members = [example_member 1 ''ADMIN'' 4 None, example_member 2 ''MEMBER'' 2 (Some 3),
       example_member 3 ''MEMBER'' 3 (Some 2)], members_seq = 3,
     invites = [], invites_seq = 0,
     user_policies = [\<lparr> up_user_id = 3, up_org_id = 1, up_policy_id = 1, up_effect = ''DENY'' \<rparr>],
     resource_accesses = [], audit_log = [] \<rparr>"

definition example_crypto :: crypto where
  "example_crypto = \<lparr> digest = (\<lambda>t. t), password_hash = Inr \<rparr>"

section \<open>Properties\<close>

text \<open>
  C16. No escalation by delegation.  When a member without admin rights who holds
  some permission of the organization calls any operation of the group service,
  every permission anybody gains by it is one that the actor held, except that
  replacing a user's overrides may lift a denial of that user.
\<close>
theorem delegation_no_escalation:
  assumes "actor_is_privileged a org db = Ok False" "permits a org guard db"
    and "distinct (map pol_id (policies db))"
    and "permits u k s (run_request c now a org req db)"
  shows "permits u k s db \<or> permits a org s db
    \<or> (k = org \<and> s \<in> set (override_actions ''DENY'' u org db) \<and> (\<exists>es. req = ReplacePolicies u es))"
proof -
  have held: "s \<in> set (effective_actions a org db) \<Longrightarrow> permits a org s db"
    using unprivileged_cases(2) [OF assms(1)] assms(2) by blast
  show ?thesis
  proof (cases req)
    case (CreateGroup n as)
    with assms(4) held show ?thesis using create_group_gain [OF assms(1,3)] by fastforce
  next
    case (UpdateGroup g n as)
    with assms(4) held show ?thesis using update_group_gain [OF assms(1,3)] by fastforce
  next
    case (DeleteGroup g)
    with assms(4) show ?thesis using delete_group_gain by fastforce
  next
    case (AssignGroup v g)
    with assms(4) held show ?thesis using assign_group_gain [OF assms(1)] by fastforce
  next
    case (ReplacePolicies v es)
    with assms(4) held show ?thesis using replace_policies_gain [OF assms(1,3)] by fastforce
  qed (use assms(4) in \<open>simp_all add: admin_only [OF assms(1)] permits_invites\<close>)
qed

theorem delegation_no_escalation_witness:
  "permits 3 1 ''group:update'' (run_request example_crypto 9 2 1 (AssignGroup 3 3) example_rbac)
   \<and> (permits 3 1 ''group:update'' example_rbac \<or> permits 2 1 ''group:update'' example_rbac)"
proof -
  have gain: "permits 3 1 ''group:update'' (run_request example_crypto 9 2 1 (AssignGroup 3 3) example_rbac)"
    by code_simp
  have "permits 3 1 ''group:update'' example_rbac \<or> permits 2 1 ''group:update'' example_rbac
      \<or> (1 = (1 :: int) \<and> ''group:update'' \<in> set (override_actions ''DENY'' 3 1 example_rbac)
          \<and> (\<exists>es. AssignGroup 3 3 = ReplacePolicies 3 es))"
    by (rule delegation_no_escalation [where guard = "''group:update''", OF _ _ _ gain]) code_simp+
  with gain show ?thesis by simp
qed



end
