(* ===== verification/OrganizationLaws.thy ===== *)
theory OrganizationLaws
  imports PermissionLaws
begin

text \<open>
  Slugs of organizations, the guard of handlers, and the behaviours of the
  permission and organization services that follow from the constraints of the
  migrated schema.
\<close>

section \<open>Slugs\<close>

fun no_double :: "string \<Rightarrow> bool" where
  "no_double (a # b # s) = (\<not> (a = CHR ''-'' \<and> b = CHR ''-'') \<and> no_double (b # s))"
| "no_double _ = True"

definition slug_char :: "char \<Rightarrow> bool" where
  "slug_char c = (is_ascii_lowercase c \<or> is_ascii_digit c \<or> c = CHR ''-'')"

text \<open>The shape of a slug: words of letters and digits joined by single hyphens.\<close>

definition is_slug :: "string \<Rightarrow> bool" where
  "is_slug s = (list_all slug_char s \<and> no_double s \<and> (s \<noteq> [] \<longrightarrow> hd s \<noteq> CHR ''-'' \<and> last s \<noteq> CHR ''-''))"

lemma no_double_append:
  "no_double (s @ t) \<longleftrightarrow> no_double s \<and> no_double t \<and> \<not> (s \<noteq> [] \<and> t \<noteq> [] \<and> last s = CHR ''-'' \<and> hd t = CHR ''-'')"
  by (induction s rule: no_double.induct; cases t; auto)

definition slug_inv :: "string \<Rightarrow> bool \<Rightarrow> bool" where
  "slug_inv out sep = (list_all slug_char out \<and> no_double out \<and> (sep \<longleftrightarrow> out \<noteq> [] \<and> last out = CHR ''-'')
     \<and> (out \<noteq> [] \<longrightarrow> hd out \<noteq> CHR ''-''))"

lemma lowered_not_upper: "\<not> is_ascii_uppercase (lower_char c)"
  by (auto simp: is_ascii_uppercase_def lower_char_code)

lemma slug_fold_inv:
  assumes "slug_inv out sep" "list_all (\<lambda>c. \<not> is_ascii_uppercase c) cs"
  shows "\<exists>sep'. slug_inv (slug_fold out sep cs) sep'"
  using assms
proof (induction out sep cs rule: slug_fold.induct)
  case (2 out sep c cs)
  have dash: "\<not> is_ascii_alphanumeric (CHR ''-'')" by code_simp
  show ?case
  proof (cases "is_ascii_alphanumeric c")
    case True
    with dash have "c \<noteq> CHR ''-''" by auto
    with True 2 show ?thesis
      by (auto simp: slug_inv_def no_double_append slug_char_def is_ascii_alphanumeric_def hd_append)
  next
    case False
    with 2 show ?thesis
      by (auto simp: slug_inv_def no_double_append slug_char_def hd_append)
  qed
qed auto

lemma trim_end_char_snoc [simp]:
  "trim_end_char c (s @ [d]) = (if d = c then trim_end_char c s else s @ [d])"
  by (simp add: trim_end_char_def)

lemma slug_inv_trim:
  assumes "slug_inv out sep"
  shows "is_slug (trim_end_char (CHR ''-'') out)"
proof (cases out rule: rev_cases)
  case (snoc s d)
  show ?thesis
  proof (cases "d = CHR ''-''")
    case True
    with assms snoc have s: "s \<noteq> []" "last s \<noteq> CHR ''-''" "hd s \<noteq> CHR ''-''" "list_all slug_char s" "no_double s"
      by (auto simp: slug_inv_def no_double_append hd_append split: if_splits)
    then have "trim_end_char (CHR ''-'') s = s" by (cases s rule: rev_cases) auto
    with s True snoc show ?thesis by (simp add: is_slug_def)
  next
    case False
    with assms snoc show ?thesis by (auto simp: is_slug_def slug_inv_def hd_append)
  qed
qed (simp add: trim_end_char_def is_slug_def)

lemma is_slug_normalize: "is_slug (normalize_slug v)"
proof -
  have "list_all (\<lambda>c. \<not> is_ascii_uppercase c) (to_ascii_lowercase (trim v))"
    by (simp add: to_ascii_lowercase_def list_all_iff lowered_not_upper)
  moreover have "slug_inv [] False" by (simp add: slug_inv_def)
  ultimately show ?thesis
    using slug_fold_inv slug_inv_trim unfolding normalize_slug_def by blast
qed

lemma slug_fold_id:
  assumes "list_all slug_char cs" "no_double (out @ cs)" "out = [] \<longrightarrow> cs \<noteq> [] \<longrightarrow> hd cs \<noteq> CHR ''-''"
    and "sep \<longleftrightarrow> out \<noteq> [] \<and> last out = CHR ''-''"
  shows "slug_fold out sep cs = out @ cs"
  using assms
proof (induction out sep cs rule: slug_fold.induct)
  case (2 out sep c cs)
  have dash: "\<not> is_ascii_alphanumeric (CHR ''-'')" by code_simp
  show ?case
  proof (cases "is_ascii_alphanumeric c")
    case True
    with dash have "c \<noteq> CHR ''-''" by auto
    with 2 True show ?thesis by simp
  next
    case False
    with 2 have c: "c = CHR ''-''" by (auto simp: slug_char_def is_ascii_alphanumeric_def)
    with 2 have "out \<noteq> []" "\<not> sep" by (auto simp: no_double_append)
    with 2 False c show ?thesis by simp
  qed
qed simp

lemma slug_char_plain:
  assumes "slug_char c"
  shows "\<not> is_whitespace c" "lower_char c = c"
  using assms by (auto simp: slug_char_def ascii_defs lower_char_def)

lemma normalize_slug_id:
  assumes "is_slug s"
  shows "normalize_slug s = s"
proof -
  have all: "list_all slug_char s" using assms by (simp add: is_slug_def)
  then have "list_all (\<lambda>c. \<not> is_whitespace c) s" by (simp add: list_all_iff slug_char_plain)
  then have "trim s = s" by (rule trim_id)
  moreover have "to_ascii_lowercase s = s"
    using all by (simp add: to_ascii_lowercase_def list_all_iff slug_char_plain map_idI)
  moreover have "slug_fold [] False s = s"
    using assms by (intro slug_fold_id [of s "[]" False, simplified]) (auto simp: is_slug_def)
  moreover have "trim_end_char (CHR ''-'') s = s"
    using assms by (cases s rule: rev_cases) (auto simp: is_slug_def trim_end_char_def)
  ultimately show ?thesis by (simp add: normalize_slug_def)
qed

section \<open>Properties\<close>

text \<open>
  C18. The guard of handlers.  When the extractor lets a request through, the
  check for the required action succeeds in the organization the handler runs
  in, so the caller owns the platform or is a member of that organization;
  without a usable header the organization is the caller's first one.
\<close>
theorem require_permission_sound:
  assumes "require_permission u header a db = Ok org"
  shows "check_permission u org a db = Ok True
    \<and> (is_platform_owner u db \<or> (\<exists>m. find (member_of u org) (members db) = Some m))
    \<and> (\<forall>v. header = Some v \<longrightarrow> parse_signed i64_max v \<noteq> None \<longrightarrow> parse_signed i64_max v = Some org)
    \<and> (header = None \<longrightarrow> first_organization_id u db = Some org)"
proof -
  have ok: "check_permission u org a db = Ok True"
    using assms by (auto simp: require_permission_def split: option.splits sum.splits if_splits)
  moreover have "is_platform_owner u db \<or> (\<exists>m. find (member_of u org) (members db) = Some m)"
    using ok by (auto simp: check_permission_permits permits_def split: option.splits)
  ultimately show ?thesis
    using assms by (auto simp: require_permission_def resolve_organization_def split: option.splits sum.splits if_splits)
qed

theorem require_permission_sound_witness:
  "require_permission 2 None \<lparr> pa_resource = ''group'', pa_operation = ''update'' \<rparr> example_rbac = Ok 1
   \<and> (is_platform_owner 2 example_rbac \<or> (\<exists>m. find (member_of 2 1) (members example_rbac) = Some m))"
proof
  show ok: "require_permission 2 None \<lparr> pa_resource = ''group'', pa_operation = ''update'' \<rparr> example_rbac = Ok 1"
    by code_simp
  from require_permission_sound [OF ok]
  show "is_platform_owner 2 example_rbac \<or> (\<exists>m. find (member_of 2 1) (members example_rbac) = Some m)" by blast
qed

text \<open>
  Denials can be lifted by somebody who lacks the action.  For an actor
  without admin rights, whatever they hold, replacing the overrides of a plain
  member by the empty list lifts every denial: an action of the member's group
  that was denied to the member is permitted afterwards.
\<close>
theorem replace_policies_lifts_denial:
  assumes "actor_is_privileged a org db = Ok False" "member_role u org db = Ok (Some ''MEMBER'')"
    and "\<not> is_platform_owner u db"
    and "s \<in> set (member_group_actions u org db)" "s \<in> set (override_actions ''DENY'' u org db)"
  shows "\<not> permits u org s db \<and> permits u org s (snd (replace_user_policies now a org u [] db))"
proof -
  have "\<not> admin_role ''MEMBER''" by code_simp
  moreover obtain m where m: "find (member_of u org) (members db) = Some m" "mem_role m = Some ''MEMBER''"
    using assms(2) by (auto simp: member_role_def split: option.splits)
  ultimately have "\<not> permits u org s db"
    using assms(3,5) by (simp add: permits_def set_final_permissions)
  let ?db = "db\<lparr>user_policies := delete_where (\<lambda>ov. up_user_id ov = u \<and> up_org_id ov = org) (user_policies db)\<rparr>"
  have "list_ex (member_of u org) (members db)"
    using find_Some_mem [OF m(1)] by (auto simp: list_ex_iff)
  moreover have "user_role_as_str RoleMember = ''MEMBER''" by code_simp
  ultimately have run: "\<exists>db'. snd (replace_user_policies now a org u [] db) = db'
      \<and> permits u org s db' = permits u org s ?db"
    using assms(1,2)
    by (simp add: replace_user_policies_def ensure_manageable_target_def ensure_subset_def
        missing_delegated_action_def user_policies_replace_def)
  have "s \<in> set (member_group_actions u org ?db)"
    using assms(4) by (auto simp: mem_member_group_actions actions_of_group_def)
  then have "permits u org s ?db"
    using m by (simp add: permits_def set_final_permissions set_override_actions)
  with run \<open>\<not> permits u org s db\<close> show ?thesis by auto
qed

theorem replace_policies_lifts_denial_witness:
  "\<not> permits 2 1 ''app:read'' example_rbac \<and> \<not> permits 3 1 ''app:read'' example_rbac
   \<and> permits 3 1 ''app:read'' (snd (replace_user_policies 9 2 1 3 [] example_rbac))"
proof -
  have "\<not> permits 2 1 ''app:read'' example_rbac" by code_simp
  moreover have "\<not> permits 3 1 ''app:read'' example_rbac
      \<and> permits 3 1 ''app:read'' (snd (replace_user_policies 9 2 1 3 [] example_rbac))"
    by (rule replace_policies_lifts_denial) code_simp+
  ultimately show ?thesis by blast
qed

text \<open>
  Only the first organization is created cleanly.  Group names are unique over
  the whole table, so once some group is called Organization Admin, creating
  another organization commits it with its owner as admin and then reports an
  error, leaving the organization without its default group.
\<close>
theorem second_organization_half_created:
  assumes "g \<in> set (groups db)" "grp_name g = ''Organization Admin''"
    and "\<forall>x \<in> set (groups db). grp_organization_id x \<noteq> Some (organizations_seq db + 1)"
    and "\<forall>m \<in> set (members db). mem_organization_id m \<noteq> organizations_seq db + 1"
    and "owner \<in> set (map usr_id (users db))" "normalize_slug name \<noteq> []"
    and "\<forall>x \<in> set (organizations db). org_name x \<noteq> name \<and> org_slug x \<noteq> normalize_slug name"
  shows "\<exists>row db'. organization_create now owner name logo None db = (Err (Constraint ''UNIQUE groups.name''), db')
    \<and> organizations db' = organizations db @ [row] \<and> org_name row = name
    \<and> groups db' = groups db \<and> permits owner (org_id row) s db'"
proof -
  let ?i = "organizations_seq db + 1"
  define row where "row = \<lparr> org_id = ?i, org_name = name, org_logo = logo, org_slug = normalize_slug name,
      org_owner_id = owner, org_created_at = now, org_updated_at = now \<rparr>"
  define db1 where "db1 = db\<lparr>organizations := organizations db @ [row], organizations_seq := ?i\<rparr>"
  have ins: "organization_insert now name logo (normalize_slug name) owner db = (Ok row, db1)"
    using assms(5,7) by (auto simp: organization_insert_def Let_def row_def db1_def list_ex_iff)
  define m where "m = \<lparr> mem_id = members_seq db + 1, mem_role = Some ''ADMIN'', mem_user_id = owner,
      mem_organization_id = ?i, mem_group_id = None, mem_created_at = now, mem_updated_at = now \<rparr>"
  define db2 where "db2 = db1\<lparr>members := members db @ [m], members_seq := members_seq db + 1\<rparr>"
  have mem: "\<not> list_ex (member_of owner ?i) (members db)" using assms(4) by (auto simp: list_ex_iff member_of_def)
  then have add: "add_member_in_transaction now ''ADMIN'' owner (org_id row) db1 = (Ok (), db2)"
    using assms(5) by (simp add: add_member_in_transaction_def member_insert_def Let_def role_check_def null_or_in_def
        db1_def db2_def m_def row_def)
  have "find (\<lambda>x. grp_organization_id x = Some ?i \<and> grp_name x = ''Organization Admin'') (groups db) = None"
    using assms(3) by (auto simp: find_None_iff)
  moreover have "list_ex (\<lambda>x. grp_name x = ''Organization Admin'') (groups db)"
    using assms(1,2) by (auto simp: list_ex_iff)
  ultimately have seed: "seed_organization_defaults now (org_id row) db2 = (Err (Constraint ''UNIQUE groups.name''), db2)"
    by (simp add: seed_organization_defaults_def group_insert_def Let_def db2_def db1_def row_def)
  have "admin_role ''ADMIN''" by code_simp
  moreover have "find (member_of owner ?i) (members db @ [m]) = Some m"
    using mem by (subst find_append_None) (auto simp: find_None_iff list_ex_iff m_def member_of_def)
  ultimately have "permits owner (org_id row) s db2"
    by (simp add: permits_def db2_def row_def m_def)
  moreover have "organization_create now owner name logo None db = (Err (Constraint ''UNIQUE groups.name''), db2)"
    using assms(6) by (simp add: organization_create_def ins add seed)
  ultimately show ?thesis
    by (intro exI [of _ row] exI [of _ db2]) (simp add: db2_def db1_def row_def)
qed

theorem second_organization_half_created_witness:
  "\<exists>row db'. organization_create 9 4 ''Globex'' None None example_rbac = (Err (Constraint ''UNIQUE groups.name''), db')
    \<and> organizations db' = organizations example_rbac @ [row] \<and> org_name row = ''Globex''
    \<and> groups db' = groups example_rbac \<and> permits 4 (org_id row) ''app:read'' db'"
  by (rule second_organization_half_created [where g = "example_group 4 ''Organization Admin'' True (Some 1)"])
     code_simp+

text \<open>
  Groups with policies cannot be deleted.  A group that has at least one
  policy is never deleted by the group service, and an organization that owns
  such a group is never deleted: both report an error and change nothing.
\<close>
theorem group_with_policies_undeletable:
  assumes "(g, p) \<in> set (group_policy db)" "x \<in> set (groups db)" "grp_id x = g"
    and "grp_organization_id x = Some org"
  shows "fst (delete_group now a org g db) \<noteq> Ok () \<and> snd (delete_group now a org g db) = db
    \<and> fst (organization_remove org db) \<noteq> Ok () \<and> snd (organization_remove org db) = db"
proof -
  have gp: "list_ex (\<lambda>(g', _). g' = g) (group_policy db)" using assms(1) by (auto simp: list_ex_iff)
  have "list_ex (\<lambda>(g', _). g' \<in> set (map grp_id (filter (\<lambda>y. grp_organization_id y = Some org) (groups db)))) (group_policy db)"
    using assms by (auto simp: list_ex_iff)
  with gp show ?thesis
    by (auto simp: delete_group_def group_delete_def organization_remove_def organization_delete_def Let_def
        split: sum.splits)
qed

theorem group_with_policies_undeletable_witness:
  "fst (delete_group 9 4 1 2 example_rbac) \<noteq> Ok () \<and> snd (delete_group 9 4 1 2 example_rbac) = example_rbac
    \<and> fst (organization_remove 1 example_rbac) \<noteq> Ok () \<and> snd (organization_remove 1 example_rbac) = example_rbac"
  by (rule group_with_policies_undeletable [where p = 1 and x = "example_group 2 ''devs'' False (Some 1)"])
     code_simp+

text \<open>
  Adding a person without an account always fails.  For an admin with valid
  input and a new e-mail address the new account is refused by the role
  constraint of the users table, and nothing is stored.
\<close>
theorem add_member_new_account_fails:
  assumes "actor_is_privileged a org db = Ok True"
    and "CHR 0x40 \<in> set email" "email = to_ascii_lowercase (trim email)"
    and "to_ascii_uppercase role = ''ADMIN'' \<or> to_ascii_uppercase role = ''MEMBER''"
    and "user_by_email email db = None" "\<And>p. \<exists>h. hp p = Ok h"
  shows "add_member hp now a org email role password db = (Err (Database (Constraint ''role_check'')), db)"
proof -
  obtain h where h: "hp (case password of None \<Rightarrow> ''ChangeMe123!'' | Some p \<Rightarrow> p) = Ok h" using assms(6) by blast
  show ?thesis
    using assms(1,2,4,5) h
    by (auto simp: add_member_def Let_def assms(3) [symmetric] user_create_member_role from_sql_def)
qed

theorem add_member_new_account_fails_witness:
  "add_member Inr 9 4 1 (''new'' @ [CHR 0x40] @ ''acme.io'') ''member'' None example_rbac
     = (Err (Database (Constraint ''role_check'')), example_rbac)"
proof (rule add_member_new_account_fails)
  show "\<exists>h. (Inr p :: (unit, string) result) = Ok h" for p by blast
qed code_simp+

text \<open>
  C19. Slugs of organizations.  Normalizing any text gives words of lower-case
  letters and digits joined by single hyphens, and normalizing a slug again
  does not change it.
\<close>
theorem normalize_slug_canonical:
  "is_slug (normalize_slug v) \<and> normalize_slug (normalize_slug v) = normalize_slug v"
  by (simp add: is_slug_normalize normalize_slug_id)

end
