(* ===== verification/Tokens.thy ===== *)
theory Tokens
  imports PermissionService "HOL-Library.Word"
begin

text \<open>
  JSON web tokens and the tables of credentials: \<open>src/src/utils/jwt/\<close> and the
  repositories \<open>jwt_tokens.rs\<close>, \<open>two_factor.rs\<close>, \<open>password_reset_tokens.rs\<close>,
  \<open>email_verification_tokens.rs\<close>, \<open>personal_access_tokens.rs\<close> and \<open>users.rs\<close> of
  \<open>src/src/db/repository/\<close>.  The crates \<open>jsonwebtoken\<close>, \<open>argon2\<close>, \<open>sha2\<close>,
  \<open>totp_rs\<close> and \<open>serde_json\<close> are the fields of \<open>auth_env\<close>; random values are
  the fields of \<open>fresh\<close>.
\<close>

section \<open>Text\<close>

text \<open>\<open>to_lowercase\<close> below code point 256: the ASCII and the Latin-1 capitals.\<close>

definition lower_latin1 :: "char \<Rightarrow> char" where
  "lower_latin1 c =
     (let n = char_code c in
      if (65 \<le> n \<and> n \<le> 90) \<or> (192 \<le> n \<and> n \<le> 222 \<and> n \<noteq> 215) then char_of (n + 32) else c)"

definition to_lowercase :: "string \<Rightarrow> string" where
  "to_lowercase s = map lower_latin1 s"

definition hex_digit :: "bool \<Rightarrow> nat \<Rightarrow> char" where
  "hex_digit upper n = (if n < 10 then char_of (48 + n) else char_of ((if upper then 55 else 87) + n))"

definition hex_byte :: "bool \<Rightarrow> 8 word \<Rightarrow> string" where
  "hex_byte upper b = [hex_digit upper (unat b div 16), hex_digit upper (unat b mod 16)]"

definition hex_bytes :: "bool \<Rightarrow> 8 word list \<Rightarrow> string" where
  "hex_bytes upper bs = concat (map (hex_byte upper) bs)"

section \<open>JSON web tokens\<close>

record jwt_subject =
  js_user_id :: int
  js_email :: "string option"
  js_first_name :: "string option"
  js_last_name :: "string option"
  js_avatar :: string
  js_role :: "string option"
  js_group_id :: int

datatype token_type = Access | Refresh

record claims =
  cl_sub :: string
  cl_user :: jwt_subject
  cl_jti :: string
  cl_token_type :: token_type
  cl_iat :: "64 word"
  cl_exp :: "64 word"

record jwt_config =
  access_secret :: string
  refresh_secret :: string
  access_expiry_mins :: int
  refresh_expiry_days :: int
  debug_skip_time_check :: bool

definition jwt_config_default :: jwt_config where
  "jwt_config_default = \<lparr> access_secret = ''access-secret-change-me'', refresh_secret = ''refresh-secret-change-me'',
     access_expiry_mins = 15, refresh_expiry_days = 7, debug_skip_time_check = False \<rparr>"

definition env_bool :: "(string \<Rightarrow> string option) \<Rightarrow> string \<Rightarrow> bool option" where
  "env_bool var key =
     (case var key of
        None \<Rightarrow> None
      | Some value \<Rightarrow>
          (let v = to_ascii_lowercase (trim value) in
           if v \<in> set [''1'', ''true'', ''yes'', ''y'', ''on''] then Some True
           else if v \<in> set [''0'', ''false'', ''no'', ''n'', ''off''] then Some False
           else None))"

definition jwt_config_new :: "(string \<Rightarrow> string option) \<Rightarrow> jwt_config" where
  "jwt_config_new var =
     (let number = (\<lambda>key d. case var key of
            None \<Rightarrow> d | Some v \<Rightarrow> (case parse_signed i64_max v of None \<Rightarrow> d | Some n \<Rightarrow> n));
          text = (\<lambda>key d. case var key of None \<Rightarrow> d | Some v \<Rightarrow> v)
      in \<lparr> access_secret = text ''JWT_ACCESS_SECRET'' (access_secret jwt_config_default),
           refresh_secret = text ''JWT_REFRESH_SECRET'' (refresh_secret jwt_config_default),
           access_expiry_mins = number ''JWT_ACCESS_EXPIRY_MINS'' 15,
           refresh_expiry_days = number ''JWT_REFRESH_EXPIRY_DAYS'' 7,
           debug_skip_time_check = (case env_bool var ''JWT_DEBUG_SKIP_TIME_CHECK'' of
              Some b \<Rightarrow> b
            | None \<Rightarrow> (case env_bool var ''DEBUG'' of Some b \<Rightarrow> b | None \<Rightarrow> False)) \<rparr>)"

datatype token_error = Expired | TokenInvalid | WrongType | EncodingFailed

text \<open>
  \<open>jwt_decode check now secret token\<close> is the outcome of \<open>decode\<close> with HS256, where
  \<open>check\<close> is \<open>validate_exp\<close>; the error \<^const>\<open>True\<close> stands for \<open>ExpiredSignature\<close>.
  \<open>totp_check\<close> and \<open>totp_url\<close> fail when the secret cannot be decoded.
\<close>

record auth_env =
  jwt_encode :: "string \<Rightarrow> claims \<Rightarrow> string option"
  jwt_decode :: "bool \<Rightarrow> int \<Rightarrow> string \<Rightarrow> string \<Rightarrow> (bool, claims) result"
  argon_hash :: "string \<Rightarrow> string \<Rightarrow> string option"
  argon_verify :: "string \<Rightarrow> string \<Rightarrow> bool"
  sha256_hex :: "string \<Rightarrow> string"
  totp_check :: "string \<Rightarrow> string \<Rightarrow> string \<Rightarrow> int \<Rightarrow> bool option"
  totp_url :: "string \<Rightarrow> string \<Rightarrow> string option"
  codes_to_json :: "string list \<Rightarrow> string option"
  codes_from_json :: "string \<Rightarrow> string list option"

record fresh =
  fr_access_jti :: string
  fr_refresh_jti :: string
  fr_session :: string
  fr_salt :: string
  fr_bytes :: "8 word list option"
  fr_secret :: string
  fr_codes :: "8 word list option list"

record token_pair =
  tp_access :: string
  tp_refresh :: string

definition token_secret :: "jwt_config \<Rightarrow> token_type \<Rightarrow> string" where
  "token_secret cfg ty = (case ty of Access \<Rightarrow> access_secret cfg | Refresh \<Rightarrow> refresh_secret cfg)"

definition token_claims :: "jwt_config \<Rightarrow> int \<Rightarrow> string \<Rightarrow> jwt_subject \<Rightarrow> token_type \<Rightarrow> claims" where
  "token_claims cfg now jti subject ty =
     (let expiry = (case ty of Access \<Rightarrow> now + access_expiry_mins cfg * 60
                             | Refresh \<Rightarrow> now + refresh_expiry_days cfg * 86400)
      in \<lparr> cl_sub = int_to_dec (js_user_id subject), cl_user = subject, cl_jti = jti,
           cl_token_type = ty, cl_iat = word_of_int now, cl_exp = word_of_int expiry \<rparr>)"

definition generate_token ::
  "auth_env \<Rightarrow> jwt_config \<Rightarrow> int \<Rightarrow> string \<Rightarrow> jwt_subject \<Rightarrow> token_type \<Rightarrow> (token_error, string) result" where
  "generate_token env cfg now jti subject ty =
     ok_or EncodingFailed (jwt_encode env (token_secret cfg ty) (token_claims cfg now jti subject ty))"

definition generate_token_pair ::
  "auth_env \<Rightarrow> jwt_config \<Rightarrow> int \<Rightarrow> fresh \<Rightarrow> jwt_subject \<Rightarrow> (token_error, token_pair) result" where
  "generate_token_pair env cfg now fr subject =
     (case generate_token env cfg now (fr_access_jti fr) subject Access of
        Inl e \<Rightarrow> Err e
      | Inr a \<Rightarrow> (case generate_token env cfg now (fr_refresh_jti fr) subject Refresh of
          Inl e \<Rightarrow> Err e
        | Inr r \<Rightarrow> Ok \<lparr> tp_access = a, tp_refresh = r \<rparr>))"

definition jwt_validate ::
  "auth_env \<Rightarrow> jwt_config \<Rightarrow> int \<Rightarrow> string \<Rightarrow> string \<Rightarrow> token_type \<Rightarrow> (token_error, claims) result" where
  "jwt_validate env cfg now token secret expected =
     (case jwt_decode env (\<not> debug_skip_time_check cfg) now secret token of
        Inl expired \<Rightarrow> Err (if expired then Expired else TokenInvalid)
      | Inr c \<Rightarrow> if cl_token_type c \<noteq> expected then Err WrongType else Ok c)"

definition jwt_validate_access :: "auth_env \<Rightarrow> jwt_config \<Rightarrow> int \<Rightarrow> string \<Rightarrow> (token_error, claims) result" where
  "jwt_validate_access env cfg now token = jwt_validate env cfg now token (token_secret cfg Access) Access"

definition jwt_validate_refresh :: "auth_env \<Rightarrow> jwt_config \<Rightarrow> int \<Rightarrow> string \<Rightarrow> (token_error, claims) result" where
  "jwt_validate_refresh env cfg now token = jwt_validate env cfg now token (token_secret cfg Refresh) Refresh"

definition refresh_access_token ::
  "auth_env \<Rightarrow> jwt_config \<Rightarrow> int \<Rightarrow> fresh \<Rightarrow> string \<Rightarrow> (token_error, string) result" where
  "refresh_access_token env cfg now fr token =
     (case jwt_validate_refresh env cfg now token of
        Inl e \<Rightarrow> Err e
      | Inr c \<Rightarrow> generate_token env cfg now (fr_access_jti fr) (cl_user c) Access)"

section \<open>Tables\<close>

record jwt_token_row =
  jt_id :: int
  jt_jti :: string
  jt_role :: string
  jt_user_id :: int
  jt_is_blacklist :: "int option"
  jt_blacklist_at :: "int option"
  jt_expired_at :: "int option"
  jt_created_at :: int
  jt_updated_at :: int
  jt_session_id :: "string option"
  jt_token_kind :: "string option"

record two_factor_row =
  tf_id :: int
  tf_secret :: string
  tf_backup_codes :: string
  tf_user_id :: int

text \<open>The tables \<open>password_reset_tokens\<close> and \<open>email_verification_tokens\<close> have the same columns.\<close>

record mail_token_row =
  mt_id :: int
  mt_user_id :: int
  mt_token_hash :: string
  mt_expires_at :: int
  mt_used_at :: "int option"
  mt_created_at :: int

record pat_row =
  pat_id :: int
  pat_user_id :: int
  pat_name :: string
  pat_token_prefix :: string
  pat_token_hash :: string
  pat_expires_at :: "int option"
  pat_last_used_at :: "int option"
  pat_revoked_at :: "int option"
  pat_created_at :: int

record auth_db =
  rbac :: rbac_db
  jwt_tokens :: "jwt_token_row list"
  jwt_tokens_seq :: int
  two_factors :: "two_factor_row list"
  two_factors_seq :: int
  reset_tokens :: "mail_token_row list"
  reset_tokens_seq :: int
  verify_tokens :: "mail_token_row list"
  verify_tokens_seq :: int
  pats :: "pat_row list"
  pats_seq :: int

definition user_exists :: "int \<Rightarrow> auth_db \<Rightarrow> bool" where
  "user_exists u db = (u \<in> set (map usr_id (users (rbac db))))"

subsection \<open>jwt_tokens\<close>

definition blacklist_where :: "int \<Rightarrow> (jwt_token_row \<Rightarrow> bool) \<Rightarrow> auth_db \<Rightarrow> auth_db" where
  "blacklist_where now P db =
     db\<lparr>jwt_tokens := update_where P
       (\<lambda>t. t\<lparr>jt_is_blacklist := Some 1, jt_blacklist_at := Some now, jt_updated_at := now\<rparr>) (jwt_tokens db)\<rparr>"

definition blacklist_by_jti :: "int \<Rightarrow> string \<Rightarrow> auth_db \<Rightarrow> unit sqlx \<times> auth_db" where
  "blacklist_by_jti now j db = (Ok (), blacklist_where now (\<lambda>t. jt_jti t = j) db)"

definition live_token_of :: "int \<Rightarrow> jwt_token_row \<Rightarrow> bool" where
  "live_token_of u t = (jt_user_id t = u \<and> jt_is_blacklist t = Some 0)"

definition blacklist_all_by_user :: "int \<Rightarrow> int \<Rightarrow> auth_db \<Rightarrow> unit sqlx \<times> auth_db" where
  "blacklist_all_by_user now u db = (Ok (), blacklist_where now (live_token_of u) db)"

definition insert_token ::
  "int \<Rightarrow> string \<Rightarrow> string \<Rightarrow> int \<Rightarrow> int \<Rightarrow> string \<Rightarrow> string \<Rightarrow> auth_db \<Rightarrow> unit sqlx \<times> auth_db" where
  "insert_token now jti role u expired_at sid kind db =
     (let i = jwt_tokens_seq db + 1 in
      if role \<notin> set [''OWNER'', ''ADMIN'', ''MEMBER''] then (Err (Constraint ''role_check''), db)
      else if \<not> user_exists u db then (Err (Constraint ''FOREIGN KEY''), db)
      else (Ok (), db\<lparr>jwt_tokens := jwt_tokens db @
             [\<lparr> jt_id = i, jt_jti = jti, jt_role = role, jt_user_id = u, jt_is_blacklist = Some 0,
                jt_blacklist_at = None, jt_expired_at = Some expired_at, jt_created_at = now,
                jt_updated_at = now, jt_session_id = Some sid, jt_token_kind = Some kind \<rparr>],
             jwt_tokens_seq := i\<rparr>))"

definition session_id_for_jti :: "string \<Rightarrow> auth_db \<Rightarrow> string option" where
  "session_id_for_jti j db =
     (case find (\<lambda>t. jt_jti t = j) (jwt_tokens db) of None \<Rightarrow> None | Some t \<Rightarrow> jt_session_id t)"

definition repo_revoke_session :: "int \<Rightarrow> int \<Rightarrow> string \<Rightarrow> auth_db \<Rightarrow> bool sqlx \<times> auth_db" where
  "repo_revoke_session now u sid db =
     (let P = (\<lambda>t. live_token_of u t \<and> jt_session_id t = Some sid) in
      (Ok (0 < rows_affected P (jwt_tokens db)), blacklist_where now P db))"

definition live_row :: "int \<Rightarrow> jwt_token_row \<Rightarrow> bool" where
  "live_row now t = (jt_is_blacklist t = Some 0 \<and> (case jt_expired_at t of None \<Rightarrow> False | Some e \<Rightarrow> now < e))"

definition is_token_active :: "int \<Rightarrow> string \<Rightarrow> auth_db \<Rightarrow> bool" where
  "is_token_active now j db = list_ex (\<lambda>t. jt_jti t = j \<and> live_row now t) (jwt_tokens db)"

subsection \<open>two_factor\<close>

definition two_factor_by_user :: "int \<Rightarrow> auth_db \<Rightarrow> two_factor_row option" where
  "two_factor_by_user u db = find (\<lambda>t. tf_user_id t = u) (two_factors db)"

definition two_factor_upsert :: "string \<Rightarrow> string \<Rightarrow> int \<Rightarrow> auth_db \<Rightarrow> unit sqlx \<times> auth_db" where
  "two_factor_upsert secret codes u db =
     (if two_factor_by_user u db \<noteq> None
      then (Ok (), db\<lparr>two_factors := update_where (\<lambda>t. tf_user_id t = u)
              (\<lambda>t. t\<lparr>tf_secret := secret, tf_backup_codes := codes\<rparr>) (two_factors db)\<rparr>)
      else if \<not> user_exists u db then (Err (Constraint ''FOREIGN KEY''), db)
      else (let i = two_factors_seq db + 1 in
        (Ok (), db\<lparr>two_factors := two_factors db @
              [\<lparr> tf_id = i, tf_secret = secret, tf_backup_codes = codes, tf_user_id = u \<rparr>],
              two_factors_seq := i\<rparr>)))"

definition consume_recovery_code ::
  "auth_env \<Rightarrow> int \<Rightarrow> string \<Rightarrow> string \<Rightarrow> auth_db \<Rightarrow> bool sqlx \<times> auth_db" where
  "consume_recovery_code env u backup_codes code_hash db =
     (let codes = (case codes_from_json env backup_codes of None \<Rightarrow> [] | Some cs \<Rightarrow> cs) in
      if code_hash \<notin> set codes then (Ok False, db)
      else (case codes_to_json env (remove1 code_hash codes) of
        None \<Rightarrow> (Err (Protocol ''could not encode recovery codes''), db)
      | Some updated \<Rightarrow>
          (let P = (\<lambda>t. tf_user_id t = u \<and> tf_backup_codes t = backup_codes) in
           (Ok (rows_affected P (two_factors db) = 1),
            db\<lparr>two_factors := update_where P (\<lambda>t. t\<lparr>tf_backup_codes := updated\<rparr>) (two_factors db)\<rparr>))))"

definition replace_recovery_codes :: "int \<Rightarrow> string \<Rightarrow> auth_db \<Rightarrow> unit sqlx \<times> auth_db" where
  "replace_recovery_codes u codes db =
     (Ok (), db\<lparr>two_factors := update_where (\<lambda>t. tf_user_id t = u)
        (\<lambda>t. t\<lparr>tf_backup_codes := codes\<rparr>) (two_factors db)\<rparr>)"

definition two_factor_delete_by_user :: "int \<Rightarrow> auth_db \<Rightarrow> unit sqlx \<times> auth_db" where
  "two_factor_delete_by_user u db =
     (Ok (), db\<lparr>two_factors := delete_where (\<lambda>t. tf_user_id t = u) (two_factors db)\<rparr>)"

subsection \<open>password_reset_tokens and email_verification_tokens\<close>

text \<open>The unused tokens of the user are spent and the new one is inserted; \<open>token_hash\<close> is UNIQUE.\<close>

definition spend_tokens :: "int \<Rightarrow> int \<Rightarrow> mail_token_row list \<Rightarrow> mail_token_row list" where
  "spend_tokens now u rows =
     update_where (\<lambda>t. mt_user_id t = u \<and> mt_used_at t = None) (\<lambda>t. t\<lparr>mt_used_at := Some now\<rparr>) rows"

definition open_token :: "int \<Rightarrow> string \<Rightarrow> mail_token_row \<Rightarrow> bool" where
  "open_token now h t = (mt_token_hash t = h \<and> mt_used_at t = None \<and> now < mt_expires_at t)"

definition take_token :: "int \<Rightarrow> string \<Rightarrow> mail_token_row list \<Rightarrow> mail_token_row list" where
  "take_token now h rows = update_where (open_token now h) (\<lambda>t. t\<lparr>mt_used_at := Some now\<rparr>) rows"

definition mail_token :: "int \<Rightarrow> int \<Rightarrow> int \<Rightarrow> string \<Rightarrow> int \<Rightarrow> mail_token_row" where
  "mail_token now i u h expires_at = \<lparr> mt_id = i, mt_user_id = u, mt_token_hash = h, mt_expires_at = expires_at,
     mt_used_at = None, mt_created_at = now \<rparr>"

definition reset_issue :: "int \<Rightarrow> int \<Rightarrow> string \<Rightarrow> int \<Rightarrow> auth_db \<Rightarrow> unit sqlx \<times> auth_db" where
  "reset_issue now u h expires_at db =
     (let i = reset_tokens_seq db + 1 in
      if list_ex (\<lambda>t. mt_token_hash t = h) (reset_tokens db)
      then (Err (Constraint ''UNIQUE password_reset_tokens.token_hash''), db)
      else if \<not> user_exists u db then (Err (Constraint ''FOREIGN KEY''), db)
      else (Ok (), db\<lparr>reset_tokens := spend_tokens now u (reset_tokens db) @ [mail_token now i u h expires_at],
                     reset_tokens_seq := i\<rparr>))"

definition set_password :: "int \<Rightarrow> string \<Rightarrow> int \<Rightarrow> auth_db \<Rightarrow> auth_db" where
  "set_password now h u db =
     db\<lparr>rbac := (rbac db)\<lparr>users := update_where (\<lambda>x. usr_id x = u)
       (\<lambda>x. x\<lparr>usr_password := h, usr_updated_at := now\<rparr>) (users (rbac db))\<rparr>\<rparr>"

definition reset_complete :: "int \<Rightarrow> string \<Rightarrow> string \<Rightarrow> auth_db \<Rightarrow> bool sqlx \<times> auth_db" where
  "reset_complete now h password_hash db =
     (case find (open_token now h) (reset_tokens db) of
        None \<Rightarrow> (Ok False, db)
      | Some t \<Rightarrow> (Ok True, snd (blacklist_all_by_user now (mt_user_id t)
          (set_password now password_hash (mt_user_id t)
             (db\<lparr>reset_tokens := take_token now h (reset_tokens db)\<rparr>)))))"

definition verification_issue :: "int \<Rightarrow> int \<Rightarrow> string \<Rightarrow> int \<Rightarrow> auth_db \<Rightarrow> unit sqlx \<times> auth_db" where
  "verification_issue now u h expires_at db =
     (let i = verify_tokens_seq db + 1 in
      if list_ex (\<lambda>t. mt_token_hash t = h) (verify_tokens db)
      then (Err (Constraint ''UNIQUE email_verification_tokens.token_hash''), db)
      else if \<not> user_exists u db then (Err (Constraint ''FOREIGN KEY''), db)
      else (Ok (), db\<lparr>verify_tokens := spend_tokens now u (verify_tokens db) @ [mail_token now i u h expires_at],
                     verify_tokens_seq := i\<rparr>))"

definition set_verified :: "int \<Rightarrow> int \<Rightarrow> auth_db \<Rightarrow> auth_db" where
  "set_verified now u db =
     db\<lparr>rbac := (rbac db)\<lparr>users := update_where (\<lambda>x. usr_id x = u)
       (\<lambda>x. x\<lparr>usr_is_email_verify := Some 1, usr_email_verify_at := Some now, usr_updated_at := now\<rparr>)
       (users (rbac db))\<rparr>\<rparr>"

definition verification_complete :: "int \<Rightarrow> string \<Rightarrow> auth_db \<Rightarrow> bool sqlx \<times> auth_db" where
  "verification_complete now h db =
     (case find (open_token now h) (verify_tokens db) of
        None \<Rightarrow> (Ok False, db)
      | Some t \<Rightarrow> (Ok True, set_verified now (mt_user_id t)
          (db\<lparr>verify_tokens := take_token now h (verify_tokens db)\<rparr>)))"

subsection \<open>personal_access_tokens\<close>

definition pat_create ::
  "int \<Rightarrow> int \<Rightarrow> string \<Rightarrow> string \<Rightarrow> string \<Rightarrow> int option \<Rightarrow> auth_db \<Rightarrow> pat_row sqlx \<times> auth_db" where
  "pat_create now u name prefix h expires_at db =
     (let i = pats_seq db + 1;
          row = \<lparr> pat_id = i, pat_user_id = u, pat_name = name, pat_token_prefix = prefix, pat_token_hash = h,
                  pat_expires_at = expires_at, pat_last_used_at = None, pat_revoked_at = None,
                  pat_created_at = now \<rparr>
      in if list_ex (\<lambda>t. pat_token_hash t = h) (pats db)
         then (Err (Constraint ''UNIQUE personal_access_tokens.token_hash''), db)
         else if \<not> user_exists u db then (Err (Constraint ''FOREIGN KEY''), db)
         else (Ok row, db\<lparr>pats := pats db @ [row], pats_seq := i\<rparr>))"

definition pat_list :: "int \<Rightarrow> auth_db \<Rightarrow> pat_row list" where
  "pat_list u db = order_by_desc pat_created_at (filter (\<lambda>t. pat_user_id t = u) (pats db))"

definition usable_pat :: "int \<Rightarrow> string \<Rightarrow> pat_row \<Rightarrow> bool" where
  "usable_pat now h t = (pat_token_hash t = h \<and> pat_revoked_at t = None
     \<and> (case pat_expires_at t of None \<Rightarrow> True | Some e \<Rightarrow> now < e))"

definition pat_authenticate :: "int \<Rightarrow> string \<Rightarrow> auth_db \<Rightarrow> pat_row option sqlx \<times> auth_db" where
  "pat_authenticate now h db =
     (case find (usable_pat now h) (pats db) of
        None \<Rightarrow> (Ok None, db)
      | Some t \<Rightarrow> (Ok (Some t), db\<lparr>pats := update_where (\<lambda>x. pat_id x = pat_id t)
          (\<lambda>x. x\<lparr>pat_last_used_at := Some now\<rparr>) (pats db)\<rparr>))"

definition pat_revoke :: "int \<Rightarrow> int \<Rightarrow> int \<Rightarrow> auth_db \<Rightarrow> bool sqlx \<times> auth_db" where
  "pat_revoke now u i db =
     (let P = (\<lambda>t. pat_id t = i \<and> pat_user_id t = u \<and> pat_revoked_at t = None) in
      (Ok (rows_affected P (pats db) = 1),
       db\<lparr>pats := update_where P (\<lambda>t. t\<lparr>pat_revoked_at := Some now\<rparr>) (pats db)\<rparr>))"

subsection \<open>users\<close>

definition set_two_factor_enabled :: "int \<Rightarrow> int \<Rightarrow> bool \<Rightarrow> auth_db \<Rightarrow> unit sqlx \<times> auth_db" where
  "set_two_factor_enabled now u enabled db =
     (Ok (), db\<lparr>rbac := (rbac db)\<lparr>users := update_where (\<lambda>x. usr_id x = u)
        (\<lambda>x. x\<lparr>usr_two_factor_enable := Some (if enabled then 1 else 0), usr_updated_at := now\<rparr>)
        (users (rbac db))\<rparr>\<rparr>)"

text \<open>
  \<open>UPDATE users SET \<dots> WHERE id = ?\<close> with every column of the item; the trigger
  sets \<open>updated_at\<close>.  Constraints are checked when the row exists.
\<close>

definition user_update :: "int \<Rightarrow> int \<Rightarrow> user_row \<Rightarrow> auth_db \<Rightarrow> unit sqlx \<times> auth_db" where
  "user_update now i item db =
     (if \<not> user_exists i db then (Ok (), db)
      else if \<not> null_or_in (usr_role item) [''OWNER'', ''ADMIN'', ''MEMBER'']
      then (Err (Constraint ''role_check''), db)
      else if usr_email item \<noteq> None \<and> list_ex (\<lambda>x. usr_id x \<noteq> i \<and> usr_email x = usr_email item) (users (rbac db))
      then (Err (Constraint ''UNIQUE users.email''), db)
      else if usr_group_id item \<notin> set (map grp_id (groups (rbac db)))
              \<or> (case usr_added_by item of None \<Rightarrow> False | Some a \<Rightarrow> \<not> user_exists a db)
      then (Err (Constraint ''FOREIGN KEY''), db)
      else (Ok (), db\<lparr>rbac := (rbac db)\<lparr>users := update_where (\<lambda>x. usr_id x = i)
              (\<lambda>_. item\<lparr>usr_id := i, usr_updated_at := now\<rparr>) (users (rbac db))\<rparr>\<rparr>))"

definition create_owner_and_return ::
  "int \<Rightarrow> string \<Rightarrow> string option \<Rightarrow> string option \<Rightarrow> string \<Rightarrow> string \<Rightarrow> int \<Rightarrow> rbac_db
   \<Rightarrow> user_row sqlx \<times> rbac_db" where
  "create_owner_and_return now email first_name last_name avatar password g db =
     (let u = \<lparr> usr_id = 0, usr_email = Some email, usr_last_name = last_name, usr_first_name = first_name, usr_avatar = avatar,
                usr_role = Some ''OWNER'', usr_about_me = None, usr_password = password,
                usr_is_email_verify = Some 0, usr_email_verify_at = None, usr_two_factor_enable = Some 0,
                usr_is_registered = 1, usr_added_by = None, usr_group_id = g, usr_created_at = now,
                usr_updated_at = now \<rparr>
      in case user_create u db of
           (Inl e, db') \<Rightarrow> (Err e, db')
         | (Inr i, db') \<Rightarrow> (Ok (u\<lparr>usr_id := i\<rparr>), db'))"

text \<open>\<open>INSERT OR IGNORE\<close> of the group \<open>owner\<close>; column \<open>is_system\<close> defaults to 0.\<close>

definition create_owner_group_if_not_exists :: "int \<Rightarrow> rbac_db \<Rightarrow> int sqlx \<times> rbac_db" where
  "create_owner_group_if_not_exists now db =
     (case find (\<lambda>g. grp_name g = ''owner'') (groups db) of
        Some g \<Rightarrow> (Ok (grp_id g), db)
      | None \<Rightarrow> group_insert now ''owner'' False None db)"

end
