(* ===== verification/Auth.thy ===== *)
theory Auth
  imports Tokens
begin

text \<open>
  The authentication service \<open>src/src/services/auth/\<close> (accounts, sessions,
  password reset, two-factor authentication, personal access tokens, e-mail
  verification), the request extractor \<open>src/src/core/middleware/authorization.rs\<close>
  and the error mapping of the handlers in \<open>src/src/api/handlers/auth/auth.rs\<close>.
  Every operation takes the time \<open>now\<close> and the random values it draws.  The
  e-mails that carry a token are not modelled: the code ignores their outcome.
\<close>

section \<open>Errors\<close>

datatype auth_error =
    InvalidCredentials
  | InvalidToken
  | TwoFactorRequired
  | InvalidSecondFactor
  | InvalidResetToken
  | InvalidVerificationToken
  | InvalidOperation string
  | AuthDatabase sql_error
  | AuthInternal

type_synonym 'a auth = "(auth_error, 'a) result"

definition db_result :: "'a sqlx \<Rightarrow> 'a auth" where
  "db_result r = (case r of Inl e \<Rightarrow> Err (AuthDatabase e) | Inr x \<Rightarrow> Ok x)"

definition db_call :: "'a sqlx \<times> 's \<Rightarrow> 'a auth \<times> 's" where
  "db_call r = (db_result (fst r), snd r)"

definition token_result :: "(token_error, 'a) result \<Rightarrow> 'a auth" where
  "token_result r = (case r of Inl _ \<Rightarrow> Err InvalidToken | Inr x \<Rightarrow> Ok x)"

definition on_rbac :: "(rbac_db \<Rightarrow> 'a \<times> rbac_db) \<Rightarrow> auth_db \<Rightarrow> 'a \<times> auth_db" where
  "on_rbac f db = (case f (rbac db) of (r, r') \<Rightarrow> (r, db\<lparr>rbac := r'\<rparr>))"

text \<open>Violations of the UNIQUE constraints of the tables the service writes.\<close>

definition is_unique_violation :: "sql_error \<Rightarrow> bool" where
  "is_unique_violation e =
     (case e of Constraint c \<Rightarrow> starts_with c ''UNIQUE'' \<or> c = ''idx_organization_members_unique'' | _ \<Rightarrow> False)"

definition map_auth_error :: "auth_error \<Rightarrow> nat \<times> string" where
  "map_auth_error e = (case e of
       InvalidCredentials \<Rightarrow> (401, ''invalid email or password'')
     | InvalidToken \<Rightarrow> (401, ''invalid or revoked token'')
     | TwoFactorRequired \<Rightarrow> (401, ''two-factor authentication code is required'')
     | InvalidSecondFactor \<Rightarrow> (401, ''invalid two-factor authentication code'')
     | InvalidResetToken \<Rightarrow> (400, ''invalid or expired password reset token'')
     | InvalidVerificationToken \<Rightarrow> (400, ''invalid or expired email verification token'')
     | InvalidOperation msg \<Rightarrow> (409, msg)
     | AuthDatabase d \<Rightarrow> if is_unique_violation d then (409, ''email is already registered'')
                         else (500, ''authentication operation failed'')
     | AuthInternal \<Rightarrow> (500, ''authentication operation failed''))"

section \<open>Accounts and sessions\<close>

definition subject_from_user :: "user_row \<Rightarrow> jwt_subject" where
  "subject_from_user u =
     \<lparr> js_user_id = usr_id u, js_email = usr_email u, js_first_name = usr_first_name u,
       js_last_name = usr_last_name u,
       js_avatar = (if starts_with (usr_avatar u) ''data:'' then ''custom'' else usr_avatar u),
       js_role = usr_role u, js_group_id = usr_group_id u \<rparr>"

definition hash_password :: "auth_env \<Rightarrow> fresh \<Rightarrow> string \<Rightarrow> string auth" where
  "hash_password env fr pw = ok_or AuthInternal (argon_hash env (fr_salt fr) pw)"

definition verify_password :: "auth_env \<Rightarrow> string \<Rightarrow> string \<Rightarrow> unit auth" where
  "verify_password env pw encoded = (if argon_verify env pw encoded then Ok () else Err InvalidCredentials)"

definition get_user_by_id :: "int \<Rightarrow> auth_db \<Rightarrow> user_row auth" where
  "get_user_by_id u db = ok_or (AuthDatabase RowNotFound) (user_by_id u (rbac db))"

definition ensure_token_active :: "int \<Rightarrow> string \<Rightarrow> auth_db \<Rightarrow> unit auth" where
  "ensure_token_active now jti db = (if is_token_active now jti db then Ok () else Err InvalidToken)"

definition store_claims :: "int \<Rightarrow> string \<Rightarrow> claims \<Rightarrow> string \<Rightarrow> auth_db \<Rightarrow> unit auth \<times> auth_db" where
  "store_claims now sid c kind db =
     db_call (insert_token now (cl_jti c) (case js_role (cl_user c) of None \<Rightarrow> ''MEMBER'' | Some r \<Rightarrow> r)
       (js_user_id (cl_user c)) (sint (cl_exp c)) sid kind db)"

definition store_token_pair ::
  "auth_env \<Rightarrow> jwt_config \<Rightarrow> int \<Rightarrow> token_pair \<Rightarrow> string \<Rightarrow> auth_db \<Rightarrow> unit auth \<times> auth_db" where
  "store_token_pair env cfg now tokens sid db =
     seq_ok (token_result (jwt_validate_access env cfg now (tp_access tokens)), db) (\<lambda>a db.
     seq_ok (token_result (jwt_validate_refresh env cfg now (tp_refresh tokens)), db) (\<lambda>r db.
     seq_ok (store_claims now sid a ''ACCESS'' db) (\<lambda>_ db. store_claims now sid r ''REFRESH'' db)))"

definition issue_token_pair ::
  "auth_env \<Rightarrow> jwt_config \<Rightarrow> int \<Rightarrow> fresh \<Rightarrow> jwt_subject \<Rightarrow> auth_db \<Rightarrow> token_pair auth \<times> auth_db" where
  "issue_token_pair env cfg now fr subject db =
     seq_ok (token_result (generate_token_pair env cfg now fr subject), db) (\<lambda>tokens db.
     seq_ok (in_tx (store_token_pair env cfg now tokens (fr_session fr)) db) (\<lambda>_ db. (Ok tokens, db)))"

record signup_dto =
  su_email :: string
  su_password :: string
  su_first_name :: "string option"
  su_last_name :: "string option"
  su_avatar :: "string option"

definition signup_rows :: "int \<Rightarrow> signup_dto \<Rightarrow> string \<Rightarrow> auth_db \<Rightarrow> user_row auth \<times> auth_db" where
  "signup_rows now input h db =
     seq_ok (db_call (on_rbac (create_owner_group_if_not_exists now) db)) (\<lambda>g db.
     seq_ok (db_call (on_rbac (create_owner_and_return now (to_lowercase (trim (su_email input))) (su_first_name input)
               (su_last_name input) (case su_avatar input of None \<Rightarrow> [] | Some a \<Rightarrow> a) h g) db)) (\<lambda>u db.
     (let first_name = (case usr_first_name u of None \<Rightarrow> ''Default'' | Some n \<Rightarrow> n) in
      seq_ok (db_call (on_rbac (organization_insert now (first_name @ CHR 0x27 # ''s Organization'') None
                (to_lowercase first_name @ ''-organization'') (usr_id u)) db)) (\<lambda>org db.
      seq_ok (db_call (on_rbac (add_member_in_transaction now ''ADMIN'' (usr_id u) (org_id org)) db)) (\<lambda>_ db.
      (Ok u, db))))))"

definition signup ::
  "auth_env \<Rightarrow> jwt_config \<Rightarrow> int \<Rightarrow> fresh \<Rightarrow> signup_dto \<Rightarrow> auth_db \<Rightarrow> (jwt_subject \<times> token_pair) auth \<times> auth_db" where
  "signup env cfg now fr input db =
     seq_ok (hash_password env fr (su_password input), db) (\<lambda>h.
     in_tx (\<lambda>db.
       seq_ok (signup_rows now input h db) (\<lambda>u db.
       seq_ok (token_result (generate_token_pair env cfg now fr (subject_from_user u)), db) (\<lambda>tokens db.
       seq_ok (store_token_pair env cfg now tokens (fr_session fr) db) (\<lambda>_ db.
       (Ok (subject_from_user u, tokens), db))))))"

definition is_owner_present :: "auth_db \<Rightarrow> bool" where
  "is_owner_present db = (0 < length (users (rbac db)))"

definition get_whoami :: "int \<Rightarrow> auth_db \<Rightarrow> jwt_subject auth" where
  "get_whoami u db = (case user_by_id u (rbac db) of
       None \<Rightarrow> Err InvalidToken
     | Some x \<Rightarrow> Ok \<lparr> js_user_id = usr_id x, js_email = usr_email x, js_first_name = usr_first_name x,
         js_last_name = usr_last_name x, js_avatar = usr_avatar x, js_role = usr_role x,
         js_group_id = usr_group_id x \<rparr>)"

definition logout_all :: "int \<Rightarrow> int \<Rightarrow> auth_db \<Rightarrow> unit auth \<times> auth_db" where
  "logout_all now u db = db_call (blacklist_all_by_user now u db)"

definition revoke_session :: "int \<Rightarrow> int \<Rightarrow> string \<Rightarrow> auth_db \<Rightarrow> bool auth \<times> auth_db" where
  "revoke_session now u sid db = db_call (repo_revoke_session now u sid db)"

record update_user_dto =
  ud_email :: "string option"
  ud_password :: "string option"
  ud_first_name :: "string option"
  ud_last_name :: "string option"
  ud_avatar :: "string option"

definition set_some :: "'a option \<Rightarrow> 'a option \<Rightarrow> 'a option" where
  "set_some new old = (case new of None \<Rightarrow> old | Some v \<Rightarrow> Some v)"

definition update_user ::
  "auth_env \<Rightarrow> int \<Rightarrow> fresh \<Rightarrow> int \<Rightarrow> update_user_dto \<Rightarrow> auth_db \<Rightarrow> jwt_subject auth \<times> auth_db" where
  "update_user env now fr i input db =
     seq_ok (ok_or InvalidCredentials (user_by_id i (rbac db)), db) (\<lambda>u db.
     seq_ok ((case ud_password input of
                Some p \<Rightarrow> if trim p \<noteq> [] then hash_password env fr p else Ok (usr_password u)
              | None \<Rightarrow> Ok (usr_password u)), db) (\<lambda>h db.
     (let u' = u\<lparr>usr_email := (case ud_email input of
                   Some e \<Rightarrow> if trim e \<noteq> [] then Some (to_lowercase (trim e)) else usr_email u
                 | None \<Rightarrow> usr_email u),
                 usr_first_name := set_some (ud_first_name input) (usr_first_name u),
                 usr_last_name := set_some (ud_last_name input) (usr_last_name u),
                 usr_avatar := (case ud_avatar input of None \<Rightarrow> usr_avatar u | Some a \<Rightarrow> a),
                 usr_password := h, usr_updated_at := now\<rparr>
      in seq_ok (db_call (user_update now i u' db)) (\<lambda>_ db. (Ok (subject_from_user u'), db)))))"

section \<open>Two-factor authentication\<close>

definition RECOVERY_CODE_COUNT :: nat where
  "RECOVERY_CODE_COUNT = 10"

definition check_totp :: "auth_env \<Rightarrow> int \<Rightarrow> string \<Rightarrow> string \<Rightarrow> string \<Rightarrow> bool auth" where
  "check_totp env now secret account code = ok_or AuthInternal (totp_check env secret account (trim code) now)"

definition hash_recovery_code :: "auth_env \<Rightarrow> string \<Rightarrow> string" where
  "hash_recovery_code env code = sha256_hex env (map upper_char (filter is_ascii_alphanumeric code))"

definition recovery_code :: "8 word list \<Rightarrow> string" where
  "recovery_code bytes =
     (let raw = hex_bytes True bytes in
      take 5 raw @ ''-'' @ take 5 (drop 5 raw) @ ''-'' @ take 5 (drop 10 raw) @ ''-'' @ take 5 (drop 15 raw))"

fun generate_recovery_codes :: "8 word list option list \<Rightarrow> string list auth" where
  "generate_recovery_codes [] = Ok []"
| "generate_recovery_codes (None # rest) = Err AuthInternal"
| "generate_recovery_codes (Some bytes # rest) =
     (case generate_recovery_codes rest of Inl e \<Rightarrow> Err e | Inr cs \<Rightarrow> Ok (recovery_code bytes # cs))"

definition encode_recovery_codes :: "auth_env \<Rightarrow> string list \<Rightarrow> string auth" where
  "encode_recovery_codes env codes = ok_or AuthInternal (codes_to_json env (map (hash_recovery_code env) codes))"

definition two_factor_on :: "user_row \<Rightarrow> bool" where
  "two_factor_on u = (case usr_two_factor_enable u of None \<Rightarrow> False | Some n \<Rightarrow> n \<noteq> 0)"

definition account_name :: "user_row \<Rightarrow> string" where
  "account_name u = (case usr_email u of None \<Rightarrow> ''user'' | Some e \<Rightarrow> e)"

definition two_factor_status :: "int \<Rightarrow> auth_db \<Rightarrow> (bool \<times> bool) auth" where
  "two_factor_status i db = (case get_user_by_id i db of
       Inl e \<Rightarrow> Err e
     | Inr u \<Rightarrow> Ok (two_factor_on u, two_factor_by_user i db \<noteq> None))"

definition verify_stored_second_factor ::
  "auth_env \<Rightarrow> int \<Rightarrow> user_row \<Rightarrow> two_factor_row \<Rightarrow> string \<Rightarrow> string \<Rightarrow> auth_db \<Rightarrow> unit auth \<times> auth_db" where
  "verify_stored_second_factor env now u setting code recovery db =
     seq_ok ((if trim code \<noteq> [] then check_totp env now (tf_secret setting) (account_name u) code else Ok False), db)
       (\<lambda>valid db.
        if valid then (Ok (), db)
        else if trim recovery \<noteq> [] then
          seq_ok (db_call (consume_recovery_code env (usr_id u) (tf_backup_codes setting)
                    (hash_recovery_code env recovery) db))
            (\<lambda>used db. if used then (Ok (), db) else (Err InvalidSecondFactor, db))
        else (Err InvalidSecondFactor, db))"

definition verify_login_second_factor ::
  "auth_env \<Rightarrow> int \<Rightarrow> user_row \<Rightarrow> string option \<Rightarrow> string option \<Rightarrow> auth_db \<Rightarrow> unit auth \<times> auth_db" where
  "verify_login_second_factor env now u code recovery db =
     (if \<not> two_factor_on u then (Ok (), db)
      else if code = None \<and> recovery = None then (Err TwoFactorRequired, db)
      else seq_ok (ok_or InvalidSecondFactor (two_factor_by_user (usr_id u) db), db) (\<lambda>setting db.
        verify_stored_second_factor env now u setting (case code of None \<Rightarrow> [] | Some c \<Rightarrow> c)
          (case recovery of None \<Rightarrow> [] | Some c \<Rightarrow> c) db))"

definition setup_two_factor ::
  "auth_env \<Rightarrow> fresh \<Rightarrow> int \<Rightarrow> string \<Rightarrow> auth_db \<Rightarrow> (string \<times> string \<times> string list) auth \<times> auth_db" where
  "setup_two_factor env fr i pw db =
     seq_ok (get_user_by_id i db, db) (\<lambda>u db.
     seq_ok (verify_password env pw (usr_password u), db) (\<lambda>_ db.
     if two_factor_on u then (Err (InvalidOperation ''two-factor authentication is already enabled''), db)
     else
     seq_ok (generate_recovery_codes (take RECOVERY_CODE_COUNT (fr_codes fr)), db) (\<lambda>codes db.
     seq_ok (encode_recovery_codes env codes, db) (\<lambda>backup db.
     seq_ok (db_call (two_factor_upsert (fr_secret fr) backup i db)) (\<lambda>_ db.
     seq_ok (ok_or AuthInternal (totp_url env (fr_secret fr) (account_name u)), db) (\<lambda>url db.
     (Ok (fr_secret fr, url, codes), db)))))))"

definition enable_two_factor :: "auth_env \<Rightarrow> int \<Rightarrow> int \<Rightarrow> string \<Rightarrow> auth_db \<Rightarrow> unit auth \<times> auth_db" where
  "enable_two_factor env now i code db =
     seq_ok (get_user_by_id i db, db) (\<lambda>u db.
     seq_ok (ok_or (InvalidOperation ''two-factor setup is not started'') (two_factor_by_user i db), db) (\<lambda>setting db.
     seq_ok (check_totp env now (tf_secret setting) (account_name u) code, db) (\<lambda>valid db.
     if \<not> valid then (Err InvalidSecondFactor, db)
     else
     seq_ok (db_call (set_two_factor_enabled now i True db)) (\<lambda>_ db.
     db_call (blacklist_all_by_user now i db)))))"

definition disable_two_factor ::
  "auth_env \<Rightarrow> int \<Rightarrow> int \<Rightarrow> string \<Rightarrow> string \<Rightarrow> auth_db \<Rightarrow> unit auth \<times> auth_db" where
  "disable_two_factor env now i pw code db =
     seq_ok (get_user_by_id i db, db) (\<lambda>u db.
     seq_ok (verify_password env pw (usr_password u), db) (\<lambda>_ db.
     seq_ok (ok_or InvalidSecondFactor (two_factor_by_user i db), db) (\<lambda>setting db.
     seq_ok (verify_stored_second_factor env now u setting code code db) (\<lambda>_ db.
     seq_ok (db_call (two_factor_delete_by_user i db)) (\<lambda>_ db.
     seq_ok (db_call (set_two_factor_enabled now i False db)) (\<lambda>_ db.
     db_call (blacklist_all_by_user now i db)))))))"

definition regenerate_recovery_codes ::
  "auth_env \<Rightarrow> int \<Rightarrow> fresh \<Rightarrow> int \<Rightarrow> string \<Rightarrow> string \<Rightarrow> auth_db \<Rightarrow> string list auth \<times> auth_db" where
  "regenerate_recovery_codes env now fr i pw code db =
     seq_ok (get_user_by_id i db, db) (\<lambda>u db.
     seq_ok (verify_password env pw (usr_password u), db) (\<lambda>_ db.
     seq_ok (ok_or InvalidSecondFactor (two_factor_by_user i db), db) (\<lambda>setting db.
     seq_ok (verify_stored_second_factor env now u setting code code db) (\<lambda>_ db.
     seq_ok (generate_recovery_codes (take RECOVERY_CODE_COUNT (fr_codes fr)), db) (\<lambda>codes db.
     seq_ok (encode_recovery_codes env codes, db) (\<lambda>encoded db.
     seq_ok (db_call (replace_recovery_codes i encoded db)) (\<lambda>_ db. (Ok codes, db))))))))"

section \<open>Login and refresh\<close>

record login_dto =
  lg_email :: string
  lg_password :: string
  lg_two_factor_code :: "string option"
  lg_recovery_code :: "string option"

definition login ::
  "auth_env \<Rightarrow> jwt_config \<Rightarrow> int \<Rightarrow> fresh \<Rightarrow> login_dto \<Rightarrow> auth_db \<Rightarrow> (jwt_subject \<times> token_pair) auth \<times> auth_db" where
  "login env cfg now fr input db =
     seq_ok (ok_or InvalidCredentials (user_by_email (to_lowercase (trim (lg_email input))) (rbac db)), db) (\<lambda>u db.
     seq_ok (verify_password env (lg_password input) (usr_password u), db) (\<lambda>_ db.
     seq_ok (verify_login_second_factor env now u (lg_two_factor_code input) (lg_recovery_code input) db) (\<lambda>_ db.
     seq_ok (issue_token_pair env cfg now fr (subject_from_user u) db) (\<lambda>tokens db.
     (Ok (subject_from_user u, tokens), db)))))"

text \<open>
  \<open>refresh\<close> first reads (the old token, its session, the user) and signs the new
  pair, then opens the transaction that spends the old token and stores the pair.
\<close>

record refresh_plan =
  rp_old_jti :: string
  rp_session :: string
  rp_subject :: jwt_subject
  rp_tokens :: token_pair

definition refresh_prepare ::
  "auth_env \<Rightarrow> jwt_config \<Rightarrow> int \<Rightarrow> fresh \<Rightarrow> string \<Rightarrow> auth_db \<Rightarrow> refresh_plan auth" where
  "refresh_prepare env cfg now fr token db =
     (case token_result (jwt_validate_refresh env cfg now token) of
        Inl e \<Rightarrow> Err e
      | Inr old \<Rightarrow> (case ensure_token_active now (cl_jti old) db of
          Inl e \<Rightarrow> Err e
        | Inr _ \<Rightarrow> (case get_user_by_id (js_user_id (cl_user old)) db of
            Inl e \<Rightarrow> Err e
          | Inr u \<Rightarrow> (case token_result (generate_token_pair env cfg now fr (subject_from_user u)) of
              Inl e \<Rightarrow> Err e
            | Inr tokens \<Rightarrow> Ok \<lparr> rp_old_jti = cl_jti old,
                rp_session = (case session_id_for_jti (cl_jti old) db of None \<Rightarrow> fr_session fr | Some s \<Rightarrow> s),
                rp_subject = subject_from_user u, rp_tokens = tokens \<rparr>))))"

definition refresh_commit ::
  "auth_env \<Rightarrow> jwt_config \<Rightarrow> int \<Rightarrow> refresh_plan \<Rightarrow> auth_db \<Rightarrow> (jwt_subject \<times> token_pair) auth \<times> auth_db" where
  "refresh_commit env cfg now plan =
     in_tx (\<lambda>db.
       seq_ok (db_call (blacklist_by_jti now (rp_old_jti plan) db)) (\<lambda>_ db.
       seq_ok (store_token_pair env cfg now (rp_tokens plan) (rp_session plan) db) (\<lambda>_ db.
       (Ok (rp_subject plan, rp_tokens plan), db))))"

definition refresh ::
  "auth_env \<Rightarrow> jwt_config \<Rightarrow> int \<Rightarrow> fresh \<Rightarrow> string \<Rightarrow> auth_db \<Rightarrow> (jwt_subject \<times> token_pair) auth \<times> auth_db" where
  "refresh env cfg now fr token db =
     seq_ok (refresh_prepare env cfg now fr token db, db) (\<lambda>plan db. refresh_commit env cfg now plan db)"

section \<open>Tokens sent by e-mail\<close>

definition random_token :: "fresh \<Rightarrow> string auth" where
  "random_token fr = ok_or AuthInternal (map_option (hex_bytes False) (fr_bytes fr))"

definition auth_hash_token :: "auth_env \<Rightarrow> string \<Rightarrow> string" where
  "auth_hash_token env token = sha256_hex env (trim token)"

definition request_password_reset :: "auth_env \<Rightarrow> int \<Rightarrow> fresh \<Rightarrow> string \<Rightarrow> auth_db \<Rightarrow> unit auth \<times> auth_db" where
  "request_password_reset env now fr email db =
     (case user_by_email (to_lowercase (trim email)) (rbac db) of
        None \<Rightarrow> (Ok (), db)
      | Some u \<Rightarrow> seq_ok (random_token fr, db) (\<lambda>token db.
          db_call (reset_issue now (usr_id u) (auth_hash_token env token) (now + 30 * 60) db)))"

definition reset_password :: "auth_env \<Rightarrow> int \<Rightarrow> fresh \<Rightarrow> string \<Rightarrow> string \<Rightarrow> auth_db \<Rightarrow> unit auth \<times> auth_db" where
  "reset_password env now fr token pw db =
     seq_ok (hash_password env fr pw, db) (\<lambda>h db.
     seq_ok (db_call (reset_complete now (auth_hash_token env token) h db)) (\<lambda>completed db.
     if completed then (Ok (), db) else (Err InvalidResetToken, db)))"

definition email_verification_status :: "int \<Rightarrow> auth_db \<Rightarrow> (bool \<times> int option) auth" where
  "email_verification_status i db = (case get_user_by_id i db of
       Inl e \<Rightarrow> Err e
     | Inr u \<Rightarrow> Ok ((case usr_is_email_verify u of None \<Rightarrow> False | Some n \<Rightarrow> n \<noteq> 0), usr_email_verify_at u))"

definition request_email_verification :: "auth_env \<Rightarrow> int \<Rightarrow> fresh \<Rightarrow> int \<Rightarrow> auth_db \<Rightarrow> unit auth \<times> auth_db" where
  "request_email_verification env now fr i db =
     seq_ok (get_user_by_id i db, db) (\<lambda>u db.
     if (case usr_is_email_verify u of None \<Rightarrow> False | Some n \<Rightarrow> n \<noteq> 0) then (Ok (), db)
     else
     seq_ok (ok_or (InvalidOperation ''account does not have an email address'') (usr_email u), db) (\<lambda>email db.
     seq_ok (random_token fr, db) (\<lambda>token db.
     db_call (verification_issue now i (auth_hash_token env token) (now + 24 * 60 * 60) db))))"

definition verify_email :: "auth_env \<Rightarrow> int \<Rightarrow> string \<Rightarrow> auth_db \<Rightarrow> unit auth \<times> auth_db" where
  "verify_email env now token db =
     seq_ok (db_call (verification_complete now (auth_hash_token env token) db)) (\<lambda>completed db.
     if completed then (Ok (), db) else (Err InvalidVerificationToken, db))"

section \<open>Personal access tokens and request authentication\<close>

definition generate_pat :: "fresh \<Rightarrow> string auth" where
  "generate_pat fr = ok_or AuthInternal (map_option (\<lambda>bs. ''rp_'' @ hex_bytes False bs) (fr_bytes fr))"

definition create_personal_access_token ::
  "auth_env \<Rightarrow> int \<Rightarrow> fresh \<Rightarrow> int \<Rightarrow> string \<Rightarrow> string \<Rightarrow> int option \<Rightarrow> auth_db
   \<Rightarrow> (string \<times> pat_row) auth \<times> auth_db" where
  "create_personal_access_token env now fr i name pw expires_at db =
     seq_ok (get_user_by_id i db, db) (\<lambda>u db.
     seq_ok (verify_password env pw (usr_password u), db) (\<lambda>_ db.
     if (case expires_at of None \<Rightarrow> False | Some e \<Rightarrow> e \<le> now)
     then (Err (InvalidOperation ''personal access token expiry must be in the future''), db)
     else
     seq_ok (generate_pat fr, db) (\<lambda>token db.
     seq_ok (db_call (pat_create now i (trim name) (take 15 token) (auth_hash_token env token) expires_at db)) (\<lambda>row db.
     (Ok (token, row), db)))))"

definition list_personal_access_tokens :: "int \<Rightarrow> auth_db \<Rightarrow> pat_row list auth" where
  "list_personal_access_tokens i db = Ok (pat_list i db)"

definition revoke_personal_access_token :: "int \<Rightarrow> int \<Rightarrow> int \<Rightarrow> auth_db \<Rightarrow> bool auth \<times> auth_db" where
  "revoke_personal_access_token now u i db = db_call (pat_revoke now u i db)"

definition validate_personal_access_token ::
  "auth_env \<Rightarrow> int \<Rightarrow> string \<Rightarrow> auth_db \<Rightarrow> claims auth \<times> auth_db" where
  "validate_personal_access_token env now token db =
     seq_ok (db_call (pat_authenticate now (auth_hash_token env token) db)) (\<lambda>found db.
     seq_ok (ok_or InvalidToken found, db) (\<lambda>row db.
     seq_ok (get_user_by_id (pat_user_id row) db, db) (\<lambda>u db.
     (Ok \<lparr> cl_sub = int_to_dec (pat_user_id row), cl_user = subject_from_user u,
           cl_jti = ''pat:'' @ int_to_dec (pat_id row), cl_token_type = Access,
           cl_iat = word_of_int (max (pat_created_at row) 0),
           cl_exp = word_of_int (max (case pat_expires_at row of None \<Rightarrow> int i64_max | Some e \<Rightarrow> e) 0) \<rparr>, db))))"

definition validate_access_token ::
  "auth_env \<Rightarrow> jwt_config \<Rightarrow> int \<Rightarrow> string \<Rightarrow> auth_db \<Rightarrow> claims auth \<times> auth_db" where
  "validate_access_token env cfg now token db =
     (if starts_with token ''rp_'' then validate_personal_access_token env now token db
      else seq_ok (token_result (jwt_validate_access env cfg now token), db) (\<lambda>c db.
        seq_ok (ensure_token_active now (cl_jti c) db, db) (\<lambda>_ db. (Ok c, db))))"

text \<open>
  The extractor of \<open>Claims\<close>: \<open>bearer\<close> is the token of the \<open>Authorization\<close>
  header when it parses; otherwise the query string is searched for \<open>token=\<close>.
\<close>

fun split_on :: "char \<Rightarrow> string \<Rightarrow> string list" where
  "split_on c [] = [[]]"
| "split_on c (x # xs) = (if x = c then [] # split_on c xs
     else (case split_on c xs of [] \<Rightarrow> [[x]] | p # ps \<Rightarrow> (x # p) # ps))"

fun query_token :: "string list \<Rightarrow> string option" where
  "query_token [] = None"
| "query_token (pair # rest) =
     (let key = takeWhile (\<lambda>c. c \<noteq> CHR ''='') pair; tail = dropWhile (\<lambda>c. c \<noteq> CHR ''='') pair in
      if key = ''token'' \<and> tail \<noteq> [] then Some (tl tail) else query_token rest)"

definition request_token :: "string option \<Rightarrow> string option \<Rightarrow> string option" where
  "request_token bearer query = (case bearer of
       Some t \<Rightarrow> Some t
     | None \<Rightarrow> query_token (split_on CHR ''&'' (case query of None \<Rightarrow> [] | Some q \<Rightarrow> q)))"

definition extract_claims ::
  "auth_env \<Rightarrow> jwt_config \<Rightarrow> int \<Rightarrow> string option \<Rightarrow> string option \<Rightarrow> auth_db \<Rightarrow> (nat \<times> string, claims) result \<times> auth_db" where
  "extract_claims env cfg now bearer query db = (case request_token bearer query of
       None \<Rightarrow> (Err (401, ''missing authorization header or query token''), db)
     | Some token \<Rightarrow> (case validate_access_token env cfg now token db of
         (Inl _, db') \<Rightarrow> (Err (401, ''invalid token''), db')
       | (Inr c, db') \<Rightarrow> (Ok c, db')))"

section \<open>Requests\<close>

text \<open>The requests that reach the service, each with its time and random values.\<close>

datatype auth_request =
    Signup signup_dto
  | Login login_dto
  | RefreshTokens string
  | Authenticate string
  | LogoutAll int
  | RevokeSession int string
  | UpdateUser int update_user_dto
  | RequestReset string
  | ResetPassword string string
  | SetupTwoFactor int string
  | EnableTwoFactor int string
  | DisableTwoFactor int string string
  | RegenerateCodes int string string
  | CreatePat int string string "int option"
  | RevokePat int int
  | RequestVerification int
  | VerifyEmail string

definition serve :: "auth_env \<Rightarrow> jwt_config \<Rightarrow> int \<times> fresh \<times> auth_request \<Rightarrow> auth_db \<Rightarrow> auth_db" where
  "serve env cfg call db = (case call of (now, fr, req) \<Rightarrow> (case req of
       Signup input \<Rightarrow> snd (signup env cfg now fr input db)
     | Login input \<Rightarrow> snd (login env cfg now fr input db)
     | RefreshTokens t \<Rightarrow> snd (refresh env cfg now fr t db)
     | Authenticate t \<Rightarrow> snd (validate_access_token env cfg now t db)
     | LogoutAll u \<Rightarrow> snd (logout_all now u db)
     | RevokeSession u sid \<Rightarrow> snd (revoke_session now u sid db)
     | UpdateUser u input \<Rightarrow> snd (update_user env now fr u input db)
     | RequestReset email \<Rightarrow> snd (request_password_reset env now fr email db)
     | ResetPassword t pw \<Rightarrow> snd (reset_password env now fr t pw db)
     | SetupTwoFactor u pw \<Rightarrow> snd (setup_two_factor env fr u pw db)
     | EnableTwoFactor u code \<Rightarrow> snd (enable_two_factor env now u code db)
     | DisableTwoFactor u pw code \<Rightarrow> snd (disable_two_factor env now u pw code db)
     | RegenerateCodes u pw code \<Rightarrow> snd (regenerate_recovery_codes env now fr u pw code db)
     | CreatePat u name pw e \<Rightarrow> snd (create_personal_access_token env now fr u name pw e db)
     | RevokePat u i \<Rightarrow> snd (revoke_personal_access_token now u i db)
     | RequestVerification u \<Rightarrow> snd (request_email_verification env now fr u db)
     | VerifyEmail t \<Rightarrow> snd (verify_email env now t db)))"

end
