(* ===== verification/AuthLaws.thy ===== *)
theory AuthLaws
  imports Auth
begin

text \<open>
  Invariants of the authentication service over arbitrary sequences of requests.
  The locale \<open>credential_state\<close> states what a property of the credential tables
  has to satisfy on each statement; it then survives every request.  It is
  interpreted for revoked JSON web tokens, spent reset and verification tokens
  and revoked personal access tokens.
\<close>

section \<open>What the code relies on\<close>

text \<open>
  \<open>jsonwebtoken\<close>: the claims of a token do not depend on when it is decoded;
  decoding a token encoded under the same secret yields the encoded claims or an
  error; and the compact serialization starts with the base64 of a brace, hence
  never with \<open>rp_\<close>.  \<open>serde_json\<close>: a list of strings survives the round trip.
\<close>

definition jwt_codec :: "auth_env \<Rightarrow> bool" where
  "jwt_codec env \<longleftrightarrow> (\<forall>k c t. jwt_encode env k c = Some t \<longrightarrow>
       \<not> starts_with t ''rp_'' \<and> (\<forall>check now c'. jwt_decode env check now k t = Ok c' \<longrightarrow> c' = c))
     \<and> (\<forall>k t check now c check' now' c'. jwt_decode env check now k t = Ok c
       \<longrightarrow> jwt_decode env check' now' k t = Ok c' \<longrightarrow> c = c')"

definition json_codec :: "auth_env \<Rightarrow> bool" where
  "json_codec env \<longleftrightarrow> (\<forall>cs j. codes_to_json env cs = Some j \<longrightarrow> codes_from_json env j = Some cs)"

lemma db_call_simps [simp]:
  "snd (db_call r) = snd r" "db_call r = (Ok x, s) \<longleftrightarrow> r = (Ok x, s)"
  by (cases r; cases "fst r"; auto simp: db_call_def db_result_def)+

lemma token_result_Ok [simp]: "token_result r = Ok x \<longleftrightarrow> r = Ok x"
  by (cases r) (auto simp: token_result_def)

lemma snd_on_rbac: "\<exists>x. snd (on_rbac f db) = db\<lparr>rbac := x\<rparr>"
  by (auto simp: on_rbac_def split: prod.splits)

lemma generated_pair:
  "generate_token_pair env cfg now fr s = Ok tokens \<longleftrightarrow>
     jwt_encode env (token_secret cfg Access) (token_claims cfg now (fr_access_jti fr) s Access) = Some (tp_access tokens)
   \<and> jwt_encode env (token_secret cfg Refresh) (token_claims cfg now (fr_refresh_jti fr) s Refresh) = Some (tp_refresh tokens)"
  by (cases tokens) (auto simp: generate_token_pair_def generate_token_def split: sum.splits)

text \<open>Claims read back from a freshly generated pair are the ones it was made from.\<close>

lemma decoded_claims:
  assumes "jwt_codec env" "jwt_encode env k c = Some t" "jwt_validate env cfg now t k ty = Ok d"
  shows "d = c" "\<not> starts_with t ''rp_''"
  using assms by (auto simp: jwt_codec_def jwt_validate_def split: sum.splits if_splits)

lemma generated_access:
  assumes "jwt_codec env" "generate_token_pair env cfg now fr s = Ok tokens"
    and "jwt_validate_access env cfg now' (tp_access tokens) = Ok c"
  shows "c = token_claims cfg now (fr_access_jti fr) s Access"
  using assms decoded_claims(1) unfolding jwt_validate_access_def generated_pair by blast

lemma generated_refresh:
  assumes "jwt_codec env" "generate_token_pair env cfg now fr s = Ok tokens"
    and "jwt_validate_refresh env cfg now' (tp_refresh tokens) = Ok c"
  shows "c = token_claims cfg now (fr_refresh_jti fr) s Refresh"
  using assms decoded_claims(1) unfolding jwt_validate_refresh_def generated_pair by blast

lemma token_claims_simps [simp]:
  "cl_jti (token_claims cfg now j s ty) = j" "cl_user (token_claims cfg now j s ty) = s"
  "cl_token_type (token_claims cfg now j s ty) = ty"
  by (simp_all add: token_claims_def Let_def)

section \<open>Properties that survive every request\<close>

locale credential_state =
  fixes R :: "auth_db \<Rightarrow> bool" and allowed :: "string \<Rightarrow> bool"
  assumes rbac: "R db \<Longrightarrow> R (db\<lparr>rbac := x\<rparr>)"
    and blacklist: "R db \<Longrightarrow> R (blacklist_where now P db)"
    and insert: "R db \<Longrightarrow> allowed j \<Longrightarrow> R (snd (insert_token now j role u e sid k db))"
    and factors: "R db \<Longrightarrow> R (db\<lparr>two_factors := tf\<rparr>)" "R db \<Longrightarrow> R (db\<lparr>two_factors := tf, two_factors_seq := n\<rparr>)"
    and issue: "R db \<Longrightarrow> R (snd (reset_issue now u h e db))" "R db \<Longrightarrow> R (snd (verification_issue now u h e db))"
    and complete: "R db \<Longrightarrow> R (db\<lparr>reset_tokens := take_token now h (reset_tokens db)\<rparr>)"
      "R db \<Longrightarrow> R (db\<lparr>verify_tokens := take_token now h (verify_tokens db)\<rparr>)"
    and pat: "R db \<Longrightarrow> R (snd (pat_create now u name pre h ex db))" "R db \<Longrightarrow> R (snd (pat_authenticate now h db))"
      "R db \<Longrightarrow> R (snd (pat_revoke now u i db))"
begin

lemma keep_seq:
  "R (snd r) \<Longrightarrow> (\<And>x s. r = (Ok x, s) \<Longrightarrow> R s \<Longrightarrow> R (snd (k x s))) \<Longrightarrow> R (snd (seq_ok r k))"
  by (cases r; cases "fst r") auto

lemma keep_tx: "R s \<Longrightarrow> R (snd (f s)) \<Longrightarrow> R (snd (in_tx f s))"
  by (auto simp: in_tx_def split: prod.splits sum.splits)

lemma keep_on_rbac: "R db \<Longrightarrow> R (snd (on_rbac f db))"
  using snd_on_rbac [of f db] rbac by auto

lemma keep_store:
  assumes "jwt_codec env" "generate_token_pair env cfg t fr s = Ok tokens"
    and "allowed (fr_access_jti fr)" "allowed (fr_refresh_jti fr)" "R db"
  shows "R (snd (store_token_pair env cfg now tokens sid db))"
  unfolding store_token_pair_def
  using assms(3-5)
  by (auto intro!: keep_seq insert simp: store_claims_def
      dest!: generated_access [OF assms(1,2)] generated_refresh [OF assms(1,2)])

lemma keep_users: "R db \<Longrightarrow> R (db\<lparr>rbac := rbac db\<lparr>users := us\<rparr>\<rparr>)"
  by (rule rbac)

lemma keep_signup:
  assumes "jwt_codec env" "allowed (fr_access_jti fr)" "allowed (fr_refresh_jti fr)" "R db"
  shows "R (snd (signup env cfg now fr input db))"
  unfolding signup_def signup_rows_def Let_def
  using assms by (auto intro!: keep_seq keep_tx keep_on_rbac keep_store)

lemma keep_stored_factor: "R db \<Longrightarrow> R (snd (verify_stored_second_factor env now u s c r db))"
  unfolding verify_stored_second_factor_def consume_recovery_code_def Let_def
  by (auto intro!: keep_seq factors split: option.splits)

lemma keep_issue_pair:
  assumes "jwt_codec env" "allowed (fr_access_jti fr)" "allowed (fr_refresh_jti fr)" "R db"
  shows "R (snd (issue_token_pair env cfg now fr s db))"
  unfolding issue_token_pair_def using assms by (auto intro!: keep_seq keep_tx keep_store)

lemma keep_login:
  assumes "jwt_codec env" "allowed (fr_access_jti fr)" "allowed (fr_refresh_jti fr)" "R db"
  shows "R (snd (login env cfg now fr input db))"
  unfolding login_def verify_login_second_factor_def
  using assms by (auto intro!: keep_seq keep_issue_pair keep_stored_factor)

lemma keep_refresh_commit:
  assumes "jwt_codec env" "allowed (fr_access_jti fr)" "allowed (fr_refresh_jti fr)" "R db"
    and "generate_token_pair env cfg t fr s = Ok (rp_tokens plan)"
  shows "R (snd (refresh_commit env cfg now plan db))"
  unfolding refresh_commit_def blacklist_by_jti_def
  using assms by (auto intro!: keep_seq keep_tx keep_store blacklist)

lemma keep_blacklist_user: "R db \<Longrightarrow> R (snd (blacklist_all_by_user now u db))"
  by (simp add: blacklist_all_by_user_def blacklist)

lemma keep_reset: "R db \<Longrightarrow> R (snd (reset_complete now h p db))"
  by (auto simp: reset_complete_def set_password_def split: option.splits
      intro!: keep_blacklist_user keep_users complete(1) [THEN rbac])

lemma keep_verification: "R db \<Longrightarrow> R (snd (verification_complete now h db))"
  by (auto simp: verification_complete_def set_verified_def split: option.splits
      intro!: complete(2) [THEN rbac])

lemma keep_factor_statements:
  assumes "R db"
  shows "R (snd (set_two_factor_enabled now u b db))" "R (snd (two_factor_upsert s c u db))"
    "R (snd (two_factor_delete_by_user u db))" "R (snd (replace_recovery_codes u c db))"
    "R (snd (user_update now u item db))"
  using assms by (auto simp: set_two_factor_enabled_def two_factor_upsert_def two_factor_delete_by_user_def
      replace_recovery_codes_def user_update_def Let_def intro: rbac factors)

lemmas keep_rules = keep_seq keep_tx keep_factor_statements keep_stored_factor keep_blacklist_user
  keep_reset keep_verification issue pat

lemma keep_two_factor:
  assumes "R db"
  shows "R (snd (setup_two_factor env fr u pw db))" "R (snd (enable_two_factor env now u code db))"
    "R (snd (disable_two_factor env now u pw code db))" "R (snd (regenerate_recovery_codes env now fr u pw code db))"
  unfolding setup_two_factor_def enable_two_factor_def disable_two_factor_def regenerate_recovery_codes_def
  using assms by (auto intro!: keep_rules)

lemma keep_mail_and_pat:
  assumes "R db"
  shows "R (snd (request_password_reset env now fr e db))" "R (snd (reset_password env now fr t pw db))"
    "R (snd (request_email_verification env now fr u db))" "R (snd (verify_email env now t db))"
    "R (snd (create_personal_access_token env now fr u name pw ex db))"
    "R (snd (revoke_personal_access_token now u i db))" "R (snd (validate_access_token env cfg now t db))"
    "R (snd (update_user env now fr u input db))"
  unfolding request_password_reset_def reset_password_def request_email_verification_def verify_email_def
    create_personal_access_token_def revoke_personal_access_token_def validate_access_token_def
    validate_personal_access_token_def update_user_def Let_def
  using assms by (auto intro!: keep_rules split: option.splits)

end

lemma refresh_prepare_Ok:
  assumes "refresh_prepare env cfg now fr token db = Ok plan"
  obtains c u where "jwt_validate_refresh env cfg now token = Ok c" "is_token_active now (cl_jti c) db"
    "user_by_id (js_user_id (cl_user c)) (rbac db) = Some u" "rp_old_jti plan = cl_jti c"
    "rp_subject plan = subject_from_user u"
    "generate_token_pair env cfg now fr (subject_from_user u) = Ok (rp_tokens plan)"
  using assms by (auto simp: refresh_prepare_def ensure_token_active_def get_user_by_id_def
      split: sum.splits if_splits)

context credential_state
begin

lemma keep_refresh:
  assumes "jwt_codec env" "allowed (fr_access_jti fr)" "allowed (fr_refresh_jti fr)" "R db"
  shows "R (snd (refresh env cfg now fr token db))"
  unfolding refresh_def
  using assms by (auto intro!: keep_seq keep_refresh_commit elim!: refresh_prepare_Ok)

lemma keep_serve:
  assumes "jwt_codec env" "allowed (fr_access_jti fr)" "allowed (fr_refresh_jti fr)" "R db"
  shows "R (serve env cfg (now, fr, req) db)"
  using assms by (cases req) (auto simp: serve_def logout_all_def revoke_session_def repo_revoke_session_def Let_def
      intro: keep_signup keep_login keep_refresh keep_mail_and_pat keep_two_factor keep_blacklist_user blacklist)

lemma keep_run:
  assumes "jwt_codec env" "R db"
    and "\<forall>(now, fr, req) \<in> set calls. allowed (fr_access_jti fr) \<and> allowed (fr_refresh_jti fr)"
  shows "R (fold (serve env cfg) calls db)"
  using assms(2,3) by (induction calls arbitrary: db) (auto intro: keep_serve [OF assms(1)])

end

section \<open>Revoked and spent credentials\<close>

definition revoked :: "string \<Rightarrow> auth_db \<Rightarrow> bool" where
  "revoked j db = list_all (\<lambda>t. jt_jti t = j \<longrightarrow> jt_is_blacklist t \<noteq> Some 0) (jwt_tokens db)"

definition spent :: "string \<Rightarrow> mail_token_row list \<Rightarrow> bool" where
  "spent h rows = (h \<in> set (map mt_token_hash rows)
     \<and> list_all (\<lambda>t. mt_token_hash t = h \<longrightarrow> mt_used_at t \<noteq> None) rows)"

definition pat_withdrawn :: "string \<Rightarrow> auth_db \<Rightarrow> bool" where
  "pat_withdrawn h db = (h \<in> set (map pat_token_hash (pats db))
     \<and> list_all (\<lambda>t. pat_token_hash t = h \<longrightarrow> pat_revoked_at t \<noteq> None) (pats db))"

lemma revoked_inactive: "revoked j db \<Longrightarrow> \<not> is_token_active now j db"
  by (auto simp: revoked_def is_token_active_def live_row_def list_all_iff list_ex_iff)

lemma spent_update:
  assumes "\<And>t. mt_token_hash (f t) = mt_token_hash t" "\<And>t. mt_used_at (f t) \<noteq> None"
  shows "spent h rows \<Longrightarrow> spent h (update_where P f rows)"
  using assms by (auto simp del: set_map simp: spent_def list_all_iff mem_update_where map_update_where)

lemma spent_take: "spent h rows \<Longrightarrow> spent h (take_token now k rows)"
  unfolding take_token_def by (rule spent_update) auto

lemma spent_issue:
  assumes "spent h rows" "k \<noteq> h"
  shows "spent h (spend_tokens now u rows @ [mail_token now i v k e])"
proof -
  have "spent h (spend_tokens now u rows)"
    unfolding spend_tokens_def by (rule spent_update [OF _ _ assms(1)]) auto
  with assms(2) show ?thesis by (auto simp: spent_def mail_token_def)
qed

lemma spent_closed: "spent h rows \<Longrightarrow> find (open_token now h) rows = None"
  by (auto simp: spent_def open_token_def list_all_iff find_None_iff)

interpretation jti: credential_state "revoked j" "\<lambda>x. x \<noteq> j" for j
  by unfold_locales (auto simp: revoked_def blacklist_where_def insert_token_def reset_issue_def
      verification_issue_def pat_create_def pat_authenticate_def pat_revoke_def Let_def list_all_iff
      mem_update_where split: option.splits)

interpretation reset: credential_state "\<lambda>db. spent h (reset_tokens db)" "\<lambda>_. True" for h
  by unfold_locales (auto simp: blacklist_where_def insert_token_def reset_issue_def verification_issue_def
      pat_create_def pat_authenticate_def pat_revoke_def Let_def spent_take list_ex_iff
      split: option.splits intro!: spent_issue, auto simp: spent_def list_ex_iff)

interpretation verification: credential_state "\<lambda>db. spent h (verify_tokens db)" "\<lambda>_. True" for h
  by unfold_locales (auto simp: blacklist_where_def insert_token_def reset_issue_def verification_issue_def
      pat_create_def pat_authenticate_def pat_revoke_def Let_def spent_take list_ex_iff
      split: option.splits intro!: spent_issue, auto simp: spent_def list_ex_iff)

interpretation pat: credential_state "pat_withdrawn h" "\<lambda>_. True" for h
  by unfold_locales (auto simp del: set_map simp: pat_withdrawn_def blacklist_where_def insert_token_def reset_issue_def
      verification_issue_def pat_create_def pat_authenticate_def pat_revoke_def Let_def list_all_iff
      mem_update_where map_update_where split: option.splits, auto simp: list_ex_iff)

end
