(* ===== verification/AuthProps.thy ===== *)
theory AuthProps
  imports AuthLaws
begin

text \<open>
  Properties of the authentication service: sessions and their revocation, token
  refresh, password reset, the second factor, and what an account created by
  \<open>signup\<close> may do.
\<close>

section \<open>Example data\<close>

text \<open>Expiry times that neither wrap nor lie in the past.\<close>

definition expiry_ok :: "jwt_config \<Rightarrow> int \<Rightarrow> bool" where
  "expiry_ok cfg now = (0 < access_expiry_mins cfg \<and> - (2 ^ 63) \<le> now \<and> now + access_expiry_mins cfg * 60 < 2 ^ 63)"

definition example_account :: user_row where
  "example_account = \<lparr> usr_id = 1, usr_email = Some ''ann'', usr_last_name = None, usr_first_name = Some ''Ann'',
     usr_avatar = [], usr_role = Some ''OWNER'', usr_about_me = None, usr_password = ''$pw'', usr_is_email_verify = Some 0,
     usr_email_verify_at = None, usr_two_factor_enable = Some 1, usr_is_registered = 1, usr_added_by = None,
     usr_group_id = 1, usr_created_at = 0, usr_updated_at = 0 \<rparr>"

text \<open>
  A token codec for the tokens of one subject issued at time 1000: the token is
  its kind and its identifier.  The other crates are replaced by transparent functions.
\<close>

definition example_claims :: "jwt_subject \<Rightarrow> string \<Rightarrow> token_type \<Rightarrow> claims" where
  "example_claims s j ty = token_claims jwt_config_default 1000 j s ty"

definition example_env :: "jwt_subject \<Rightarrow> auth_env" where
  "example_env s = \<lparr>
     jwt_encode = (\<lambda>k c. if c = example_claims s (cl_jti c) (cl_token_type c) \<and> k = token_secret jwt_config_default (cl_token_type c)
       then Some ((case cl_token_type c of Access \<Rightarrow> CHR ''x'' | Refresh \<Rightarrow> CHR ''y'') # cl_jti c) else None),
     jwt_decode = (\<lambda>check now k t. case t of [] \<Rightarrow> Err False | x # j \<Rightarrow>
       (let ty = (if x = CHR ''x'' then Access else Refresh) in
        if k = token_secret jwt_config_default ty \<and> (x = CHR ''x'' \<or> x = CHR ''y'') then Ok (example_claims s j ty) else Err False)),
     argon_hash = (\<lambda>salt pw. Some (CHR ''$'' # pw)), argon_verify = (\<lambda>pw h. h = CHR ''$'' # pw), sha256_hex = (\<lambda>t. t),
     totp_check = (\<lambda>_ _ _ _. Some False), totp_url = (\<lambda>_ _. Some []),
     codes_to_json = (\<lambda>cs. if cs = [] then Some ''[]'' else if cs = [''ABCD''] then Some ''[ABCD]'' else None),
     codes_from_json = (\<lambda>j. if j = ''[]'' then Some [] else if j = ''[ABCD]'' then Some [''ABCD''] else None) \<rparr>"

lemma example_codecs: "jwt_codec (example_env s)" "json_codec (example_env s)"
  by (auto simp: jwt_codec_def json_codec_def example_env_def example_claims_def Let_def
      split: list.splits if_splits token_type.splits)

definition example_fresh :: "string \<Rightarrow> fresh" where
  "example_fresh j = \<lparr> fr_access_jti = CHR ''a'' # j, fr_refresh_jti = CHR ''r'' # j, fr_session = ''session'', fr_salt = [],
     fr_bytes = None, fr_secret = [], fr_codes = [] \<rparr>"

definition example_jwt_row :: "int \<Rightarrow> string \<Rightarrow> jwt_token_row" where
  "example_jwt_row i j = \<lparr> jt_id = i, jt_jti = j, jt_role = ''OWNER'', jt_user_id = 1, jt_is_blacklist = Some 0,
     jt_blacklist_at = None, jt_expired_at = Some 90000, jt_created_at = 0, jt_updated_at = 0,
     jt_session_id = Some ''session'', jt_token_kind = Some ''ACCESS'' \<rparr>"

definition example_mail_token :: mail_token_row where
  "example_mail_token = \<lparr> mt_id = 1, mt_user_id = 1, mt_token_hash = ''reset'', mt_expires_at = 2000, mt_used_at = None,
     mt_created_at = 0 \<rparr>"

definition example_pat :: pat_row where
  "example_pat = \<lparr> pat_id = 1, pat_user_id = 1, pat_name = ''ci'', pat_token_prefix = ''rp_k'', pat_token_hash = ''rp_key'',
     pat_expires_at = Some 90000, pat_last_used_at = None, pat_revoked_at = None, pat_created_at = 0 \<rparr>"

definition example_auth :: auth_db where
  "example_auth = \<lparr> rbac = \<lparr> users = [example_account], users_seq = 1, organizations = [], organizations_seq = 0,
       groups = [\<lparr> grp_id = 1, grp_name = ''owner'', grp_is_system = False, grp_organization_id = None,
         grp_created_at = 0, grp_updated_at = 0 \<rparr>], groups_seq = 1, policies = [], group_policy = [], members = [],
       members_seq = 0, invites = [], invites_seq = 0, user_policies = [], resource_accesses = [], audit_log = [] \<rparr>,
     jwt_tokens = [example_jwt_row 1 ''A'', example_jwt_row 2 ''R''], jwt_tokens_seq = 2,
     two_factors = [\<lparr> tf_id = 1, tf_secret = [], tf_backup_codes = ''[ABCD]'', tf_user_id = 1 \<rparr>], two_factors_seq = 1,
     reset_tokens = [example_mail_token], reset_tokens_seq = 1, verify_tokens = [], verify_tokens_seq = 0,
     pats = [example_pat], pats_seq = 1 \<rparr>"

abbreviation example_subject :: jwt_subject where
  "example_subject \<equiv> subject_from_user example_account"

abbreviation example_crates :: auth_env where
  "example_crates \<equiv> example_env example_subject"

abbreviation example_cfg :: jwt_config where
  "example_cfg \<equiv> jwt_config_default"

lemma with_state: "fst p = x \<Longrightarrow> p = (x, snd p)"
  by (cases p) simp

lemma fst_in_tx: "fst (f s) = Ok x \<Longrightarrow> fst (in_tx f s) = Ok x"
  by (cases "f s") (simp add: in_tx_def)

lemma fst_seq_ok: "fst r = Ok y \<Longrightarrow> fst (seq_ok r (\<lambda>_ s. (Ok x, s))) = Ok x"
  by (cases r) simp

lemma example_expiry: "expiry_ok example_cfg 1000"
  by (simp add: expiry_ok_def jwt_config_default_def)

abbreviation example_call :: "int \<times> fresh \<times> auth_request" where
  "example_call \<equiv> (1500, example_fresh ''9'', VerifyEmail ''none'')"

definition example_pair :: "string \<Rightarrow> token_pair" where
  "example_pair j = \<lparr> tp_access = CHR ''x'' # CHR ''a'' # j, tp_refresh = CHR ''y'' # CHR ''r'' # j \<rparr>"

definition example_newcomer :: jwt_subject where
  "example_newcomer = \<lparr> js_user_id = 2, js_email = Some ''eve'', js_first_name = Some ''Eve'', js_last_name = None, js_avatar = [],
     js_role = Some ''OWNER'', js_group_id = 1 \<rparr>"

definition example_signup :: signup_dto where
  "example_signup = \<lparr> su_email = ''Eve'', su_password = ''12345678'', su_first_name = Some ''Eve'', su_last_name = None, su_avatar = None \<rparr>"

section \<open>Effects of the operations\<close>

lemma insert_token_Ok:
  assumes "insert_token now j role u e sid k db = (Ok (), db')"
  obtains row where "db' = db\<lparr>jwt_tokens := jwt_tokens db @ [row], jwt_tokens_seq := jwt_tokens_seq db + 1\<rparr>"
    "jt_jti row = j" "jt_is_blacklist row = Some 0" "jt_expired_at row = Some e" "jt_user_id row = u"
    "jt_session_id row = Some sid"
  using assms by (auto simp: insert_token_def Let_def split: if_splits)

lemma store_token_pair_Ok:
  assumes "store_token_pair env cfg now tokens sid db = (Ok (), db')"
  obtains a r ra rr where "jwt_validate_access env cfg now (tp_access tokens) = Ok a"
    "jwt_validate_refresh env cfg now (tp_refresh tokens) = Ok r"
    "db' = db\<lparr>jwt_tokens := jwt_tokens db @ [ra, rr], jwt_tokens_seq := jwt_tokens_seq db + 1 + 1\<rparr>"
    "jt_jti ra = cl_jti a" "jt_is_blacklist ra = Some 0" "jt_expired_at ra = Some (sint (cl_exp a))"
    "jt_jti rr = cl_jti r" "jt_session_id ra = Some sid" "jt_session_id rr = Some sid"
    "jt_user_id ra = js_user_id (cl_user a)" "jt_user_id rr = js_user_id (cl_user r)"
  using assms by (auto simp: store_token_pair_def seq_ok_Ok store_claims_def elim!: insert_token_Ok)

definition claims_storable :: "claims \<Rightarrow> auth_db \<Rightarrow> bool" where
  "claims_storable c db = ((case js_role (cl_user c) of None \<Rightarrow> ''MEMBER'' | Some r \<Rightarrow> r) \<in> set [''OWNER'', ''ADMIN'', ''MEMBER'']
     \<and> user_exists (js_user_id (cl_user c)) db)"

lemma store_claims_eq:
  "claims_storable c db \<Longrightarrow> \<exists>d. store_claims now sid c k db = (Ok (), d) \<and> rbac d = rbac db"
  "\<not> claims_storable c db \<Longrightarrow> \<exists>e. store_claims now sid c k db = (Err e, db)"
  by (auto simp: store_claims_def insert_token_def claims_storable_def Let_def db_call_def db_result_def)

lemma claims_storable_cong: "users (rbac d) = users (rbac db) \<Longrightarrow> claims_storable c d = claims_storable c db"
  by (simp add: claims_storable_def user_exists_def)

lemma store_token_pair_ok:
  assumes "jwt_validate_access env cfg now (tp_access tokens) = Ok a"
    and "jwt_validate_refresh env cfg now (tp_refresh tokens) = Ok r"
  shows "(\<exists>d. store_token_pair env cfg now tokens sid db = (Ok (), d)) \<longleftrightarrow> claims_storable a db \<and> claims_storable r db"
proof -
  have unfold: "store_token_pair env cfg now tokens sid db
      = seq_ok (store_claims now sid a ''ACCESS'' db) (\<lambda>_ db. store_claims now sid r ''REFRESH'' db)"
    unfolding store_token_pair_def assms token_result_def sum.case seq_ok_simps ..
  show ?thesis
  proof (cases "claims_storable a db")
    case True
    then obtain d where d: "store_claims now sid a ''ACCESS'' db = (Ok (), d)" "rbac d = rbac db"
      using store_claims_eq(1) by blast
    then have same: "claims_storable r d = claims_storable r db" using claims_storable_cong [of d db r] by simp
    have "(\<exists>d'. store_claims now sid r ''REFRESH'' d = (Ok (), d')) = claims_storable r d"
      using store_claims_eq [of r d now sid "''REFRESH''"] by (metis Pair_inject sum.distinct(1))
    then show ?thesis by (simp only: unfold d seq_ok_simps same True simp_thms)
  next
    case False
    then obtain e where "store_claims now sid a ''ACCESS'' db = (Err e, db)"
      using store_claims_eq(2) by blast
    with False show ?thesis by (simp add: unfold)
  qed
qed

lemma store_token_pair_cong:
  assumes "store_token_pair env cfg now tokens sid db = (Ok (), db')" "users (rbac d) = users (rbac db)"
  shows "\<exists>d'. store_token_pair env cfg now tokens sid d = (Ok (), d')"
proof -
  obtain a r where ar: "jwt_validate_access env cfg now (tp_access tokens) = Ok a"
      "jwt_validate_refresh env cfg now (tp_refresh tokens) = Ok r"
    using assms(1) by (rule store_token_pair_Ok)
  from assms(1) show ?thesis
    unfolding store_token_pair_ok [OF ar] claims_storable_cong [OF assms(2)]
    using store_token_pair_ok [OF ar, of sid db] by blast
qed

lemma sint_i64: "- (2 ^ 63) \<le> k \<Longrightarrow> k < 2 ^ 63 \<Longrightarrow> sint (word_of_int k :: 64 word) = k"
  by (simp add: sint_sbintrunc' signed_take_bit_int_eq_self)

lemma expiry_later: "expiry_ok cfg now \<Longrightarrow> now < sint (cl_exp (token_claims cfg now j s Access))"
  unfolding expiry_ok_def token_claims_def Let_def claims.simps token_type.case by (subst sint_i64) linarith+

lemma active_append: "is_token_active now j (db\<lparr>jwt_tokens := xs @ ys\<rparr>)
    \<longleftrightarrow> is_token_active now j (db\<lparr>jwt_tokens := xs\<rparr>) \<or> is_token_active now j (db\<lparr>jwt_tokens := ys\<rparr>)"
  by (simp add: is_token_active_def)

text \<open>A stored pair authenticates with the subject it was issued for.\<close>

lemma stored_pair_accepted:
  assumes "jwt_codec env" "expiry_ok cfg now" "generate_token_pair env cfg now fr s = Ok tokens"
    and "store_token_pair env cfg now tokens sid db = (Ok (), db')"
  shows "validate_access_token env cfg now (tp_access tokens) db'
    = (Ok (token_claims cfg now (fr_access_jti fr) s Access), db')"
proof -
  from assms(4) obtain a ra rr n where a: "jwt_validate_access env cfg now (tp_access tokens) = Ok a"
      "db' = db\<lparr>jwt_tokens := jwt_tokens db @ [ra, rr], jwt_tokens_seq := n\<rparr>"
      "jt_jti ra = cl_jti a" "jt_is_blacklist ra = Some 0" "jt_expired_at ra = Some (sint (cl_exp a))"
    by (rule store_token_pair_Ok) blast
  have c: "a = token_claims cfg now (fr_access_jti fr) s Access"
    by (rule generated_access [OF assms(1,3) a(1)])
  have "\<not> starts_with (tp_access tokens) ''rp_''"
    using assms(1,3) by (auto simp: generated_pair jwt_codec_def)
  moreover have "is_token_active now (cl_jti a) db'"
    using a c expiry_later [OF assms(2), of "fr_access_jti fr" s] by (simp add: is_token_active_def live_row_def)
  ultimately show ?thesis
    using a(1) c by (simp add: validate_access_token_def ensure_token_active_def token_result_def)
qed

text \<open>Blacklisting one identifier keeps the tokens of another.\<close>

lemma validate_blacklisted_other:
  assumes "validate_access_token env cfg now t db = (Ok c, db)" "\<not> starts_with t ''rp_''" "cl_jti c \<noteq> j"
    and "jwt_tokens d = jwt_tokens (blacklist_where now (\<lambda>r. jt_jti r = j) db) @ rows"
  shows "validate_access_token env cfg now t d = (Ok c, d)"
proof -
  have v: "jwt_validate_access env cfg now t = Ok c" "is_token_active now (cl_jti c) db"
    using assms(1,2) by (auto simp: validate_access_token_def seq_ok_Ok ensure_token_active_def split: if_splits)
  then have "is_token_active now (cl_jti c) d"
    using assms(3,4) by (auto simp: is_token_active_def list_ex_iff blacklist_where_def mem_update_where)
  with v(1) assms(2) show ?thesis
    by (simp add: validate_access_token_def ensure_token_active_def token_result_def)
qed

lemma refresh_Ok:
  assumes "refresh env cfg now fr token db = (Ok (s, tokens), db')"
  obtains c d where "jwt_validate_refresh env cfg now token = Ok c" "is_token_active now (cl_jti c) db"
    "refresh_prepare env cfg now fr token db = Ok d" "rp_old_jti d = cl_jti c" "rp_tokens d = tokens" "rp_subject d = s"
    "generate_token_pair env cfg now fr s = Ok tokens"
    "store_token_pair env cfg now tokens (rp_session d) (blacklist_where now (\<lambda>r. jt_jti r = cl_jti c) db) = (Ok (), db')"
proof -
  obtain d where d: "refresh_prepare env cfg now fr token db = Ok d"
      "refresh_commit env cfg now d db = (Ok (s, tokens), db')"
    using assms by (auto simp: refresh_def seq_ok_Ok)
  have commit: "rp_subject d = s" "rp_tokens d = tokens"
      "store_token_pair env cfg now tokens (rp_session d) (blacklist_where now (\<lambda>r. jt_jti r = rp_old_jti d) db) = (Ok (), db')"
    using d(2) by (auto simp: refresh_commit_def in_tx_Ok seq_ok_Ok blacklist_by_jti_def)
  from d(1) show ?thesis
  proof (rule refresh_prepare_Ok)
    fix c u
    assume "jwt_validate_refresh env cfg now token = Ok c" "is_token_active now (cl_jti c) db"
      "rp_old_jti d = cl_jti c" "rp_subject d = subject_from_user u"
      "generate_token_pair env cfg now fr (subject_from_user u) = Ok (rp_tokens d)"
    with d(1) commit show ?thesis by (intro that [of c d]) simp_all
  qed
qed

section \<open>Sessions\<close>

text \<open>The calls that draw neither identifier of a pair as \<open>j\<close>.\<close>

definition draws_fresh :: "string \<Rightarrow> (int \<times> fresh \<times> auth_request) list \<Rightarrow> bool" where
  "draws_fresh j calls = list_all (\<lambda>(_, fr, _). fr_access_jti fr \<noteq> j \<and> fr_refresh_jti fr \<noteq> j) calls"

lemma revoked_run:
  assumes "jwt_codec env" "revoked j db" "draws_fresh j calls"
  shows "revoked j (fold (serve env cfg) calls db)"
  using jti.keep_run [OF assms(1,2)] assms(3) by (auto simp: draws_fresh_def list_all_iff)

lemma revoked_blacklisted:
  assumes "jwt_tokens d = jwt_tokens (blacklist_where now (live_token_of u) db)"
    and "list_all (\<lambda>r. jt_jti r = j \<longrightarrow> jt_user_id r = u) (jwt_tokens db)"
  shows "revoked j d"
  using assms(2) unfolding revoked_def assms(1)
  by (auto simp: blacklist_where_def update_where_def live_token_of_def list_all_iff)

lemma decoded_unique:
  assumes "jwt_codec env" "jwt_validate env cfg now t k ty = Ok c" "jwt_validate env cfg now' t k ty' = Ok c'"
  shows "c' = c"
  using assms unfolding jwt_codec_def jwt_validate_def by (fastforce split: sum.splits if_splits)

lemma revoked_refresh_refused:
  assumes "jwt_codec env" "jwt_validate_refresh env cfg now t = Ok c" "revoked (cl_jti c) db"
  shows "refresh env cfg now' fr t db = (Err InvalidToken, db)"
proof (cases "jwt_validate_refresh env cfg now' t")
  case (Inr c')
  then have "c' = c"
    using assms(2) decoded_unique [OF assms(1)] unfolding jwt_validate_refresh_def by blast
  with Inr show ?thesis
    by (simp add: refresh_def refresh_prepare_def token_result_def ensure_token_active_def
        revoked_inactive [OF assms(3)])
qed (simp add: refresh_def refresh_prepare_def token_result_def)

lemma revoked_access_refused:
  assumes "jwt_codec env" "jwt_validate_access env cfg now t = Ok c" "revoked (cl_jti c) db" "\<not> starts_with t ''rp_''"
  shows "validate_access_token env cfg now' t db = (Err InvalidToken, db)"
proof (cases "jwt_validate_access env cfg now' t")
  case (Inr c')
  then have "c' = c"
    using assms(2) decoded_unique [OF assms(1)] unfolding jwt_validate_access_def by blast
  with Inr assms(4) show ?thesis
    by (simp add: validate_access_token_def token_result_def ensure_token_active_def
        revoked_inactive [OF assms(3)])
qed (use assms(4) in \<open>simp add: validate_access_token_def token_result_def\<close>)

text \<open>
  C20. Logging out is final.  After logging a user out, no sequence of
  requests makes an access or refresh token of that user acceptable again: each
  is refused as an invalid token, at any time, as long as no later pair happens to
  draw its identifier.
\<close>
theorem logout_is_final:
  assumes "jwt_codec env" "\<not> starts_with t ''rp_''"
    and "list_all (\<lambda>r. jt_jti r = cl_jti c \<longrightarrow> jt_user_id r = u) (jwt_tokens db)"
    and "draws_fresh (cl_jti c) calls"
    and "db' = fold (serve env cfg) calls (snd (logout_all now u db))"
  shows "(jwt_validate_access env cfg t0 t = Ok c \<longrightarrow> validate_access_token env cfg t1 t db' = (Err InvalidToken, db'))
    \<and> (jwt_validate_refresh env cfg t0 t = Ok c \<longrightarrow> refresh env cfg t1 fr t db' = (Err InvalidToken, db'))"
proof -
  have "jwt_tokens (snd (logout_all now u db)) = jwt_tokens (blacklist_where now (live_token_of u) db)"
    by (simp add: logout_all_def blacklist_all_by_user_def)
  then have "revoked (cl_jti c) (snd (logout_all now u db))"
    using assms(3) by (simp add: revoked_blacklisted)
  then have "revoked (cl_jti c) db'"
    unfolding assms(5) by (rule revoked_run [OF assms(1) _ assms(4)])
  then show ?thesis
    using revoked_access_refused [OF assms(1) _ _ assms(2)] revoked_refresh_refused [OF assms(1)] by blast
qed

theorem logout_is_final_witness:
  "is_ok (fst (validate_access_token example_crates example_cfg 1000 ''xA'' example_auth))
   \<and> fst (validate_access_token example_crates example_cfg 1600 ''xA''
       (fold (serve example_crates example_cfg) [example_call] (snd (logout_all 1100 1 example_auth)))) = Err InvalidToken"
proof
  let ?c = "example_claims example_subject ''A'' Access"
  show "is_ok (fst (validate_access_token example_crates example_cfg 1000 ''xA'' example_auth))" by code_simp
  let ?db = "fold (serve example_crates example_cfg) [example_call] (snd (logout_all 1100 1 example_auth))"
  have rp: "\<not> starts_with ''xA'' ''rp_''" by simp
  have own: "list_all (\<lambda>r. jt_jti r = cl_jti ?c \<longrightarrow> jt_user_id r = 1) (jwt_tokens example_auth)" by code_simp
  have draws: "draws_fresh (cl_jti ?c) [example_call]" by code_simp
  have "jwt_validate_access example_crates example_cfg 1000 ''xA'' = Ok ?c" by code_simp
  then have "validate_access_token example_crates example_cfg 1600 ''xA'' ?db = (Err InvalidToken, ?db)"
    by (rule logout_is_final [OF example_codecs(1) rp own draws refl, THEN conjunct1, THEN mp])
  then show "fst (validate_access_token example_crates example_cfg 1600 ''xA'' ?db) = Err InvalidToken"
    by (simp only: fst_conv)
qed

text \<open>
  C21. Refresh rotation.  A successful refresh hands out a pair whose access
  token is accepted at once for the same user, and the refresh token it was
  called with is refused in every later state, whatever requests come between.
\<close>
theorem refresh_rotates:
  assumes "jwt_codec env" "expiry_ok cfg now" "refresh env cfg now fr t db = (Ok (s, tokens), db')"
    and "jwt_validate_refresh env cfg now t = Ok c" "draws_fresh (cl_jti c) ((now, fr, RefreshTokens t) # calls)"
  shows "validate_access_token env cfg now (tp_access tokens) db'
      = (Ok (token_claims cfg now (fr_access_jti fr) s Access), db')
    \<and> fst (refresh env cfg t1 fr1 t (fold (serve env cfg) calls db')) = Err InvalidToken"
proof -
  from assms(3) obtain sid where d: "generate_token_pair env cfg now fr s = Ok tokens"
      "store_token_pair env cfg now tokens sid (blacklist_where now (\<lambda>r. jt_jti r = cl_jti c) db) = (Ok (), db')"
    by (rule refresh_Ok) (auto simp: assms(4))
  have "revoked (cl_jti c) (blacklist_where now (\<lambda>r. jt_jti r = cl_jti c) db)"
    by (auto simp: revoked_def blacklist_where_def list_all_iff mem_update_where)
  then have "revoked (cl_jti c) db'"
    using jti.keep_store [OF assms(1) d(1), of "cl_jti c" _ now sid] d(2) assms(5)
    by (simp add: draws_fresh_def) (metis snd_conv)
  then have "revoked (cl_jti c) (fold (serve env cfg) calls db')"
    using revoked_run [OF assms(1)] assms(5) by (simp add: draws_fresh_def)
  then show ?thesis
    using stored_pair_accepted [OF assms(1,2) d] revoked_refresh_refused [OF assms(1,4)] by simp
qed

lemma example_refresh:
  "fst (refresh example_crates example_cfg 1000 (example_fresh ''1'') ''yR'' example_auth) = Ok (example_subject, example_pair ''1'')"
  "fst (refresh example_crates example_cfg 1000 (example_fresh ''2'') ''yR'' example_auth) = Ok (example_subject, example_pair ''2'')"
  "jwt_validate_refresh example_crates example_cfg 1000 ''yR'' = Ok (example_claims example_subject ''R'' Refresh)"
  by code_simp+

theorem refresh_rotates_witness:
  "fst (refresh example_crates example_cfg 1600 (example_fresh ''3'') ''yR''
     (fold (serve example_crates example_cfg) [example_call]
       (snd (refresh example_crates example_cfg 1000 (example_fresh ''1'') ''yR'' example_auth)))) = Err InvalidToken"
proof -
  have "draws_fresh (cl_jti (example_claims example_subject ''R'' Refresh))
      [(1000, example_fresh ''1'', RefreshTokens ''yR''), example_call]" by code_simp
  then show ?thesis
    using refresh_rotates [OF example_codecs(1) example_expiry with_state [OF example_refresh(1)] example_refresh(3)] by blast
qed

text \<open>
  C22. The rotation is not atomic.  The check of the old token and the
  transaction that spends it are separate: two refreshes with the same token that
  both pass the check before either commits both succeed, and afterwards both new
  access tokens are accepted.
\<close>
theorem refresh_race_forks_session:
  assumes "jwt_codec env" "expiry_ok cfg now" "jwt_validate_refresh env cfg now t = Ok c"
    and "refresh env cfg now fr1 t db = (Ok (s1, tokens1), d1)" "refresh env cfg now fr2 t db = (Ok (s2, tokens2), d2)"
    and "fr_access_jti fr1 \<noteq> cl_jti c"
  shows "\<exists>p1 p2 db1 db2. refresh_prepare env cfg now fr1 t db = Ok p1 \<and> refresh_prepare env cfg now fr2 t db = Ok p2
    \<and> refresh_commit env cfg now p1 db = (Ok (s1, tokens1), db1)
    \<and> refresh_commit env cfg now p2 db1 = (Ok (s2, tokens2), db2)
    \<and> is_ok (fst (validate_access_token env cfg now (tp_access tokens1) db2))
    \<and> is_ok (fst (validate_access_token env cfg now (tp_access tokens2) db2))"
proof -
  let ?spend = "blacklist_where now (\<lambda>r. jt_jti r = cl_jti c)"
  from assms(4) obtain p1 where p1: "refresh_prepare env cfg now fr1 t db = Ok p1" "rp_old_jti p1 = cl_jti c"
      "rp_tokens p1 = tokens1" "rp_subject p1 = s1" "generate_token_pair env cfg now fr1 s1 = Ok tokens1"
      "store_token_pair env cfg now tokens1 (rp_session p1) (?spend db) = (Ok (), d1)"
    by (rule refresh_Ok) (auto simp: assms(3))
  from assms(5) obtain p2 where p2: "refresh_prepare env cfg now fr2 t db = Ok p2" "rp_old_jti p2 = cl_jti c"
      "rp_tokens p2 = tokens2" "rp_subject p2 = s2" "generate_token_pair env cfg now fr2 s2 = Ok tokens2"
      "store_token_pair env cfg now tokens2 (rp_session p2) (?spend db) = (Ok (), d2)"
    by (rule refresh_Ok) (auto simp: assms(3))
  have "rbac d1 = rbac (?spend db)" using p1(6) by (rule store_token_pair_Ok) simp
  then obtain db2 where db2: "store_token_pair env cfg now tokens2 (rp_session p2) (?spend d1) = (Ok (), db2)"
    using store_token_pair_cong [OF p2(6), of "?spend d1"] by (auto simp: blacklist_where_def)
  have "refresh_commit env cfg now p1 db = (Ok (s1, tokens1), d1)" "refresh_commit env cfg now p2 d1 = (Ok (s2, tokens2), db2)"
    using p1 p2 db2 by (simp_all add: refresh_commit_def in_tx_Ok seq_ok_Ok blacklist_by_jti_def)
  moreover obtain rows where rows: "jwt_tokens db2 = jwt_tokens (?spend d1) @ rows"
    using db2 by (rule store_token_pair_Ok) auto
  have "validate_access_token env cfg now (tp_access tokens1) db2
      = (Ok (token_claims cfg now (fr_access_jti fr1) s1 Access), db2)"
    by (rule validate_blacklisted_other [OF stored_pair_accepted [OF assms(1,2) p1(5,6)] _ _ rows])
      (use p1(5) assms(1,6) in \<open>auto simp: generated_pair jwt_codec_def\<close>)
  moreover have "is_ok (fst (validate_access_token env cfg now (tp_access tokens2) db2))"
    using stored_pair_accepted [OF assms(1,2) p2(5) db2] by simp
  ultimately show ?thesis using p1(1) p2(1) by fastforce
qed

theorem refresh_race_forks_session_witness:
  "\<exists>p1 p2 db1 db2. refresh_commit example_crates example_cfg 1000 p1 example_auth = (Ok (example_subject, example_pair ''1''), db1)
    \<and> refresh_commit example_crates example_cfg 1000 p2 db1 = (Ok (example_subject, example_pair ''2''), db2)
    \<and> is_ok (fst (validate_access_token example_crates example_cfg 1000 (tp_access (example_pair ''1'')) db2))
    \<and> is_ok (fst (validate_access_token example_crates example_cfg 1000 (tp_access (example_pair ''2'')) db2))"
proof -
  have "fr_access_jti (example_fresh ''1'') \<noteq> cl_jti (example_claims example_subject ''R'' Refresh)" by code_simp
  then show ?thesis
    using refresh_race_forks_session [OF example_codecs(1) example_expiry example_refresh(3)
        with_state [OF example_refresh(1)] with_state [OF example_refresh(2)]] by blast
qed

section \<open>Password reset\<close>

lemma reset_complete_True:
  assumes "reset_complete now h p db = (Ok True, db')" "distinct (map mt_token_hash (reset_tokens db))"
  obtains t where "t \<in> set (reset_tokens db)" "open_token now h t" "spent h (reset_tokens db')"
    "jwt_tokens db' = jwt_tokens (blacklist_where now (live_token_of (mt_user_id t)) db)"
    "users (rbac db') = update_where (\<lambda>x. usr_id x = mt_user_id t)
       (\<lambda>x. x\<lparr>usr_password := p, usr_updated_at := now\<rparr>) (users (rbac db))"
    "pats db' = pats db" "two_factors db' = two_factors db"
proof -
  obtain t where t: "find (open_token now h) (reset_tokens db) = Some t"
    using assms(1) by (auto simp: reset_complete_def split: option.splits)
  then have mem: "t \<in> set (reset_tokens db)" "open_token now h t" by (auto dest: find_Some_mem)
  have "spent h (take_token now h (reset_tokens db))"
  proof -
    have "r = t" if "r \<in> set (reset_tokens db)" "mt_token_hash r = h" for r
      using that mem assms(2) by (auto simp: open_token_def dest: distinct_map_inj)
    with mem show ?thesis
      by (auto simp: spent_def take_token_def list_all_iff mem_update_where map_update_where open_token_def
          simp del: set_map) (auto simp: open_token_def)
  qed
  with assms(1) t mem show ?thesis
    by (intro that [of t]) (auto simp: reset_complete_def set_password_def blacklist_all_by_user_def blacklist_where_def)
qed

text \<open>
  C23. Password reset.  A reset succeeds only for a token that was issued, is
  unused and has not expired; it stores the new hash for the account the token
  belongs to, ends all sessions of that account, and spends the token for good:
  no later sequence of requests makes it usable again.  Personal access tokens of
  the account are untouched, so they keep authenticating.
\<close>
theorem password_reset_effect:
  assumes "jwt_codec env" "reset_password env now fr token pw db = (Ok (), db')"
    and "distinct (map mt_token_hash (reset_tokens db))"
  shows "\<exists>t \<in> set (reset_tokens db). open_token now (auth_hash_token env token) t
    \<and> (\<forall>x \<in> set (users (rbac db')). usr_id x = mt_user_id t \<longrightarrow> argon_hash env (fr_salt fr) pw = Some (usr_password x))
    \<and> (\<forall>r \<in> set (jwt_tokens db'). jt_user_id r = mt_user_id t \<longrightarrow> \<not> live_row t1 r)
    \<and> pats db' = pats db
    \<and> fst (reset_password env t1 fr1 token pw1 (fold (serve env cfg) calls db')) \<noteq> Ok ()"
proof -
  obtain h where h: "argon_hash env (fr_salt fr) pw = Some h" "reset_complete now (auth_hash_token env token) h db = (Ok True, db')"
    using assms(2) by (auto simp: reset_password_def hash_password_def seq_ok_Ok split: if_splits)
  from h(2) assms(3) obtain t where t: "t \<in> set (reset_tokens db)" "open_token now (auth_hash_token env token) t"
      "spent (auth_hash_token env token) (reset_tokens db')"
      "jwt_tokens db' = jwt_tokens (blacklist_where now (live_token_of (mt_user_id t)) db)"
      "users (rbac db') = update_where (\<lambda>x. usr_id x = mt_user_id t)
         (\<lambda>x. x\<lparr>usr_password := h, usr_updated_at := now\<rparr>) (users (rbac db))" "pats db' = pats db"
    by (rule reset_complete_True)
  have "spent (auth_hash_token env token) (reset_tokens (fold (serve env cfg) calls db'))"
    using reset.keep_run [OF assms(1) t(3)] by auto
  then have "fst (reset_password env t1 fr1 token pw1 (fold (serve env cfg) calls db')) \<noteq> Ok ()"
    by (cases "argon_hash env (fr_salt fr1) pw1")
      (auto simp: reset_password_def hash_password_def reset_complete_def spent_closed db_call_def db_result_def)
  moreover have "\<forall>r \<in> set (jwt_tokens db'). jt_user_id r = mt_user_id t \<longrightarrow> \<not> live_row t1 r"
    unfolding t(4) by (auto simp: blacklist_where_def update_where_def live_token_of_def live_row_def)
  moreover have "\<forall>x \<in> set (users (rbac db')). usr_id x = mt_user_id t \<longrightarrow> argon_hash env (fr_salt fr) pw = Some (usr_password x)"
    unfolding t(5) h(1) by (auto simp: update_where_def)
  ultimately show ?thesis using t(1,2,6) by blast
qed

theorem password_reset_effect_witness:
  "fst (reset_password example_crates 1200 (example_fresh []) ''reset'' ''new'' example_auth) = Ok ()
   \<and> fst (reset_password example_crates 1700 (example_fresh []) ''reset'' ''evil'' (fold (serve example_crates example_cfg) [example_call]
       (snd (reset_password example_crates 1200 (example_fresh []) ''reset'' ''new'' example_auth)))) \<noteq> Ok ()"
proof
  show reset: "fst (reset_password example_crates 1200 (example_fresh []) ''reset'' ''new'' example_auth) = Ok ()" by code_simp
  have "distinct (map mt_token_hash (reset_tokens example_auth))" by code_simp
  then show "fst (reset_password example_crates 1700 (example_fresh []) ''reset'' ''evil'' (fold (serve example_crates example_cfg) [example_call]
       (snd (reset_password example_crates 1200 (example_fresh []) ''reset'' ''new'' example_auth)))) \<noteq> Ok ()"
    using password_reset_effect [OF example_codecs(1) with_state [OF reset], of 1700 "example_fresh []" "''evil''" example_cfg "[example_call]"]
    by blast
qed

section \<open>Login\<close>

definition stored_codes :: "auth_env \<Rightarrow> string \<Rightarrow> string list" where
  "stored_codes env backup = (case codes_from_json env backup of None \<Rightarrow> [] | Some cs \<Rightarrow> cs)"

lemma consume_True:
  assumes "consume_recovery_code env u backup h db = (Ok True, db')"
  obtains updated where "h \<in> set (stored_codes env backup)"
    "codes_to_json env (remove1 h (stored_codes env backup)) = Some updated"
    "db' = db\<lparr>two_factors := update_where (\<lambda>t. tf_user_id t = u \<and> tf_backup_codes t = backup)
       (\<lambda>t. t\<lparr>tf_backup_codes := updated\<rparr>) (two_factors db)\<rparr>"
  using assms by (auto simp: consume_recovery_code_def stored_codes_def Let_def split: if_splits option.splits)

lemma stored_second_factor_Ok:
  assumes "verify_stored_second_factor env now u t code recovery db = (Ok (), db')"
  shows "(trim code \<noteq> [] \<and> totp_check env (tf_secret t) (account_name u) (trim code) now = Some True \<and> db' = db)
    \<or> (trim recovery \<noteq> [] \<and> consume_recovery_code env (usr_id u) (tf_backup_codes t) (hash_recovery_code env recovery) db = (Ok True, db'))"
  using assms by (auto simp: verify_stored_second_factor_def check_totp_def seq_ok_Ok split: if_splits)

lemma login_Ok:
  assumes "login env cfg now fr input db = (Ok (s, tokens), db')"
  obtains u d where "u \<in> set (users (rbac db))" "usr_email u = Some (to_lowercase (trim (lg_email input)))"
    "user_by_email (to_lowercase (trim (lg_email input))) (rbac db) = Some u"
    "argon_verify env (lg_password input) (usr_password u)" "s = subject_from_user u"
    "verify_login_second_factor env now u (lg_two_factor_code input) (lg_recovery_code input) db = (Ok (), d)"
    "generate_token_pair env cfg now fr s = Ok tokens"
    "store_token_pair env cfg now tokens (fr_session fr) d = (Ok (), db')"
proof -
  obtain u d where u: "user_by_email (to_lowercase (trim (lg_email input))) (rbac db) = Some u"
      "verify_password env (lg_password input) (usr_password u) = Ok ()"
      "verify_login_second_factor env now u (lg_two_factor_code input) (lg_recovery_code input) db = (Ok (), d)"
      "issue_token_pair env cfg now fr (subject_from_user u) d = (Ok tokens, db')" "s = subject_from_user u"
    using assms by (auto simp: login_def seq_ok_Ok)
  moreover have "u \<in> set (users (rbac db))" "usr_email u = Some (to_lowercase (trim (lg_email input)))"
    using u(1) by (auto simp: user_by_email_def dest: find_Some_mem)
  ultimately show ?thesis
    by (intro that [of u d]) (auto simp: verify_password_def issue_token_pair_def seq_ok_Ok in_tx_Ok split: if_splits)
qed

text \<open>
  C24. Login.  A login succeeds only for an existing account whose stored hash
  matches the password and, when two-factor authentication is on, with a valid
  time-based code or a recovery code that was still stored; the access token it
  returns is accepted at once for that account.
\<close>
theorem login_sound:
  assumes "jwt_codec env" "expiry_ok cfg now" "login env cfg now fr input db = (Ok (s, tokens), db')"
  shows "\<exists>u \<in> set (users (rbac db)). usr_email u = Some (to_lowercase (trim (lg_email input)))
    \<and> argon_verify env (lg_password input) (usr_password u) \<and> s = subject_from_user u
    \<and> (two_factor_on u \<longrightarrow> (\<exists>t. two_factor_by_user (usr_id u) db = Some t
         \<and> ((\<exists>code. lg_two_factor_code input = Some code
                \<and> totp_check env (tf_secret t) (account_name u) (trim code) now = Some True)
           \<or> (\<exists>code. lg_recovery_code input = Some code
                \<and> hash_recovery_code env code \<in> set (stored_codes env (tf_backup_codes t))))))
    \<and> validate_access_token env cfg now (tp_access tokens) db'
        = (Ok (token_claims cfg now (fr_access_jti fr) s Access), db')"
  using assms(3)
proof (rule login_Ok)
  fix u d
  assume u: "u \<in> set (users (rbac db))" "usr_email u = Some (to_lowercase (trim (lg_email input)))"
    "argon_verify env (lg_password input) (usr_password u)" "s = subject_from_user u"
    and f: "verify_login_second_factor env now u (lg_two_factor_code input) (lg_recovery_code input) db = (Ok (), d)"
    and tokens: "generate_token_pair env cfg now fr s = Ok tokens"
      "store_token_pair env cfg now tokens (fr_session fr) d = (Ok (), db')"
  have "\<exists>t. two_factor_by_user (usr_id u) db = Some t
      \<and> ((\<exists>code. lg_two_factor_code input = Some code
             \<and> totp_check env (tf_secret t) (account_name u) (trim code) now = Some True)
        \<or> (\<exists>code. lg_recovery_code input = Some code
             \<and> hash_recovery_code env code \<in> set (stored_codes env (tf_backup_codes t))))"
    if on: "two_factor_on u"
  proof -
    obtain t where t: "two_factor_by_user (usr_id u) db = Some t"
        "verify_stored_second_factor env now u t (case lg_two_factor_code input of None \<Rightarrow> [] | Some c \<Rightarrow> c)
           (case lg_recovery_code input of None \<Rightarrow> [] | Some c \<Rightarrow> c) db = (Ok (), d)"
      using f on by (auto simp: verify_login_second_factor_def seq_ok_Ok split: if_splits)
    show ?thesis
      using stored_second_factor_Ok [OF t(2)] t(1)
      by (cases "lg_two_factor_code input"; cases "lg_recovery_code input")
        (auto simp: trim_def trim_start_def trim_end_def elim!: consume_True)
  qed
  then show ?thesis using u stored_pair_accepted [OF assms(1,2) tokens] by blast
qed

definition example_login :: login_dto where
  "example_login = \<lparr> lg_email = '' Ann '', lg_password = ''pw'', lg_two_factor_code = None, lg_recovery_code = Some ''ab-cd'' \<rparr>"

lemma example_login_ok:
  "fst (login example_crates example_cfg 1000 (example_fresh ''1'') example_login example_auth) = Ok (example_subject, example_pair ''1'')"
  by code_simp

theorem login_sound_witness:
  "\<exists>u. u \<in> set (users (rbac example_auth)) \<and> argon_verify example_crates (lg_password example_login) (usr_password u)
    \<and> example_subject = subject_from_user u"
  using login_sound [OF example_codecs(1) example_expiry with_state [OF example_login_ok]]
  by (elim bexE conjE) (intro exI conjI)

lemma consumed_codes:
  assumes "json_codec env" "two_factor_by_user u db = Some t" "distinct (stored_codes env (tf_backup_codes t))"
    and "consume_recovery_code env u (tf_backup_codes t) h db = (Ok True, db')"
  obtains t' where "two_factor_by_user u db' = Some t'" "tf_secret t' = tf_secret t"
    "h \<notin> set (stored_codes env (tf_backup_codes t'))"
    "\<And>r. r \<in> set (two_factors db') \<Longrightarrow> tf_user_id r = u \<Longrightarrow> tf_backup_codes r \<noteq> tf_backup_codes t" "rbac db' = rbac db"
proof -
  from assms(4) obtain j where j: "h \<in> set (stored_codes env (tf_backup_codes t))"
      "codes_to_json env (remove1 h (stored_codes env (tf_backup_codes t))) = Some j"
      "db' = db\<lparr>two_factors := update_where (\<lambda>r. tf_user_id r = u \<and> tf_backup_codes r = tf_backup_codes t)
         (\<lambda>r. r\<lparr>tf_backup_codes := j\<rparr>) (two_factors db)\<rparr>"
    by (rule consume_True)
  have codes: "stored_codes env j = remove1 h (stored_codes env (tf_backup_codes t))"
    using assms(1) j(2) by (simp add: json_codec_def stored_codes_def)
  then have "j \<noteq> tf_backup_codes t"
    using j(1) assms(3) by (metis set_remove1_eq Diff_iff insertI1)
  moreover have "tf_user_id t = u" using assms(2) by (auto simp: two_factor_by_user_def dest: find_Some_mem)
  ultimately show ?thesis
    using assms(2,3) codes j(3)
    by (intro that [of "t\<lparr>tf_backup_codes := j\<rparr>"]) (auto simp: two_factor_by_user_def find_update_where mem_update_where)
qed

text \<open>
  C25. Recovery codes are single use.  After a login with a recovery code, the
  same code is refused by the next login; and a login that had read the stored
  codes before cannot use it either, since its update finds other codes stored.
\<close>
theorem recovery_code_single_use:
  assumes "json_codec env" "login env cfg now fr input db = (Ok (s, tokens), db')"
    and "lg_two_factor_code input = None" "lg_recovery_code input = Some code"
    and "user_by_email (to_lowercase (trim (lg_email input))) (rbac db) = Some u" "two_factor_on u"
    and "two_factor_by_user (usr_id u) db = Some t" "distinct (stored_codes env (tf_backup_codes t))"
  shows "fst (login env cfg t1 fr1 input db') = Err InvalidSecondFactor
    \<and> fst (consume_recovery_code env (usr_id u) (tf_backup_codes t) (hash_recovery_code env code) db') = Ok False"
  using assms(2)
proof (rule login_Ok)
  fix v d
  assume v: "user_by_email (to_lowercase (trim (lg_email input))) (rbac db) = Some v"
    "argon_verify env (lg_password input) (usr_password v)"
    "verify_login_second_factor env now v (lg_two_factor_code input) (lg_recovery_code input) db = (Ok (), d)"
    and store: "store_token_pair env cfg now tokens (fr_session fr) d = (Ok (), db')"
  have "verify_stored_second_factor env now u t [] code db = (Ok (), d)"
    using v assms(3-7) by (simp add: verify_login_second_factor_def)
  then have c: "trim code \<noteq> []"
      "consume_recovery_code env (usr_id u) (tf_backup_codes t) (hash_recovery_code env code) db = (Ok True, d)"
    using stored_second_factor_Ok [of env now u t "[]" code db d] by (auto simp: trim_def trim_start_def trim_end_def)
  obtain t' where t': "two_factor_by_user (usr_id u) d = Some t'" "hash_recovery_code env code \<notin> set (stored_codes env (tf_backup_codes t'))"
      "\<And>r. r \<in> set (two_factors d) \<Longrightarrow> tf_user_id r = usr_id u \<Longrightarrow> tf_backup_codes r \<noteq> tf_backup_codes t" "rbac d = rbac db"
    using assms(1,7,8) c(2) by (rule consumed_codes) blast
  have kept: "two_factors db' = two_factors d" "rbac db' = rbac d"
    using store by (rule store_token_pair_Ok, simp)+
  have "fst (consume_recovery_code env (usr_id u) (tf_backup_codes t) (hash_recovery_code env code) db') = Ok False"
    using c(2) t'(3) by (auto simp: consume_recovery_code_def Let_def rows_affected_def kept filter_empty_conv
        split: if_splits option.splits)
  moreover have "fst (login env cfg t1 fr1 input db') = Err InvalidSecondFactor"
    using v t' c(1) assms(3-6)
    by (simp add: login_def kept verify_password_def verify_login_second_factor_def two_factor_by_user_def
        verify_stored_second_factor_def consume_recovery_code_def stored_codes_def Let_def trim_def trim_start_def
        trim_end_def db_call_def db_result_def)
  ultimately show ?thesis by simp
qed

theorem recovery_code_single_use_witness:
  "fst (login example_crates example_cfg 1700 (example_fresh ''2'') example_login
     (snd (login example_crates example_cfg 1000 (example_fresh ''1'') example_login example_auth))) = Err InvalidSecondFactor"
proof -
  let ?t = "\<lparr> tf_id = 1, tf_secret = [], tf_backup_codes = ''[ABCD]'', tf_user_id = 1 \<rparr>"
  have "lg_two_factor_code example_login = None" "lg_recovery_code example_login = Some ''ab-cd''" by code_simp+
  moreover have "user_by_email (to_lowercase (trim (lg_email example_login))) (rbac example_auth) = Some example_account"
      "two_factor_on example_account" by code_simp+
  moreover have "two_factor_by_user (usr_id example_account) example_auth = Some ?t"
      "distinct (stored_codes example_crates (tf_backup_codes ?t))" by code_simp+
  ultimately show ?thesis
    using recovery_code_single_use [OF example_codecs(2) with_state [OF example_login_ok]] by blast
qed

section \<open>Personal access tokens\<close>

text \<open>
  C26. Revoking a personal access token is final: once revocation has reported
  success, no later sequence of requests makes the token authenticate again.
\<close>
theorem pat_revocation_final:
  assumes "jwt_codec env" "starts_with t ''rp_''" "distinct (map pat_token_hash (pats db))"
    and "row \<in> set (pats db)" "pat_id row = i" "pat_user_id row = u" "pat_token_hash row = auth_hash_token env t"
    and "revoke_personal_access_token now u i db = (Ok b, db')"
  shows "fst (validate_access_token env cfg t1 t (fold (serve env cfg) calls db')) = Err InvalidToken"
proof -
  have only: "r = row" if "r \<in> set (pats db)" "pat_token_hash r = auth_hash_token env t" for r
    using that assms(3,4,7) by (auto dest: distinct_map_inj)
  let ?P = "\<lambda>x. pat_id x = i \<and> pat_user_id x = u \<and> pat_revoked_at x = None"
  have pats: "pats db' = update_where ?P (\<lambda>x. x\<lparr>pat_revoked_at := Some now\<rparr>) (pats db)"
    using assms(8) by (auto simp: revoke_personal_access_token_def pat_revoke_def Let_def)
  have "pat_revoked_at r \<noteq> None" if r: "r \<in> set (pats db')" "pat_token_hash r = auth_hash_token env t" for r
    using r(1) unfolding pats mem_update_where
  proof
    assume "r \<in> set (pats db) \<and> \<not> ?P r"
    then show ?thesis using only [of r] r(2) assms(5,6) by blast
  qed auto
  moreover have "auth_hash_token env t \<in> set (map pat_token_hash (pats db'))"
    unfolding pats using assms(4,7) by (subst map_update_where) (auto simp: rev_image_eqI)
  ultimately have "pat_withdrawn (auth_hash_token env t) db'"
    by (auto simp: pat_withdrawn_def list_all_iff simp del: set_map)
  then have "pat_withdrawn (auth_hash_token env t) (fold (serve env cfg) calls db')"
    using pat.keep_run [OF assms(1)] by auto
  then have "find (usable_pat t1 (auth_hash_token env t)) (pats (fold (serve env cfg) calls db')) = None"
    by (auto simp: pat_withdrawn_def list_all_iff find_None_iff usable_pat_def)
  with assms(2) show ?thesis
    by (simp add: validate_access_token_def validate_personal_access_token_def pat_authenticate_def
        db_call_def db_result_def)
qed

theorem pat_revocation_final_witness:
  "is_ok (fst (validate_access_token example_crates example_cfg 1000 ''rp_key'' example_auth))
   \<and> fst (validate_access_token example_crates example_cfg 1600 ''rp_key''
       (fold (serve example_crates example_cfg) [example_call] (snd (revoke_personal_access_token 1100 1 1 example_auth)))) = Err InvalidToken"
proof
  show "is_ok (fst (validate_access_token example_crates example_cfg 1000 ''rp_key'' example_auth))" by code_simp
  have rp: "starts_with ''rp_key'' ''rp_''" "distinct (map pat_token_hash (pats example_auth))" "example_pat \<in> set (pats example_auth)"
    by code_simp+
  have row: "pat_id example_pat = 1" "pat_user_id example_pat = 1" "pat_token_hash example_pat = auth_hash_token example_crates ''rp_key''"
    by code_simp+
  have "fst (revoke_personal_access_token 1100 1 1 example_auth) = Ok True" by code_simp
  then show "fst (validate_access_token example_crates example_cfg 1600 ''rp_key''
       (fold (serve example_crates example_cfg) [example_call] (snd (revoke_personal_access_token 1100 1 1 example_auth)))) = Err InvalidToken"
    by (rule pat_revocation_final [OF example_codecs(1) rp row with_state])
qed

section \<open>Accounts\<close>

lemma on_rbac_Ok: "db_call (on_rbac f db) = (Ok x, db') \<longleftrightarrow> (\<exists>r. f (rbac db) = (Ok x, r) \<and> db' = db\<lparr>rbac := r\<rparr>)"
  by (auto simp: on_rbac_def split: prod.splits)

lemma create_owner_Ok:
  assumes "create_owner_and_return now e fn ln av h g r = (Ok u, r')"
  shows "users r' = users r @ [u] \<and> usr_id u = users_seq r + 1 \<and> usr_role u = Some ''OWNER''"
  using assms by (auto simp: create_owner_and_return_def user_create_def Let_def split: if_splits)

lemma owner_group_users:
  assumes "create_owner_group_if_not_exists now r = (Ok g, r')"
  shows "users r' = users r \<and> users_seq r' = users_seq r"
  using assms by (auto simp: create_owner_group_if_not_exists_def group_insert_def Let_def split: option.splits if_splits)

lemma organization_insert_users: "organization_insert now n l s w r = (x, r') \<Longrightarrow> users r' = users r"
  by (auto simp: organization_insert_def Let_def split: if_splits)

lemma add_member_users: "add_member_in_transaction now role u k r = (x, r') \<Longrightarrow> users r' = users r"
  by (auto simp: add_member_in_transaction_def member_insert_def Let_def split: if_splits)

lemma owner_role: "user_role_from ''OWNER'' = RoleOwner"
  by code_simp

lemma signup_rows_Ok:
  assumes "signup_rows now input h db = (Ok u, db')"
  shows "users (rbac db') = users (rbac db) @ [u] \<and> usr_id u = users_seq (rbac db) + 1 \<and> usr_role u = Some ''OWNER''"
  using assms unfolding signup_rows_def seq_ok_Ok on_rbac_Ok Let_def
  by (auto dest!: owner_group_users create_owner_Ok organization_insert_users add_member_users)

text \<open>
  C27. Anybody who signs up owns the platform.  Signing up needs no
  credentials and does not look at whether an owner is present: the account it creates passes the
  permission check for every action in every organization, including those of
  users who were there before.
\<close>
theorem signup_grants_platform_owner:
  assumes "keyed usr_id (users_seq (rbac db)) (users (rbac db))"
    and "signup env cfg now fr input db = (Ok (s, tokens), db')"
  shows "check_permission (js_user_id s) org a (rbac db') = Ok True"
proof -
  obtain h u d where u: "signup_rows now input h db = (Ok u, d)" "s = subject_from_user u"
      "store_token_pair env cfg now tokens (fr_session fr) d = (Ok (), db')"
    using assms(2) by (auto simp: signup_def seq_ok_Ok in_tx_Ok)
  have "rbac db' = rbac d" using u(3) by (rule store_token_pair_Ok) simp
  then have "users (rbac db') = users (rbac db) @ [u]" "usr_id u = users_seq (rbac db) + 1" "usr_role u = Some ''OWNER''"
    using signup_rows_Ok [OF u(1)] by simp_all
  moreover have "find (\<lambda>x. usr_id x = users_seq (rbac db) + 1) (users (rbac db)) = None"
    using assms(1) by (force simp: keyed_def find_None_iff)
  ultimately have "user_by_id (js_user_id s) (rbac db') = Some u"
    using u(2) by (simp add: user_by_id_def subject_from_user_def find_append_None)
  then have "is_platform_owner (js_user_id s) (rbac db')"
    using \<open>usr_role u = Some ''OWNER''\<close> by (simp add: is_platform_owner_def owner_role)
  then show ?thesis by (simp add: check_permission_def)
qed

definition example_owner :: user_row where
  "example_owner = \<lparr> usr_id = 2, usr_email = Some ''eve'', usr_last_name = None, usr_first_name = Some ''Eve'',
     usr_avatar = [], usr_role = Some ''OWNER'', usr_about_me = None, usr_password = ''$12345678'', usr_is_email_verify = Some 0,
     usr_email_verify_at = None, usr_two_factor_enable = Some 0, usr_is_registered = 1, usr_added_by = None,
     usr_group_id = 1, usr_created_at = 1000, usr_updated_at = 1000 \<rparr>"

definition example_rbac1 :: rbac_db where
  "example_rbac1 = (rbac example_auth)\<lparr>users := [example_account, example_owner], users_seq := 2\<rparr>"

definition example_org :: organization_row where
  "example_org = \<lparr> org_id = 1, org_name = ''Eve'' @ CHR 0x27 # ''s Organization'', org_logo = None, org_slug = ''eve-organization'',
     org_owner_id = 2, org_created_at = 1000, org_updated_at = 1000 \<rparr>"

definition example_rbac2 :: rbac_db where
  "example_rbac2 = example_rbac1\<lparr>organizations := [example_org], organizations_seq := 1\<rparr>"

definition example_rbac3 :: rbac_db where
  "example_rbac3 = snd (add_member_in_transaction 1000 ''ADMIN'' 2 1 example_rbac2)"

lemma example_signup_rows:
  "signup_rows 1000 example_signup ''$12345678'' example_auth = (Ok example_owner, example_auth\<lparr>rbac := example_rbac3\<rparr>)"
proof -
  have "create_owner_group_if_not_exists 1000 (rbac example_auth) = (Ok 1, rbac example_auth)" by code_simp
  moreover have "create_owner_and_return 1000 (to_lowercase (trim (su_email example_signup))) (su_first_name example_signup)
      (su_last_name example_signup) (case su_avatar example_signup of None \<Rightarrow> [] | Some a \<Rightarrow> a) ''$12345678'' 1 (rbac example_auth)
      = (Ok example_owner, example_rbac1)" by code_simp
  moreover have "organization_insert 1000 (''Eve'' @ CHR 0x27 # ''s Organization'') None (to_lowercase ''Eve'' @ ''-organization'') 2 example_rbac1
      = (Ok example_org, example_rbac2)" by code_simp
  moreover have "fst (add_member_in_transaction 1000 ''ADMIN'' 2 1 example_rbac2) = Ok ()" by code_simp
  then have "add_member_in_transaction 1000 ''ADMIN'' 2 1 example_rbac2 = (Ok (), example_rbac3)"
    unfolding example_rbac3_def by (rule with_state)
  moreover have "usr_first_name example_owner = Some ''Eve''" "usr_id example_owner = 2" "org_id example_org = 1"
    by (simp_all add: example_owner_def example_org_def)
  ultimately show ?thesis
    unfolding signup_rows_def on_rbac_def db_call_def db_result_def by (simp del: append.simps)
qed

lemma example_signup_ok:
  "fst (signup (example_env example_newcomer) example_cfg 1000 (example_fresh ''5'') example_signup example_auth)
     = Ok (example_newcomer, example_pair ''5'')"
proof -
  have hash: "hash_password (example_env example_newcomer) (example_fresh ''5'') (su_password example_signup) = Ok ''$12345678''" by code_simp
  have subj: "subject_from_user example_owner = example_newcomer" by code_simp
  have gen: "token_result (generate_token_pair (example_env example_newcomer) example_cfg 1000 (example_fresh ''5'') example_newcomer)
      = Ok (example_pair ''5'')" by code_simp
  have "fst (store_token_pair (example_env example_newcomer) example_cfg 1000 (example_pair ''5'') (fr_session (example_fresh ''5''))
      (example_auth\<lparr>rbac := example_rbac3\<rparr>)) = Ok ()" by code_simp
  then have store: "fst (seq_ok (store_token_pair (example_env example_newcomer) example_cfg 1000 (example_pair ''5'')
      (fr_session (example_fresh ''5'')) (example_auth\<lparr>rbac := example_rbac3\<rparr>)) (\<lambda>_ db. (Ok x, db))) = Ok x" for x
    by (rule fst_seq_ok)
  show ?thesis
    unfolding signup_def hash seq_ok_simps by (rule fst_in_tx) (simp only: example_signup_rows seq_ok_simps subj gen store)
qed

theorem signup_grants_platform_owner_witness:
  "is_owner_present example_auth
   \<and> check_permission 2 7 \<lparr> pa_resource = ''server'', pa_operation = ''delete'' \<rparr>
       (rbac (snd (signup (example_env example_newcomer) example_cfg 1000 (example_fresh ''5'') example_signup example_auth))) = Ok True"
proof
  show "is_owner_present example_auth" by code_simp
  have key: "keyed usr_id (users_seq (rbac example_auth)) (users (rbac example_auth))" by code_simp
  have num: "js_user_id example_newcomer = 2" by code_simp
  show "check_permission 2 7 \<lparr> pa_resource = ''server'', pa_operation = ''delete'' \<rparr>
       (rbac (snd (signup (example_env example_newcomer) example_cfg 1000 (example_fresh ''5'') example_signup example_auth))) = Ok True"
    by (rule signup_grants_platform_owner [OF key with_state [OF example_signup_ok], unfolded num])
qed

end
