(* ===== verification/ScheduleRepo.thy ===== *)
theory ScheduleRepo
  imports DeploymentService
begin

text \<open>
  The tables of the scheduler and their repositories
  \<open>src/src/db/repository/{schedules,schedule_runtime}.rs\<close>, with the constraints
  of \<open>src/db/migrations/\<close> 0001, 0002 and 0031.  The text log files that
  \<open>finish\<close> appends to are not modelled: the code ignores their outcome.
\<close>

section \<open>Enumerations\<close>

text \<open>The macro \<open>strict_runtime_enum\<close>: case and surrounding space are ignored, anything else is an error.\<close>

definition strict_try_from :: "string \<Rightarrow> ('v \<Rightarrow> string) \<Rightarrow> 'v list \<Rightarrow> string \<Rightarrow> (string, 'v) result" where
  "strict_try_from name as_str variants s =
     (let u = to_ascii_uppercase (trim s) in
      case find (\<lambda>v. as_str v = u) variants of
        Some v \<Rightarrow> Ok v | None \<Rightarrow> Err (''invalid '' @ name @ '': '' @ u))"

datatype missed_run_policy = MissedSkip | MissedRunOnce
datatype concurrency_policy = ConcSkip | ConcQueue | ConcAllow
datatype schedule_trigger_kind = TkCron | TkManual | TkMissed | TkRetry
datatype schedule_execution_status = XsRunning | XsSucceeded | XsFailed | XsSkipped

definition missed_run_policy_as_str :: "missed_run_policy \<Rightarrow> string" where
  "missed_run_policy_as_str v = (case v of MissedSkip \<Rightarrow> ''SKIP'' | MissedRunOnce \<Rightarrow> ''RUN_ONCE'')"

definition missed_run_policy_try_from :: "string \<Rightarrow> (string, missed_run_policy) result" where
  "missed_run_policy_try_from =
     strict_try_from ''MissedRunPolicy'' missed_run_policy_as_str [MissedSkip, MissedRunOnce]"

definition concurrency_policy_as_str :: "concurrency_policy \<Rightarrow> string" where
  "concurrency_policy_as_str v = (case v of ConcSkip \<Rightarrow> ''SKIP'' | ConcQueue \<Rightarrow> ''QUEUE'' | ConcAllow \<Rightarrow> ''ALLOW'')"

definition concurrency_policy_try_from :: "string \<Rightarrow> (string, concurrency_policy) result" where
  "concurrency_policy_try_from =
     strict_try_from ''ConcurrencyPolicy'' concurrency_policy_as_str [ConcSkip, ConcQueue, ConcAllow]"

definition trigger_kind_as_str :: "schedule_trigger_kind \<Rightarrow> string" where
  "trigger_kind_as_str v = (case v of TkCron \<Rightarrow> ''CRON'' | TkManual \<Rightarrow> ''MANUAL'' | TkMissed \<Rightarrow> ''MISSED'' | TkRetry \<Rightarrow> ''RETRY'')"

definition execution_status_as_str :: "schedule_execution_status \<Rightarrow> string" where
  "execution_status_as_str v = (case v of XsRunning \<Rightarrow> ''RUNNING'' | XsSucceeded \<Rightarrow> ''SUCCEEDED''
     | XsFailed \<Rightarrow> ''FAILED'' | XsSkipped \<Rightarrow> ''SKIPPED'')"

text \<open>
  Enums of the macro \<open>string_enum!\<close>.  It implements \<open>From<&str>\<close>, so the standard
  library derives \<open>TryFrom<&str>\<close> from it: \<open>try_from\<close> never fails and yields the
  default for an unknown text.
\<close>

datatype shell_type = ShBash | ShSh
datatype schedule_type = StApplication | StCompose | StServer | StDokpanelServer

definition shell_type_as_str :: "shell_type \<Rightarrow> string" where
  "shell_type_as_str v = (case v of ShBash \<Rightarrow> ''BASH'' | ShSh \<Rightarrow> ''SH'')"

definition shell_type_variants :: "shell_type list" where
  "shell_type_variants = [ShBash, ShSh]"

definition shell_type_from :: "string \<Rightarrow> shell_type" where
  "shell_type_from s = enum_from shell_type_as_str shell_type_variants ShBash s"

definition shell_executable :: "shell_type \<Rightarrow> string" where
  "shell_executable v = (case v of ShBash \<Rightarrow> ''bash'' | ShSh \<Rightarrow> ''sh'')"

definition schedule_type_as_str :: "schedule_type \<Rightarrow> string" where
  "schedule_type_as_str v = (case v of StApplication \<Rightarrow> ''APPLICATION'' | StCompose \<Rightarrow> ''COMPOSE''
     | StServer \<Rightarrow> ''SERVER'' | StDokpanelServer \<Rightarrow> ''DOKPANEL-SERVER'')"

definition schedule_type_variants :: "schedule_type list" where
  "schedule_type_variants = [StApplication, StCompose, StServer, StDokpanelServer]"

definition schedule_type_from :: "string \<Rightarrow> schedule_type" where
  "schedule_type_from s = enum_from schedule_type_as_str schedule_type_variants StApplication s"

interpretation shell_enum: string_enum shell_type_as_str shell_type_variants
  by (rule string_enumI, code_simp, case_tac v) (simp_all add: shell_type_variants_def)

interpretation sched_enum: string_enum schedule_type_as_str schedule_type_variants
  by (rule string_enumI, code_simp, case_tac v) (simp_all add: schedule_type_variants_def)

section \<open>Tables\<close>

record schedule_row =
  sch_id :: int
  sch_name :: string
  sch_description :: "string option"
  sch_cron_expression :: string
  sch_app_name :: string
  sch_service_name :: "string option"
  sch_shell_type :: string
  sch_schedule_type :: string
  sch_schedule_action :: string
  sch_command :: string
  sch_script :: "string option"
  sch_timezone :: "string option"
  sch_enabled :: int
  sch_application_id :: "int option"
  sch_compose_id :: "int option"
  sch_server_id :: "int option"
  sch_organization_id :: "int option"
  sch_created_at :: int
  sch_updated_at :: int

record schedule_runtime_policy =
  srp_schedule_id :: int
  srp_retry_count :: int
  srp_retry_delay_seconds :: int
  srp_missed_run_policy :: string
  srp_concurrency_policy :: string
  srp_lease_seconds :: int
  srp_notify_on_success :: int
  srp_notify_on_failure :: int
  srp_last_scheduled_at :: "int option"
  srp_updated_at :: int

record schedule_execution =
  ex_id :: int
  ex_schedule_id :: int
  ex_organization_id :: "int option"
  ex_trigger_kind :: string
  ex_status :: string
  ex_attempt :: int
  ex_scheduled_at :: int
  ex_started_at :: int
  ex_finished_at :: "int option"
  ex_message :: "string option"
  ex_stdout :: "string option"
  ex_stderr :: "string option"

record schedule_lock =
  lk_schedule_id :: int
  lk_owner_id :: string
  lk_acquired_at :: int
  lk_expires_at :: int

record sched_db =
  schedules :: "schedule_row list"
  schedules_seq :: int
  runtime_policies :: "schedule_runtime_policy list"
  executions :: "schedule_execution list"
  executions_seq :: int
  locks :: "schedule_lock list"
  sched_organizations :: "int list"
  sched_panel :: panel_db

section \<open>Schedules\<close>

definition schedule_by_id :: "int \<Rightarrow> sched_db \<Rightarrow> schedule_row option" where
  "schedule_by_id i db = find (\<lambda>s. sch_id s = i) (schedules db)"

definition newest_schedules :: "(schedule_row \<Rightarrow> bool) \<Rightarrow> sched_db \<Rightarrow> schedule_row list" where
  "newest_schedules P db = order_by_desc (\<lambda>s. (sch_created_at s, sch_id s)) (filter P (schedules db))"

definition schedules_by_application :: "int \<Rightarrow> sched_db \<Rightarrow> schedule_row list" where
  "schedules_by_application i db = newest_schedules (\<lambda>s. sch_application_id s = Some i) db"

definition schedules_by_compose :: "int \<Rightarrow> sched_db \<Rightarrow> schedule_row list" where
  "schedules_by_compose i db = newest_schedules (\<lambda>s. sch_compose_id s = Some i) db"

definition schedules_by_server :: "int \<Rightarrow> sched_db \<Rightarrow> schedule_row list" where
  "schedules_by_server i db = newest_schedules (\<lambda>s. sch_server_id s = Some i) db"

definition schedules_by_organization :: "int \<Rightarrow> sched_db \<Rightarrow> schedule_row list" where
  "schedules_by_organization i db = newest_schedules (\<lambda>s. sch_organization_id s = Some i) db"

definition list_enabled :: "sched_db \<Rightarrow> schedule_row list" where
  "list_enabled db = newest_schedules (\<lambda>s. sch_enabled s = 1) db"

definition opt_ref :: "int option \<Rightarrow> int list \<Rightarrow> bool" where
  "opt_ref r ids = (case r of None \<Rightarrow> True | Some i \<Rightarrow> i \<in> set ids)"

definition schedule_checks :: "schedule_row \<Rightarrow> bool" where
  "schedule_checks s = (sch_shell_type s \<in> set [''BASH'', ''SH'']
     \<and> sch_schedule_type s \<in> set [''APPLICATION'', ''COMPOSE'', ''SERVER'', ''DOKPANEL-SERVER'']
     \<and> sch_schedule_action s \<in> set [''EXEC'', ''DEPLOY'', ''REDEPLOY'', ''REBUILD'', ''RELOAD'', ''START'', ''STOP''])"

definition schedule_refs :: "schedule_row \<Rightarrow> sched_db \<Rightarrow> bool" where
  "schedule_refs s db = (opt_ref (sch_application_id s) (map res_id (applications (sched_panel db)))
     \<and> opt_ref (sch_compose_id s) (map res_id (compose_projects (sched_panel db)))
     \<and> opt_ref (sch_server_id s) (servers (sched_panel db))
     \<and> opt_ref (sch_organization_id s) (sched_organizations db))"

text \<open>The constraints a written row has to satisfy, against the rows of other schedules.\<close>

definition schedule_violation :: "schedule_row \<Rightarrow> sched_db \<Rightarrow> string option" where
  "schedule_violation s db =
     (if \<not> schedule_checks s then Some ''CHECK schedules''
      else if list_ex (\<lambda>x. sch_id x \<noteq> sch_id s \<and> sch_app_name x = sch_app_name s) (schedules db)
      then Some ''UNIQUE schedules.app_name''
      else if \<not> schedule_refs s db then Some ''FOREIGN KEY''
      else None)"

definition schedule_create_and_return :: "int \<Rightarrow> schedule_row \<Rightarrow> sched_db \<Rightarrow> schedule_row sqlx \<times> sched_db" where
  "schedule_create_and_return now item db =
     (let i = schedules_seq db + 1;
          row = item\<lparr>sch_id := i, sch_created_at := now, sch_updated_at := now\<rparr>
      in case schedule_violation row db of
           Some c \<Rightarrow> (Err (Constraint c), db)
         | None \<Rightarrow> (Ok row, db\<lparr>schedules := schedules db @ [row], schedules_seq := i\<rparr>))"

text \<open>\<open>UPDATE \<dots> RETURNING\<close>: the trigger sets \<open>updated_at\<close> after the row is returned.\<close>

definition schedule_write :: "int \<Rightarrow> schedule_row \<Rightarrow> sched_db \<Rightarrow> schedule_row sqlx \<times> sched_db" where
  "schedule_write now row db =
     (case schedule_violation row db of
        Some c \<Rightarrow> (Err (Constraint c), db)
      | None \<Rightarrow> (Ok row, db\<lparr>schedules := update_where (\<lambda>s. sch_id s = sch_id row)
          (\<lambda>_. row\<lparr>sch_updated_at := now\<rparr>) (schedules db)\<rparr>))"

definition schedule_update_and_return :: "int \<Rightarrow> int \<Rightarrow> schedule_row \<Rightarrow> sched_db \<Rightarrow> schedule_row sqlx \<times> sched_db" where
  "schedule_update_and_return now i item db =
     (case schedule_by_id i db of
        None \<Rightarrow> (Err RowNotFound, db)
      | Some cur \<Rightarrow> schedule_write now (item\<lparr>sch_id := i, sch_created_at := sch_created_at cur,
          sch_updated_at := sch_updated_at cur\<rparr>) db)"

definition schedule_set_enabled :: "int \<Rightarrow> int \<Rightarrow> bool \<Rightarrow> sched_db \<Rightarrow> schedule_row sqlx \<times> sched_db" where
  "schedule_set_enabled now i enabled db =
     (case schedule_by_id i db of
        None \<Rightarrow> (Err RowNotFound, db)
      | Some cur \<Rightarrow> schedule_write now (cur\<lparr>sch_enabled := (if enabled then 1 else 0)\<rparr>) db)"

text \<open>Deleting a schedule deletes its policy, executions and lock.\<close>

definition schedule_delete :: "int \<Rightarrow> sched_db \<Rightarrow> unit sqlx \<times> sched_db" where
  "schedule_delete i db =
     (Ok (), db\<lparr>schedules := delete_where (\<lambda>s. sch_id s = i) (schedules db),
        runtime_policies := delete_where (\<lambda>p. srp_schedule_id p = i) (runtime_policies db),
        executions := delete_where (\<lambda>e. ex_schedule_id e = i) (executions db),
        locks := delete_where (\<lambda>l. lk_schedule_id l = i) (locks db)\<rparr>)"

section \<open>Run-time policy, executions and locks\<close>

definition default_policy :: "int \<Rightarrow> int \<Rightarrow> schedule_runtime_policy" where
  "default_policy now i = \<lparr> srp_schedule_id = i, srp_retry_count = 0, srp_retry_delay_seconds = 30,
     srp_missed_run_policy = ''SKIP'', srp_concurrency_policy = ''SKIP'', srp_lease_seconds = 3600,
     srp_notify_on_success = 0, srp_notify_on_failure = 1, srp_last_scheduled_at = None, srp_updated_at = now \<rparr>"

definition policy_of :: "int \<Rightarrow> sched_db \<Rightarrow> schedule_runtime_policy option" where
  "policy_of i db = find (\<lambda>p. srp_schedule_id p = i) (runtime_policies db)"

definition schedule_exists :: "int \<Rightarrow> sched_db \<Rightarrow> bool" where
  "schedule_exists i db = (i \<in> set (map sch_id (schedules db)))"

definition runtime_policy :: "int \<Rightarrow> int \<Rightarrow> sched_db \<Rightarrow> schedule_runtime_policy sqlx \<times> sched_db" where
  "runtime_policy now i db = (case policy_of i db of
       Some p \<Rightarrow> (Ok p, db)
     | None \<Rightarrow> if \<not> schedule_exists i db then (Err (Constraint ''FOREIGN KEY''), db)
         else (Ok (default_policy now i), db\<lparr>runtime_policies := runtime_policies db @ [default_policy now i]\<rparr>))"

definition policy_checks :: "schedule_runtime_policy \<Rightarrow> bool" where
  "policy_checks p = (0 \<le> srp_retry_count p \<and> srp_retry_count p \<le> 10
     \<and> 1 \<le> srp_retry_delay_seconds p \<and> srp_retry_delay_seconds p \<le> 86400
     \<and> srp_missed_run_policy p \<in> set [''SKIP'', ''RUN_ONCE'']
     \<and> srp_concurrency_policy p \<in> set [''SKIP'', ''QUEUE'', ''ALLOW'']
     \<and> 30 \<le> srp_lease_seconds p \<and> srp_lease_seconds p \<le> 86400)"

definition update_policy ::
  "int \<Rightarrow> int \<Rightarrow> int \<Rightarrow> int \<Rightarrow> string \<Rightarrow> string \<Rightarrow> int \<Rightarrow> bool \<Rightarrow> bool \<Rightarrow> sched_db
   \<Rightarrow> schedule_runtime_policy sqlx \<times> sched_db" where
  "update_policy now i retries delay missed conc lease ns nf db =
     (let new = (default_policy now i)\<lparr>srp_retry_count := retries, srp_retry_delay_seconds := delay,
            srp_missed_run_policy := missed, srp_concurrency_policy := conc, srp_lease_seconds := lease,
            srp_notify_on_success := (if ns then 1 else 0), srp_notify_on_failure := (if nf then 1 else 0)\<rparr>
      in if \<not> policy_checks new then (Err (Constraint ''CHECK schedule_runtime_policies''), db)
         else if \<not> schedule_exists i db then (Err (Constraint ''FOREIGN KEY''), db)
         else runtime_policy now i (if policy_of i db = None
           then db\<lparr>runtime_policies := runtime_policies db @ [new]\<rparr>
           else db\<lparr>runtime_policies := update_where (\<lambda>p. srp_schedule_id p = i)
              (\<lambda>p. new\<lparr>srp_last_scheduled_at := srp_last_scheduled_at p\<rparr>) (runtime_policies db)\<rparr>))"

definition lock_of :: "int \<Rightarrow> sched_db \<Rightarrow> schedule_lock option" where
  "lock_of i db = find (\<lambda>l. lk_schedule_id l = i) (locks db)"

definition acquire :: "int \<Rightarrow> int \<Rightarrow> string \<Rightarrow> int \<Rightarrow> sched_db \<Rightarrow> bool sqlx \<times> sched_db" where
  "acquire now i owner lease db =
     (let new = \<lparr> lk_schedule_id = i, lk_owner_id = owner, lk_acquired_at = now, lk_expires_at = now + lease \<rparr>
      in case lock_of i db of
           None \<Rightarrow> if \<not> schedule_exists i db then (Err (Constraint ''FOREIGN KEY''), db)
                   else (Ok True, db\<lparr>locks := locks db @ [new]\<rparr>)
         | Some l \<Rightarrow> if lk_expires_at l \<le> now
             then (Ok True, db\<lparr>locks := update_where (\<lambda>x. lk_schedule_id x = i) (\<lambda>_. new) (locks db)\<rparr>)
             else (Ok False, db))"

definition release :: "int \<Rightarrow> string \<Rightarrow> sched_db \<Rightarrow> unit sqlx \<times> sched_db" where
  "release i owner db =
     (Ok (), db\<lparr>locks := delete_where (\<lambda>l. lk_schedule_id l = i \<and> lk_owner_id l = owner) (locks db)\<rparr>)"

definition mark_scheduled :: "int \<Rightarrow> int \<Rightarrow> int \<Rightarrow> sched_db \<Rightarrow> unit sqlx \<times> sched_db" where
  "mark_scheduled now i ts db =
     (Ok (), db\<lparr>runtime_policies := update_where (\<lambda>p. srp_schedule_id p = i)
        (\<lambda>p. p\<lparr>srp_last_scheduled_at := Some ts, srp_updated_at := now\<rparr>) (runtime_policies db)\<rparr>)"

definition begin_execution ::
  "int \<Rightarrow> int \<Rightarrow> int option \<Rightarrow> schedule_trigger_kind \<Rightarrow> int \<Rightarrow> int \<Rightarrow> sched_db \<Rightarrow> int sqlx \<times> sched_db" where
  "begin_execution now i org kind attempt scheduled_at db =
     (let n = executions_seq db + 1;
          row = \<lparr> ex_id = n, ex_schedule_id = i, ex_organization_id = org, ex_trigger_kind = trigger_kind_as_str kind,
                  ex_status = ''RUNNING'', ex_attempt = attempt, ex_scheduled_at = scheduled_at, ex_started_at = now,
                  ex_finished_at = None, ex_message = None, ex_stdout = None, ex_stderr = None \<rparr>
      in if \<not> schedule_exists i db then (Err (Constraint ''FOREIGN KEY''), db)
         else (Ok n, db\<lparr>executions := executions db @ [row], executions_seq := n\<rparr>))"

definition finish_execution ::
  "int \<Rightarrow> int \<Rightarrow> schedule_execution_status \<Rightarrow> string option \<Rightarrow> string option \<Rightarrow> string option \<Rightarrow> sched_db
   \<Rightarrow> unit sqlx \<times> sched_db" where
  "finish_execution now n st msg out err db =
     (if \<not> list_ex (\<lambda>e. ex_id e = n) (executions db) then (Err RowNotFound, db)
      else (Ok (), db\<lparr>executions := update_where (\<lambda>e. ex_id e = n)
             (\<lambda>e. e\<lparr>ex_status := execution_status_as_str st, ex_message := msg, ex_stdout := out, ex_stderr := err,
                     ex_finished_at := Some now\<rparr>) (executions db)\<rparr>))"

definition list_executions :: "int \<Rightarrow> int \<Rightarrow> sched_db \<Rightarrow> schedule_execution list" where
  "list_executions i limit db =
     sql_limit (max 1 (min 500 limit)) 0 (order_by_desc ex_started_at (filter (\<lambda>e. ex_schedule_id e = i) (executions db)))"

definition execution_exists :: "int \<Rightarrow> int \<Rightarrow> sched_db \<Rightarrow> bool" where
  "execution_exists i n db = list_ex (\<lambda>e. ex_id e = n \<and> ex_schedule_id e = i) (executions db)"

end
