(* ===== verification/Schedule.thy ===== *)
theory Schedule
  imports ScheduleRepo
begin

text \<open>
  The schedule service \<open>src/src/services/schedule/schedule.rs\<close>: validation of
  schedules, and a run with its concurrency policy, lease, retries and
  notifications.  A run works on a \<open>sched_world\<close>: the tables, the registry of
  active deployments, the clock, the number of external calls made so far and the
  notifications sent.  What external programs answer, how long each call or sleep
  takes and what other tasks do to the tables meanwhile are fields of \<open>sched_env\<close>,
  indexed by the number of the call.
\<close>

section \<open>Validation\<close>

text \<open>
  What the service uses of the crates \<open>croner\<close> and \<open>chrono\<close>: the message of a parse
  error, the next occurrence strictly after a time (in UTC), the timestamps that are dates.
\<close>

record cron_ops =
  cron_error :: "string \<Rightarrow> string option"
  cron_next :: "string \<Rightarrow> int \<Rightarrow> (string, int) result"
  valid_timestamp :: "int \<Rightarrow> bool"

fun words_count :: "bool \<Rightarrow> string \<Rightarrow> nat" where
  "words_count inside [] = 0"
| "words_count inside (c # cs) =
     (if is_whitespace c then words_count False cs
      else (if inside then 0 else 1) + words_count True cs)"

definition split_whitespace_count :: "string \<Rightarrow> nat" where
  "split_whitespace_count s = words_count False s"

definition validate_backup_cron_expression :: "cron_ops \<Rightarrow> string \<Rightarrow> unit sqlx" where
  "validate_backup_cron_expression cr value =
     (let e = trim value; n = split_whitespace_count e in
      if e = [] then Err (Protocol ''cron expression cannot be empty'')
      else if n \<noteq> 5 \<and> n \<noteq> 6
      then Err (Protocol (''cron expression must contain 5 fields (e.g., '' @ CHR 0x27 # ''0 * * * *'' @ CHR 0x27 # '') or 6 fields''))
      else if cron_error cr e = None then Ok ()
      else if n = 5 \<and> cron_error cr (''0 '' @ e) = None then Ok ()
      else (case cron_error cr e of None \<Rightarrow> Ok () | Some m \<Rightarrow> Err (Protocol (''invalid cron expression: '' @ m))))"

definition normalize_cron_expression :: "string \<Rightarrow> string" where
  "normalize_cron_expression value =
     (let t = trim value in if split_whitespace_count t = 5 then ''0 '' @ t else t)"

definition normalize_shell_type :: "string option \<Rightarrow> string" where
  "normalize_shell_type value = to_ascii_uppercase (trim (case value of None \<Rightarrow> ''BASH'' | Some v \<Rightarrow> v))"

definition normalize_schedule_type :: "string option \<Rightarrow> string" where
  "normalize_schedule_type value = to_ascii_uppercase (trim (case value of None \<Rightarrow> ''APPLICATION'' | Some v \<Rightarrow> v))"

definition infer_schedule_action :: "string \<Rightarrow> string \<Rightarrow> string" where
  "infer_schedule_action ty cmd =
     (let c = to_ascii_lowercase (trim cmd);
          is_operation = (case schedule_type_from ty of
              StApplication \<Rightarrow> c \<in> set [''deploy'', ''redeploy'', ''rebuild'', ''reload'', ''start'']
            | StCompose \<Rightarrow> c \<in> set [''deploy'', ''redeploy'', ''reload'', ''start'', ''stop'']
            | _ \<Rightarrow> False)
      in if is_operation then to_ascii_uppercase c else ''EXEC'')"

definition normalize_schedule_action :: "string option \<Rightarrow> string \<Rightarrow> string \<Rightarrow> string" where
  "normalize_schedule_action value ty cmd =
     (case map_option (\<lambda>v. to_ascii_uppercase (trim v)) value of
        Some v \<Rightarrow> if v \<noteq> [] then v else infer_schedule_action ty cmd
      | None \<Rightarrow> infer_schedule_action ty cmd)"

definition normalize_enabled :: "int \<Rightarrow> int sqlx" where
  "normalize_enabled v = (if v = 0 \<or> v = 1 then Ok v else Err (Protocol ''enabled must be 0 or 1''))"

definition blank :: "string option \<Rightarrow> bool" where
  "blank v = (case v of None \<Rightarrow> True | Some s \<Rightarrow> trim s = [])"

definition validate_target ::
  "string \<Rightarrow> string \<Rightarrow> int option \<Rightarrow> int option \<Rightarrow> int option \<Rightarrow> string option \<Rightarrow> unit sqlx" where
  "validate_target ty action app cmp srv service = (case schedule_type_from ty of
       StApplication \<Rightarrow> if app = None then Err (Protocol ''APPLICATION schedule requires application_id'') else Ok ()
     | StCompose \<Rightarrow> if cmp = None then Err (Protocol ''COMPOSE schedule requires compose_id'')
         else if action = ''EXEC'' \<and> blank service then Err (Protocol ''COMPOSE EXEC schedule requires service_name'')
         else Ok ()
     | StServer \<Rightarrow> if srv = None then Err (Protocol ''SERVER schedule requires server_id'')
         else if action \<noteq> ''EXEC'' then Err (Protocol ''SERVER schedule only supports EXEC action'')
         else Ok ()
     | StDokpanelServer \<Rightarrow> if action \<noteq> ''EXEC'' then Err (Protocol ''DOKPANEL-SERVER schedule only supports EXEC action'')
         else Ok ())"

text \<open>The slug of a name; \<open>uuid\<close> is the text of a fresh UUID without dashes.\<close>

fun join_parts :: "string list \<Rightarrow> string" where
  "join_parts [] = []"
| "join_parts [p] = p"
| "join_parts (p # q # ps) = p @ ''-'' @ join_parts (q # ps)"

fun split_dash :: "string \<Rightarrow> string list" where
  "split_dash [] = [[]]"
| "split_dash (c # cs) = (if c = CHR ''-'' then [] # split_dash cs
     else (case split_dash cs of [] \<Rightarrow> [[c]] | p # ps \<Rightarrow> (c # p) # ps))"

definition generate_schedule_app_name :: "string \<Rightarrow> string \<Rightarrow> string" where
  "generate_schedule_app_name uuid name =
     (let mapped = map (\<lambda>c. if is_ascii_alphanumeric c then c else CHR ''-'') (to_ascii_lowercase (trim name));
          slug = join_parts (filter (\<lambda>p. p \<noteq> []) (split_dash mapped))
      in (if slug = [] then ''schedule'' else slug) @ ''-'' @ uuid)"

record create_schedule_dto =
  cs_name :: string
  cs_description :: "string option"
  cs_cron_expression :: string
  cs_app_name :: "string option"
  cs_service_name :: "string option"
  cs_shell_type :: "string option"
  cs_schedule_type :: "string option"
  cs_schedule_action :: "string option"
  cs_command :: string
  cs_script :: "string option"
  cs_timezone :: "string option"
  cs_enabled :: "int option"
  cs_application_id :: "int option"
  cs_compose_id :: "int option"
  cs_server_id :: "int option"
  cs_organization_id :: "int option"

definition requested_type :: "create_schedule_dto \<Rightarrow> string" where
  "requested_type x =
     (if \<not> blank (cs_schedule_type x) then normalize_schedule_type (cs_schedule_type x)
      else if cs_compose_id x \<noteq> None then ''COMPOSE''
      else if cs_server_id x \<noteq> None then ''SERVER''
      else ''APPLICATION'')"

definition schedule_create ::
  "cron_ops \<Rightarrow> int \<Rightarrow> string \<Rightarrow> create_schedule_dto \<Rightarrow> sched_db \<Rightarrow> schedule_row sqlx \<times> sched_db" where
  "schedule_create cr now uuid x db =
     (case validate_backup_cron_expression cr (cs_cron_expression x) of
        Inl e \<Rightarrow> (Err e, db)
      | Inr _ \<Rightarrow>
         (let ty = requested_type x;
              action = normalize_schedule_action (cs_schedule_action x) ty (cs_command x)
          in case normalize_enabled (case cs_enabled x of None \<Rightarrow> 1 | Some n \<Rightarrow> n) of
               Inl e \<Rightarrow> (Err e, db)
             | Inr enabled \<Rightarrow>
                (case validate_target ty action (cs_application_id x) (cs_compose_id x) (cs_server_id x) (cs_service_name x) of
                   Inl e \<Rightarrow> (Err e, db)
                 | Inr _ \<Rightarrow> schedule_create_and_return now
                     \<lparr> sch_id = 0, sch_name = cs_name x, sch_description = cs_description x,
                       sch_cron_expression = cs_cron_expression x,
                       sch_app_name = (case cs_app_name x of
                           Some an \<Rightarrow> if trim an \<noteq> [] then an @ ''-sched-'' @ uuid
                                      else generate_schedule_app_name uuid (cs_name x)
                         | None \<Rightarrow> generate_schedule_app_name uuid (cs_name x)),
                       sch_service_name = cs_service_name x, sch_shell_type = normalize_shell_type (cs_shell_type x),
                       sch_schedule_type = ty, sch_schedule_action = action, sch_command = cs_command x,
                       sch_script = cs_script x, sch_timezone = cs_timezone x, sch_enabled = enabled,
                       sch_application_id = cs_application_id x, sch_compose_id = cs_compose_id x,
                       sch_server_id = cs_server_id x, sch_organization_id = cs_organization_id x,
                       sch_created_at = now, sch_updated_at = now \<rparr> db)))"

record patch_schedule_dto =
  ps_name :: "string option"
  ps_description :: "string option"
  ps_cron_expression :: "string option"
  ps_app_name :: "string option"
  ps_service_name :: "string option"
  ps_shell_type :: "string option"
  ps_schedule_type :: "string option"
  ps_schedule_action :: "string option"
  ps_command :: "string option"
  ps_script :: "string option"
  ps_timezone :: "string option"
  ps_enabled :: "int option"
  ps_application_id :: "int option"
  ps_compose_id :: "int option"
  ps_server_id :: "int option"
  ps_organization_id :: "int option"

definition or_else :: "'a option \<Rightarrow> 'a option \<Rightarrow> 'a option" where
  "or_else a b = (case a of None \<Rightarrow> b | Some x \<Rightarrow> Some x)"

definition unwrap_or :: "'a option \<Rightarrow> 'a \<Rightarrow> 'a" where
  "unwrap_or a d = (case a of None \<Rightarrow> d | Some x \<Rightarrow> x)"

definition patched_row :: "patch_schedule_dto \<Rightarrow> schedule_row \<Rightarrow> schedule_row" where
  "patched_row x cur =
     (let ty = (case ps_schedule_type x of Some v \<Rightarrow> normalize_schedule_type (Some v) | None \<Rightarrow> sch_schedule_type cur);
          cmd = unwrap_or (ps_command x) (sch_command cur)
      in cur\<lparr>sch_name := unwrap_or (ps_name x) (sch_name cur),
             sch_description := or_else (ps_description x) (sch_description cur),
             sch_cron_expression := unwrap_or (ps_cron_expression x) (sch_cron_expression cur),
             sch_app_name := unwrap_or (ps_app_name x) (sch_app_name cur),
             sch_service_name := or_else (ps_service_name x) (sch_service_name cur),
             sch_shell_type := (case ps_shell_type x of Some v \<Rightarrow> normalize_shell_type (Some v) | None \<Rightarrow> sch_shell_type cur),
             sch_schedule_type := ty,
             sch_schedule_action := (case ps_schedule_action x of
                 Some v \<Rightarrow> normalize_schedule_action (Some v) ty cmd | None \<Rightarrow> sch_schedule_action cur),
             sch_command := cmd,
             sch_script := or_else (ps_script x) (sch_script cur),
             sch_timezone := or_else (ps_timezone x) (sch_timezone cur),
             sch_enabled := unwrap_or (ps_enabled x) (sch_enabled cur),
             sch_application_id := or_else (ps_application_id x) (sch_application_id cur),
             sch_compose_id := or_else (ps_compose_id x) (sch_compose_id cur),
             sch_server_id := or_else (ps_server_id x) (sch_server_id cur),
             sch_organization_id := or_else (ps_organization_id x) (sch_organization_id cur)\<rparr>)"

definition target_of :: "schedule_row \<Rightarrow> unit sqlx" where
  "target_of s = validate_target (sch_schedule_type s) (sch_schedule_action s) (sch_application_id s)
     (sch_compose_id s) (sch_server_id s) (sch_service_name s)"

definition schedule_get :: "int \<Rightarrow> sched_db \<Rightarrow> schedule_row sqlx" where
  "schedule_get i db = (case schedule_by_id i db of None \<Rightarrow> Err RowNotFound | Some s \<Rightarrow> Ok s)"

definition schedule_patch ::
  "cron_ops \<Rightarrow> int \<Rightarrow> int \<Rightarrow> patch_schedule_dto \<Rightarrow> sched_db \<Rightarrow> schedule_row sqlx \<times> sched_db" where
  "schedule_patch cr now i x db = (case schedule_get i db of
       Inl e \<Rightarrow> (Err e, db)
     | Inr cur \<Rightarrow>
        (let row = patched_row x cur in
         case validate_backup_cron_expression cr (sch_cron_expression row) of
           Inl e \<Rightarrow> (Err e, db)
         | Inr _ \<Rightarrow> (case normalize_enabled (sch_enabled row) of
             Inl e \<Rightarrow> (Err e, db)
           | Inr _ \<Rightarrow> (case target_of row of
               Inl e \<Rightarrow> (Err e, db)
             | Inr _ \<Rightarrow> schedule_update_and_return now i row db))))"

definition schedule_remove :: "int \<Rightarrow> sched_db \<Rightarrow> unit sqlx \<times> sched_db" where
  "schedule_remove i db = (case schedule_get i db of Inl e \<Rightarrow> (Err e, db) | Inr _ \<Rightarrow> schedule_delete i db)"

section \<open>The world of a run\<close>

record ('w, 'b, 't) sched_env =
  se_channels :: "('w, 'b, 't) channel_ops"
  se_queue_limit :: "string option"
  se_mgmt :: maintenance
  se_base :: string
  se_compose_type :: "int \<Rightarrow> string"
  se_remote :: "nat \<Rightarrow> int \<Rightarrow> bool"
  se_shell :: "nat \<Rightarrow> int option \<Rightarrow> string \<Rightarrow> string \<Rightarrow> (string, string \<times> string) result"
  se_ps :: "nat \<Rightarrow> int option \<Rightarrow> (string \<times> string) list \<Rightarrow> (string, string list) result"
  se_exec :: "nat \<Rightarrow> int option \<Rightarrow> string \<Rightarrow> string \<Rightarrow> string \<Rightarrow> (string, string \<times> string) result"
  se_elapsed :: "nat \<Rightarrow> nat"
  se_others :: "nat \<Rightarrow> sched_db \<Rightarrow> sched_db"

record ('w, 'b, 't) sched_world =
  w_db :: sched_db
  w_registry :: "('w, 'b, 't) app_state"
  w_clock :: int
  w_calls :: nat
  w_outbox :: "(int \<times> notification_trigger \<times> notification_message) list"

text \<open>
  An await of at least \<open>secs\<close> seconds: time passes and other tasks run.  Every
  statement is sent to the pool after such an await.
\<close>

definition wait :: "('w, 'b, 't) sched_env \<Rightarrow> nat \<Rightarrow> ('w, 'b, 't) sched_world \<Rightarrow> ('w, 'b, 't) sched_world" where
  "wait env secs w = w\<lparr>w_clock := w_clock w + int secs + int (se_elapsed env (w_calls w)),
     w_db := se_others env (w_calls w) (w_db w), w_calls := w_calls w + 1\<rparr>"

definition on_db ::
  "('w, 'b, 't) sched_env \<Rightarrow> (int \<Rightarrow> sched_db \<Rightarrow> 'a \<times> sched_db) \<Rightarrow> ('w, 'b, 't) sched_world
   \<Rightarrow> 'a \<times> ('w, 'b, 't) sched_world" where
  "on_db env f w = (let w' = wait env 0 w in
     case f (w_clock w') (w_db w') of (r, d) \<Rightarrow> (r, w'\<lparr>w_db := d\<rparr>))"

definition read_db ::
  "('w, 'b, 't) sched_env \<Rightarrow> (sched_db \<Rightarrow> 'a) \<Rightarrow> ('w, 'b, 't) sched_world \<Rightarrow> 'a \<times> ('w, 'b, 't) sched_world" where
  "read_db env f w = on_db env (\<lambda>_ d. (f d, d)) w"

section \<open>One execution\<close>

record schedule_run_result =
  rr_schedule :: schedule_row
  rr_action :: string
  rr_deployment_id :: "int option"
  rr_message :: string
  rr_stdout :: "string option"
  rr_stderr :: "string option"

definition parse_schedule_application_operation :: "string \<Rightarrow> application_operation sqlx" where
  "parse_schedule_application_operation v = (case schedule_action_from (to_ascii_uppercase (trim v)) of
       SaDeploy \<Rightarrow> Ok ADeploy | SaRedeploy \<Rightarrow> Ok ARedeploy | SaRebuild \<Rightarrow> Ok ARebuild
     | SaReload \<Rightarrow> Ok AReload | SaStart \<Rightarrow> Ok AStart
     | _ \<Rightarrow> Err (Protocol ''application schedule command must be deploy, redeploy, rebuild, reload or start''))"

definition parse_schedule_compose_operation :: "string \<Rightarrow> compose_operation sqlx" where
  "parse_schedule_compose_operation v = (case schedule_action_from (to_ascii_uppercase (trim v)) of
       SaDeploy \<Rightarrow> Ok CDeploy | SaRedeploy \<Rightarrow> Ok CRedeploy | SaReload \<Rightarrow> Ok CReload
     | SaStart \<Rightarrow> Ok CStart | SaStop \<Rightarrow> Ok CStop
     | _ \<Rightarrow> Err (Protocol ''compose schedule command must be deploy, redeploy, reload, start or stop''))"

definition schedule_command :: "schedule_row \<Rightarrow> string sqlx" where
  "schedule_command s =
     (let c = (if blank (sch_script s) then trim (sch_command s) else trim (the (sch_script s))) in
      if c = [] then Err (Protocol ''schedule command is empty'') else Ok c)"

text \<open>The executor of a server: remote when it can be reached, the panel's own host otherwise.\<close>

definition executor_for ::
  "('w, 'b, 't) sched_env \<Rightarrow> int option \<Rightarrow> ('w, 'b, 't) sched_world \<Rightarrow> int option \<times> ('w, 'b, 't) sched_world" where
  "executor_for env srv w = (case srv of
       None \<Rightarrow> (None, w)
     | Some s \<Rightarrow> (if se_remote env (w_calls w) s then Some s else None, wait env 0 w))"

definition run_shell_schedule ::
  "('w, 'b, 't) sched_env \<Rightarrow> schedule_row \<Rightarrow> ('w, 'b, 't) sched_world
   \<Rightarrow> schedule_run_result sqlx \<times> ('w, 'b, 't) sched_world" where
  "run_shell_schedule env s w = (case schedule_command s of
       Inl e \<Rightarrow> (Err e, w)
     | Inr cmd \<Rightarrow> (case executor_for env (sch_server_id s) w of (host, w) \<Rightarrow>
         (case se_shell env (w_calls w) host (shell_executable (shell_type_from (sch_shell_type s))) cmd of
            Inl m \<Rightarrow> (Err (Protocol m), wait env 0 w)
          | Inr (out, err) \<Rightarrow> (Ok \<lparr> rr_schedule = s, rr_action = ''shell'', rr_deployment_id = None,
              rr_message = ''schedule command executed'', rr_stdout = Some out, rr_stderr = Some err \<rparr>, wait env 0 w))))"

definition run_container_command ::
  "('w, 'b, 't) sched_env \<Rightarrow> schedule_row \<Rightarrow> int option \<Rightarrow> (string \<times> string) list \<Rightarrow> string \<Rightarrow> string
   \<Rightarrow> ('w, 'b, 't) sched_world \<Rightarrow> schedule_run_result sqlx \<times> ('w, 'b, 't) sched_world" where
  "run_container_command env s srv labels missing message w = (case schedule_command s of
       Inl e \<Rightarrow> (Err e, w)
     | Inr cmd \<Rightarrow> (case executor_for env srv w of (host, w) \<Rightarrow>
         (case se_ps env (w_calls w) host labels of
            Inl m \<Rightarrow> (Err (Protocol m), wait env 0 w)
          | Inr ids \<Rightarrow> (let w = wait env 0 w in case find (\<lambda>c. trim c \<noteq> []) ids of
              None \<Rightarrow> (Err (Protocol missing), w)
            | Some c \<Rightarrow> (case se_exec env (w_calls w) host c (shell_executable (shell_type_from (sch_shell_type s))) cmd of
                Inl m \<Rightarrow> (Err (Protocol m), wait env 0 w)
              | Inr (out, err) \<Rightarrow> (Ok \<lparr> rr_schedule = s, rr_action = ''exec'', rr_deployment_id = None,
                  rr_message = message, rr_stdout = Some out, rr_stderr = Some err \<rparr>, wait env 0 w))))))"

definition run_swarm_container_command ::
  "('w, 'b, 't) sched_env \<Rightarrow> schedule_row \<Rightarrow> int option \<Rightarrow> string \<Rightarrow> ('w, 'b, 't) sched_world
   \<Rightarrow> schedule_run_result sqlx \<times> ('w, 'b, 't) sched_world" where
  "run_swarm_container_command env s srv service w =
     run_container_command env s srv [(''com.docker.swarm.service.name'', service)]
       (''running container not found for swarm service '' @ service)
       (''container command executed on swarm service '' @ service) w"

definition run_compose_project_container_command ::
  "('w, 'b, 't) sched_env \<Rightarrow> schedule_row \<Rightarrow> int option \<Rightarrow> string \<Rightarrow> string \<Rightarrow> ('w, 'b, 't) sched_world
   \<Rightarrow> schedule_run_result sqlx \<times> ('w, 'b, 't) sched_world" where
  "run_compose_project_container_command env s srv project service w =
     run_container_command env s srv [(''com.docker.compose.project'', project), (''com.docker.compose.service'', service)]
       (''running container not found for compose project='' @ project @ '' service='' @ service)
       (''container command executed on compose '' @ project @ ''/'' @ service) w"

definition run_application_schedule ::
  "('w, 'b, 't) sched_env \<Rightarrow> schedule_row \<Rightarrow> ('w, 'b, 't) sched_world
   \<Rightarrow> schedule_run_result sqlx \<times> ('w, 'b, 't) sched_world" where
  "run_application_schedule env s w = (case sch_application_id s of
       None \<Rightarrow> (Err (Protocol ''application schedule requires application_id''), w)
     | Some a \<Rightarrow>
        if sch_schedule_action s = ''EXEC'' then
          (case read_db env (\<lambda>d. find_resource a (applications (sched_panel d))) w of
             (None, w) \<Rightarrow> (Err RowNotFound, w)
           | (Some app, w) \<Rightarrow> run_swarm_container_command env s (res_server_id app)
               (res_app_name app @ ''_'' @ res_app_name app) w)
        else (case parse_schedule_application_operation (sch_schedule_action s) of
          Inl e \<Rightarrow> (Err e, w)
        | Inr op \<Rightarrow>
            seq_ok (on_db env (\<lambda>now d.
                case application_run_operation (se_queue_limit env) (se_mgmt env) (se_base env) now a op (sched_panel d) of
                  (r, panel') \<Rightarrow> (r, d\<lparr>sched_panel := panel'\<rparr>)) w)
              (\<lambda>(_, dep, _) w. (Ok \<lparr> rr_schedule = s, rr_action = application_op_as_str op, rr_deployment_id = dep,
                 rr_message = ''application operation queued'', rr_stdout = None, rr_stderr = None \<rparr>, w))))"

definition run_compose_schedule ::
  "('w, 'b, 't) sched_env \<Rightarrow> schedule_row \<Rightarrow> ('w, 'b, 't) sched_world
   \<Rightarrow> schedule_run_result sqlx \<times> ('w, 'b, 't) sched_world" where
  "run_compose_schedule env s w = (case sch_compose_id s of
       None \<Rightarrow> (Err (Protocol ''compose schedule requires compose_id''), w)
     | Some c \<Rightarrow>
        if sch_schedule_action s = ''EXEC'' then
          (case read_db env (\<lambda>d. find_resource c (compose_projects (sched_panel d))) w of
             (None, w) \<Rightarrow> (Err RowNotFound, w)
           | (Some cmp, w) \<Rightarrow> (case sch_service_name s of
               None \<Rightarrow> (Err (Protocol ''compose EXEC schedule requires service_name''), w)
             | Some service \<Rightarrow> (case compose_type_from (se_compose_type env c) of
                 CtStack \<Rightarrow> run_swarm_container_command env s (res_server_id cmp)
                   (if starts_with service (res_app_name cmp @ ''_'') then service else res_app_name cmp @ ''_'' @ service) w
               | CtDockerCompose \<Rightarrow> run_compose_project_container_command env s (res_server_id cmp) (res_app_name cmp) service w)))
        else (case parse_schedule_compose_operation (sch_schedule_action s) of
          Inl e \<Rightarrow> (Err e, w)
        | Inr op \<Rightarrow> (let w = wait env 0 w in
            case compose_run_operation (se_channels env) (se_queue_limit env) (se_mgmt env) (se_base env) (w_clock w) c op
              (sched_panel (w_db w)) (w_registry w) of
            (r, panel', m') \<Rightarrow> seq_ok (r, w\<lparr>w_db := (w_db w)\<lparr>sched_panel := panel'\<rparr>, w_registry := m'\<rparr>)
              (\<lambda>(_, dep, _) w. (Ok \<lparr> rr_schedule = s, rr_action = compose_op_as_str op, rr_deployment_id = dep,
                 rr_message = ''compose operation queued'', rr_stdout = None, rr_stderr = None \<rparr>, w)))))"

definition run_once ::
  "('w, 'b, 't) sched_env \<Rightarrow> schedule_row \<Rightarrow> ('w, 'b, 't) sched_world
   \<Rightarrow> schedule_run_result sqlx \<times> ('w, 'b, 't) sched_world" where
  "run_once env s w = (case schedule_type_from (sch_schedule_type s) of
       StApplication \<Rightarrow> run_application_schedule env s w
     | StCompose \<Rightarrow> run_compose_schedule env s w
     | StServer \<Rightarrow> run_shell_schedule env s w
     | StDokpanelServer \<Rightarrow> run_shell_schedule env s w)"

section \<open>A run under its policy\<close>

definition notify_schedule ::
  "schedule_row \<Rightarrow> notification_trigger \<Rightarrow> notification_level \<Rightarrow> string \<Rightarrow> ('w, 'b, 't) sched_world
   \<Rightarrow> ('w, 'b, 't) sched_world" where
  "notify_schedule s trigger level detail w = (case sch_organization_id s of
       None \<Rightarrow> w
     | Some org \<Rightarrow> w\<lparr>w_outbox := w_outbox w @ [(org, trigger,
         message_field ''Action'' (sch_schedule_action s) (message_field ''Schedule'' (sch_name s)
           ((message_new (w_clock w) (''Schedule: '' @ sch_name s) detail)\<lparr>msg_level := level\<rparr>)))]\<rparr>)"

text \<open>The text of an error is a parameter: it is printed by \<open>sqlx\<close>.\<close>

fun run_attempts ::
  "(sql_error \<Rightarrow> string) \<Rightarrow> ('w, 'b, 't) sched_env \<Rightarrow> schedule_row \<Rightarrow> schedule_runtime_policy \<Rightarrow> schedule_trigger_kind
   \<Rightarrow> int \<Rightarrow> int \<Rightarrow> nat \<Rightarrow> sql_error option \<Rightarrow> ('w, 'b, 't) sched_world
   \<Rightarrow> (schedule_run_result option \<times> sql_error option) sqlx \<times> ('w, 'b, 't) sched_world" where
  "run_attempts show_error env s p kind scheduled_at attempt 0 last_error w = (Ok (None, last_error), w)"
| "run_attempts show_error env s p kind scheduled_at attempt (Suc left) last_error w =
     seq_ok (on_db env (\<lambda>now. begin_execution now (sch_id s) (sch_organization_id s)
         (if attempt = 1 then kind else TkRetry) attempt scheduled_at) w) (\<lambda>n w.
       case run_once env s w of
         (Inr result, w) \<Rightarrow>
           seq_ok (on_db env (\<lambda>now. finish_execution now n XsSucceeded (Some (rr_message result)) (rr_stdout result)
             (rr_stderr result)) w) (\<lambda>_ w. (Ok (Some result, last_error), w))
       | (Inl e, w) \<Rightarrow>
           (let m = show_error e in
            seq_ok (on_db env (\<lambda>now. finish_execution now n XsFailed (Some m) None (Some m)) w) (\<lambda>_ w.
              run_attempts show_error env s p kind scheduled_at (attempt + 1) left (Some e)
                (if attempt \<le> srp_retry_count p then wait env (nat (srp_retry_delay_seconds p)) w else w))))"

partial_function (option) queue_for_lock ::
  "('w, 'b, 't) sched_env \<Rightarrow> int \<Rightarrow> string \<Rightarrow> int \<Rightarrow> int \<Rightarrow> ('w, 'b, 't) sched_world
   \<Rightarrow> (bool sqlx \<times> ('w, 'b, 't) sched_world) option" where
  [code]: "queue_for_lock env i owner lease deadline w =
     (case on_db env (\<lambda>_. acquire (w_clock w) i owner lease) w of
        (Inl e, w) \<Rightarrow> Some (Err e, w)
      | (Inr got, w) \<Rightarrow>
          if got then Some (Ok True, w)
          else if deadline \<le> w_clock w then Some (Ok False, w)
          else queue_for_lock env i owner lease deadline (wait env 1 w))"

definition obtain_lock ::
  "('w, 'b, 't) sched_env \<Rightarrow> concurrency_policy \<Rightarrow> int \<Rightarrow> string \<Rightarrow> int \<Rightarrow> ('w, 'b, 't) sched_world
   \<Rightarrow> (bool sqlx \<times> ('w, 'b, 't) sched_world) option" where
  "obtain_lock env conc i owner lease w = (case conc of
       ConcAllow \<Rightarrow> Some (Ok True, w)
     | ConcQueue \<Rightarrow> queue_for_lock env i owner lease (w_clock w + lease) w
     | ConcSkip \<Rightarrow> Some (on_db env (\<lambda>_. acquire (w_clock w) i owner lease) w))"

definition drop_lock :: "('w, 'b, 't) sched_env \<Rightarrow> concurrency_policy \<Rightarrow> int \<Rightarrow> string \<Rightarrow> ('w, 'b, 't) sched_world \<Rightarrow> ('w, 'b, 't) sched_world" where
  "drop_lock env conc i owner w = (if conc \<noteq> ConcAllow then snd (on_db env (\<lambda>_. release i owner) w) else w)"

definition record_skip ::
  "('w, 'b, 't) sched_env \<Rightarrow> schedule_row \<Rightarrow> schedule_trigger_kind \<Rightarrow> int \<Rightarrow> ('w, 'b, 't) sched_world
   \<Rightarrow> schedule_run_result sqlx \<times> ('w, 'b, 't) sched_world" where
  "record_skip env s kind scheduled_at w =
     seq_ok (on_db env (\<lambda>now. begin_execution now (sch_id s) (sch_organization_id s) kind 1 scheduled_at) w) (\<lambda>n w.
     seq_ok (on_db env (\<lambda>now. finish_execution now n XsSkipped (Some ''previous execution is still active'') None None) w) (\<lambda>_ w.
     (Err (Protocol ''schedule skipped by concurrency policy''), w)))"

definition conclude ::
  "(sql_error \<Rightarrow> string) \<Rightarrow> schedule_row \<Rightarrow> schedule_runtime_policy \<Rightarrow> schedule_run_result option \<Rightarrow> sql_error option
   \<Rightarrow> ('w, 'b, 't) sched_world \<Rightarrow> schedule_run_result sqlx \<times> ('w, 'b, 't) sched_world" where
  "conclude show_error s p result error w = (case result of
       Some r \<Rightarrow> (Ok r, if srp_notify_on_success p \<noteq> 0 then notify_schedule s ScheduleSuccess Info (rr_message r) w else w)
     | None \<Rightarrow> (let e = unwrap_or error (Protocol ''schedule execution failed'') in
         (Err e, if srp_notify_on_failure p \<noteq> 0 then notify_schedule s ScheduleFailure Critical (show_error e) w else w)))"

definition run_locked ::
  "(sql_error \<Rightarrow> string) \<Rightarrow> ('w, 'b, 't) sched_env \<Rightarrow> schedule_runtime_policy \<Rightarrow> concurrency_policy \<Rightarrow> string
   \<Rightarrow> int \<Rightarrow> schedule_trigger_kind \<Rightarrow> int \<Rightarrow> ('w, 'b, 't) sched_world
   \<Rightarrow> schedule_run_result sqlx \<times> ('w, 'b, 't) sched_world" where
  "run_locked show_error env p conc owner i kind scheduled_at w = (case read_db env (schedule_by_id i) w of
       (None, w) \<Rightarrow> (Err (Protocol ''schedule was deleted or disabled''), drop_lock env conc i owner w)
     | (Some s, w) \<Rightarrow>
        if sch_enabled s = 0 then (Err (Protocol ''schedule was deleted or disabled''), drop_lock env conc i owner w)
        else seq_ok (on_db env (\<lambda>now. mark_scheduled now i scheduled_at) w) (\<lambda>_ w.
          seq_ok (run_attempts show_error env s p kind scheduled_at 1 (nat (srp_retry_count p + 1)) None w)
            (\<lambda>(result, error) w. conclude show_error s p result error (drop_lock env conc i owner w))))"

definition run_with_policy ::
  "(sql_error \<Rightarrow> string) \<Rightarrow> ('w, 'b, 't) sched_env \<Rightarrow> string \<Rightarrow> int \<Rightarrow> schedule_trigger_kind \<Rightarrow> int
   \<Rightarrow> ('w, 'b, 't) sched_world \<Rightarrow> (schedule_run_result sqlx \<times> ('w, 'b, 't) sched_world) option" where
  "run_with_policy show_error env owner i kind scheduled_at w = (case read_db env (schedule_get i) w of
       (Inl e, w) \<Rightarrow> Some (Err e, w)
     | (Inr s, w) \<Rightarrow>
        if sch_enabled s = 0 then Some (Err (Protocol ''schedule is disabled''), w)
        else (case on_db env (\<lambda>now. runtime_policy now i) w of
          (Inl e, w) \<Rightarrow> Some (Err e, w)
        | (Inr p, w) \<Rightarrow> (case concurrency_policy_try_from (srp_concurrency_policy p) of
            Inl m \<Rightarrow> Some (Err (Protocol m), w)
          | Inr conc \<Rightarrow> (case obtain_lock env conc i owner (srp_lease_seconds p) w of
              None \<Rightarrow> None
            | Some (Inl e, w) \<Rightarrow> Some (Err e, w)
            | Some (Inr False, w) \<Rightarrow> Some (record_skip env s kind scheduled_at w)
            | Some (Inr True, w) \<Rightarrow> Some (run_locked show_error env p conc owner i kind scheduled_at w)))))"

definition run_now ::
  "(sql_error \<Rightarrow> string) \<Rightarrow> ('w, 'b, 't) sched_env \<Rightarrow> string \<Rightarrow> int \<Rightarrow> ('w, 'b, 't) sched_world
   \<Rightarrow> (schedule_run_result sqlx \<times> ('w, 'b, 't) sched_world) option" where
  "run_now show_error env owner i w = run_with_policy show_error env owner i TkManual (w_clock w) w"

section \<open>Missed runs\<close>

definition recover_missed ::
  "cron_ops \<Rightarrow> (sql_error \<Rightarrow> string) \<Rightarrow> ('w, 'b, 't) sched_env \<Rightarrow> string \<Rightarrow> int \<Rightarrow> string
   \<Rightarrow> ('w, 'b, 't) sched_world \<Rightarrow> (bool sqlx \<times> ('w, 'b, 't) sched_world) option" where
  "recover_missed cr show_error env owner i cron w = (case on_db env (\<lambda>now. runtime_policy now i) w of
       (Inl e, w) \<Rightarrow> Some (Err e, w)
     | (Inr p, w) \<Rightarrow> (case srp_last_scheduled_at p of
         None \<Rightarrow> Some (Ok False, snd (on_db env (\<lambda>now. mark_scheduled now i (w_clock w)) w))
       | Some t \<Rightarrow> (case missed_run_policy_try_from (srp_missed_run_policy p) of
           Inl m \<Rightarrow> Some (Err (Protocol m), w)
         | Inr MissedSkip \<Rightarrow> Some (Ok False, w)
         | Inr MissedRunOnce \<Rightarrow>
             if \<not> valid_timestamp cr t then Some (Err (Protocol ''invalid last schedule timestamp''), w)
             else (case cron_error cr cron of
               Some m \<Rightarrow> Some (Err (Protocol (''invalid cron expression: '' @ m)), w)
             | None \<Rightarrow> (case cron_next cr cron t of
                 Inl m \<Rightarrow> Some (Err (Protocol (''could not calculate missed run: '' @ m)), w)
               | Inr next \<Rightarrow>
                   if next \<le> w_clock w
                   then (case run_with_policy show_error env owner i TkMissed next w of
                           None \<Rightarrow> None
                         | Some (Inl e, w) \<Rightarrow> Some (Err e, w)
                         | Some (Inr _, w) \<Rightarrow> Some (Ok True, w))
                   else Some (Ok False, w))))))"

end
