(* ===== verification/ScheduleLaws.thy ===== *)
theory ScheduleLaws
  imports Schedule
begin

text \<open>
  The contract of the execution lock as a locale, discharged for the lock table,
  and the lemmas on runs: what a run leaves alone, that waiting for the lock ends,
  and which execution rows the attempts of a run leave behind.
\<close>

section \<open>Leases\<close>

datatype lock_op =
    LAcquire int string int
  | LRelease int string
  | LElapse nat

definition free_at :: "int \<Rightarrow> (string \<times> int) option \<Rightarrow> bool" where
  "free_at t h = (case h of None \<Rightarrow> True | Some (_, expiry) \<Rightarrow> expiry \<le> t)"

lemma free_at_simps [simp]: "free_at t None" "free_at t (Some (w, e)) \<longleftrightarrow> e \<le> t"
  by (simp_all add: free_at_def)

text \<open>A history of lock operations on a table, and on the abstract map from schedules to leases.\<close>

fun lock_run ::
  "(int \<Rightarrow> int \<Rightarrow> string \<Rightarrow> int \<Rightarrow> 'd \<Rightarrow> bool sqlx \<times> 'd) \<Rightarrow> (int \<Rightarrow> string \<Rightarrow> 'd \<Rightarrow> unit sqlx \<times> 'd)
   \<Rightarrow> lock_op list \<Rightarrow> int \<Rightarrow> 'd \<Rightarrow> bool sqlx list \<times> int \<times> 'd" where
  "lock_run acq rel [] t d = ([], t, d)"
| "lock_run acq rel (LAcquire i w l # ops) t d =
     (case acq t i w l d of (a, d') \<Rightarrow> case lock_run acq rel ops t d' of (as, r) \<Rightarrow> (a # as, r))"
| "lock_run acq rel (LRelease i w # ops) t d = lock_run acq rel ops t (snd (rel i w d))"
| "lock_run acq rel (LElapse n # ops) t d = lock_run acq rel ops (t + int n) d"

definition lease_acquire ::
  "int \<Rightarrow> int \<Rightarrow> string \<Rightarrow> int \<Rightarrow> (int \<Rightarrow> (string \<times> int) option) \<Rightarrow> bool sqlx \<times> (int \<Rightarrow> (string \<times> int) option)" where
  "lease_acquire t i w l m = (if free_at t (m i) then (Ok True, m(i := Some (w, t + l))) else (Ok False, m))"

definition lease_release ::
  "int \<Rightarrow> string \<Rightarrow> (int \<Rightarrow> (string \<times> int) option) \<Rightarrow> unit sqlx \<times> (int \<Rightarrow> (string \<times> int) option)" where
  "lease_release i w m = (Ok (), if map_option fst (m i) = Some w then m(i := None) else m)"

fun lock_op_on :: "(int \<Rightarrow> bool) \<Rightarrow> lock_op \<Rightarrow> bool" where
  "lock_op_on P (LAcquire i w l) = P i"
| "lock_op_on P _ = True"

lemma lock_run_time: "lock_run acq rel ops t d = (as, t', d') \<Longrightarrow> t \<le> t'"
  by (induction acq rel ops t d arbitrary: as rule: lock_run.induct) (force split: prod.splits)+

locale lease_lock =
  fixes good :: "'d \<Rightarrow> bool"
    and present :: "'d \<Rightarrow> int \<Rightarrow> bool"
    and leases :: "'d \<Rightarrow> int \<Rightarrow> (string \<times> int) option"
    and acq :: "int \<Rightarrow> int \<Rightarrow> string \<Rightarrow> int \<Rightarrow> 'd \<Rightarrow> bool sqlx \<times> 'd"
    and rel :: "int \<Rightarrow> string \<Rightarrow> 'd \<Rightarrow> unit sqlx \<times> 'd"
  assumes acq_good: "good d \<Longrightarrow> good (snd (acq t i w l d))"
    and rel_good: "good d \<Longrightarrow> good (snd (rel i w d))"
    and acq_present: "present (snd (acq t i w l d)) = present d"
    and rel_present: "present (snd (rel i w d)) = present d"
    and acq_refines: "good d \<Longrightarrow> present d i \<Longrightarrow>
          (fst (acq t i w l d), leases (snd (acq t i w l d))) = lease_acquire t i w l (leases d)"
    and rel_refines: "good d \<Longrightarrow> leases (snd (rel i w d)) = snd (lease_release i w (leases d))"
begin

lemma run_refines:
  "good d \<Longrightarrow> list_all (lock_op_on (present d)) ops \<Longrightarrow>
   lock_run acq rel ops t d = (as, t', d') \<Longrightarrow>
   good d' \<and> present d' = present d
   \<and> lock_run lease_acquire lease_release ops t (leases d) = (as, t', leases d')"
proof (induction ops arbitrary: t d as)
  case (Cons op ops)
  show ?case
  proof (cases op)
    case (LAcquire i w l)
    obtain a d1 where a: "acq t i w l d = (a, d1)" by (cases "acq t i w l d")
    obtain as1 where r: "lock_run acq rel ops t d1 = (as1, t', d')" "as = a # as1"
      using Cons.prems(3) by (auto simp: LAcquire a split: prod.splits)
    have d1: "good d1" "present d1 = present d" "lease_acquire t i w l (leases d) = (a, leases d1)"
      using acq_good [of d t i w l] acq_present [of t i w l d] acq_refines [of d i t w l] Cons.prems
      by (auto simp: a LAcquire)
    then show ?thesis
      using Cons.IH [OF d1(1) _ r(1)] Cons.prems(2) by (simp add: LAcquire r(2))
  next
    case (LRelease i w)
    then show ?thesis
      using Cons.IH [of "snd (rel i w d)" t as] Cons.prems
      by (simp add: rel_good rel_present rel_refines)
  next
    case (LElapse n)
    then show ?thesis using Cons.IH [of d "t + int n" as] Cons.prems by simp
  qed
qed simp

text \<open>While its lease runs and it does not release, a holder stays the holder.\<close>

lemma lease_kept:
  "lock_run lease_acquire lease_release ops t m = (as, t', m') \<Longrightarrow> LRelease i w \<notin> set ops \<Longrightarrow>
   m i = Some (w, e) \<Longrightarrow> t \<le> t' \<and> (t' < e \<longrightarrow> m' i = Some (w, e))"
proof (induction ops arbitrary: t m as)
  case (Cons op ops)
  show ?case
  proof (cases op)
    case (LAcquire j v l)
    obtain as1 where r: "lock_run lease_acquire lease_release ops t (snd (lease_acquire t j v l m)) = (as1, t', m')"
      using Cons.prems(1) by (auto simp: LAcquire split: prod.splits)
    show ?thesis
    proof (cases "snd (lease_acquire t j v l m) i = Some (w, e)")
      case True
      then show ?thesis using Cons.IH [OF r] Cons.prems(2) by simp
    next
      case False
      then have "e \<le> t" using Cons.prems(3) by (auto simp: lease_acquire_def split: if_splits)
      moreover have "t \<le> t'" using r by (rule lock_run_time)
      ultimately show ?thesis by simp
    qed
  next
    case (LRelease j v)
    then have "snd (lease_release j v m) i = Some (w, e)"
      using Cons.prems by (auto simp: lease_release_def)
    then show ?thesis
      using Cons.IH [of t "snd (lease_release j v m)" as] Cons.prems by (simp add: LRelease)
  next
    case (LElapse n)
    then show ?thesis using Cons.IH [of "t + int n" m as] Cons.prems by force
  qed
qed simp

lemma exclusion:
  assumes "good d" "present d i" "acq t i w l d = (Ok True, d1)"
    and "list_all (lock_op_on (present d)) ops" "LRelease i w \<notin> set ops"
    and "lock_run acq rel ops t d1 = (as, t', d')" "acq t' i w' l' d' = (Ok True, d2)"
  shows "t + l \<le> t'"
proof -
  have d1: "good d1" "present d1 = present d" "leases d1 i = Some (w, t + l)"
    using acq_good [of d t i w l] acq_present [of t i w l d] acq_refines [of d i t w l] assms(1-3)
    by (auto simp: lease_acquire_def split: if_splits)
  note r = run_refines [OF d1(1) _ assms(6)]
  then have d': "good d'" "present d' i" "free_at t' (leases d' i)"
    using acq_refines [of d' i t' w' l'] assms(2,4,7) d1(2)
    by (auto simp: lease_acquire_def split: if_splits)
  show ?thesis
    using lease_kept [of ops t "leases d1" as t' "leases d'" i w "t + l"] r assms(4,5) d1 d'(3)
    by (force simp: not_less)
qed

end

definition locks_wf :: "sched_db \<Rightarrow> bool" where
  "locks_wf d = distinct (map lk_schedule_id (locks d))"

definition lease_view :: "sched_db \<Rightarrow> int \<Rightarrow> (string \<times> int) option" where
  "lease_view d i = map_option (\<lambda>l. (lk_owner_id l, lk_expires_at l)) (lock_of i d)"

lemma find_delete_where_unique:
  "distinct (map k rows) \<Longrightarrow>
   find (\<lambda>x. k x = j) (delete_where (\<lambda>x. k x = i \<and> P x) rows)
     = (case find (\<lambda>x. k x = j) rows of None \<Rightarrow> None | Some r \<Rightarrow> if j = i \<and> P r then None else Some r)"
proof (induction rows)
  case (Cons r rows)
  have "find (\<lambda>x. k x = j) rows = None" if "k r = j"
    using that Cons.prems by (auto simp: find_None_iff image_iff)
  then show ?case using Cons by (auto simp: delete_where_def)
qed (simp add: delete_where_def)

lemma map_overwrite:
  "k v = i \<Longrightarrow> map k (update_where (\<lambda>x. k x = i) (\<lambda>_. v) rows) = map k rows"
  by (simp add: update_where_def)

lemma find_overwrite:
  "k v = i \<Longrightarrow> find (\<lambda>x. k x = j) (update_where (\<lambda>x. k x = i) (\<lambda>_. v) rows)
     = map_option (\<lambda>x. if k x = i then v else x) (find (\<lambda>x. k x = j) rows)"
  by (induction rows) (auto simp: update_where_def)

lemma acquire_wf: "locks_wf d \<Longrightarrow> locks_wf (snd (acquire t i w l d))"
  unfolding locks_wf_def acquire_def lock_of_def Let_def
  by (auto simp: map_overwrite find_None_iff split: option.splits)

lemma release_wf: "locks_wf d \<Longrightarrow> locks_wf (snd (release i w d))"
  by (simp add: locks_wf_def release_def delete_where_def distinct_map_filter)

lemma find_snoc: "find P (xs @ [y]) = (case find P xs of None \<Rightarrow> if P y then Some y else None | Some x \<Rightarrow> Some x)"
  by (induction xs) auto

lemma acquire_lock_of:
  "schedule_exists i d \<Longrightarrow>
   lock_of j (snd (acquire t i w l d)) =
     (if j = i \<and> free_at t (lease_view d i)
      then Some \<lparr> lk_schedule_id = i, lk_owner_id = w, lk_acquired_at = t, lk_expires_at = t + l \<rparr> else lock_of j d)"
  by (cases "lock_of i d"; cases "lock_of j d")
    (auto simp: acquire_def lease_view_def lock_of_def Let_def find_overwrite find_snoc dest: find_Some_mem)

lemma acquire_lease_view:
  "schedule_exists i d \<Longrightarrow>
   (fst (acquire t i w l d), lease_view (snd (acquire t i w l d))) = lease_acquire t i w l (lease_view d)"
  by (cases "lock_of i d")
    (auto simp: lease_acquire_def lease_view_def acquire_lock_of fun_eq_iff, auto simp: acquire_def Let_def)

lemma release_lock_of:
  "locks_wf d \<Longrightarrow>
   lock_of j (snd (release i w d)) =
     (if j = i \<and> map_option lk_owner_id (lock_of i d) = Some w then None else lock_of j d)"
  unfolding release_def lock_of_def locks_wf_def
  by (cases "find (\<lambda>l. lk_schedule_id l = j) (locks d)") (auto simp: find_delete_where_unique)

lemma release_lease_view:
  "locks_wf d \<Longrightarrow> lease_view (snd (release i w d)) = snd (lease_release i w (lease_view d))"
  by (auto simp: lease_view_def lease_release_def release_lock_of fun_eq_iff option.map_comp o_def)

lemma lock_ops_keep_schedules [simp]:
  "schedules (snd (acquire t i w l d)) = schedules d" "schedules (snd (release i w d)) = schedules d"
  by (auto simp: acquire_def release_def Let_def split: option.splits)

interpretation sched_lease: lease_lock locks_wf "\<lambda>d i. schedule_exists i d" lease_view acquire release
  by unfold_locales (simp_all add: acquire_wf release_wf acquire_lease_view release_lease_view schedule_exists_def)

section \<open>Waiting for the lock ends\<close>

lemma wait_clock [simp]: "w_clock (wait env n w) = w_clock w + int n + int (se_elapsed env (w_calls w))"
  by (simp add: wait_def)

lemma wait_db: "w_db (wait env n w) = se_others env (w_calls w) (w_db w)"
  by (simp add: wait_def)

lemma on_db_world:
  "w_db (snd (on_db env f w)) = snd (f (w_clock (wait env 0 w)) (w_db (wait env 0 w)))"
  "w_clock (snd (on_db env f w)) = w_clock (wait env 0 w)"
  by (simp_all add: on_db_def Let_def split: prod.splits)

lemma fst_on_db: "fst (on_db env f w) = fst (f (w_clock (wait env 0 w)) (w_db (wait env 0 w)))"
  by (simp add: on_db_def Let_def split: prod.splits)

lemma queue_for_lock_total: "\<exists>r. queue_for_lock env i owner lease deadline w = Some r"
proof (induction "nat (deadline - w_clock w)" arbitrary: w rule: less_induct)
  case less
  obtain a w1 where w1: "on_db env (\<lambda>_. acquire (w_clock w) i owner lease) w = (a, w1)"
    by (cases "on_db env (\<lambda>_. acquire (w_clock w) i owner lease) w")
  have clock: "w_clock w \<le> w_clock w1"
    using on_db_world(2) [of env "\<lambda>_. acquire (w_clock w) i owner lease" w] by (simp add: w1)
  have "\<exists>r. queue_for_lock env i owner lease deadline (wait env 1 w1) = Some r" if "\<not> deadline \<le> w_clock w1"
    using that clock by (intro less) simp
  then show ?case
    by (subst queue_for_lock.simps) (auto simp: w1 split: sum.splits)
qed

lemma obtain_lock_total: "\<exists>r. obtain_lock env conc i owner lease w = Some r"
  using queue_for_lock_total [of env i owner lease "w_clock w + lease" w]
  by (cases conc) (auto simp: obtain_lock_def)

section \<open>What a run leaves alone\<close>

definition runs_of :: "int \<Rightarrow> sched_db \<Rightarrow> schedule_execution list" where
  "runs_of i d = filter (\<lambda>e. ex_schedule_id e = i) (executions d)"

text \<open>
  The schedule, its policy and its executions are the same, and no execution key
  is reused; with \<open>L\<close>, its lock is the same as well.
\<close>

definition keeps :: "bool \<Rightarrow> int \<Rightarrow> sched_db \<Rightarrow> sched_db \<Rightarrow> bool" where
  "keeps L i d d' = ((L \<longrightarrow> lock_of i d' = lock_of i d \<and> (locks_wf d \<longrightarrow> locks_wf d')) \<and> schedule_by_id i d' = schedule_by_id i d \<and> policy_of i d' = policy_of i d
     \<and> runs_of i d' = runs_of i d \<and> executions_seq d \<le> executions_seq d')"

definition undisturbed :: "bool \<Rightarrow> ('w, 'b, 't) sched_env \<Rightarrow> int \<Rightarrow> bool" where
  "undisturbed L env i = (\<forall>n d. keeps L i d (se_others env n d))"

lemma keepsD:
  assumes "keeps L i d d'"
  shows "schedule_by_id i d' = schedule_by_id i d" "policy_of i d' = policy_of i d" "runs_of i d' = runs_of i d"
    "executions_seq d \<le> executions_seq d'" "L \<Longrightarrow> lock_of i d' = lock_of i d" "L \<Longrightarrow> locks_wf d \<Longrightarrow> locks_wf d'"
  using assms by (simp_all add: keeps_def)

lemma keeps_refl [simp]: "keeps L i d d"
  by (simp add: keeps_def)

lemma keeps_trans [trans]: "keeps L i a b \<Longrightarrow> keeps L i b c \<Longrightarrow> keeps L i a c"
  by (auto simp: keeps_def)

lemma keeps_panel [simp]: "keeps L i d (d\<lparr>sched_panel := p\<rparr>)"
  by (simp add: keeps_def schedule_by_id_def policy_of_def runs_of_def lock_of_def locks_wf_def)

lemma keeps_locks: "keeps False i d (d\<lparr>locks := l\<rparr>)"
  by (simp add: keeps_def schedule_by_id_def policy_of_def runs_of_def)

lemma keeps_wait: "undisturbed L env i \<Longrightarrow> keeps L i (w_db w) (w_db (wait env n w))"
  by (simp add: undisturbed_def wait_db)

lemma keeps_acquire: "keeps False i d (snd (acquire t j owner l d))"
  by (auto simp: acquire_def Let_def keeps_locks split: option.splits)

lemma keeps_release: "keeps False i d (snd (release j owner d))"
  by (simp add: release_def keeps_locks)

lemma keeps_on_db:
  assumes "undisturbed L env i" "\<And>now d. keeps L i d (snd (f now d))"
  shows "keeps L i (w_db w) (w_db (snd (on_db env f w)))"
  unfolding on_db_world by (rule keeps_trans [OF keeps_wait [OF assms(1)] assms(2)])

lemma keeps_read_db: "undisturbed L env i \<Longrightarrow> keeps L i (w_db w) (w_db (snd (read_db env f w)))"
  by (simp add: read_db_def keeps_on_db)

lemma keeps_executor_for: "undisturbed L env i \<Longrightarrow> keeps L i (w_db w) (w_db (snd (executor_for env srv w)))"
  by (auto simp: executor_for_def keeps_wait split: option.splits)

lemma keeps_run_shell: 
  assumes "undisturbed L env i" shows "keeps L i (w_db w) (w_db (snd (run_shell_schedule env s w)))"
proof -
  obtain host w1 where w1: "executor_for env (sch_server_id s) w = (host, w1)"
    by (cases "executor_for env (sch_server_id s) w")
  have "keeps L i (w_db w) (w_db w1)" using keeps_executor_for [OF assms, of w] w1 by (metis snd_conv)
  also have "keeps L i (w_db w1) (w_db (wait env 0 w1))" by (rule keeps_wait [OF assms])
  finally show ?thesis by (auto simp: run_shell_schedule_def w1 split: sum.splits)
qed

lemma keeps_run_container:
  assumes "undisturbed L env i"
  shows "keeps L i (w_db w) (w_db (snd (run_container_command env s srv labels miss msg w)))"
proof -
  obtain host w1 where w1: "executor_for env srv w = (host, w1)"
    by (cases "executor_for env srv w")
  have a: "keeps L i (w_db w) (w_db w1)" using keeps_executor_for [OF assms, of w] w1 by (metis snd_conv)
  also have "keeps L i (w_db w1) (w_db (wait env 0 w1))" by (rule keeps_wait [OF assms])
  finally have b: "keeps L i (w_db w) (w_db (wait env 0 w1))" .
  also have "keeps L i (w_db (wait env 0 w1)) (w_db (wait env 0 (wait env 0 w1)))" by (rule keeps_wait [OF assms])
  finally have c: "keeps L i (w_db w) (w_db (wait env 0 (wait env 0 w1)))" .
  show ?thesis using a b c
    by (auto simp: run_container_command_def w1 Let_def split: sum.splits option.splits)
qed

lemma snd_seq_ok_pure: "(\<And>x w. snd (k x w) = w) \<Longrightarrow> snd (seq_ok r k) = snd r"
  by (auto simp: seq_ok_def split: prod.splits sum.splits)

lemma keeps_run_application:
  assumes "undisturbed L env i" shows "keeps L i (w_db w) (w_db (snd (run_application_schedule env s w)))"
proof (cases "sch_application_id s")
  case (Some a)
  obtain r w1 where w1: "read_db env (\<lambda>d. find_resource a (applications (sched_panel d))) w = (r, w1)"
    by (cases "read_db env (\<lambda>d. find_resource a (applications (sched_panel d))) w")
  then have k: "keeps L i (w_db w) (w_db w1)" using keeps_read_db [OF assms, of w] by (metis snd_conv)
  show ?thesis
    using k keeps_trans [OF k keeps_run_container [OF assms]]
    by (auto simp: run_application_schedule_def Some w1 run_swarm_container_command_def snd_seq_ok_pure
        case_prod_beta intro!: keeps_on_db [OF assms] split: sum.splits option.splits)
qed (simp add: run_application_schedule_def)

lemma keeps_run_compose:
  assumes "undisturbed L env i" shows "keeps L i (w_db w) (w_db (snd (run_compose_schedule env s w)))"
proof (cases "sch_compose_id s")
  case (Some c)
  obtain r w1 where w1: "read_db env (\<lambda>d. find_resource c (compose_projects (sched_panel d))) w = (r, w1)"
    by (cases "read_db env (\<lambda>d. find_resource c (compose_projects (sched_panel d))) w")
  then have k: "keeps L i (w_db w) (w_db w1)" using keeps_read_db [OF assms, of w] by (metis snd_conv)
  show ?thesis
    using k keeps_trans [OF k keeps_run_container [OF assms]] keeps_trans [OF keeps_wait [OF assms] keeps_panel]
    by (auto simp: run_compose_schedule_def Some w1 run_swarm_container_command_def Let_def
        run_compose_project_container_command_def snd_seq_ok_pure case_prod_beta
        split: sum.splits option.splits compose_type.splits)
qed (simp add: run_compose_schedule_def)

lemma keeps_run_once: "undisturbed L env i \<Longrightarrow> keeps L i (w_db w) (w_db (snd (run_once env s w)))"
  by (simp add: run_once_def keeps_run_application keeps_run_compose keeps_run_shell split: schedule_type.splits)

section \<open>The execution rows of a run\<close>

definition keys_bounded :: "int \<Rightarrow> sched_db \<Rightarrow> bool" where
  "keys_bounded i d = list_all (\<lambda>e. ex_id e \<le> executions_seq d) (runs_of i d)"

lemma keys_bounded_keeps: "keeps L i d d' \<Longrightarrow> keys_bounded i d \<Longrightarrow> keys_bounded i d'"
  by (force simp: keeps_def keys_bounded_def list_all_iff)

definition attempts_recorded :: "schedule_trigger_kind \<Rightarrow> int \<Rightarrow> int \<Rightarrow> schedule_execution list \<Rightarrow> bool" where
  "attempts_recorded kind scheduled_at first rows =
     (map ex_attempt rows = [first .. first + int (length rows) - 1]
      \<and> list_all (\<lambda>x. ex_trigger_kind x = trigger_kind_as_str (if ex_attempt x = 1 then kind else TkRetry)
          \<and> ex_scheduled_at x = scheduled_at \<and> ex_finished_at x \<noteq> None) rows
      \<and> list_all (\<lambda>x. ex_status x = ''FAILED'') (butlast rows))"

lemma attempts_recorded_Nil [simp]: "attempts_recorded kind sat n []"
  by (simp add: attempts_recorded_def)

lemma attempts_recorded_Cons:
  "attempts_recorded kind sat n (x # rows) \<longleftrightarrow>
     ex_attempt x = n \<and> ex_trigger_kind x = trigger_kind_as_str (if n = 1 then kind else TkRetry)
     \<and> ex_scheduled_at x = sat \<and> ex_finished_at x \<noteq> None \<and> (rows \<noteq> [] \<longrightarrow> ex_status x = ''FAILED'')
     \<and> attempts_recorded kind sat (n + 1) rows"
  by (auto simp: attempts_recorded_def upto_rec1 add.assoc [symmetric])

lemma schedule_by_id_exists: "schedule_by_id i d = Some s \<Longrightarrow> schedule_exists i d \<and> sch_id s = i"
  by (auto simp: schedule_by_id_def schedule_exists_def dest!: find_Some_mem)

text \<open>Starting and finishing one execution appends exactly its row to the schedule's executions.\<close>

lemma begin_execution_row:
  assumes "schedule_exists i d" "keys_bounded i d" "begin_execution now i org kind a sat d = (r, d')"
  shows "\<exists>x. r = Ok (ex_id x) \<and> runs_of i d' = runs_of i d @ [x] \<and> ex_id x = executions_seq d'
     \<and> ex_attempt x = a \<and> ex_trigger_kind x = trigger_kind_as_str kind \<and> ex_scheduled_at x = sat
     \<and> ex_schedule_id x = i \<and> list_all (\<lambda>e. ex_id e < ex_id x) (runs_of i d)
     \<and> schedule_by_id i d' = schedule_by_id i d \<and> policy_of i d' = policy_of i d \<and> locks d' = locks d"
  using assms
  by (auto simp: begin_execution_def Let_def runs_of_def keys_bounded_def list_all_iff schedule_by_id_def policy_of_def)

lemma update_where_snoc: "update_where P f (xs @ [y]) = update_where P f xs @ [if P y then f y else y]"
  by (simp add: update_where_def)

lemma finish_execution_row:
  assumes "runs_of i d = old @ [x]" "list_all (\<lambda>e. ex_id e < ex_id x) old"
    and "finish_execution now (ex_id x) st msg out err d = (r, d')"
  shows "r = Ok () \<and> runs_of i d' = old @ [x\<lparr>ex_status := execution_status_as_str st, ex_message := msg,
       ex_stdout := out, ex_stderr := err, ex_finished_at := Some now\<rparr>]
     \<and> executions_seq d' = executions_seq d \<and> schedule_by_id i d' = schedule_by_id i d \<and> policy_of i d' = policy_of i d
     \<and> locks d' = locks d"
proof -
  let ?f = "\<lambda>e. e\<lparr>ex_status := execution_status_as_str st, ex_message := msg,
       ex_stdout := out, ex_stderr := err, ex_finished_at := Some now\<rparr>"
  have filt: "filter (\<lambda>e. ex_schedule_id e = i) (update_where (\<lambda>e. ex_id e = n) ?f rows)
      = update_where (\<lambda>e. ex_id e = n) ?f (filter (\<lambda>e. ex_schedule_id e = i) rows)" for n rows
    by (induction rows) (auto simp: update_where_def)
  have "x \<in> set (executions d)" using arg_cong [OF assms(1), of set] by (auto simp: runs_of_def)
  then have "list_ex (\<lambda>e. ex_id e = ex_id x) (executions d)" by (auto simp: list_ex_iff)
  moreover have "update_where (\<lambda>e. ex_id e = ex_id x) ?f old = old"
    using assms(2) by (intro update_where_none) (auto simp: list_all_iff)
  ultimately show ?thesis
    using assms by (auto simp: finish_execution_def runs_of_def filt schedule_by_id_def policy_of_def update_where_snoc)
qed

definition attempt_row :: "schedule_trigger_kind \<Rightarrow> int \<Rightarrow> int \<Rightarrow> schedule_execution_status \<Rightarrow> string option \<Rightarrow> schedule_execution \<Rightarrow> bool" where
  "attempt_row kind a sat st msg x = (ex_attempt x = a \<and> ex_trigger_kind x = trigger_kind_as_str kind
     \<and> ex_scheduled_at x = sat \<and> ex_status x = execution_status_as_str st \<and> ex_message x = msg \<and> ex_finished_at x \<noteq> None)"

definition appended :: "bool \<Rightarrow> int \<Rightarrow> sched_db \<Rightarrow> schedule_execution list \<Rightarrow> sched_db \<Rightarrow> bool" where
  "appended L i d new d' = ((L \<longrightarrow> lock_of i d' = lock_of i d \<and> (locks_wf d \<longrightarrow> locks_wf d')) \<and> runs_of i d' = runs_of i d @ new \<and> keys_bounded i d'
     \<and> schedule_by_id i d' = schedule_by_id i d \<and> policy_of i d' = policy_of i d)"

lemma appended_trans: "appended L i a xs b \<Longrightarrow> appended L i b ys c \<Longrightarrow> appended L i a (xs @ ys) c"
  unfolding appended_def by (intro conjI impI; simp)

lemma appended_keeps: "keys_bounded i a \<Longrightarrow> keeps L i a b \<Longrightarrow> appended L i b ys c \<Longrightarrow> appended L i a ys c"
  unfolding appended_def keeps_def by (intro conjI impI; simp)

lemma keeps_appended: "keys_bounded i a \<Longrightarrow> keeps L i a b \<Longrightarrow> appended L i a [] b"
  using keys_bounded_keeps [of L i a b] unfolding appended_def keeps_def by (intro conjI impI; simp)

lemma attempt_step:
  assumes u: "undisturbed L env i" and kb: "keys_bounded i (w_db w)" and ex: "schedule_by_id i (w_db w) \<noteq> None"
    and b: "on_db env (\<lambda>now. begin_execution now i org kind a sat) w = (rb, w1)"
  obtains n where "rb = Ok n"
    and "\<And>w2 st msg out err rf w3. keeps L i (w_db w1) (w_db w2) \<Longrightarrow>
           on_db env (\<lambda>now. finish_execution now n st msg out err) w2 = (rf, w3) \<Longrightarrow>
           rf = Ok () \<and> (\<exists>x. attempt_row kind a sat st msg x \<and> appended L i (w_db w) [x] (w_db w3))"
proof -
  let ?d0 = "w_db (wait env 0 w)"
  have k0: "keeps L i (w_db w) ?d0" by (rule keeps_wait [OF u])
  have kb0: "keys_bounded i ?d0" by (rule keys_bounded_keeps [OF k0 kb])
  have ex0: "schedule_exists i ?d0" using k0 ex schedule_by_id_exists [of i ?d0] by (auto simp: keeps_def)
  obtain now where "begin_execution now i org kind a sat ?d0 = (rb, w_db w1)"
    using on_db_world(1) [of env "\<lambda>now. begin_execution now i org kind a sat" w]
      fst_on_db [of env "\<lambda>now. begin_execution now i org kind a sat" w] by (auto simp: b intro: prod_eqI)
  from begin_execution_row [OF ex0 kb0 this] obtain x where x: "rb = Ok (ex_id x)"
    "runs_of i (w_db w1) = runs_of i ?d0 @ [x]" "ex_id x = executions_seq (w_db w1)"
    "ex_attempt x = a" "ex_trigger_kind x = trigger_kind_as_str kind" "ex_scheduled_at x = sat"
    "list_all (\<lambda>e. ex_id e < ex_id x) (runs_of i ?d0)"
    "schedule_by_id i (w_db w1) = schedule_by_id i ?d0" "policy_of i (w_db w1) = policy_of i ?d0"
    "locks (w_db w1) = locks ?d0"
    by blast
  show thesis
  proof (rule that [OF x(1)])
    fix w2 st msg out err rf w3
    assume k: "keeps L i (w_db w1) (w_db w2)"
      and f: "on_db env (\<lambda>now. finish_execution now (ex_id x) st msg out err) w2 = (rf, w3)"
    let ?d2 = "w_db (wait env 0 w2)"
    have k2: "keeps L i (w_db w1) ?d2" by (rule keeps_trans [OF k keeps_wait [OF u]])
    obtain now where "finish_execution now (ex_id x) st msg out err ?d2 = (rf, w_db w3)"
      using on_db_world(1) [of env "\<lambda>now. finish_execution now (ex_id x) st msg out err" w2]
        fst_on_db [of env "\<lambda>now. finish_execution now (ex_id x) st msg out err" w2] by (auto simp: f intro: prod_eqI)
    from finish_execution_row [OF _ x(7) this, of i] k2 x(2)
    have f: "rf = Ok ()" "runs_of i (w_db w3) = runs_of i ?d0 @ [x\<lparr>ex_status := execution_status_as_str st,
        ex_message := msg, ex_stdout := out, ex_stderr := err, ex_finished_at := Some now\<rparr>]"
      "executions_seq (w_db w3) = executions_seq ?d2" "schedule_by_id i (w_db w3) = schedule_by_id i ?d2"
      "policy_of i (w_db w3) = policy_of i ?d2" "locks (w_db w3) = locks ?d2"
      by (auto simp: keeps_def)
    have lk: "lock_of i (w_db w1) = lock_of i ?d0" "locks_wf (w_db w1) = locks_wf ?d0"
      "lock_of i (w_db w3) = lock_of i ?d2" "locks_wf (w_db w3) = locks_wf ?d2"
      by (simp_all add: lock_of_def locks_wf_def f(6) x(10))
    have "keys_bounded i (w_db w3)"
      using x(3,7) k2 by (fastforce simp: keys_bounded_def f list_all_iff keeps_def)
    then have "appended L i (w_db w) [x\<lparr>ex_status := execution_status_as_str st,
        ex_message := msg, ex_stdout := out, ex_stderr := err, ex_finished_at := Some now\<rparr>] (w_db w3)"
      using k0 k2 x(8,9) lk by (simp add: appended_def f(2,4,5) keeps_def)
    then show "rf = Ok () \<and> (\<exists>x. attempt_row kind a sat st msg x \<and> appended L i (w_db w) [x] (w_db w3))"
      using f(1) x(4-6) by (intro conjI exI) (auto simp: attempt_row_def)
  qed
qed

definition outcome_recorded ::
  "(sql_error \<Rightarrow> string) \<Rightarrow> nat \<Rightarrow> sql_error option \<Rightarrow> schedule_run_result option \<Rightarrow> sql_error option
   \<Rightarrow> schedule_execution list \<Rightarrow> bool" where
  "outcome_recorded show_error left before res err new = (case res of
       Some r \<Rightarrow> new \<noteq> [] \<and> ex_status (last new) = ''SUCCEEDED'' \<and> ex_message (last new) = Some (rr_message r)
     | None \<Rightarrow> length new = left \<and> list_all (\<lambda>x. ex_status x = ''FAILED'') new
         \<and> (if new = [] then err = before
            else (\<exists>e. err = Some e \<and> ex_message (last new) = Some (show_error e))))"

lemma run_attempts_rows:
  assumes u: "undisturbed L env i" and i: "sch_id s = i"
  shows "keys_bounded i (w_db w) \<Longrightarrow> schedule_by_id i (w_db w) \<noteq> None \<Longrightarrow>
    run_attempts show_error env s p kind sat a left before w = (r, w') \<Longrightarrow>
    \<exists>new res err. r = Ok (res, err) \<and> appended L i (w_db w) new (w_db w') \<and> attempts_recorded kind sat a new
      \<and> length new \<le> left \<and> outcome_recorded show_error left before res err new"
proof (induction left arbitrary: a before w)
  case 0
  then show ?case
    by (auto simp: appended_def outcome_recorded_def)
next
  case (Suc left)
  let ?k = "if a = 1 then kind else TkRetry"
  obtain rb w1 where b: "on_db env (\<lambda>now. begin_execution now i (sch_organization_id s) ?k a sat) w = (rb, w1)"
    by (cases "on_db env (\<lambda>now. begin_execution now i (sch_organization_id s) ?k a sat) w")
  obtain n where n: "rb = Ok n" "\<And>w2 st msg out err rf w3. keeps L i (w_db w1) (w_db w2) \<Longrightarrow>
      on_db env (\<lambda>now. finish_execution now n st msg out err) w2 = (rf, w3) \<Longrightarrow>
      rf = Ok () \<and> (\<exists>x. attempt_row ?k a sat st msg x \<and> appended L i (w_db w) [x] (w_db w3))"
    by (rule attempt_step [OF u Suc.prems(1,2) b]) (rule that; blast)
  obtain ro w2 where ro: "run_once env s w1 = (ro, w2)" by (cases "run_once env s w1")
  have k: "keeps L i (w_db w1) (w_db w2)" using keeps_run_once [OF u, of w1 s] by (simp add: ro)
  show ?case
  proof (cases ro)
    case (Inr res)
    obtain rf w3 where f: "on_db env (\<lambda>now. finish_execution now n XsSucceeded (Some (rr_message res))
        (rr_stdout res) (rr_stderr res)) w2 = (rf, w3)"
      by (cases "on_db env (\<lambda>now. finish_execution now n XsSucceeded (Some (rr_message res))
        (rr_stdout res) (rr_stderr res)) w2")
    have rw: "r = Ok (Some res, before)" "w' = w3"
      using Suc.prems(3) n(2) [OF k f] by (simp_all add: i b n(1) ro Inr f seq_ok_def)
    obtain x where "attempt_row ?k a sat XsSucceeded (Some (rr_message res)) x" "appended L i (w_db w) [x] (w_db w3)"
      using n(2) [OF k f] by blast
    then show ?thesis
      by (intro exI [of _ "[x]"] exI [of _ "Some res"] exI [of _ before])
        (simp add: rw attempts_recorded_Cons attempt_row_def outcome_recorded_def execution_status_as_str_def)
  next
    case (Inl e)
    let ?m = "show_error e"
    obtain rf w3 where f: "on_db env (\<lambda>now. finish_execution now n XsFailed (Some ?m) None (Some ?m)) w2 = (rf, w3)"
      by (cases "on_db env (\<lambda>now. finish_execution now n XsFailed (Some ?m) None (Some ?m)) w2")
    let ?w4 = "if a \<le> srp_retry_count p then wait env (nat (srp_retry_delay_seconds p)) w3 else w3"
    obtain x where x: "attempt_row ?k a sat XsFailed (Some ?m) x" "appended L i (w_db w) [x] (w_db w3)"
      using n(2) [OF k f] by blast
    have step: "run_attempts show_error env s p kind sat (a + 1) left (Some e) ?w4 = (r, w')"
      using Suc.prems(3) n(2) [OF k f] by (simp add: i b n(1) ro Inl f seq_ok_def Let_def)
    have k4: "keeps L i (w_db w3) (w_db ?w4)" by (simp add: keeps_wait [OF u])
    have kb: "keys_bounded i (w_db w3)" using x(2) by (simp add: appended_def)
    have "keys_bounded i (w_db ?w4)" by (rule keys_bounded_keeps [OF k4 kb])
    moreover have "schedule_by_id i (w_db ?w4) \<noteq> None"
      using k4 x(2) Suc.prems(2) by (simp add: keeps_def appended_def)
    ultimately obtain new res err where new: "r = Ok (res, err)" "appended L i (w_db ?w4) new (w_db w')"
      "attempts_recorded kind sat (a + 1) new" "length new \<le> left" "outcome_recorded show_error left (Some e) res err new"
      using Suc.IH [OF _ _ step] by blast
    have "appended L i (w_db w) (x # new) (w_db w')"
      using appended_trans [OF x(2) appended_keeps [OF kb k4 new(2)]] by simp
    moreover have "outcome_recorded show_error (Suc left) before res err (x # new)"
      using new(5) x(1) by (auto simp: outcome_recorded_def attempt_row_def execution_status_as_str_def split: option.splits if_splits)
    ultimately show ?thesis
      using new x(1) by (intro exI [of _ "x # new"] exI [of _ res] exI [of _ err])
        (simp add: attempts_recorded_Cons attempt_row_def execution_status_as_str_def)
  qed
qed

section \<open>A whole run\<close>

lemma read_db_eq: "read_db env f w = (f (w_db (wait env 0 w)), wait env 0 w)"
  by (simp add: read_db_def on_db_def Let_def)

lemma on_db_snd:
  assumes "on_db env f w = (r, w')"
  shows "w_db w' = snd (f (w_clock (wait env 0 w)) (w_db (wait env 0 w)))"
    "r = fst (f (w_clock (wait env 0 w)) (w_db (wait env 0 w)))" "w_clock w \<le> w_clock w'"
  using on_db_world [of env f w] fst_on_db [of env f w] assms by simp_all

lemma undisturbed_False: "undisturbed L env i \<Longrightarrow> undisturbed False env i"
  by (simp add: undisturbed_def keeps_def)

text \<open>With the schedule in the table, the lock is either obtained or not: there is no error.\<close>

definition lock_outcome :: "bool \<Rightarrow> concurrency_policy \<Rightarrow> int \<Rightarrow> string \<Rightarrow> sched_db \<Rightarrow> bool \<Rightarrow> sched_db \<Rightarrow> bool" where
  "lock_outcome L conc i owner d got d' = (keeps False i d d'
     \<and> (L \<longrightarrow> locks_wf d \<longrightarrow> locks_wf d' \<and> (lock_of i d = None \<longrightarrow>
          got \<and> map_option lk_owner_id (lock_of i d') = (if conc = ConcAllow then None else Some owner))))"

lemma acquire_outcome:
  assumes u: "undisturbed L env i" and ex: "schedule_by_id i (w_db w) \<noteq> None"
    and a: "on_db env (\<lambda>_. acquire t i owner lease) w = (r, w')"
  shows "\<exists>got. r = Ok got \<and> keeps False i (w_db w) (w_db w')
     \<and> (L \<longrightarrow> locks_wf (w_db w) \<longrightarrow> locks_wf (w_db w') \<and> (lock_of i (w_db w) = None \<longrightarrow>
          got \<and> map_option lk_owner_id (lock_of i (w_db w')) = Some owner))"
proof -
  let ?d = "w_db (wait env 0 w)"
  have k: "keeps L i (w_db w) ?d" by (rule keeps_wait [OF u])
  have ex: "schedule_exists i ?d" using ex schedule_by_id_exists [of i ?d] keepsD(1) [OF k] by auto
  have w': "w_db w' = snd (acquire t i owner lease ?d)" "r = fst (acquire t i owner lease ?d)"
    using on_db_snd [OF a] by simp_all
  have kf: "keeps False i (w_db w) (w_db w')"
    unfolding w'(1) by (rule keeps_trans [OF keeps_wait [OF undisturbed_False [OF u]] keeps_acquire])
  have "\<exists>got. r = Ok got \<and> (lock_of i ?d = None \<longrightarrow> got)"
    using ex by (auto simp: w'(2) acquire_def Let_def split: option.splits)
  then obtain got where got: "r = Ok got" "lock_of i ?d = None \<longrightarrow> got" by (elim exE conjE)
  have own: "lock_of i ?d = None \<Longrightarrow> map_option lk_owner_id (lock_of i (w_db w')) = Some owner"
    using acquire_lock_of [OF ex, of i t owner lease] by (simp add: w'(1) lease_view_def)
  have wf: "locks_wf ?d \<Longrightarrow> locks_wf (w_db w')"
    unfolding w'(1) by (rule acquire_wf)
  show ?thesis
    by (intro exI [of _ got] conjI impI got(1) kf wf got(2) [rule_format] own) (simp_all add: keepsD(5,6) [OF k])
qed

lemma queue_outcome:
  assumes u: "undisturbed L env i"
  shows "schedule_by_id i (w_db w) \<noteq> None \<Longrightarrow> \<exists>got w'. queue_for_lock env i owner lease deadline w = Some (Ok got, w')
     \<and> lock_outcome L ConcQueue i owner (w_db w) got (w_db w')"
proof (induction "nat (deadline - w_clock w)" arbitrary: w rule: less_induct)
  case less
  obtain a w1 where a: "on_db env (\<lambda>_. acquire (w_clock w) i owner lease) w = (a, w1)"
    by (cases "on_db env (\<lambda>_. acquire (w_clock w) i owner lease) w")
  obtain got where got: "a = Ok got" "keeps False i (w_db w) (w_db w1)"
    "L \<longrightarrow> locks_wf (w_db w) \<longrightarrow> locks_wf (w_db w1) \<and> (lock_of i (w_db w) = None \<longrightarrow>
          got \<and> map_option lk_owner_id (lock_of i (w_db w1)) = Some owner)"
    using acquire_outcome [OF u less.prems a] by (elim exE conjE)
  show ?case
  proof (cases "got \<or> deadline \<le> w_clock w1")
    case True
    then have q: "queue_for_lock env i owner lease deadline w = Some (Ok got, w1)"
      by (subst queue_for_lock.simps) (auto simp: a got(1))
    have lo: "lock_outcome L ConcQueue i owner (w_db w) got (w_db w1)"
      using got(2,3) by (simp add: lock_outcome_def)
    show ?thesis by (intro exI conjI) (rule q, rule lo)
  next
    case False
    let ?w2 = "wait env 1 w1"
    have k: "keeps L i (w_db w1) (w_db ?w2)" by (rule keeps_wait [OF u])
    have ex: "schedule_by_id i (w_db ?w2) \<noteq> None"
      unfolding keepsD(1) [OF k] keepsD(1) [OF got(2)] by (rule less.prems)
    have "nat (deadline - w_clock ?w2) < nat (deadline - w_clock w)"
      using False on_db_snd(3) [OF a] by simp
    from less.hyps [OF this ex] obtain got' w' where w': "queue_for_lock env i owner lease deadline ?w2 = Some (Ok got', w')"
      "lock_outcome L ConcQueue i owner (w_db ?w2) got' (w_db w')"
      by (elim exE conjE)
    have q: "queue_for_lock env i owner lease deadline w = Some (Ok got', w')"
      using False w'(1) by (subst queue_for_lock.simps) (simp add: a got(1))
    have "keeps False i (w_db ?w2) (w_db w')" using w'(2) by (simp add: lock_outcome_def)
    then have "keeps False i (w_db w) (w_db w')"
      by (rule keeps_trans [OF got(2) keeps_trans [OF keeps_wait [OF undisturbed_False [OF u]]]])
    then have lo: "lock_outcome L ConcQueue i owner (w_db w) got' (w_db w')"
      using w'(2) got(3) keepsD(6) [OF k] False unfolding lock_outcome_def by (intro conjI impI; simp)
    show ?thesis by (intro exI conjI) (rule q, rule lo)
  qed
qed

lemma obtain_lock_outcome:
  assumes u: "undisturbed L env i" and ex: "schedule_by_id i (w_db w) \<noteq> None"
  shows "\<exists>got w'. obtain_lock env conc i owner lease w = Some (Ok got, w')
     \<and> lock_outcome L conc i owner (w_db w) got (w_db w') \<and> (conc = ConcAllow \<longrightarrow> got)"
proof (cases conc)
  case ConcSkip
  obtain a w1 where a: "on_db env (\<lambda>_. acquire (w_clock w) i owner lease) w = (a, w1)"
    by (cases "on_db env (\<lambda>_. acquire (w_clock w) i owner lease) w")
  obtain got where got: "a = Ok got" "keeps False i (w_db w) (w_db w1)"
    "L \<longrightarrow> locks_wf (w_db w) \<longrightarrow> locks_wf (w_db w1) \<and> (lock_of i (w_db w) = None \<longrightarrow>
          got \<and> map_option lk_owner_id (lock_of i (w_db w1)) = Some owner)"
    using acquire_outcome [OF u ex a] by (elim exE conjE)
  then show ?thesis
    by (intro exI [of _ got] exI [of _ w1]) (simp add: ConcSkip obtain_lock_def a lock_outcome_def)
next
  case ConcQueue
  then show ?thesis
    using queue_outcome [OF u ex, of owner lease "w_clock w + lease"] by (simp add: obtain_lock_def)
next
  case ConcAllow
  then show ?thesis by (auto simp: obtain_lock_def lock_outcome_def)
qed

lemma mark_scheduled_frame:
  assumes "mark_scheduled now i sat d = (r, d')"
  shows "r = Ok ()" "schedule_by_id i d' = schedule_by_id i d" "runs_of i d' = runs_of i d"
    "keys_bounded i d' = keys_bounded i d" "locks d' = locks d"
    "policy_of i d' = map_option (\<lambda>q. q\<lparr>srp_last_scheduled_at := Some sat, srp_updated_at := now\<rparr>) (policy_of i d)"
proof -
  let ?f = "\<lambda>q. q\<lparr>srp_last_scheduled_at := Some sat, srp_updated_at := now\<rparr>"
  have "find (\<lambda>p. srp_schedule_id p = i) (update_where (\<lambda>p. srp_schedule_id p = i) ?f rows)
     = map_option ?f (find (\<lambda>p. srp_schedule_id p = i) rows)" for rows
    by (induction rows) (auto simp: update_where_def)
  then show "policy_of i d' = map_option ?f (policy_of i d)"
    using assms by (auto simp: mark_scheduled_def policy_of_def)
qed (use assms in \<open>auto simp: mark_scheduled_def schedule_by_id_def runs_of_def keys_bounded_def\<close>)

lemma drop_lock_outcome:
  assumes u: "undisturbed L env i"
  shows "keeps False i (w_db w) (w_db (drop_lock env conc i owner w))
    \<and> (L \<longrightarrow> locks_wf (w_db w) \<longrightarrow> locks_wf (w_db (drop_lock env conc i owner w))
       \<and> (map_option lk_owner_id (lock_of i (w_db w)) = (if conc = ConcAllow then None else Some owner)
          \<longrightarrow> lock_of i (w_db (drop_lock env conc i owner w)) = None))"
proof (cases "conc = ConcAllow")
  case False
  let ?d = "w_db (wait env 0 w)"
  have k: "keeps L i (w_db w) ?d" by (rule keeps_wait [OF u])
  have d': "w_db (drop_lock env conc i owner w) = snd (release i owner ?d)"
    using False by (simp add: drop_lock_def on_db_world)
  have "keeps False i (w_db w) (snd (release i owner ?d))"
    by (rule keeps_trans [OF keeps_wait [OF undisturbed_False [OF u]] keeps_release])
  moreover have "L \<Longrightarrow> locks_wf (w_db w) \<Longrightarrow> locks_wf (snd (release i owner ?d))"
    by (rule release_wf) (rule keepsD(6) [OF k])
  moreover have "L \<Longrightarrow> locks_wf (w_db w) \<Longrightarrow> map_option lk_owner_id (lock_of i (w_db w)) = Some owner \<Longrightarrow>
      lock_of i (snd (release i owner ?d)) = None"
    using release_lock_of [OF keepsD(6) [OF k], of i i owner] keepsD(5) [OF k] by simp
  ultimately show ?thesis unfolding d' using False by simp
qed (simp add: drop_lock_def)

lemma conclude_world [simp]: "w_db (snd (conclude show_error s p res err w)) = w_db w"
  by (simp add: conclude_def notify_schedule_def Let_def split: option.splits)

lemma conclude_result:
  "fst (conclude show_error s p res err w) =
     (case res of Some x \<Rightarrow> Ok x | None \<Rightarrow> Err (unwrap_or err (Protocol ''schedule execution failed'')))"
  by (simp add: conclude_def Let_def split: option.splits)

definition run_recorded ::
  "(sql_error \<Rightarrow> string) \<Rightarrow> schedule_runtime_policy \<Rightarrow> schedule_trigger_kind \<Rightarrow> int \<Rightarrow> int \<Rightarrow> sched_db
   \<Rightarrow> schedule_run_result sqlx \<Rightarrow> schedule_execution list \<Rightarrow> sched_db \<Rightarrow> bool" where
  "run_recorded show_error p kind sat i d r new d' =
     (runs_of i d' = runs_of i d @ new \<and> attempts_recorded kind sat 1 new \<and> length new \<le> nat (srp_retry_count p + 1)
      \<and> (\<exists>res err. r = (case res of Some x \<Rightarrow> Ok x | None \<Rightarrow> Err (unwrap_or err (Protocol ''schedule execution failed'')))
           \<and> outcome_recorded show_error (nat (srp_retry_count p + 1)) None res err new)
      \<and> keys_bounded i d' \<and> schedule_by_id i d' = schedule_by_id i d
      \<and> (\<exists>now. policy_of i d' = map_option (\<lambda>q. q\<lparr>srp_last_scheduled_at := Some sat, srp_updated_at := now\<rparr>) (policy_of i d)))"

lemma run_locked_rows:
  assumes u: "undisturbed L env i" and kb: "keys_bounded i (w_db w)"
    and s: "schedule_by_id i (w_db w) = Some s" "sch_enabled s \<noteq> 0"
    and run: "run_locked show_error env p conc owner i kind sat w = (r, w')"
  shows "(\<exists>new. run_recorded show_error p kind sat i (w_db w) r new (w_db w'))
     \<and> (L \<longrightarrow> locks_wf (w_db w) \<longrightarrow> locks_wf (w_db w')
       \<and> (map_option lk_owner_id (lock_of i (w_db w)) = (if conc = ConcAllow then None else Some owner)
          \<longrightarrow> lock_of i (w_db w') = None))"
proof -
  let ?w1 = "wait env 0 w"
  have k: "keeps L i (w_db w) (w_db (wait env 0 ?w1))" by (rule keeps_trans [OF keeps_wait [OF u] keeps_wait [OF u]])
  have s1: "schedule_by_id i (w_db ?w1) = Some s" using keepsD(1) [OF keeps_wait [OF u]] s by simp
  obtain rm w2 where m: "on_db env (\<lambda>now. mark_scheduled now i sat) ?w1 = (rm, w2)"
    by (cases "on_db env (\<lambda>now. mark_scheduled now i sat) ?w1")
  obtain now where mk: "mark_scheduled now i sat (w_db (wait env 0 ?w1)) = (rm, w_db w2)"
    using on_db_snd(1,2) [OF m] by (metis prod.collapse)
  note mf = mark_scheduled_frame [OF mk]
  have kb2: "keys_bounded i (w_db w2)" using mf(4) keys_bounded_keeps [OF k kb] by simp
  have s2: "schedule_by_id i (w_db w2) = Some s" using mf(2) keepsD(1) [OF k] s by simp
  have lk: "lock_of i (w_db w2) = lock_of i (w_db (wait env 0 ?w1))" "locks_wf (w_db w2) = locks_wf (w_db (wait env 0 ?w1))"
    by (simp_all add: lock_of_def locks_wf_def mf(5))
  obtain ra w3 where a: "run_attempts show_error env s p kind sat 1 (nat (srp_retry_count p + 1)) None w2 = (ra, w3)"
    by (cases "run_attempts show_error env s p kind sat 1 (nat (srp_retry_count p + 1)) None w2")
  have sid: "sch_id s = i" using schedule_by_id_exists [OF s(1)] by simp
  obtain new res err where n: "ra = Ok (res, err)" "appended L i (w_db w2) new (w_db w3)"
    "attempts_recorded kind sat 1 new" "length new \<le> nat (srp_retry_count p + 1)"
    "outcome_recorded show_error (nat (srp_retry_count p + 1)) None res err new"
    using run_attempts_rows [OF u sid kb2 _ a] s2 by auto
  have ap: "runs_of i (w_db w3) = runs_of i (w_db w2) @ new" "keys_bounded i (w_db w3)"
    "schedule_by_id i (w_db w3) = schedule_by_id i (w_db w2)" "policy_of i (w_db w3) = policy_of i (w_db w2)"
    "L \<Longrightarrow> lock_of i (w_db w3) = lock_of i (w_db w2)" "L \<Longrightarrow> locks_wf (w_db w2) \<Longrightarrow> locks_wf (w_db w3)"
    using n(2) by (simp_all add: appended_def)
  have fin: "conclude show_error s p res err (drop_lock env conc i owner w3) = (r, w')"
    using run s(2) by (simp add: run_locked_def read_db_eq s1 m mf(1) a n(1) seq_ok_def)
  have w': "w_db w' = w_db (drop_lock env conc i owner w3)"
    using conclude_world [of show_error s p res err "drop_lock env conc i owner w3"] by (simp add: fin)
  have r: "r = (case res of Some x \<Rightarrow> Ok x | None \<Rightarrow> Err (unwrap_or err (Protocol ''schedule execution failed'')))"
    using conclude_result [of show_error s p res err "drop_lock env conc i owner w3"] by (simp add: fin)
  have dk: "keeps False i (w_db w3) (w_db w')" using drop_lock_outcome [OF u] by (simp add: w')
  have pol: "policy_of i (w_db w') = map_option (\<lambda>q. q\<lparr>srp_last_scheduled_at := Some sat, srp_updated_at := now\<rparr>) (policy_of i (w_db w))"
    using keepsD(2) [OF dk] ap(4) mf(6) keepsD(2) [OF k] by simp
  have rr: "run_recorded show_error p kind sat i (w_db w) r new (w_db w')"
    unfolding run_recorded_def
    by (intro conjI exI, rule keepsD(3) [OF dk, unfolded ap(1) mf(3) keepsD(3) [OF k]], rule n(3), rule n(4),
        rule r, rule n(5), rule keys_bounded_keeps [OF dk ap(2)],
        rule keepsD(1) [OF dk, unfolded ap(3) mf(2) keepsD(1) [OF k]], rule pol)
  have "L \<Longrightarrow> locks_wf (w_db w) \<Longrightarrow> locks_wf (w_db w3)" by (simp add: ap(6) lk(2) keepsD(6) [OF k])
  moreover have "L \<Longrightarrow> lock_of i (w_db w3) = lock_of i (w_db w)" by (simp add: ap(5) lk(1) keepsD(5) [OF k])
  ultimately show ?thesis
    using rr drop_lock_outcome [OF u, of w3 conc owner] unfolding w' by (intro conjI exI impI; simp)
qed

definition run_skipped ::
  "schedule_trigger_kind \<Rightarrow> int \<Rightarrow> int \<Rightarrow> sched_db \<Rightarrow> schedule_run_result sqlx \<Rightarrow> sched_db \<Rightarrow> bool" where
  "run_skipped kind sat i d r d' = (r = Err (Protocol ''schedule skipped by concurrency policy'')
     \<and> (\<exists>x. attempt_row kind 1 sat XsSkipped (Some ''previous execution is still active'') x \<and> appended False i d [x] d'))"

lemma record_skip_rows:
  assumes u: "undisturbed L env i" and kb: "keys_bounded i (w_db w)" and s: "schedule_by_id i (w_db w) \<noteq> None"
    and sid: "sch_id s = i" and run: "record_skip env s kind sat w = (r, w')"
  shows "run_skipped kind sat i (w_db w) r (w_db w')"
proof -
  obtain rb w1 where b: "on_db env (\<lambda>now. begin_execution now i (sch_organization_id s) kind 1 sat) w = (rb, w1)"
    by (cases "on_db env (\<lambda>now. begin_execution now i (sch_organization_id s) kind 1 sat) w")
  obtain n where n: "rb = Ok n" "\<And>w2 st msg out err rf w3. keeps False i (w_db w1) (w_db w2) \<Longrightarrow>
      on_db env (\<lambda>now. finish_execution now n st msg out err) w2 = (rf, w3) \<Longrightarrow>
      rf = Ok () \<and> (\<exists>x. attempt_row kind 1 sat st msg x \<and> appended False i (w_db w) [x] (w_db w3))"
    by (rule attempt_step [OF undisturbed_False [OF u] kb s b]) (rule that; blast)
  obtain rf w3 where f: "on_db env (\<lambda>now. finish_execution now n XsSkipped (Some ''previous execution is still active'') None None) w1 = (rf, w3)"
    by (cases "on_db env (\<lambda>now. finish_execution now n XsSkipped (Some ''previous execution is still active'') None None) w1")
  show ?thesis
    using n(2) [OF keeps_refl f] run by (simp add: record_skip_def sid b n(1) f seq_ok_def run_skipped_def)
qed

lemma policy_texts:
  "concurrency_policy_try_from ''SKIP'' = Ok ConcSkip" "concurrency_policy_try_from ''QUEUE'' = Ok ConcQueue"
  "concurrency_policy_try_from ''ALLOW'' = Ok ConcAllow" "missed_run_policy_try_from ''RUN_ONCE'' = Ok MissedRunOnce"
  by code_simp+

lemma concurrency_policy_checked:
  "policy_checks p \<Longrightarrow> \<exists>conc. concurrency_policy_try_from (srp_concurrency_policy p) = Ok conc"
  by (auto simp: policy_checks_def policy_texts)

lemma run_with_policy_rows:
  assumes u: "undisturbed L env i" and kb: "keys_bounded i (w_db w)"
    and s: "schedule_by_id i (w_db w) = Some s" "sch_enabled s \<noteq> 0"
    and p: "policy_of i (w_db w) = Some p" "policy_checks p"
  shows "\<exists>r w'. run_with_policy show_error env owner i kind sat w = Some (r, w')
     \<and> ((\<exists>new. run_recorded show_error p kind sat i (w_db w) r new (w_db w')) \<or> run_skipped kind sat i (w_db w) r (w_db w'))
     \<and> (L \<longrightarrow> locks_wf (w_db w) \<longrightarrow> lock_of i (w_db w) = None \<longrightarrow>
          (\<exists>new. run_recorded show_error p kind sat i (w_db w) r new (w_db w'))
          \<and> locks_wf (w_db w') \<and> lock_of i (w_db w') = None)"
proof -
  let ?w1 = "wait env 0 w" and ?w2 = "wait env 0 (wait env 0 w)"
  have k1: "keeps L i (w_db w) (w_db ?w1)" by (rule keeps_wait [OF u])
  have k2: "keeps L i (w_db w) (w_db ?w2)" by (rule keeps_trans [OF k1 keeps_wait [OF u]])
  have pol: "on_db env (\<lambda>now. runtime_policy now i) ?w1 = (Ok p, ?w2)"
    using keepsD(2) [OF k2] p(1) by (simp add: on_db_def Let_def runtime_policy_def)
  obtain conc where conc: "concurrency_policy_try_from (srp_concurrency_policy p) = Ok conc"
    using concurrency_policy_checked [OF p(2)] by blast
  have s2: "schedule_by_id i (w_db ?w2) \<noteq> None" using keepsD(1) [OF k2] s by simp
  obtain got w3 where g: "obtain_lock env conc i owner (srp_lease_seconds p) ?w2 = Some (Ok got, w3)"
    "lock_outcome L conc i owner (w_db ?w2) got (w_db w3)"
    using obtain_lock_outcome [OF u s2, of conc owner "srp_lease_seconds p"] by (elim exE conjE)
  have k3: "keeps False i (w_db ?w2) (w_db w3)" using g(2) by (simp add: lock_outcome_def)
  have k: "keeps False i (w_db w) (w_db w3)" 
    by (rule keeps_trans [OF _ k3]) (rule keeps_trans [OF keeps_wait keeps_wait]; rule undisturbed_False [OF u])
  have kb3: "keys_bounded i (w_db w3)" by (rule keys_bounded_keeps [OF k kb])
  have s3: "schedule_by_id i (w_db w3) = Some s" using keepsD(1) [OF k] s by simp
  have run: "run_with_policy show_error env owner i kind sat w =
      Some (if got then run_locked show_error env p conc owner i kind sat w3 else record_skip env s kind sat w3)"
    using s keepsD(1) [OF k1]
    by (simp add: run_with_policy_def read_db_eq schedule_get_def pol conc g(1) split: bool.splits)
  have free: "L \<Longrightarrow> locks_wf (w_db w) \<Longrightarrow> lock_of i (w_db w) = None \<Longrightarrow> locks_wf (w_db w3) \<and> got
      \<and> map_option lk_owner_id (lock_of i (w_db w3)) = (if conc = ConcAllow then None else Some owner)"
    using g(2) keepsD(5,6) [OF k2] by (simp add: lock_outcome_def)
  show ?thesis
  proof (cases got)
    case True
    obtain r w' where rl: "run_locked show_error env p conc owner i kind sat w3 = (r, w')"
      by (cases "run_locked show_error env p conc owner i kind sat w3")
    note rows = run_locked_rows [OF u kb3 s3 s(2) rl]
    then obtain new where "run_recorded show_error p kind sat i (w_db w3) r new (w_db w')" by blast
    then have "run_recorded show_error p kind sat i (w_db w) r new (w_db w')"
      unfolding run_recorded_def keepsD(1-3) [OF k] .
    then show ?thesis
      using run True rl rows free by (intro exI [of _ r] exI [of _ w']) auto
  next
    case False
    obtain r w' where rl: "record_skip env s kind sat w3 = (r, w')" by (cases "record_skip env s kind sat w3")
    have "sch_id s = i" using schedule_by_id_exists [OF s(1)] by simp
    from record_skip_rows [OF u kb3 _ this rl] s3
    have "run_skipped kind sat i (w_db w3) r (w_db w')" by simp
    then have "run_skipped kind sat i (w_db w) r (w_db w')"
      unfolding run_skipped_def appended_def keepsD(1-3) [OF k] by simp
    then show ?thesis
      using run False rl free by (intro exI [of _ r] exI [of _ w']) auto
  qed
qed

section \<open>Time only moves forward\<close>

lemma clock_executor_for: "w_clock w \<le> w_clock (snd (executor_for env srv w))"
  by (simp add: executor_for_def split: option.splits)

lemma clock_on_db: "w_clock w \<le> w_clock (snd (on_db env f w))"
  by (simp add: on_db_world)

lemma clock_run_shell: "w_clock w \<le> w_clock (snd (run_shell_schedule env s w))"
  using clock_executor_for [of w env "sch_server_id s"]
  by (auto simp: run_shell_schedule_def split: sum.splits prod.splits)

lemma clock_run_container: "w_clock w \<le> w_clock (snd (run_container_command env s srv labels miss msg w))"
  using clock_executor_for [of w env srv]
  by (auto simp: run_container_command_def Let_def split: sum.splits prod.splits option.splits)

lemma clock_run_application: "w_clock w \<le> w_clock (snd (run_application_schedule env s w))"
  by (auto simp: run_application_schedule_def read_db_eq run_swarm_container_command_def snd_seq_ok_pure case_prod_beta
      intro: order_trans [OF _ clock_run_container] clock_on_db split: sum.splits option.splits)

lemma clock_run_compose: "w_clock w \<le> w_clock (snd (run_compose_schedule env s w))"
  by (auto simp: run_compose_schedule_def read_db_eq run_swarm_container_command_def snd_seq_ok_pure case_prod_beta
      run_compose_project_container_command_def Let_def
      intro: order_trans [OF _ clock_run_container] clock_on_db split: sum.splits option.splits compose_type.splits)

lemma clock_run_once: "w_clock w \<le> w_clock (snd (run_once env s w))"
  by (simp add: run_once_def clock_run_application clock_run_compose clock_run_shell split: schedule_type.splits)

lemma clock_seq_ok:
  "w_clock w \<le> w_clock (snd r) \<Longrightarrow> (\<And>x w1. w_clock w1 \<le> w_clock (snd (k x w1))) \<Longrightarrow>
   w_clock w \<le> w_clock (snd (seq_ok r k))"
  by (auto simp: seq_ok_def intro: order_trans split: prod.splits sum.splits)

lemma clock_run_attempts:
  "w_clock w \<le> w_clock (snd (run_attempts show_error env s p kind sat a left before w))"
proof (induction left arbitrary: a before w)
  case (Suc left)
  have step: "w_clock w1 \<le> w_clock (snd (case run_once env s w1 of
       (Inr result, w2) \<Rightarrow> seq_ok (on_db env (\<lambda>now. finish_execution now n XsSucceeded (Some (rr_message result))
           (rr_stdout result) (rr_stderr result)) w2) (\<lambda>_ w2. (Ok (Some result, before), w2))
     | (Inl e, w2) \<Rightarrow> (let m = show_error e in
          seq_ok (on_db env (\<lambda>now. finish_execution now n XsFailed (Some m) None (Some m)) w2) (\<lambda>_ w2.
            run_attempts show_error env s p kind sat (a + 1) left (Some e)
              (if a \<le> srp_retry_count p then wait env (nat (srp_retry_delay_seconds p)) w2 else w2)))))" for n w1
  proof -
    obtain ro w2 where ro: "run_once env s w1 = (ro, w2)" by (cases "run_once env s w1")
    have le: "w_clock w1 \<le> w_clock w2" using clock_run_once [of w1 env s] by (simp add: ro)
    have tail: "w_clock w3 \<le> w_clock (snd (run_attempts show_error env s p kind sat (a + 1) left (Some e)
        (if a \<le> srp_retry_count p then wait env (nat (srp_retry_delay_seconds p)) w3 else w3)))" for e w3
      by (rule order_trans [OF _ Suc.IH]) simp
    show ?thesis
      by (cases ro) (auto simp: ro Let_def intro!: clock_seq_ok tail order_trans [OF le clock_on_db])
  qed
  show ?case by (simp only: run_attempts.simps) (rule clock_seq_ok [OF clock_on_db step])
qed simp

lemma clock_queue_for_lock:
  "queue_for_lock env i owner lease deadline w = Some (r, w') \<Longrightarrow> w_clock w \<le> w_clock w'"
proof (induction "nat (deadline - w_clock w)" arbitrary: w rule: less_induct)
  case less
  obtain a w1 where a: "on_db env (\<lambda>_. acquire (w_clock w) i owner lease) w = (a, w1)"
    by (cases "on_db env (\<lambda>_. acquire (w_clock w) i owner lease) w")
  note le = on_db_snd(3) [OF a]
  have "w_clock w \<le> w_clock w'"
    if "\<not> deadline \<le> w_clock w1" "queue_for_lock env i owner lease deadline (wait env 1 w1) = Some (r, w')"
    using less.hyps [of "wait env 1 w1"] that le by simp
  then show ?case
    using less.prems le by (subst (asm) queue_for_lock.simps) (auto simp: a split: sum.splits if_splits)
qed

lemma clock_obtain_lock:
  "obtain_lock env conc i owner lease w = Some (r, w') \<Longrightarrow> w_clock w \<le> w_clock w'"
  using clock_queue_for_lock by (cases conc) (auto simp: obtain_lock_def dest: on_db_snd(3))

lemma clock_drop_lock: "w_clock w \<le> w_clock (drop_lock env conc i owner w)"
  by (simp add: drop_lock_def clock_on_db)

lemma clock_conclude: "w_clock (snd (conclude show_error s p res err w)) = w_clock w"
  by (simp add: conclude_def notify_schedule_def Let_def split: option.splits)

lemma clock_run_locked: "w_clock w \<le> w_clock (snd (run_locked show_error env p conc owner i kind sat w))"
  by (auto simp: run_locked_def read_db_eq clock_conclude case_prod_beta
      intro!: order_trans [OF _ clock_drop_lock] clock_seq_ok clock_run_attempts order_trans [OF _ clock_on_db]
      split: option.splits)

lemma clock_record_skip: "w_clock w \<le> w_clock (snd (record_skip env s kind sat w))"
  unfolding record_skip_def by (intro clock_seq_ok clock_on_db) simp

lemma clock_run_with_policy:
  assumes "run_with_policy show_error env owner i kind sat w = Some (r, w')"
  shows "w_clock w \<le> w_clock w'"
proof -
  obtain rp w2 where p: "on_db env (\<lambda>now. runtime_policy now i) (wait env 0 w) = (rp, w2)"
    by (cases "on_db env (\<lambda>now. runtime_policy now i) (wait env 0 w)")
  have le: "w_clock w \<le> w_clock w2" using on_db_snd(3) [OF p] by simp
  show ?thesis
  proof (cases "\<exists>s p conc. schedule_get i (w_db (wait env 0 w)) = Ok s \<and> sch_enabled s \<noteq> 0 \<and> rp = Ok p
      \<and> concurrency_policy_try_from (srp_concurrency_policy p) = Ok conc")
    case True
    then obtain s q conc where g: "schedule_get i (w_db (wait env 0 w)) = Ok s" "sch_enabled s \<noteq> 0" "rp = Ok q"
      "concurrency_policy_try_from (srp_concurrency_policy q) = Ok conc"
      by (elim exE conjE)
    obtain g3 w3 where l: "obtain_lock env conc i owner (srp_lease_seconds q) w2 = Some (g3, w3)"
      using obtain_lock_total [of env conc i owner "srp_lease_seconds q" w2] by force
    have le3: "w_clock w \<le> w_clock w3" using le clock_obtain_lock [OF l] by simp
    have "w_clock w3 \<le> w_clock w'"
      using assms clock_run_locked [of w3 show_error env q conc owner i kind sat] clock_record_skip [of w3 env s kind sat]
      by (simp add: run_with_policy_def read_db_eq g p l split: sum.splits bool.splits)
    then show ?thesis using le3 by simp
  next
    case False
    then have "w' = wait env 0 w \<or> w' = w2"
      using assms by (simp add: run_with_policy_def read_db_eq p split: sum.splits if_splits)
    then show ?thesis using le by auto
  qed
qed

section \<open>Every run returns\<close>

lemma run_with_policy_total: "\<exists>r. run_with_policy show_error env owner i kind sat w = Some r"
proof -
  obtain rp w2 where p: "on_db env (\<lambda>now. runtime_policy now i) (wait env 0 w) = (rp, w2)"
    by (cases "on_db env (\<lambda>now. runtime_policy now i) (wait env 0 w)")
  have lock: "\<exists>g w3. obtain_lock env conc i owner l w2 = Some (g, w3)" for conc l
    using obtain_lock_total [of env conc i owner l w2] by auto
  show ?thesis
  proof (cases "\<exists>q conc. rp = Ok q \<and> concurrency_policy_try_from (srp_concurrency_policy q) = Ok conc")
    case True
    then obtain q conc where q: "rp = Ok q" "concurrency_policy_try_from (srp_concurrency_policy q) = Ok conc" by blast
    obtain g w3 where "obtain_lock env conc i owner (srp_lease_seconds q) w2 = Some (g, w3)" using lock by blast
    then show ?thesis
      by (simp add: run_with_policy_def read_db_eq p q split: sum.splits bool.splits)
  next
    case False
    then show ?thesis
      by (auto simp: run_with_policy_def read_db_eq p split: sum.splits)
  qed
qed

lemma recover_missed_total: "\<exists>r. recover_missed cr show_error env owner i cron w = Some r"
proof -
  have "run_with_policy show_error env owner i TkMissed x w1 \<noteq> None" for x w1
    using run_with_policy_total [of show_error env owner i TkMissed x w1] by auto
  then show ?thesis
    by (auto simp: recover_missed_def split: sum.splits option.splits missed_run_policy.splits prod.splits)
      (metis option.distinct(1))
qed

end
