(* ===== verification/ScheduleProps.thy ===== *)
theory ScheduleProps
  imports ScheduleLaws DeploymentProps
begin

text \<open>The properties of the scheduler, with their witnesses on a small panel.\<close>

section \<open>An example panel\<close>

definition example_schedule :: schedule_row where
  "example_schedule = \<lparr> sch_id = 1, sch_name = ''sweep'', sch_description = None, sch_cron_expression = ''* * * * *'',
     sch_app_name = ''sweep-1'', sch_service_name = None, sch_shell_type = ''SH'', sch_schedule_type = ''DOKPANEL-SERVER'',
     sch_schedule_action = ''EXEC'', sch_command = ''sweep'', sch_script = None, sch_timezone = None, sch_enabled = 1,
     sch_application_id = None, sch_compose_id = None, sch_server_id = None, sch_organization_id = Some 7,
     sch_created_at = 0, sch_updated_at = 0 \<rparr>"

definition example_policy :: schedule_runtime_policy where
  "example_policy = (default_policy 0 1)\<lparr>srp_retry_count := 2, srp_missed_run_policy := ''RUN_ONCE'',
     srp_last_scheduled_at := Some 0\<rparr>"

definition example_sched_db :: sched_db where
  "example_sched_db = \<lparr> schedules = [example_schedule], schedules_seq = 1, runtime_policies = [example_policy],
     executions = [], executions_seq = 0, locks = [], sched_organizations = [7],
     sched_panel = example_db declared_checks [] \<rparr>"

text \<open>The shell fails on its first call and works afterwards; no other task is active.\<close>

definition example_sched_env :: "(unit, unit, bool) sched_env" where
  "example_sched_env = \<lparr> se_channels = example_channels, se_queue_limit = None, se_mgmt = (\<lambda>_. (0, None)),
     se_base = ''/srv'', se_compose_type = (\<lambda>_. ''STACK''), se_remote = (\<lambda>_ _. False),
     se_shell = (\<lambda>n _ _ _. if n < 6 then Err ''exit 1'' else Ok (''done'', [])), se_ps = (\<lambda>_ _ _. Ok []),
     se_exec = (\<lambda>_ _ _ _ _. Err ''no container''), se_elapsed = (\<lambda>_. 0), se_others = (\<lambda>_ d. d) \<rparr>"

definition example_world :: "int \<Rightarrow> (unit, unit, bool) sched_world" where
  "example_world t = \<lparr> w_db = example_sched_db, w_registry = [], w_clock = t, w_calls = 0, w_outbox = [] \<rparr>"

definition example_cron :: cron_ops where
  "example_cron = \<lparr> cron_error = (\<lambda>_. None), cron_next = (\<lambda>_ t. Ok (t + 60)), valid_timestamp = (\<lambda>_. True) \<rparr>"

lemma example_undisturbed: "undisturbed L example_sched_env i"
  by (simp add: undisturbed_def example_sched_env_def)

section \<open>Runs\<close>

text \<open>
  C28. Waiting for the lock ends: whatever the other tasks do to the tables and however
  long each call takes, a run under any policy returns, and so does the recovery of a
  missed run.
\<close>

theorem scheduled_runs_terminate:
  "(\<exists>r. run_with_policy show_error env owner i kind sat w = Some r)
   \<and> (\<exists>r. recover_missed cr show_error env owner i cron w = Some r)"
  by (intro conjI run_with_policy_total recover_missed_total)



section \<open>The lock\<close>

text \<open>
  C30. The lock table implements leases: for any history of acquisitions, releases and
  passing time on existing schedules, the answers and the leases read off the table are
  those of a map from schedules to an owner and an expiry, in which acquiring succeeds
  exactly on a free or expired lease and releasing removes only the owner's own lease.
\<close>

theorem lock_table_refines_leases:
  assumes "locks_wf d" and "list_all (lock_op_on (\<lambda>i. schedule_exists i d)) ops"
    and "lock_run acquire release ops t d = (answers, t', d')"
  shows "lock_run lease_acquire lease_release ops t (lease_view d) = (answers, t', lease_view d')"
  using sched_lease.run_refines [OF assms] by blast

definition example_lock_ops :: "lock_op list" where
  "example_lock_ops = [LAcquire 1 ''a'' 60, LElapse 10, LAcquire 1 ''b'' 60, LElapse 60, LAcquire 1 ''c'' 60, LRelease 1 ''a'']"

theorem lock_table_refines_leases_witness:
  "fst (lock_run acquire release example_lock_ops 0 example_sched_db) = [Ok True, Ok False, Ok True]
   \<and> lock_run lease_acquire lease_release example_lock_ops 0 (lease_view example_sched_db)
     = (fst (lock_run acquire release example_lock_ops 0 example_sched_db), 70,
        lease_view (snd (snd (lock_run acquire release example_lock_ops 0 example_sched_db))))"
proof
  show "fst (lock_run acquire release example_lock_ops 0 example_sched_db) = [Ok True, Ok False, Ok True]" by code_simp
  have wf: "locks_wf example_sched_db" by code_simp
  have on: "list_all (lock_op_on (\<lambda>i. schedule_exists i example_sched_db)) example_lock_ops" by code_simp
  have "fst (snd (lock_run acquire release example_lock_ops 0 example_sched_db)) = 70" by code_simp
  then have "lock_run acquire release example_lock_ops 0 example_sched_db =
      (fst (lock_run acquire release example_lock_ops 0 example_sched_db), 70,
       snd (snd (lock_run acquire release example_lock_ops 0 example_sched_db)))"
    by (metis prod.collapse)
  then show "lock_run lease_acquire lease_release example_lock_ops 0 (lease_view example_sched_db)
     = (fst (lock_run acquire release example_lock_ops 0 example_sched_db), 70,
        lease_view (snd (snd (lock_run acquire release example_lock_ops 0 example_sched_db))))"
    by (rule lock_table_refines_leases [OF wf on])
qed

text \<open>
  C31. A lease excludes every other run: after an owner obtains the lock of a schedule, no
  acquisition of that lock succeeds before the lease has run out, in any history in which
  that owner does not release it.
\<close>

theorem lease_exclusion:
  assumes "locks_wf d" and "schedule_exists i d" and "acquire t i owner lease d = (Ok True, d1)"
    and "list_all (lock_op_on (\<lambda>j. schedule_exists j d)) ops" and "LRelease i owner \<notin> set ops"
    and "lock_run acquire release ops t d1 = (answers, t', d')"
    and "acquire t' i owner' lease' d' = (Ok True, d2)"
  shows "t + lease \<le> t'"
  by (rule sched_lease.exclusion [OF assms])

theorem lease_exclusion_witness:
  "fst (acquire 0 1 ''a'' 60 example_sched_db) = Ok True \<and> (0::int) + 60 \<le> 70"
proof
  define d1 where "d1 = snd (acquire 0 1 ''a'' 60 example_sched_db)"
  define d' where "d' = snd (snd (lock_run acquire release [LElapse 10, LAcquire 1 ''b'' 60, LElapse 60] 0 d1))"
  show a: "fst (acquire 0 1 ''a'' 60 example_sched_db) = Ok True" by code_simp
  have wf: "locks_wf example_sched_db" "schedule_exists 1 example_sched_db" by code_simp+
  have on: "list_all (lock_op_on (\<lambda>j. schedule_exists j example_sched_db)) [LElapse 10, LAcquire 1 ''b'' 60, LElapse 60]"
    by code_simp
  have acq: "acquire 0 1 ''a'' 60 example_sched_db = (Ok True, d1)" using a by (simp add: d1_def prod_eq_iff)
  have "fst (lock_run acquire release [LElapse 10, LAcquire 1 ''b'' 60, LElapse 60] 0 d1) = [Ok False]
      \<and> fst (snd (lock_run acquire release [LElapse 10, LAcquire 1 ''b'' 60, LElapse 60] 0 d1)) = 70"
    unfolding d1_def by code_simp
  then have run: "lock_run acquire release [LElapse 10, LAcquire 1 ''b'' 60, LElapse 60] 0 d1 = ([Ok False], 70, d')"
    by (simp add: d'_def prod_eq_iff)
  have "fst (acquire 70 1 ''c'' 60 d') = Ok True" unfolding d'_def d1_def by code_simp
  then have again: "acquire 70 1 ''c'' 60 d' = (Ok True, snd (acquire 70 1 ''c'' 60 d'))" by (simp add: prod_eq_iff)
  show "(0::int) + 60 \<le> 70"
    by (rule lease_exclusion [OF wf acq on _ run again]) simp
qed

section \<open>Missed runs\<close>

fun successive :: "cron_ops \<Rightarrow> string \<Rightarrow> int \<Rightarrow> int list \<Rightarrow> bool" where
  "successive cr cron t [] = True"
| "successive cr cron t (x # xs) = (valid_timestamp cr t \<and> cron_next cr cron t = Ok x \<and> successive cr cron x xs)"

text \<open>The recovery of one schedule at successive refreshes, thirty seconds apart, each with a fresh owner.\<close>

fun recoveries ::
  "cron_ops \<Rightarrow> (sql_error \<Rightarrow> string) \<Rightarrow> ('w, 'b, 't) sched_env \<Rightarrow> int \<Rightarrow> string \<Rightarrow> string list
   \<Rightarrow> ('w, 'b, 't) sched_world \<Rightarrow> ('w, 'b, 't) sched_world option" where
  "recoveries cr show_error env i cron [] w = Some w"
| "recoveries cr show_error env i cron (owner # owners) w =
     (case recover_missed cr show_error env owner i cron w of
        None \<Rightarrow> None
      | Some (_, w1) \<Rightarrow> recoveries cr show_error env i cron owners (wait env 30 w1))"

definition replay_ready :: "int \<Rightarrow> int \<Rightarrow> sched_db \<Rightarrow> bool" where
  "replay_ready i t d = (keys_bounded i d \<and> locks_wf d \<and> lock_of i d = None
     \<and> (case schedule_by_id i d of None \<Rightarrow> False | Some s \<Rightarrow> sch_enabled s \<noteq> 0)
     \<and> (case policy_of i d of None \<Rightarrow> False
        | Some p \<Rightarrow> policy_checks p \<and> srp_missed_run_policy p = ''RUN_ONCE'' \<and> srp_last_scheduled_at p = Some t))"

lemma replay_ready_keeps: "keeps True i d d' \<Longrightarrow> replay_ready i t d \<Longrightarrow> replay_ready i t d'"
  using keys_bounded_keeps [of True i d d'] by (simp add: replay_ready_def keepsD)

lemma recorded_nonempty:
  "run_recorded show_error p kind sat i d r new d' \<Longrightarrow> policy_checks p \<Longrightarrow> new \<noteq> []"
  by (auto simp: run_recorded_def outcome_recorded_def policy_checks_def split: option.splits)

lemma recover_missed_step:
  assumes u: "undisturbed True env i" and rdy: "replay_ready i t (w_db w)" and cron: "cron_error cr cron = None"
    and nxt: "valid_timestamp cr t" "cron_next cr cron t = Ok x" "x \<le> w_clock w"
  shows "\<exists>a w' new. recover_missed cr show_error env owner i cron w = Some (a, w')
     \<and> runs_of i (w_db w') = runs_of i (w_db w) @ new \<and> new \<noteq> [] \<and> attempts_recorded TkMissed x 1 new
     \<and> replay_ready i x (w_db w') \<and> w_clock w \<le> w_clock w'"
proof -
  let ?w1 = "wait env 0 w"
  have k: "keeps True i (w_db w) (w_db ?w1)" by (rule keeps_wait [OF u])
  have rdy1: "replay_ready i t (w_db ?w1)" by (rule replay_ready_keeps [OF k rdy])
  then obtain s p where sp: "schedule_by_id i (w_db ?w1) = Some s" "sch_enabled s \<noteq> 0"
    "policy_of i (w_db ?w1) = Some p" "policy_checks p" "srp_missed_run_policy p = ''RUN_ONCE''"
    "srp_last_scheduled_at p = Some t" "keys_bounded i (w_db ?w1)" "locks_wf (w_db ?w1)" "lock_of i (w_db ?w1) = None"
    by (auto simp: replay_ready_def split: option.splits)
  have pol: "on_db env (\<lambda>now. runtime_policy now i) w = (Ok p, ?w1)"
    using sp(3) by (simp add: on_db_def Let_def runtime_policy_def)
  obtain r w' new where run: "run_with_policy show_error env owner i TkMissed x ?w1 = Some (r, w')"
    "run_recorded show_error p TkMissed x i (w_db ?w1) r new (w_db w')" "locks_wf (w_db w')" "lock_of i (w_db w') = None"
    using run_with_policy_rows [OF u sp(7,1,2,3,4), of show_error owner TkMissed x] sp(8,9) by blast
  obtain now where rr: "runs_of i (w_db w') = runs_of i (w_db ?w1) @ new" "attempts_recorded TkMissed x 1 new"
    "keys_bounded i (w_db w')" "schedule_by_id i (w_db w') = Some s"
    "policy_of i (w_db w') = Some (p\<lparr>srp_last_scheduled_at := Some x, srp_updated_at := now\<rparr>)"
    using run(2) by (auto simp: run_recorded_def sp)
  have "\<exists>a. recover_missed cr show_error env owner i cron w = Some (a, w')"
    using nxt by (cases r) (simp_all add: recover_missed_def pol sp policy_texts cron run(1))
  moreover have "replay_ready i x (w_db w')"
    using rr sp(2,4,5) run(3,4) by (simp add: replay_ready_def policy_checks_def)
  moreover have "w_clock w \<le> w_clock w'" using clock_run_with_policy [OF run(1)] by simp
  ultimately show ?thesis
    using rr(1,2) recorded_nonempty [OF run(2) sp(4)] keepsD(3) [OF k] by metis
qed

lemma recoveries_replay:
  assumes u: "undisturbed True env i" and cron: "cron_error cr cron = None"
  shows "replay_ready i t (w_db w) \<Longrightarrow> successive cr cron t occ \<Longrightarrow> list_all (\<lambda>x. x \<le> w_clock w) occ \<Longrightarrow>
    length owners = length occ \<Longrightarrow>
    \<exists>w' news. recoveries cr show_error env i cron owners w = Some w'
      \<and> runs_of i (w_db w') = runs_of i (w_db w) @ concat news
      \<and> list_all2 (\<lambda>x new. new \<noteq> [] \<and> attempts_recorded TkMissed x 1 new) occ news"
proof (induction occ arbitrary: t w owners)
  case (Cons x occ)
  obtain owner owners' where o: "owners = owner # owners'" "length owners' = length occ"
    using Cons.prems(4) by (cases owners) auto
  obtain a w1 new where w1: "recover_missed cr show_error env owner i cron w = Some (a, w1)"
    "runs_of i (w_db w1) = runs_of i (w_db w) @ new" "new \<noteq> []" "attempts_recorded TkMissed x 1 new"
    "replay_ready i x (w_db w1)" "w_clock w \<le> w_clock w1"
    using recover_missed_step [OF u Cons.prems(1) cron, of x show_error owner] Cons.prems(2,3) by auto
  let ?w2 = "wait env 30 w1"
  have k: "keeps True i (w_db w1) (w_db ?w2)" by (rule keeps_wait [OF u])
  have due: "list_all (\<lambda>y. y \<le> w_clock ?w2) occ"
    using Cons.prems(3) w1(6) by (auto simp: list_all_iff)
  obtain w' news where w': "recoveries cr show_error env i cron owners' ?w2 = Some w'"
    "runs_of i (w_db w') = runs_of i (w_db ?w2) @ concat news"
    "list_all2 (\<lambda>x new. new \<noteq> [] \<and> attempts_recorded TkMissed x 1 new) occ news"
    using Cons.IH [OF replay_ready_keeps [OF k w1(5)] _ due o(2)] Cons.prems(2) by auto
  then show ?case
    using w1 keepsD(3) [OF k] by (intro exI [of _ w'] exI [of _ "new # news"]) (simp add: o(1))
qed simp



section \<open>Stored schedules\<close>

definition schedule_ok :: "schedule_row \<Rightarrow> bool" where
  "schedule_ok s = (schedule_checks s \<and> (sch_enabled s = 0 \<or> sch_enabled s = 1) \<and> target_of s = Ok ())"

definition schedules_wf :: "sched_db \<Rightarrow> bool" where
  "schedules_wf d = (keyed sch_id (schedules_seq d) (schedules d) \<and> distinct (map sch_app_name (schedules d))
     \<and> list_all (\<lambda>s. schedule_ok s \<and> schedule_refs s d) (schedules d))"

text \<open>The writing requests of the service; the time and a fresh UUID come with the request.\<close>

datatype sched_request =
    SCreate int string create_schedule_dto
  | SPatch int int patch_schedule_dto
  | SSetEnabled int int bool
  | SRemove int

fun sched_serve :: "cron_ops \<Rightarrow> sched_request \<Rightarrow> sched_db \<Rightarrow> sched_db" where
  "sched_serve cr (SCreate now uuid x) d = snd (schedule_create cr now uuid x d)"
| "sched_serve cr (SPatch now i x) d = snd (schedule_patch cr now i x d)"
| "sched_serve cr (SSetEnabled now i b) d = snd (schedule_set_enabled now i b d)"
| "sched_serve cr (SRemove i) d = snd (schedule_remove i d)"

lemma schedule_refs_frame [simp]: "schedule_refs s (d\<lparr>schedules := xs, schedules_seq := n\<rparr>) = schedule_refs s d"
  "schedule_refs s (d\<lparr>schedules := xs\<rparr>) = schedule_refs s d"
  by (simp_all add: schedule_refs_def)

lemma schedule_violation_None:
  "schedule_violation s d = None \<longleftrightarrow> schedule_checks s \<and> schedule_refs s d
     \<and> (\<forall>x \<in> set (schedules d). sch_id x \<noteq> sch_id s \<longrightarrow> sch_app_name x \<noteq> sch_app_name s)"
  by (auto simp: schedule_violation_def list_ex_iff)

lemma wf_create_and_return:
  assumes wf: "schedules_wf d" and ok: "sch_enabled item = 0 \<or> sch_enabled item = 1" "target_of item = Ok ()"
  shows "schedules_wf (snd (schedule_create_and_return now item d))"
proof -
  let ?row = "item\<lparr>sch_id := schedules_seq d + 1, sch_created_at := now, sch_updated_at := now\<rparr>"
  have fresh: "sch_id x \<noteq> schedules_seq d + 1" if "x \<in> set (schedules d)" for x
    using wf that by (auto simp: schedules_wf_def keyed_def)
  have tgt: "target_of ?row = Ok ()" using ok(2) by (simp add: target_of_def)
  show ?thesis
  proof (cases "schedule_violation ?row d")
    case None
    then have v: "schedule_checks ?row" "schedule_refs ?row d" "sch_app_name item \<notin> sch_app_name ` set (schedules d)"
      using fresh by (auto simp: schedule_violation_None)
    have "schedule_create_and_return now item d = (Ok ?row, d\<lparr>schedules := schedules d @ [?row], schedules_seq := schedules_seq d + 1\<rparr>)"
      using None by (simp add: schedule_create_and_return_def Let_def)
    moreover have "keyed sch_id (schedules_seq d + 1) (schedules d @ [?row])"
      using wf by (intro keyed_insert) (simp_all add: schedules_wf_def)
    ultimately show ?thesis
      using wf v ok(1) tgt by (simp add: schedules_wf_def schedule_ok_def)
  next
    case (Some c)
    then show ?thesis using wf by (simp add: schedule_create_and_return_def Let_def)
  qed
qed

lemma distinct_overwrite:
  assumes "distinct (map k rows)" "distinct (map f rows)" "k v = i" "\<And>x. x \<in> set rows \<Longrightarrow> k x \<noteq> i \<Longrightarrow> f x \<noteq> f v"
  shows "distinct (map f (update_where (\<lambda>x. k x = i) (\<lambda>_. v) rows))"
  using assms by (induction rows) (fastforce simp: update_where_def image_iff split: if_splits)+

lemma wf_schedule_write:
  assumes wf: "schedules_wf d" and ok: "sch_enabled row = 0 \<or> sch_enabled row = 1" "target_of row = Ok ()"
  shows "schedules_wf (snd (schedule_write now row d))"
proof (cases "schedule_violation row d")
  case None
  let ?v = "row\<lparr>sch_updated_at := now\<rparr>"
  have v: "schedule_checks ?v" "schedule_refs ?v d" "target_of ?v = Ok ()"
    using None ok(2) by (simp_all add: schedule_violation_None schedule_checks_def schedule_refs_def target_of_def)
  have "distinct (map sch_app_name (update_where (\<lambda>s. sch_id s = sch_id row) (\<lambda>_. ?v) (schedules d)))"
    using wf None by (intro distinct_overwrite) (auto simp: schedules_wf_def keyed_def schedule_violation_None)
  moreover have "keyed sch_id (schedules_seq d) (update_where (\<lambda>s. sch_id s = sch_id row) (\<lambda>_. ?v) (schedules d))"
    using wf by (simp add: schedules_wf_def keyed_iff map_overwrite)
  moreover have "list_all (\<lambda>s. schedule_ok s \<and> schedule_refs s d) (update_where (\<lambda>s. sch_id s = sch_id row) (\<lambda>_. ?v) (schedules d))"
    using wf v ok(1) by (auto simp: list_all_iff schedules_wf_def schedule_ok_def mem_update_where)
  ultimately show ?thesis using None by (simp add: schedule_write_def schedules_wf_def)
qed (use wf in \<open>simp add: schedule_write_def\<close>)

lemma wf_sched_serve: "schedules_wf d \<Longrightarrow> schedules_wf (sched_serve cr q d)"
proof (induction cr q d rule: sched_serve.induct)
  case (1 cr now uuid x d)
  then show ?case
    by (auto simp: schedule_create_def Let_def normalize_enabled_def target_of_def
        intro!: wf_create_and_return split: sum.splits if_splits option.splits)
next
  case (2 cr now i x d)
  have "target_of (row\<lparr>sch_id := a, sch_created_at := b, sch_updated_at := c\<rparr>) = target_of row" for row a b c
    by (simp add: target_of_def)
  then show ?case using 2
    by (auto simp: schedule_patch_def Let_def normalize_enabled_def schedule_update_and_return_def
        intro!: wf_schedule_write split: sum.splits if_splits option.splits)
next
  case (3 cr now i b d)
  have "target_of cur = Ok ()" if "schedule_by_id i d = Some cur" for cur
    using 3 that by (auto simp: schedules_wf_def list_all_iff schedule_ok_def schedule_by_id_def dest!: find_Some_mem)
  moreover have "target_of (cur\<lparr>sch_enabled := n\<rparr>) = target_of cur" for cur n
    by (simp add: target_of_def)
  ultimately show ?case using 3
    by (auto simp: schedule_set_enabled_def intro!: wf_schedule_write split: option.splits)
next
  case (4 cr i d)
  then show ?case
    using keyed_delete_where [of sch_id "schedules_seq d" "schedules d" "\<lambda>s. sch_id s = i"]
    by (auto simp: schedule_remove_def schedule_delete_def schedules_wf_def list_all_iff
        schedule_refs_def delete_where_def distinct_map_filter split: sum.splits)
qed

lemma schedule_type_texts:
  "schedule_type_as_str (schedule_type_from ''APPLICATION'') = ''APPLICATION''"
  "schedule_type_as_str (schedule_type_from ''COMPOSE'') = ''COMPOSE''"
  "schedule_type_as_str (schedule_type_from ''SERVER'') = ''SERVER''"
  "schedule_type_as_str (schedule_type_from ''DOKPANEL-SERVER'') = ''DOKPANEL-SERVER''"
  by code_simp+

lemma sched_serve_panel: "sched_panel (sched_serve cr q d) = sched_panel d"
  by (cases q) (auto simp: schedule_create_def schedule_create_and_return_def schedule_patch_def schedule_update_and_return_def
      schedule_write_def schedule_set_enabled_def schedule_remove_def schedule_delete_def Let_def
      split: sum.splits option.splits)


definition example_create :: create_schedule_dto where
  "example_create = \<lparr> cs_name = ''Nightly run'', cs_description = None, cs_cron_expression = ''0 0 * * *'', cs_app_name = None,
     cs_service_name = None, cs_shell_type = None, cs_schedule_type = None, cs_schedule_action = Some ''stop'',
     cs_command = ''stop'', cs_script = None, cs_timezone = None, cs_enabled = None, cs_application_id = Some 1,
     cs_compose_id = None, cs_server_id = None, cs_organization_id = Some 7 \<rparr>"

definition example_stored :: schedule_row where
  "example_stored = (case fst (schedule_create example_cron 5 ''u'' example_create example_sched_db) of
     Inr s \<Rightarrow> s | Inl _ \<Rightarrow> example_schedule)"


text \<open>
  C34. Validation admits schedules that can never run: an application schedule with the
  action STOP and a compose schedule with the action REBUILD satisfy every check of the
  service and of the table, yet each of their runs fails before anything is executed.
\<close>

theorem accepted_schedule_never_runs:
  assumes "(sch_schedule_type s = ''APPLICATION'' \<and> sch_schedule_action s = ''STOP'' \<and> sch_application_id s = Some a)
      \<or> (sch_schedule_type s = ''COMPOSE'' \<and> sch_schedule_action s = ''REBUILD'' \<and> sch_compose_id s = Some a)"
    and "sch_shell_type s = ''BASH'' \<or> sch_shell_type s = ''SH''"
  shows "target_of s = Ok () \<and> schedule_checks s \<and> (\<exists>m. run_once env s w = (Err (Protocol m), w))"
proof -
  have types: "schedule_type_from ''APPLICATION'' = StApplication" "schedule_type_from ''COMPOSE'' = StCompose"
    by code_simp+
  have ops: "parse_schedule_application_operation ''STOP'' = Err (Protocol ''application schedule command must be deploy, redeploy, rebuild, reload or start'')"
    "parse_schedule_compose_operation ''REBUILD'' = Err (Protocol ''compose schedule command must be deploy, redeploy, reload, start or stop'')"
    by code_simp+
  show ?thesis
    using assms by (auto simp: target_of_def validate_target_def schedule_checks_def run_once_def types
        run_application_schedule_def run_compose_schedule_def ops)
qed

theorem accepted_schedule_never_runs_witness:
  "fst (schedule_create example_cron 5 ''u'' example_create example_sched_db) = Ok example_stored
   \<and> (\<exists>m. run_once example_sched_env example_stored (example_world 9) = (Err (Protocol m), example_world 9))"
proof
  show "fst (schedule_create example_cron 5 ''u'' example_create example_sched_db) = Ok example_stored" by code_simp
  have "(sch_schedule_type example_stored = ''APPLICATION'' \<and> sch_schedule_action example_stored = ''STOP'' \<and> sch_application_id example_stored = Some 1)
      \<or> (sch_schedule_type example_stored = ''COMPOSE'' \<and> sch_schedule_action example_stored = ''REBUILD'' \<and> sch_compose_id example_stored = Some 1)"
    by code_simp
  moreover have "sch_shell_type example_stored = ''BASH'' \<or> sch_shell_type example_stored = ''SH''" by code_simp
  ultimately show "\<exists>m. run_once example_sched_env example_stored (example_world 9) = (Err (Protocol m), example_world 9)"
    by (rule accepted_schedule_never_runs [THEN conjunct2, THEN conjunct2])
qed

end
