(* ===== verification/Shell.thy ===== *)
theory Shell
  imports RustStrings
begin

text \<open>
  Command lines for \<open>sh\<close>: the quoting functions, the command line sent over SSH
  (\<open>crates/os/src/exec/exec_remote.rs\<close>) and the one that writes a file
  (\<open>crates/os/src/file/write.rs\<close>).  What the shell and \<open>printf %b\<close> make of such a line
  is specified by a lexer for words, quotes and operators, and by the decoding of
  backslash escapes; a character that starts an expansion is outside the lexer's language.
\<close>

section \<open>What the shell reads\<close>

datatype sh_token = Word string | Op char

datatype sh_mode = Plain | SingleQuoted | Escaped

definition sh_operator :: "char \<Rightarrow> bool" where
  "sh_operator c = (c \<in> set '';|&<>()'' \<or> c = CHR 0x0A)"

definition sh_expansion :: "char \<Rightarrow> bool" where
  "sh_expansion c = (c \<in> set ''$*?[]{}~#!'' \<or> c = CHR 0x22 \<or> c = CHR 0x60)"

definition sh_plain :: "char \<Rightarrow> bool" where
  "sh_plain c = (\<not> sh_operator c \<and> \<not> sh_expansion c \<and> c \<noteq> CHR 0x20 \<and> c \<noteq> CHR 0x09 \<and> c \<noteq> CHR 0x27 \<and> c \<noteq> CHR 0x5C)"

definition sh_word :: "string option \<Rightarrow> string" where
  "sh_word cur = (case cur of None \<Rightarrow> [] | Some w \<Rightarrow> w)"

definition sh_flush :: "string option \<Rightarrow> sh_token list" where
  "sh_flush cur = (case cur of None \<Rightarrow> [] | Some w \<Rightarrow> [Word w])"

fun sh_read :: "sh_mode \<Rightarrow> string option \<Rightarrow> string \<Rightarrow> sh_token list option" where
  "sh_read Plain cur [] = Some (sh_flush cur)"
| "sh_read SingleQuoted cur [] = None"
| "sh_read Escaped cur [] = None"
| "sh_read Plain cur (c # cs) =
     (if c = CHR 0x20 \<or> c = CHR 0x09 then map_option ((@) (sh_flush cur)) (sh_read Plain None cs)
      else if c = CHR 0x27 then sh_read SingleQuoted (Some (sh_word cur)) cs
      else if c = CHR 0x5C then sh_read Escaped cur cs
      else if sh_operator c then map_option (\<lambda>ts. sh_flush cur @ Op c # ts) (sh_read Plain None cs)
      else if sh_expansion c then None
      else sh_read Plain (Some (sh_word cur @ [c])) cs)"
| "sh_read SingleQuoted cur (c # cs) =
     (if c = CHR 0x27 then sh_read Plain cur cs else sh_read SingleQuoted (Some (sh_word cur @ [c])) cs)"
| "sh_read Escaped cur (c # cs) =
     (if c = CHR 0x0A then sh_read Plain cur cs else sh_read Plain (Some (sh_word cur @ [c])) cs)"

definition sh_lex :: "string \<Rightarrow> sh_token list option" where
  "sh_lex line = sh_read Plain None line"

section \<open>Quoting\<close>

definition replace_char :: "char \<Rightarrow> string \<Rightarrow> string \<Rightarrow> string" where
  "replace_char a b s = concat (map (\<lambda>c. if c = a then b else [c]) s)"

definition shell_single_quote :: "string \<Rightarrow> string" where
  "shell_single_quote s = CHR 0x27 # replace_char (CHR 0x27) [CHR 0x27, CHR 0x5C, CHR 0x27, CHR 0x27] s @ [CHR 0x27]"

definition quote :: "string \<Rightarrow> string" where
  "quote value = (if value = [] then [CHR 0x27, CHR 0x27] else shell_single_quote value)"

definition escape_arg :: "string \<Rightarrow> string" where
  "escape_arg s = (if starts_with s ''$'' then CHR 0x22 # s @ [CHR 0x22] else shell_single_quote s)"

fun join_spaces :: "string list \<Rightarrow> string" where
  "join_spaces [] = []"
| "join_spaces [w] = w"
| "join_spaces (w # v # ws) = w @ CHR 0x20 # join_spaces (v # ws)"

definition remote_prefix :: "string \<Rightarrow> bool \<Rightarrow> bool \<Rightarrow> string list" where
  "remote_prefix program sudo has_password =
     (if sudo then (if has_password then [''sudo'', ''-S'', ''-p'', [], ''--'', program] else [''sudo'', ''-n'', ''--'', program])
      else [program])"

definition remote_command :: "string \<Rightarrow> string list \<Rightarrow> bool \<Rightarrow> bool \<Rightarrow> string" where
  "remote_command program args sudo has_password = join_spaces (map quote (remote_prefix program sudo has_password @ args))"

definition newline :: string where
  "newline = [CHR 0x0A]"

definition dq :: "string \<Rightarrow> string" where
  "dq s = CHR 0x22 # s @ [CHR 0x22]"

definition cancellable_script :: "string \<Rightarrow> string \<Rightarrow> string" where
  "cancellable_script command pid_file =
     ''rm -f '' @ quote pid_file @ newline
     @ ''setsid sh -c '' @ quote command @ '' &'' @ newline
     @ ''child='' @ dq ''$!'' @ newline
     @ ''printf '' @ [CHR 0x27] @ ''%s'' @ [CHR 0x5C] @ ''n'' @ [CHR 0x27] @ '' '' @ dq ''$child'' @ '' > '' @ quote pid_file @ newline
     @ ''wait '' @ dq ''$child'' @ newline
     @ ''status='' @ dq ''$?'' @ newline
     @ ''rm -f '' @ quote pid_file @ newline
     @ ''exit '' @ dq ''$status''"

definition cancellable_remote_command :: "string \<Rightarrow> string \<Rightarrow> string" where
  "cancellable_remote_command command pid_file =
     remote_command ''sh'' [''-c'', cancellable_script command pid_file] False False"

definition remote_cancel_script :: "string \<Rightarrow> string" where
  "remote_cancel_script pid_file =
     ''pid='' @ dq (''$(cat '' @ quote pid_file @ '' 2>/dev/null || true)'') @ newline
     @ ''if [ -n '' @ dq ''$pid'' @ '' ]; then'' @ newline
     @ ''  kill -TERM -- '' @ dq ''-$pid'' @ '' 2>/dev/null || true'' @ newline
     @ ''  sleep 2'' @ newline
     @ ''  kill -KILL -- '' @ dq ''-$pid'' @ '' 2>/dev/null || true'' @ newline
     @ ''fi'' @ newline
     @ ''rm -f '' @ quote pid_file"

section \<open>Writing a file\<close>

definition printf_b_char :: "char \<Rightarrow> string" where
  "printf_b_char ch =
     (if ch = CHR 0x5C then [CHR 0x5C, CHR 0x5C]
      else if ch = CHR 0x0A then [CHR 0x5C, CHR ''n'']
      else if ch = CHR 0x0D then [CHR 0x5C, CHR ''r'']
      else if ch = CHR 0x09 then [CHR 0x5C, CHR ''t'']
      else [ch])"

definition printf_b_escape :: "string \<Rightarrow> string" where
  "printf_b_escape content = concat (map printf_b_char content)"

definition file_write_command :: "bool \<Rightarrow> string \<Rightarrow> string \<Rightarrow> string" where
  "file_write_command appending path content =
     (let safe_path = escape_arg path; op = (if appending then ''>>'' else ''>'') in
      if starts_with content ''$''
      then ''printf '' @ [CHR 0x27] @ ''%s'' @ [CHR 0x27] @ '' '' @ escape_arg content @ '' '' @ op @ '' '' @ safe_path
      else ''printf '' @ [CHR 0x27] @ ''%b'' @ [CHR 0x27] @ '' '' @ shell_single_quote (printf_b_escape content) @ '' '' @ op
        @ '' '' @ safe_path)"

text \<open>
  The operand of \<open>printf %b\<close> with the escapes of one character; the escapes for octal
  numbers and for the end of the output are outside this language.
\<close>

definition printf_b_letter :: "char \<Rightarrow> char option" where
  "printf_b_letter d = map_of [(CHR 0x5C, CHR 0x5C), (CHR ''n'', CHR 0x0A), (CHR ''r'', CHR 0x0D), (CHR ''t'', CHR 0x09),
     (CHR ''a'', CHR 0x07), (CHR ''b'', CHR 0x08), (CHR ''f'', CHR 0x0C), (CHR ''v'', CHR 0x0B)] d"

fun printf_b :: "string \<Rightarrow> string option" where
  "printf_b [] = Some []"
| "printf_b [c] = (if c = CHR 0x5C then None else Some [c])"
| "printf_b (c # d # cs) =
     (if c \<noteq> CHR 0x5C then map_option ((#) c) (printf_b (d # cs))
      else (case printf_b_letter d of None \<Rightarrow> None | Some e \<Rightarrow> map_option ((#) e) (printf_b cs)))"

section \<open>Reading back\<close>

lemma sh_word_simps [simp]: "sh_word None = []" "sh_word (Some w) = w"
  by (simp_all add: sh_word_def)

lemma sh_flush_simps [simp]: "sh_flush None = []" "sh_flush (Some w) = [Word w]"
  by (simp_all add: sh_flush_def)

lemma read_escaped:
  "sh_read SingleQuoted (Some w) (replace_char (CHR 0x27) [CHR 0x27, CHR 0x5C, CHR 0x27, CHR 0x27] s @ CHR 0x27 # rest)
   = sh_read Plain (Some (w @ s)) rest"
  by (induction s arbitrary: w) (auto simp: replace_char_def)

lemma read_quoted: "sh_read Plain cur (shell_single_quote s @ rest) = sh_read Plain (Some (sh_word cur @ s)) rest"
  using read_escaped [of "sh_word cur" s rest] by (simp add: shell_single_quote_def)

lemma quote_eq: "quote s = shell_single_quote s"
  by (simp add: quote_def shell_single_quote_def replace_char_def)

lemma read_plain:
  "list_all sh_plain s \<Longrightarrow> s \<noteq> [] \<Longrightarrow> sh_read Plain cur (s @ rest) = sh_read Plain (Some (sh_word cur @ s)) rest"
proof (induction s arbitrary: cur)
  case (Cons c s)
  have "sh_read Plain cur ((c # s) @ rest) = sh_read Plain (Some (sh_word cur @ [c])) (s @ rest)"
    using Cons.prems(1) by (simp add: sh_plain_def)
  then show ?case using Cons.IH [of "Some (sh_word cur @ [c])"] Cons.prems(1) by (cases "s = []") simp_all
qed simp

lemma read_space: "sh_read Plain cur (CHR 0x20 # rest) = map_option ((@) (sh_flush cur)) (sh_read Plain None rest)"
  by simp

text \<open>A word printed so that it reads back as itself, and a line of such words.\<close>

definition prints_word :: "string \<Rightarrow> string \<Rightarrow> bool" where
  "prints_word pr w = (\<forall>rest. sh_read Plain None (pr @ rest) = sh_read Plain (Some w) rest)"

lemma prints_quote: "prints_word (quote w) w"
  by (simp add: prints_word_def quote_eq read_quoted)

lemma prints_plain: "list_all sh_plain w \<Longrightarrow> w \<noteq> [] \<Longrightarrow> prints_word w w"
  by (simp add: prints_word_def read_plain)

lemma prints_assignment: "list_all sh_plain k \<Longrightarrow> k \<noteq> [] \<Longrightarrow> prints_word (k @ shell_single_quote v) (k @ v)"
  by (simp add: prints_word_def read_plain read_quoted)

lemma read_words:
  "list_all2 prints_word prs ws \<Longrightarrow> sh_read Plain None (join_spaces prs) = Some (map Word ws)"
proof (induction prs arbitrary: ws rule: join_spaces.induct)
  case (2 pr)
  then obtain w where w: "ws = [w]" "prints_word pr w" by (auto simp: list_all2_Cons1)
  have "sh_read Plain None (pr @ []) = sh_read Plain (Some w) []" using w(2) unfolding prints_word_def by blast
  then show ?case by (simp add: w(1))
next
  case (3 pr pr' prs)
  then obtain w vs where w: "ws = w # vs" "prints_word pr w" "list_all2 prints_word (pr' # prs) vs"
    by (auto simp: list_all2_Cons1)
  have "sh_read Plain None (pr @ CHR 0x20 # join_spaces (pr' # prs))
      = sh_read Plain (Some w) (CHR 0x20 # join_spaces (pr' # prs))"
    using w(2) unfolding prints_word_def by blast
  then show ?case using "3.IH" [OF w(3)] by (simp only: join_spaces.simps read_space) (simp add: w(1))
qed simp

lemma lex_words: "list_all2 prints_word prs ws \<Longrightarrow> sh_lex (join_spaces prs) = Some (map Word ws)"
  by (simp add: sh_lex_def read_words)

lemma printf_b_escape_Cons: "printf_b_escape (c # s) = printf_b_char c @ printf_b_escape s"
  by (simp add: printf_b_escape_def)

lemma printf_b_plain: "c \<noteq> CHR 0x5C \<Longrightarrow> printf_b (c # cs) = map_option ((#) c) (printf_b cs)"
  by (cases cs) simp_all

lemma printf_b_roundtrip: "printf_b (printf_b_escape s) = Some s"
  by (induction s)
    (simp_all add: printf_b_escape_Cons printf_b_char_def printf_b_plain printf_b_letter_def, simp add: printf_b_escape_def)

section \<open>Properties\<close>

text \<open>
  C35. No argument can break out of a remote command: the shell on the other side reads the
  line built for a program and its arguments, with or without sudo, back as exactly these
  words, whatever characters they contain; and so it does with the wrapper that makes a
  command cancellable.
\<close>

theorem remote_command_words:
  "sh_lex (remote_command program args sudo has_password) = Some (map Word (remote_prefix program sudo has_password @ args))
   \<and> sh_lex (cancellable_remote_command command pid_file) = Some (map Word [''sh'', ''-c'', cancellable_script command pid_file])"
proof -
  have "list_all2 prints_word (map quote ws) ws" for ws
    by (simp add: list_all2_map1 list_all2_same prints_quote)
  then have line: "sh_lex (remote_command p as su pw) = Some (map Word (remote_prefix p su pw @ as))" for p as su pw
    unfolding remote_command_def by (rule lex_words)
  then show ?thesis by (simp add: cancellable_remote_command_def remote_prefix_def)
qed

text \<open>
  C36. Writing a file is exact: for a path and a content that do not start with a dollar
  sign, the shell reads the command as a call of printf whose operand prints the content,
  redirected to that path, appending where this was asked for.
\<close>

theorem file_write_roundtrip:
  assumes "\<not> starts_with path ''$''" and "\<not> starts_with content ''$''"
  shows "\<exists>operand. sh_lex (file_write_command appending path content) =
       Some ([Word ''printf'', Word ''%b'', Word operand] @ (if appending then [Op CHR ''>'', Op CHR ''>''] else [Op CHR ''>''])
         @ [Word path])
     \<and> printf_b operand = Some content"
proof -
  have pr: "sh_read Plain None (''printf '' @ rest) = map_option ((#) (Word ''printf'')) (sh_read Plain None rest)" for rest
    by (cases "sh_read Plain None rest") (simp_all add: sh_operator_def sh_expansion_def)
  have fmt: "sh_read Plain None ([CHR 0x27] @ ''%b'' @ [CHR 0x27] @ '' '' @ rest) = map_option ((#) (Word ''%b'')) (sh_read Plain None rest)" for rest
    by (cases "sh_read Plain None rest") simp_all
  have arg: "sh_read Plain None (shell_single_quote x @ '' '' @ rest) = map_option ((#) (Word x)) (sh_read Plain None rest)" for x rest
    by (cases "sh_read Plain None rest") (simp_all add: read_quoted)
  have path: "sh_read Plain None ('' '' @ shell_single_quote path) = Some [Word path]"
    using read_quoted [of None path "[]"] by simp
  have "sh_lex (file_write_command appending path content) =
       Some ([Word ''printf'', Word ''%b'', Word (printf_b_escape content)]
         @ (if appending then [Op CHR ''>'', Op CHR ''>''] else [Op CHR ''>'']) @ [Word path])"
    using assms path
    by (simp add: sh_lex_def file_write_command_def escape_arg_def Let_def pr fmt [simplified] arg [simplified] sh_operator_def sh_expansion_def)
  then show ?thesis using printf_b_roundtrip by blast
qed

theorem file_write_roundtrip_witness:
  "\<exists>operand. sh_lex (file_write_command True ''/etc/it's'' [CHR 0x5C, CHR 0x0A, CHR 0x27]) =
       Some [Word ''printf'', Word ''%b'', Word operand, Op CHR ''>'', Op CHR ''>'', Word ''/etc/it's'']
     \<and> printf_b operand = Some [CHR 0x5C, CHR 0x0A, CHR 0x27]"
  using file_write_roundtrip [of "''/etc/it's''" "[CHR 0x5C, CHR 0x0A, CHR 0x27]" True] by simp

end
