(* ===== verification/Rclone.thy ===== *)
theory Rclone
  imports Shell StringEnum HashStore "HOL-Library.Multiset"
begin

text \<open>
  The command lines of \<open>rclone\<close>, \<open>crates/os/src/rclone/{target,builder}.rs\<close>.  The obscured
  form of a password comes from running \<open>rclone obscure\<close> and is a parameter; so is the
  order in which the environment variables, a \<open>HashMap\<close>, are iterated.
\<close>

record s3_target =
  s3_provider :: string
  s3_access_key_id :: string
  s3_secret_access_key :: string
  s3_bucket :: string
  s3_region :: string
  s3_endpoint :: string
  s3_path :: string
  s3_force_path_style :: bool
  s3_no_check_bucket :: bool

datatype rclone_target =
    RLocal string
  | RS3 s3_target
  | RSftp (sftp_host: string) (sftp_port: "nat option") (sftp_user: string) (sftp_pass: "string option")
      (sftp_key_file: "string option") (sftp_key_use_agent: bool) (sftp_path: string)
  | RFtp (ftp_host: string) (ftp_port: "nat option") (ftp_user: string) (ftp_pass: string) (ftp_path: string) (ftp_tls: bool)
  | RB2 (b2_account_id: string) (b2_application_key: string) (b2_bucket: string) (b2_path: string)
  | RGcs (gcs_credentials: "string option") (gcs_bucket: string) (gcs_path: string) (gcs_project_number: "string option")
  | RAzureBlob (az_account: string) (az_key: string) (az_container: string) (az_path: string)
  | RWebdav (dav_url: string) (dav_user: string) (dav_pass: string) (dav_vendor: "string option") (dav_path: string)
  | RDropbox (dbx_token: string) (dbx_path: string)
  | RGoogleDrive (gd_client_id: "string option") (gd_client_secret: "string option") (gd_token: string) (gd_path: string)

type_synonym envs = "(string, string) hash_map"

text \<open>The variables of a target, inserted in the order of the code; an absent option inserts nothing.\<close>

definition insert_vars :: "string \<Rightarrow> (string \<times> string option) list \<Rightarrow> envs" where
  "insert_vars name vars =
     fold (\<lambda>(k, v) m. case v of None \<Rightarrow> m | Some x \<Rightarrow> hm_insert (''RCLONE_CONFIG_'' @ to_ascii_uppercase name @ ''_'' @ k) x m) vars []"

definition true_if :: "bool \<Rightarrow> string option" where
  "true_if b = (if b then Some ''true'' else None)"

definition obscure_password :: "(string \<Rightarrow> string option) \<Rightarrow> string \<Rightarrow> string" where
  "obscure_password obscure p = (case obscure p of Some out \<Rightarrow> trim out | None \<Rightarrow> p)"

definition in_bucket :: "string \<Rightarrow> string \<Rightarrow> string \<Rightarrow> string" where
  "in_bucket name bucket path = name @ '':'' @ bucket @ ''/'' @ dropWhile (\<lambda>c. c = CHR ''/'') path"

definition compile :: "(string \<Rightarrow> string option) \<Rightarrow> string \<Rightarrow> rclone_target \<Rightarrow> string \<times> envs" where
  "compile obscure prefix target = (case target of
       RLocal path \<Rightarrow> (path, [])
     | RS3 t \<Rightarrow> (let name = prefix @ ''_s3'' in
         (in_bucket name (s3_bucket t) (s3_path t),
          insert_vars name [(''TYPE'', Some ''s3''), (''PROVIDER'', Some (s3_provider t)), (''ACCESS_KEY_ID'', Some (s3_access_key_id t)),
            (''SECRET_ACCESS_KEY'', Some (s3_secret_access_key t)), (''REGION'', Some (s3_region t)), (''ENDPOINT'', Some (s3_endpoint t)),
            (''FORCE_PATH_STYLE'', true_if (s3_force_path_style t)), (''NO_CHECK_BUCKET'', true_if (s3_no_check_bucket t))]))
     | RSftp host port user pass key_file agent path \<Rightarrow> (let name = prefix @ ''_sftp'' in
         (name @ '':'' @ path,
          insert_vars name [(''TYPE'', Some ''sftp''), (''HOST'', Some host), (''USER'', Some user), (''PORT'', map_option nat_to_dec port),
            (''PASS'', map_option (obscure_password obscure) pass), (''KEY_FILE'', key_file), (''KEY_USE_AGENT'', true_if agent)]))
     | RFtp host port user pass path tls \<Rightarrow> (let name = prefix @ ''_ftp'' in
         (name @ '':'' @ path,
          insert_vars name [(''TYPE'', Some ''ftp''), (''HOST'', Some host), (''USER'', Some user),
            (''PASS'', Some (obscure_password obscure pass)), (''PORT'', map_option nat_to_dec port), (''TLS'', true_if tls)]))
     | RB2 account key bucket path \<Rightarrow> (let name = prefix @ ''_b2'' in
         (in_bucket name bucket path,
          insert_vars name [(''TYPE'', Some ''b2''), (''ACCOUNT'', Some account), (''KEY'', Some key)]))
     | RGcs cred bucket path project \<Rightarrow> (let name = prefix @ ''_gcs'' in
         (in_bucket name bucket path,
          insert_vars name [(''TYPE'', Some ''google cloud storage''), (''SERVICE_ACCOUNT_CREDENTIALS'', cred), (''PROJECT_NUMBER'', project)]))
     | RAzureBlob account key container path \<Rightarrow> (let name = prefix @ ''_azureblob'' in
         (in_bucket name container path,
          insert_vars name [(''TYPE'', Some ''azureblob''), (''ACCOUNT'', Some account), (''KEY'', Some key)]))
     | RWebdav url user pass vendor path \<Rightarrow> (let name = prefix @ ''_webdav'' in
         (name @ '':'' @ path,
          insert_vars name [(''TYPE'', Some ''webdav''), (''URL'', Some url), (''USER'', Some user),
            (''PASS'', Some (obscure_password obscure pass)), (''VENDOR'', vendor)]))
     | RDropbox token path \<Rightarrow> (let name = prefix @ ''_dropbox'' in
         (name @ '':'' @ path, insert_vars name [(''TYPE'', Some ''dropbox''), (''TOKEN'', Some token)]))
     | RGoogleDrive client_id client_secret token path \<Rightarrow> (let name = prefix @ ''_drive'' in
         (name @ '':'' @ path,
          insert_vars name [(''TYPE'', Some ''drive''), (''TOKEN'', Some token), (''CLIENT_ID'', client_id), (''CLIENT_SECRET'', client_secret)])))"

datatype rclone_separator = Tab | Comma

definition separator_value :: "rclone_separator \<Rightarrow> string" where
  "separator_value v = (case v of Tab \<Rightarrow> [CHR 0x09] | Comma \<Rightarrow> '','')"

text \<open>The one list format, \<open>PathSizeModified\<close>, prints \<open>pst\<close>; the field holds whether it is set.\<close>

record rclone_builder =
  rc_command :: rclone_command
  rc_source :: "rclone_target option"
  rc_destination :: "rclone_target option"
  rc_transfers :: "nat option"
  rc_checkers :: "nat option"
  rc_buffer_size :: "string option"
  rc_bwlimit :: "string option"
  rc_fast_list :: bool
  rc_use_mmap :: bool
  rc_retries :: "nat option"
  rc_low_level_retries :: "nat option"
  rc_timeout :: "string option"
  rc_connect_timeout :: "string option"
  rc_retry_delay :: "string option"
  rc_dry_run :: bool
  rc_check_first :: bool
  rc_ignore_errors :: bool
  rc_ignore_existing :: bool
  rc_update :: bool
  rc_inplace :: bool
  rc_log_file :: "string option"
  rc_log_level :: "string option"
  rc_stats :: "string option"
  rc_recursive :: bool
  rc_files_only :: bool
  rc_list_format :: bool
  rc_separator :: "rclone_separator option"

definition rclone_new :: "rclone_command \<Rightarrow> rclone_builder" where
  "rclone_new command = \<lparr> rc_command = command, rc_source = None, rc_destination = None, rc_transfers = None, rc_checkers = None,
     rc_buffer_size = None, rc_bwlimit = None, rc_fast_list = False, rc_use_mmap = False, rc_retries = None,
     rc_low_level_retries = None, rc_timeout = None, rc_connect_timeout = None, rc_retry_delay = None, rc_dry_run = False,
     rc_check_first = False, rc_ignore_errors = False, rc_ignore_existing = False, rc_update = False, rc_inplace = False,
     rc_log_file = None, rc_log_level = None, rc_stats = None, rc_recursive = False, rc_files_only = False,
     rc_list_format = False, rc_separator = None \<rparr>"

definition opt_arg :: "string \<Rightarrow> string option \<Rightarrow> string list" where
  "opt_arg flag v = (case v of None \<Rightarrow> [] | Some x \<Rightarrow> [flag @ x])"

definition flag_arg :: "string \<Rightarrow> bool \<Rightarrow> string list" where
  "flag_arg flag b = (if b then [flag] else [])"

definition add_target ::
  "(string \<Rightarrow> string option) \<Rightarrow> string \<Rightarrow> rclone_target option \<Rightarrow> string list \<times> envs \<Rightarrow> string list \<times> envs" where
  "add_target obscure prefix target acc = (case target of None \<Rightarrow> acc
     | Some t \<Rightarrow> (case compile obscure prefix t of (path, vars) \<Rightarrow>
         (fst acc @ [path], fold (\<lambda>(k, v). hm_insert k v) vars (snd acc))))"

definition rclone_build :: "(string \<Rightarrow> string option) \<Rightarrow> rclone_builder \<Rightarrow> string list \<times> envs" where
  "rclone_build obscure b =
     add_target obscure ''dest'' (rc_destination b) (add_target obscure ''src'' (rc_source b)
       ([rclone_command_as_str (rc_command b)]
        @ opt_arg ''--transfers='' (map_option nat_to_dec (rc_transfers b))
        @ opt_arg ''--checkers='' (map_option nat_to_dec (rc_checkers b))
        @ opt_arg ''--buffer-size='' (rc_buffer_size b) @ opt_arg ''--bwlimit='' (rc_bwlimit b)
        @ flag_arg ''--fast-list'' (rc_fast_list b) @ flag_arg ''--use-mmap'' (rc_use_mmap b)
        @ opt_arg ''--retries='' (map_option nat_to_dec (rc_retries b))
        @ opt_arg ''--low-level-retries='' (map_option nat_to_dec (rc_low_level_retries b))
        @ opt_arg ''--timeout='' (rc_timeout b) @ opt_arg ''--contimeout='' (rc_connect_timeout b)
        @ opt_arg ''--retry-delay='' (rc_retry_delay b)
        @ flag_arg ''--dry-run'' (rc_dry_run b) @ flag_arg ''--check-first'' (rc_check_first b)
        @ flag_arg ''--ignore-errors'' (rc_ignore_errors b) @ flag_arg ''--ignore-existing'' (rc_ignore_existing b)
        @ flag_arg ''--update'' (rc_update b) @ flag_arg ''--inplace'' (rc_inplace b)
        @ opt_arg ''--log-file='' (rc_log_file b) @ opt_arg ''--log-level='' (rc_log_level b) @ opt_arg ''--stats='' (rc_stats b)
        @ flag_arg ''--recursive'' (rc_recursive b) @ flag_arg ''--files-only'' (rc_files_only b)
        @ flag_arg ''--format=pst'' (rc_list_format b)
        @ opt_arg ''--separator='' (map_option separator_value (rc_separator b)), []))"

definition to_command_string :: "(envs \<Rightarrow> envs) \<Rightarrow> (string \<Rightarrow> string option) \<Rightarrow> rclone_builder \<Rightarrow> string" where
  "to_command_string iterate obscure b = (case rclone_build obscure b of (args, vars) \<Rightarrow>
     (let env_string = join_spaces (map (\<lambda>(k, v). k @ ''='' @ shell_single_quote v) (iterate vars)) in
      if env_string = [] then ''rclone '' @ join_spaces args else env_string @ '' rclone '' @ join_spaces args))"

section \<open>The line the shell reads\<close>

lemma keys_insert: "fst ` set (hm_insert k v m) = insert k (fst ` set m)"
  by (simp add: hm_insert_def dom_update)

lemma keys_insert_vars:
  "fst ` set (fold (\<lambda>(k, v) m. case v of None \<Rightarrow> m | Some x \<Rightarrow> hm_insert (f k) x m) vars m) \<subseteq> f ` fst ` set vars \<union> fst ` set m"
proof (induction vars arbitrary: m)
  case (Cons kv vars)
  obtain k v where kv: "kv = (k, v)" by (cases kv)
  show ?case
  proof (cases v)
    case None
    then show ?thesis using Cons.IH [of m] by (simp add: kv) blast
  next
    case (Some x)
    then show ?thesis using Cons.IH [of "hm_insert (f k) x m"] by (simp add: kv keys_insert)
  qed
qed simp

lemma keys_extend: "fst ` set (fold (\<lambda>(k, v). hm_insert k v) vars m) = fst ` set vars \<union> fst ` set m"
proof (induction vars arbitrary: m)
  case (Cons kv vars)
  show ?case by (cases kv) (simp add: Cons.IH keys_insert)
qed simp

definition plain_key :: "string \<Rightarrow> bool" where
  "plain_key k = (k \<noteq> [] \<and> list_all sh_plain k)"

lemma plain_insert_vars:
  assumes "list_all sh_plain (to_ascii_uppercase name)" "list_all (\<lambda>(k, _). list_all sh_plain k) vars"
  shows "\<forall>k \<in> fst ` set (insert_vars name vars). plain_key k"
proof
  fix k assume "k \<in> fst ` set (insert_vars name vars)"
  then have "k \<in> (\<lambda>k. ''RCLONE_CONFIG_'' @ to_ascii_uppercase name @ ''_'' @ k) ` fst ` set vars"
    using keys_insert_vars [of "\<lambda>k. ''RCLONE_CONFIG_'' @ to_ascii_uppercase name @ ''_'' @ k" vars "[]"]
    unfolding insert_vars_def by (simp only: list.set image_empty Un_empty_right) (rule subsetD)
  then obtain v where v: "v \<in> set vars" and k: "k = ''RCLONE_CONFIG_'' @ to_ascii_uppercase name @ ''_'' @ fst v"
    unfolding image_image by (rule imageE)
  have "list_all sh_plain (fst v)" using assms(2) v by (cases v) (auto simp: list_all_iff)
  moreover have "list_all sh_plain ''RCLONE_CONFIG_''" "list_all sh_plain ''_''" by code_simp+
  ultimately have "list_all sh_plain k" unfolding k list_all_append using assms(1) by (intro conjI)
  then show "plain_key k" by (simp add: plain_key_def k)
qed

definition target_names :: "string list" where
  "target_names = [''_s3'', ''_sftp'', ''_ftp'', ''_b2'', ''_gcs'', ''_azureblob'', ''_webdav'', ''_dropbox'', ''_drive'']"

definition plain_prefix :: "string \<Rightarrow> bool" where
  "plain_prefix prefix = list_all (\<lambda>n. list_all sh_plain (to_ascii_uppercase (prefix @ n))) target_names"

lemma plain_prefixes: "plain_prefix ''src''" "plain_prefix ''dest''"
  by code_simp+

lemma plain_letters: "list_all sh_plain ''ABCDEFGHIJKLMNOPQRSTUVWXYZ_''"
  by code_simp

lemmas plain_letter = plain_letters [unfolded list.pred_inject]

lemma plain_compile:
  assumes "plain_prefix prefix"
  shows "\<forall>k \<in> fst ` set (snd (compile obscure prefix t)). plain_key k"
proof -
  have n: "list_all sh_plain (to_ascii_uppercase (prefix @ n))" if "n \<in> set target_names" for n
    using assms that unfolding plain_prefix_def list_all_iff by blast
  have mem: "''_s3'' \<in> set target_names" "''_sftp'' \<in> set target_names" "''_ftp'' \<in> set target_names"
    "''_b2'' \<in> set target_names" "''_gcs'' \<in> set target_names" "''_azureblob'' \<in> set target_names"
    "''_webdav'' \<in> set target_names" "''_dropbox'' \<in> set target_names" "''_drive'' \<in> set target_names"
    unfolding target_names_def list.set by (intro insertI1 insertI2)+
  note vars = list.pred_inject prod.case plain_letter simp_thms
  show ?thesis
  proof (cases t)
    case (RS3 x)
    show ?thesis unfolding RS3 compile_def rclone_target.case Let_def snd_conv
      by (rule plain_insert_vars [OF n]) (rule mem, simp only: vars)
  next
    case RSftp
    show ?thesis unfolding RSftp compile_def rclone_target.case Let_def snd_conv
      by (rule plain_insert_vars [OF n]) (rule mem, simp only: vars)
  next
    case RFtp
    show ?thesis unfolding RFtp compile_def rclone_target.case Let_def snd_conv
      by (rule plain_insert_vars [OF n]) (rule mem, simp only: vars)
  next
    case RB2
    show ?thesis unfolding RB2 compile_def rclone_target.case Let_def snd_conv
      by (rule plain_insert_vars [OF n]) (rule mem, simp only: vars)
  next
    case RGcs
    show ?thesis unfolding RGcs compile_def rclone_target.case Let_def snd_conv
      by (rule plain_insert_vars [OF n]) (rule mem, simp only: vars)
  next
    case RAzureBlob
    show ?thesis unfolding RAzureBlob compile_def rclone_target.case Let_def snd_conv
      by (rule plain_insert_vars [OF n]) (rule mem, simp only: vars)
  next
    case RWebdav
    show ?thesis unfolding RWebdav compile_def rclone_target.case Let_def snd_conv
      by (rule plain_insert_vars [OF n]) (rule mem, simp only: vars)
  next
    case RDropbox
    show ?thesis unfolding RDropbox compile_def rclone_target.case Let_def snd_conv
      by (rule plain_insert_vars [OF n]) (rule mem, simp only: vars)
  next
    case RGoogleDrive
    show ?thesis unfolding RGoogleDrive compile_def rclone_target.case Let_def snd_conv
      by (rule plain_insert_vars [OF n]) (rule mem, simp only: vars)
  qed (simp add: compile_def)
qed

lemma plain_add_target:
  assumes "plain_prefix prefix" "\<forall>k \<in> fst ` set (snd acc). plain_key k"
  shows "\<forall>k \<in> fst ` set (snd (add_target obscure prefix t acc)). plain_key k"
proof (cases t)
  case (Some x)
  obtain path vars where c: "compile obscure prefix x = (path, vars)" by (cases "compile obscure prefix x")
  have "\<forall>k \<in> fst ` set vars. plain_key k" using plain_compile [OF assms(1), of obscure x] by (simp only: c snd_conv)
  then show ?thesis
    using assms(2) by (simp only: add_target_def Some option.case c prod.case snd_conv keys_extend) blast
qed (use assms(2) in \<open>simp add: add_target_def\<close>)

lemma plain_build: "\<forall>k \<in> fst ` set (snd (rclone_build obscure b)). plain_key k"
  unfolding rclone_build_def by (intro plain_add_target plain_prefixes) simp

lemma build_nonempty: "fst (rclone_build obscure b) \<noteq> []"
  by (simp add: rclone_build_def add_target_def split: option.splits prod.splits)

lemma join_spaces_append: "xs \<noteq> [] \<Longrightarrow> ys \<noteq> [] \<Longrightarrow> join_spaces (xs @ ys) = join_spaces xs @ CHR 0x20 # join_spaces ys"
proof (induction xs rule: join_spaces.induct)
  case (2 w)
  then show ?case by (cases ys) simp_all
qed simp_all

lemma join_spaces_eq_Nil: "list_all (\<lambda>w. w \<noteq> []) ws \<Longrightarrow> join_spaces ws = [] \<longleftrightarrow> ws = []"
  by (cases ws rule: join_spaces.cases) simp_all

lemma to_command_string_words:
  "to_command_string iterate obscure b =
     join_spaces (map (\<lambda>(k, v). k @ ''='' @ shell_single_quote v) (iterate (snd (rclone_build obscure b)))
       @ ''rclone'' # fst (rclone_build obscure b))"
proof -
  obtain args vars where bd: "rclone_build obscure b = (args, vars)" by (cases "rclone_build obscure b")
  let ?es = "map (\<lambda>(k, v). k @ ''='' @ shell_single_quote v) (iterate vars)"
  have ne: "args \<noteq> []" using build_nonempty [of obscure b] by (simp add: bd)
  have "list_all (\<lambda>w. w \<noteq> []) ?es" by (auto simp: list_all_iff)
  then have nil: "join_spaces ?es = [] \<longleftrightarrow> ?es = []" by (rule join_spaces_eq_Nil)
  have tl: "join_spaces (''rclone'' # args) = ''rclone '' @ join_spaces args"
    using join_spaces_append [of "[''rclone'']" args] ne by simp
  show ?thesis
  proof (cases "?es = []")
    case True
    then show ?thesis using tl by (simp add: to_command_string_def bd)
  next
    case False
    then have "join_spaces (?es @ ''rclone'' # args) = join_spaces ?es @ CHR 0x20 # ''rclone '' @ join_spaces args"
      using join_spaces_append [of ?es "''rclone'' # args"] tl by simp
    then show ?thesis using False nil by (simp add: to_command_string_def bd Let_def del: join_spaces.simps)
  qed
qed

lemma rclone_prints:
  assumes "mset (iterate (snd (rclone_build obscure b))) = mset (snd (rclone_build obscure b))"
    and "list_all plain_key (fst (rclone_build obscure b))"
  shows "list_all2 prints_word
      (map (\<lambda>(k, v). k @ ''='' @ shell_single_quote v) (iterate (snd (rclone_build obscure b))) @ ''rclone'' # fst (rclone_build obscure b))
      (map (\<lambda>(k, v). k @ ''='' @ v) (iterate (snd (rclone_build obscure b))) @ ''rclone'' # fst (rclone_build obscure b))"
proof -
  let ?vars = "iterate (snd (rclone_build obscure b))" and ?args = "fst (rclone_build obscure b)"
  have keys: "plain_key (fst kv)" if "kv \<in> set ?vars" for kv
    using plain_build [of obscure b] mset_eq_setD [OF assms(1)] that by blast
  have eq: "sh_plain CHR ''=''" by code_simp
  have "list_all2 prints_word (map (\<lambda>(k, v). k @ ''='' @ shell_single_quote v) ?vars) (map (\<lambda>(k, v). k @ ''='' @ v) ?vars)"
    using keys prints_assignment [of "k @ ''=''" for k] eq
    by (fastforce simp: list_all2_map1 list_all2_map2 list_all2_same plain_key_def)
  moreover have "list_all2 prints_word (''rclone'' # ?args) (''rclone'' # ?args)"
  proof -
    have "list_all sh_plain ''rclone''" by code_simp
    then have "prints_word ''rclone'' ''rclone''" by (rule prints_plain) simp
    then show ?thesis using assms(2) prints_plain by (auto simp: list_all2_same plain_key_def list_all_iff)
  qed
  ultimately show ?thesis by (rule list_all2_appendI)
qed

text \<open>
  The secrets of a storage target reach rclone intact: whatever values the
  configuration holds, and in whichever order the variables are printed, the shell reads
  the command line as one assignment per variable with exactly its value, then rclone and
  its arguments, provided the arguments themselves are free of characters the shell treats
  specially.
\<close>

theorem rclone_command_words:
  assumes "mset (iterate (snd (rclone_build obscure b))) = mset (snd (rclone_build obscure b))"
    and "list_all plain_key (fst (rclone_build obscure b))"
  shows "sh_lex (to_command_string iterate obscure b) =
     Some (map (\<lambda>(k, v). Word (k @ ''='' @ v)) (iterate (snd (rclone_build obscure b)))
       @ map Word (''rclone'' # fst (rclone_build obscure b)))"
  using lex_words [OF rclone_prints [of iterate obscure b, OF assms]] by (simp add: to_command_string_words case_prod_beta comp_def)

definition example_s3 :: s3_target where
  "example_s3 = \<lparr> s3_provider = ''AWS'', s3_access_key_id = ''id'', s3_secret_access_key = ''pa$$ 'w'; rm'', s3_bucket = ''b'',
     s3_region = ''eu'', s3_endpoint = [], s3_path = ''/db/x.gz'', s3_force_path_style = True, s3_no_check_bucket = False \<rparr>"

definition example_rclone :: rclone_builder where
  "example_rclone = (rclone_new RcloneRcat)\<lparr>rc_destination := Some (RS3 example_s3)\<rparr>"

theorem rclone_command_words_witness:
  "fst (rclone_build (\<lambda>_. None) example_rclone) = [''rcat'', ''dest_s3:b/db/x.gz'']
   \<and> sh_lex (to_command_string rev (\<lambda>_. None) example_rclone) =
     Some (map (\<lambda>(k, v). Word (k @ ''='' @ v)) (rev (snd (rclone_build (\<lambda>_. None) example_rclone)))
       @ map Word (''rclone'' # fst (rclone_build (\<lambda>_. None) example_rclone)))"
proof
  show "fst (rclone_build (\<lambda>_. None) example_rclone) = [''rcat'', ''dest_s3:b/db/x.gz'']" by code_simp
  have "list_all plain_key (fst (rclone_build (\<lambda>_. None) example_rclone))" by code_simp
  then show "sh_lex (to_command_string rev (\<lambda>_. None) example_rclone) =
     Some (map (\<lambda>(k, v). Word (k @ ''='' @ v)) (rev (snd (rclone_build (\<lambda>_. None) example_rclone)))
       @ map Word (''rclone'' # fst (rclone_build (\<lambda>_. None) example_rclone)))"
    by (rule rclone_command_words [rotated]) simp
qed

end
