(* ===== verification/Docker.thy ===== *)
theory Docker
  imports Shell "HOL-Library.Word"
begin

text \<open>
  Running programs: the executors of \<open>crates/os/src/exec/{types,exec_local,exec_remote,error}.rs\<close>
  and the docker client \<open>crates/os/src/docker/client.rs\<close> with the builders the backups use.
  What a started process or an SSH session answers is a parameter, indexed by the number
  of commands started before; the commands themselves are recorded in a log.  Waiting
  times, streams and cancellation are not modelled.
\<close>

section \<open>Results\<close>

datatype exec_error =
    ExecIo string
  | IoCommand string string
  | CommandFailed "int option" string
  | ExecSsh string
  | StreamCancelled
  | ExecTimeout nat
  | ExecJson string
  | InvalidData string

definition show_code :: "int option \<Rightarrow> string" where
  "show_code c = (case c of None \<Rightarrow> ''None'' | Some n \<Rightarrow> ''Some('' @ int_to_dec n @ '')'')"

definition show_exec_error :: "exec_error \<Rightarrow> string" where
  "show_exec_error e = (case e of
       ExecIo m \<Rightarrow> ''failed to execute command: '' @ m
     | IoCommand program m \<Rightarrow> ''failed to execute command `'' @ program @ ''`: '' @ m
     | CommandFailed code m \<Rightarrow> ''command failed (exit code '' @ show_code code @ ''): '' @ m
     | ExecSsh m \<Rightarrow> ''remote SSH execution failed: '' @ m
     | StreamCancelled \<Rightarrow> ''command stream consumer disconnected''
     | ExecTimeout n \<Rightarrow> ''command timed out after '' @ nat_to_dec n @ '' seconds''
     | ExecJson m \<Rightarrow> ''command output parsing failed: '' @ m
     | InvalidData m \<Rightarrow> ''encountered unexpected or invalid data: '' @ m)"

datatype exec_exit_status = LocalStatus "int option" | RemoteStatus "32 word"

definition status_success :: "exec_exit_status \<Rightarrow> bool" where
  "status_success s = (case s of LocalStatus c \<Rightarrow> c = Some 0 | RemoteStatus c \<Rightarrow> c = 0)"

definition status_code :: "exec_exit_status \<Rightarrow> int option" where
  "status_code s = (case s of LocalStatus c \<Rightarrow> c | RemoteStatus c \<Rightarrow> Some (sint c))"

record exec_output =
  eo_status :: exec_exit_status
  eo_stdout :: string
  eo_stderr :: string

definition combined_output :: "exec_output \<Rightarrow> string" where
  "combined_output r = (let out = trim (eo_stdout r); err = trim (eo_stderr r) in
     if out = [] \<and> err = [] then []
     else if out = [] then err
     else if err = [] then out
     else out @ newline @ err)"

definition checked :: "exec_output \<Rightarrow> (exec_error, exec_output) result" where
  "checked r = (if \<not> status_success (eo_status r) then Err (CommandFailed (status_code (eo_status r)) (combined_output r)) else Ok r)"

section \<open>Executors\<close>

record remote_executor =
  rx_host :: string
  rx_port :: nat
  rx_username :: string
  rx_private_key :: string
  rx_public_key :: string
  rx_sudo_password :: "string option"
  rx_job_pid_file :: "string option"

datatype command_executor = LocalExecutor | RemoteExecutor remote_executor

text \<open>One entry of the log: who ran which program with which arguments.\<close>

type_synonym executed = "command_executor \<times> string \<times> string list"

record exec_env =
  xe_process :: "nat \<Rightarrow> string \<Rightarrow> string list \<Rightarrow> (exec_error, int option \<times> string \<times> string) result"
  xe_ssh :: "nat \<Rightarrow> remote_executor \<Rightarrow> string \<Rightarrow> (exec_error, 32 word \<times> string \<times> string) result"
  xe_job_id :: "nat \<Rightarrow> string"

definition remote_base_command :: "remote_executor \<Rightarrow> string \<Rightarrow> string list \<Rightarrow> string" where
  "remote_base_command rx program args =
     (let has_pwd = (case rx_sudo_password rx of None \<Rightarrow> False | Some p \<Rightarrow> p \<noteq> []) in
      remote_command program args (rx_sudo_password rx \<noteq> None) has_pwd)"

definition remote_full_command :: "remote_executor \<Rightarrow> string \<Rightarrow> string list \<Rightarrow> string option \<Rightarrow> string" where
  "remote_full_command rx program args cancel_job =
     (let base = remote_base_command rx program args in
      ''sh -c '' @ quote (case cancel_job of None \<Rightarrow> base | Some pid_file \<Rightarrow> cancellable_remote_command base pid_file))"

definition cancel_job_of :: "exec_env \<Rightarrow> nat \<Rightarrow> remote_executor \<Rightarrow> string" where
  "cancel_job_of env n rx = (case rx_job_pid_file rx of Some f \<Rightarrow> f
     | None \<Rightarrow> ''/tmp/openoxide-ssh-job-'' @ xe_job_id env n @ ''.pid'')"

definition executor_answer ::
  "exec_env \<Rightarrow> bool \<Rightarrow> nat \<Rightarrow> executed \<Rightarrow> (exec_error, exec_output) result" where
  "executor_answer env cancellable n call = (case call of (ex, program, args) \<Rightarrow> (case ex of
       LocalExecutor \<Rightarrow> (case xe_process env n program args of
         Inl e \<Rightarrow> Err e
       | Inr (code, out, err) \<Rightarrow> checked \<lparr> eo_status = LocalStatus code, eo_stdout = out, eo_stderr = err \<rparr>)
     | RemoteExecutor rx \<Rightarrow>
         (case xe_ssh env n rx (remote_full_command rx program args (if cancellable then Some (cancel_job_of env n rx) else None)) of
         Inl e \<Rightarrow> Err e
       | Inr (code, out, err) \<Rightarrow> checked \<lparr> eo_status = RemoteStatus code, eo_stdout = out, eo_stderr = err \<rparr>)))"

definition executor_run ::
  "exec_env \<Rightarrow> command_executor \<Rightarrow> string \<Rightarrow> string list \<Rightarrow> executed list \<Rightarrow> (exec_error, exec_output) result \<times> executed list" where
  "executor_run env ex program args log =
     (executor_answer env False (length log) (ex, program, args), log @ [(ex, program, args)])"

text \<open>The token given to this call is never cancelled by the code modelled here.\<close>

definition executor_run_cancelled ::
  "exec_env \<Rightarrow> command_executor \<Rightarrow> string \<Rightarrow> string list \<Rightarrow> executed list \<Rightarrow> (exec_error, exec_output) result \<times> executed list" where
  "executor_run_cancelled env ex program args log =
     (executor_answer env True (length log) (ex, program, args), log @ [(ex, program, args)])"

section \<open>The docker client\<close>

definition transient_needles :: "string list" where
  "transient_needles = [''cannot connect to the docker daemon'', ''docker daemon'', ''connection refused'', ''connection reset'',
     ''service unavailable'', ''temporarily unavailable'', ''context deadline exceeded'', ''command output parsing failed'',
     ''expected a sequence'', ''no such service'', ''not found'']"

definition is_transient_docker_error :: "string \<Rightarrow> bool" where
  "is_transient_docker_error message =
     list_ex (\<lambda>needle. contains_str (to_ascii_lowercase message) needle) transient_needles"

fun docker_attempts ::
  "exec_env \<Rightarrow> command_executor \<Rightarrow> nat \<Rightarrow> string list \<Rightarrow> executed list \<Rightarrow> (exec_error, exec_output) result \<times> executed list" where
  "docker_attempts env ex retries args log = (case executor_run env ex ''docker'' args log of
       (Inr out, log') \<Rightarrow> (Ok out, log')
     | (Inl e, log') \<Rightarrow>
         if is_transient_docker_error (show_exec_error e)
         then (case retries of 0 \<Rightarrow> (Err e, log') | Suc k \<Rightarrow> docker_attempts env ex k args log')
         else (Err e, log'))"

declare docker_attempts.simps [simp del]

record arg_builder =
  ab_args :: "string list"
  ab_retry_limit :: "nat option"

definition docker_execute ::
  "exec_env \<Rightarrow> command_executor \<Rightarrow> arg_builder \<Rightarrow> executed list \<Rightarrow> (exec_error, exec_output) result \<times> executed list" where
  "docker_execute env ex b log =
     docker_attempts env ex (case ab_retry_limit b of None \<Rightarrow> 0 | Some n \<Rightarrow> n) (ab_args b) log"

text \<open>The lines of a text: a newline ends a line, a carriage return before it is dropped.\<close>

fun str_lines :: "string \<Rightarrow> string \<Rightarrow> string list" where
  "str_lines acc [] = (if acc = [] then [] else [rev acc])"
| "str_lines acc (c # cs) =
     (if c = CHR 0x0A then (case acc of [] \<Rightarrow> [] | d # ds \<Rightarrow> if d = CHR 0x0D then rev ds else rev acc) # str_lines [] cs
      else str_lines (c # acc) cs)"

text \<open>The decoding of one row and of a list of rows by serde are the first two arguments.\<close>

definition json_lines :: "(string \<Rightarrow> 'r option) \<Rightarrow> (string \<Rightarrow> 'r list option) \<Rightarrow> string \<Rightarrow> 'r list" where
  "json_lines row rows stdout = (let t = trim stdout in
     if t = [] then []
     else (case (if starts_with t ''['' then rows t else None) of
         Some rs \<Rightarrow> rs
       | None \<Rightarrow> (case (if starts_with t ''{'' then row t else None) of
           Some r \<Rightarrow> [r]
         | None \<Rightarrow> List.map_filter row (filter (\<lambda>l. trim l \<noteq> []) (str_lines [] t)))))"

definition execute_json_lines ::
  "exec_env \<Rightarrow> (string \<Rightarrow> 'r option) \<Rightarrow> (string \<Rightarrow> 'r list option) \<Rightarrow> command_executor \<Rightarrow> arg_builder \<Rightarrow> executed list
   \<Rightarrow> (exec_error, 'r list) result \<times> executed list" where
  "execute_json_lines env row rows ex b log = (case docker_execute env ex b log of
       (Inl e, log') \<Rightarrow> (Err e, log')
     | (Inr out, log') \<Rightarrow> (Ok (json_lines row rows (eo_stdout out)), log'))"

section \<open>Command builders\<close>

definition arg_cmd :: "string list \<Rightarrow> arg_builder" where
  "arg_cmd subcmd = \<lparr> ab_args = subcmd, ab_retry_limit = None \<rparr>"

definition arg_push :: "string \<Rightarrow> arg_builder \<Rightarrow> arg_builder" where
  "arg_push v b = b\<lparr>ab_args := ab_args b @ [v]\<rparr>"

definition arg_pair :: "string \<Rightarrow> string \<Rightarrow> arg_builder \<Rightarrow> arg_builder" where
  "arg_pair k v b = arg_push v (arg_push k b)"

datatype container_filter = StatusRunning | FilterLabel string string

definition show_container_filter :: "container_filter \<Rightarrow> string" where
  "show_container_filter f = (case f of StatusRunning \<Rightarrow> ''status=running'' | FilterLabel k v \<Rightarrow> ''label='' @ k @ ''='' @ v)"

definition container_query :: "container_filter list \<Rightarrow> arg_builder" where
  "container_query fs = fold (\<lambda>f. arg_pair ''--filter'' (show_container_filter f)) fs
     (arg_cmd [''container'', ''ls'', ''--format'', ''{{json .}}''])"

definition service_list :: "string \<Rightarrow> arg_builder" where
  "service_list name = arg_pair ''--format'' ''{{json .}}''
     (arg_pair ''--filter'' (''name='' @ name) (arg_cmd [''service'', ''ls'']))"

definition service_scale :: "string \<Rightarrow> nat \<Rightarrow> arg_builder" where
  "service_scale name replicas = arg_push (name @ ''='' @ nat_to_dec replicas) (arg_cmd [''service'', ''scale''])"

definition container_stop :: "string \<Rightarrow> arg_builder" where
  "container_stop i = arg_push i (arg_cmd [''container'', ''stop''])"

definition container_start :: "string \<Rightarrow> arg_builder" where
  "container_start i = arg_push i (arg_cmd [''container'', ''start''])"

text \<open>An interactive \<open>container exec\<close> of a command.\<close>

definition container_exec_interactive :: "string \<Rightarrow> string list \<Rightarrow> arg_builder" where
  "container_exec_interactive i cmd = fold arg_push cmd (arg_push i (arg_push ''-i'' (arg_cmd [''container'', ''exec''])))"

lemmas arg_builder_defs = arg_cmd_def arg_push_def arg_pair_def service_list_def service_scale_def container_stop_def
  container_start_def

section \<open>Facts\<close>

lemma executor_run_log [simp]: "snd (executor_run env ex p as log) = log @ [(ex, p, as)]"
  by (simp add: executor_run_def)

lemma docker_execute_once:
  "ab_retry_limit b = None \<Longrightarrow> docker_execute env ex b log = executor_run env ex ''docker'' (ab_args b) log"
  by (cases "executor_run env ex ''docker'' (ab_args b) log")
    (auto simp: docker_execute_def docker_attempts.simps [of env ex 0] split: sum.splits)

text \<open>The answers of the attempts number \<open>n\<close> to \<open>n + k\<close> and whether the loop goes on after one.\<close>

definition attempt_answer :: "exec_env \<Rightarrow> command_executor \<Rightarrow> string list \<Rightarrow> nat \<Rightarrow> (exec_error, exec_output) result" where
  "attempt_answer env ex args n = executor_answer env False n (ex, ''docker'', args)"

definition retryable :: "(exec_error, exec_output) result \<Rightarrow> bool" where
  "retryable r = (case r of Inl e \<Rightarrow> is_transient_docker_error (show_exec_error e) | Inr _ \<Rightarrow> False)"

lemma docker_attempts_trace:
  "\<exists>k \<le> retries. docker_attempts env ex retries args log =
       (attempt_answer env ex args (length log + k), log @ replicate (Suc k) (ex, ''docker'', args))
     \<and> (\<forall>j<k. retryable (attempt_answer env ex args (length log + j)))
     \<and> (k < retries \<longrightarrow> \<not> retryable (attempt_answer env ex args (length log + k)))"
proof (induction retries arbitrary: log)
  case 0
  show ?case
    by (auto simp: docker_attempts.simps [of env ex 0] attempt_answer_def executor_run_def split: sum.splits)
next
  case (Suc n)
  let ?a = "attempt_answer env ex args" and ?log = "log @ [(ex, ''docker'', args)]"
  show ?case
  proof (cases "retryable (?a (length log))")
    case False
    then have "docker_attempts env ex (Suc n) args log = (?a (length log), ?log)"
      by (auto simp: docker_attempts.simps [of env ex "Suc n"] attempt_answer_def executor_run_def retryable_def split: sum.splits)
    then show ?thesis using False by (intro exI [of _ 0]) simp
  next
    case True
    then have step: "docker_attempts env ex (Suc n) args log = docker_attempts env ex n args ?log"
      by (auto simp: docker_attempts.simps [of env ex "Suc n"] attempt_answer_def executor_run_def retryable_def split: sum.splits)
    from Suc.IH [of ?log] obtain k where k: "k \<le> n"
      "docker_attempts env ex n args ?log = (?a (length ?log + k), ?log @ replicate (Suc k) (ex, ''docker'', args))"
      "\<forall>j<k. retryable (?a (length ?log + j))" "k < n \<longrightarrow> \<not> retryable (?a (length ?log + k))" by blast
    have "retryable (?a (length log + j))" if "j < Suc k" for j
      using that True k(3) by (cases j) auto
    then show ?thesis using k step by (intro exI [of _ "Suc k"]) (simp add: replicate_append_same)
  qed
qed

end
