(* ===== verification/Backup.thy ===== *)
theory Backup
  imports Docker Rclone DeploymentService
begin

text \<open>
  Backups: the destinations, database dumpers and runners of \<open>src/src/utils/backup/\<close>, the
  execution history \<open>src/src/db/repository/backup_executions.rs\<close>, and the operations of
  \<open>src/src/services/schedule/schedule.rs\<close> that run and restore a database or volume backup.
  Other tasks may change the database at every await.  The time stamp in an object key, the
  JSON of a metadata column and of docker's output, and rclone's obscured passwords are parameters.
\<close>

section \<open>Destinations\<close>

datatype destination_provider = DpS3 | DpAws | DpR2 | DpCloudflareR2 | DpBackblaze | DpB2 | DpGcs | DpGcp | DpGoogle
  | DpDoSpaces | DpDigitalOcean | DpSpaces

definition destination_provider_as_str :: "destination_provider \<Rightarrow> string" where
  "destination_provider_as_str v = (case v of DpS3 \<Rightarrow> ''S3'' | DpAws \<Rightarrow> ''AWS'' | DpR2 \<Rightarrow> ''R2'' | DpCloudflareR2 \<Rightarrow> ''CLOUDFLARE_R2''
     | DpBackblaze \<Rightarrow> ''BACKBLAZE'' | DpB2 \<Rightarrow> ''B2'' | DpGcs \<Rightarrow> ''GCS'' | DpGcp \<Rightarrow> ''GCP'' | DpGoogle \<Rightarrow> ''GOOGLE''
     | DpDoSpaces \<Rightarrow> ''DO_SPACES'' | DpDigitalOcean \<Rightarrow> ''DIGITALOCEAN'' | DpSpaces \<Rightarrow> ''SPACES'')"

definition destination_provider_from :: "string \<Rightarrow> destination_provider" where
  "destination_provider_from s = enum_from destination_provider_as_str
     [DpS3, DpAws, DpR2, DpCloudflareR2, DpBackblaze, DpB2, DpGcs, DpGcp, DpGoogle, DpDoSpaces, DpDigitalOcean, DpSpaces] DpS3 s"

record s3_destination =
  sd_access_key :: string
  sd_secret_key :: string
  sd_bucket :: string
  sd_region :: string
  sd_endpoint :: string
  sd_provider :: "string option"

definition rclone_provider :: "destination_provider \<Rightarrow> string \<Rightarrow> string" where
  "rclone_provider p endpoint =
     (if (p = DpS3 \<or> p = DpAws) \<and> trim endpoint = [] then ''AWS''
      else case p of DpR2 \<Rightarrow> ''Cloudflare'' | DpCloudflareR2 \<Rightarrow> ''Cloudflare''
      | DpDoSpaces \<Rightarrow> ''DigitalOcean'' | DpDigitalOcean \<Rightarrow> ''DigitalOcean'' | DpSpaces \<Rightarrow> ''DigitalOcean''
      | _ \<Rightarrow> ''Other'')"

definition to_rclone_target :: "s3_destination \<Rightarrow> string \<Rightarrow> rclone_target" where
  "to_rclone_target d path = RS3 \<lparr>
     s3_provider = rclone_provider (destination_provider_from (case sd_provider d of None \<Rightarrow> [] | Some p \<Rightarrow> p)) (sd_endpoint d),
     s3_access_key_id = sd_access_key d, s3_secret_access_key = sd_secret_key d, s3_bucket = sd_bucket d,
     s3_region = sd_region d, s3_endpoint = sd_endpoint d, s3_path = path,
     s3_force_path_style = True, s3_no_check_bucket = True \<rparr>"

section \<open>Database dumpers\<close>

record db_credentials =
  cr_user :: string
  cr_password :: string
  cr_database :: string

datatype database_dumper =
    DumpPostgres db_credentials string
  | DumpMysql db_credentials string
  | DumpMariaDb db_credentials string
  | DumpMongo db_credentials string
  | DumpLibSql string string
  | DumpRedis string

definition sq :: "string \<Rightarrow> string" where
  "sq s = CHR 0x27 # s @ [CHR 0x27]"

definition inner_dump_command :: "database_dumper \<Rightarrow> string" where
  "inner_dump_command d = (case d of
       DumpPostgres c _ \<Rightarrow> ''set -o pipefail; pg_dump -Fc --no-acl --no-owner -h localhost -U '' @ sq (cr_user c)
         @ '' --no-password '' @ sq (cr_database c) @ '' | gzip''
     | DumpMysql c _ \<Rightarrow> ''set -o pipefail; mysqldump --default-character-set=utf8mb4 -u '' @ sq ''root'' @ '' --password='' @ sq (cr_password c)
         @ '' --single-transaction --no-tablespaces --quick '' @ sq (cr_database c) @ '' | gzip''
     | DumpMariaDb c _ \<Rightarrow> ''set -o pipefail; mariadb-dump --user='' @ sq (cr_user c) @ '' --password='' @ sq (cr_password c)
         @ '' --single-transaction --quick --databases '' @ cr_database c @ '' | gzip''
     | DumpMongo c _ \<Rightarrow> ''set -o pipefail; mongodump -d '' @ sq (cr_database c) @ '' -u '' @ sq (cr_user c) @ '' -p '' @ sq (cr_password c)
         @ '' --archive --authenticationDatabase admin --gzip''
     | DumpLibSql database _ \<Rightarrow> ''tar cf - -C /var/lib/sqld '' @ database @ '' | gzip''
     | DumpRedis _ \<Rightarrow> ''redis-cli BGSAVE && sleep 1 && cat /data/dump.rdb | gzip'')"

definition inner_restore_command :: "database_dumper \<Rightarrow> string" where
  "inner_restore_command d = (case d of
       DumpPostgres c _ \<Rightarrow> ''set -o pipefail; gunzip | pg_restore -U '' @ sq (cr_user c) @ '' -d '' @ sq (cr_database c)
         @ '' -O --clean --if-exists''
     | DumpMysql c _ \<Rightarrow> ''set -o pipefail; gunzip | mysql -u '' @ sq ''root'' @ '' --password='' @ sq (cr_password c) @ '' '' @ sq (cr_database c)
     | DumpMariaDb c _ \<Rightarrow> ''set -o pipefail; gunzip | mariadb -u '' @ sq (cr_user c) @ '' --password='' @ sq (cr_password c)
         @ '' '' @ sq (cr_database c)
     | DumpMongo c _ \<Rightarrow> ''set -o pipefail; mongorestore --username '' @ sq (cr_user c) @ '' --password '' @ sq (cr_password c)
         @ '' --authenticationDatabase admin --db '' @ sq (cr_database c) @ '' --archive --gzip --drop''
     | DumpLibSql _ _ \<Rightarrow> ''set -o pipefail; gunzip | tar xf - -C /var/lib/sqld''
     | DumpRedis _ \<Rightarrow> ''gunzip > /data/dump.rdb'')"

definition dumper_service_name :: "database_dumper \<Rightarrow> string" where
  "dumper_service_name d = (case d of DumpPostgres _ t \<Rightarrow> t | DumpMysql _ t \<Rightarrow> t | DumpMariaDb _ t \<Rightarrow> t | DumpMongo _ t \<Rightarrow> t
     | DumpLibSql _ t \<Rightarrow> t | DumpRedis t \<Rightarrow> t)"

definition file_extension :: "database_dumper \<Rightarrow> string" where
  "file_extension d = (case d of DumpPostgres _ _ \<Rightarrow> ''dump.gz'' | DumpMysql _ _ \<Rightarrow> ''sql.gz'' | DumpMariaDb _ _ \<Rightarrow> ''sql.gz''
     | DumpMongo _ _ \<Rightarrow> ''archive.gz'' | DumpLibSql _ _ \<Rightarrow> ''tar.gz'' | DumpRedis _ \<Rightarrow> ''rdb.gz'')"

definition connection_check_command :: "database_dumper \<Rightarrow> string" where
  "connection_check_command d = (case d of
       DumpPostgres c _ \<Rightarrow> ''pg_isready -h localhost -U '' @ sq (cr_user c) @ '' -d '' @ sq (cr_database c)
     | DumpMysql c _ \<Rightarrow> ''mysqladmin -u root --password='' @ sq (cr_password c) @ '' ping''
     | DumpMariaDb c _ \<Rightarrow> ''mariadb-admin --user='' @ sq (cr_user c) @ '' --password='' @ sq (cr_password c) @ '' ping''
     | DumpMongo c _ \<Rightarrow> ''mongosh --quiet -u '' @ sq (cr_user c) @ '' -p '' @ sq (cr_password c) @ '' --eval ''
         @ sq ''db.runCommand({ping:1}).ok'' @ '' --authenticationDatabase admin''
     | DumpLibSql _ _ \<Rightarrow> ''test -d /var/lib/sqld''
     | DumpRedis _ \<Rightarrow> ''redis-cli PING'')"

section \<open>The database runner\<close>

text \<open>
  The outside world of a backup: the answers of programs, the decoding of docker's rows
  (the id of a container, the replicas of a service), the iteration order of a map.
\<close>

record runner_env =
  re_exec :: exec_env
  re_container :: "string \<Rightarrow> string option"
  re_containers :: "string \<Rightarrow> string list option"
  re_replicas :: "string \<Rightarrow> string option"
  re_service_rows :: "string \<Rightarrow> string list option"
  re_iterate :: "envs \<Rightarrow> envs"
  re_obscure :: "string \<Rightarrow> string option"

definition docker_to_exec_error :: "exec_error \<Rightarrow> exec_error" where
  "docker_to_exec_error e = CommandFailed None (show_exec_error e)"

definition docker_call ::
  "runner_env \<Rightarrow> command_executor \<Rightarrow> arg_builder \<Rightarrow> executed list \<Rightarrow> (exec_error, exec_output) result \<times> executed list" where
  "docker_call env ex b log = (case docker_execute (re_exec env) ex b log of
       (Inl e, log) \<Rightarrow> (Err (docker_to_exec_error e), log) | (Inr out, log) \<Rightarrow> (Ok out, log))"

definition list_containers ::
  "runner_env \<Rightarrow> command_executor \<Rightarrow> container_filter list \<Rightarrow> executed list \<Rightarrow> (exec_error, string list) result \<times> executed list" where
  "list_containers env ex fs log =
     (case execute_json_lines (re_exec env) (re_container env) (re_containers env) ex (container_query fs) log of
       (Inl e, log) \<Rightarrow> (Err (docker_to_exec_error e), log) | (Inr ids, log) \<Rightarrow> (Ok ids, log))"

definition resolve_container_id ::
  "runner_env \<Rightarrow> command_executor \<Rightarrow> database_dumper \<Rightarrow> executed list \<Rightarrow> (exec_error, string) result \<times> executed list" where
  "resolve_container_id env ex d log =
     seq_ok (list_containers env ex [StatusRunning, FilterLabel ''com.docker.swarm.service.name'' (dumper_service_name d)] log) (\<lambda>ids log.
       case ids of [] \<Rightarrow> (Err (CommandFailed (Some 1) (''no running container found for service '' @ sq (dumper_service_name d))), log)
       | i # _ \<Rightarrow> (Ok i, log))"

definition verify_connection ::
  "runner_env \<Rightarrow> command_executor \<Rightarrow> database_dumper \<Rightarrow> string \<Rightarrow> executed list \<Rightarrow> (exec_error, unit) result \<times> executed list" where
  "verify_connection env ex d container log =
     seq_ok (docker_call env ex (container_exec_interactive container [''sh'', ''-c'', connection_check_command d]) log) (\<lambda>out log.
       if \<not> status_success (eo_status out)
       then (Err (CommandFailed (status_code (eo_status out)) (''connection check failed: '' @ eo_stderr out)), log)
       else (Ok (), log))"

definition dump_pipeline :: "string \<Rightarrow> string \<Rightarrow> string \<Rightarrow> string" where
  "dump_pipeline container inner rclone =
     ''set -eo pipefail; docker exec -i '' @ container @ '' sh -c '' @ shell_single_quote inner @ '' | '' @ rclone"

definition restore_pipeline :: "string \<Rightarrow> string \<Rightarrow> string \<Rightarrow> string" where
  "restore_pipeline container inner rclone =
     ''set -eo pipefail; '' @ rclone @ '' | docker exec -i '' @ container @ '' sh -c '' @ shell_single_quote inner"

definition upload_builder :: "s3_destination \<Rightarrow> string \<Rightarrow> rclone_builder" where
  "upload_builder dest key = (rclone_new RcloneRcat)\<lparr>rc_destination := Some (to_rclone_target dest key)\<rparr>"

definition upload_command :: "runner_env \<Rightarrow> s3_destination \<Rightarrow> string \<Rightarrow> string" where
  "upload_command env dest key = to_command_string (re_iterate env) (re_obscure env) (upload_builder dest key)"

definition download_builder :: "s3_destination \<Rightarrow> string \<Rightarrow> rclone_builder" where
  "download_builder dest key = (rclone_new RcloneCat)\<lparr>rc_source := Some (to_rclone_target dest key)\<rparr>"

definition download_command :: "runner_env \<Rightarrow> s3_destination \<Rightarrow> string \<Rightarrow> string" where
  "download_command env dest key = to_command_string (re_iterate env) (re_obscure env) (download_builder dest key)"

definition runner_run ::
  "runner_env \<Rightarrow> command_executor \<Rightarrow> database_dumper \<Rightarrow> s3_destination \<Rightarrow> string \<Rightarrow> executed list
   \<Rightarrow> (exec_error, exec_output) result \<times> executed list" where
  "runner_run env ex d dest key log =
     seq_ok (resolve_container_id env ex d log) (\<lambda>container log.
     seq_ok (verify_connection env ex d container log) (\<lambda>_ log.
     executor_run_cancelled (re_exec env) ex ''sh''
       [''-c'', dump_pipeline container (inner_dump_command d) (upload_command env dest key)] log))"

definition runner_run_restore ::
  "runner_env \<Rightarrow> command_executor \<Rightarrow> database_dumper \<Rightarrow> s3_destination \<Rightarrow> string \<Rightarrow> executed list
   \<Rightarrow> (exec_error, exec_output) result \<times> executed list" where
  "runner_run_restore env ex d dest key log =
     seq_ok (resolve_container_id env ex d log) (\<lambda>container log.
     seq_ok (verify_connection env ex d container log) (\<lambda>_ log.
     executor_run_cancelled (re_exec env) ex ''sh''
       [''-c'', restore_pipeline container (inner_restore_command d) (download_command env dest key)] log))"

section \<open>The volume runner\<close>

datatype volume_service_target = SwarmService string | ComposeService string string | Standalone

record volume_backup =
  vb_volume_name :: string
  vb_service :: volume_service_target
  vb_turn_off :: bool

abbreviation u32_max :: nat where "u32_max \<equiv> 4294967295"

definition swarm_stop ::
  "runner_env \<Rightarrow> command_executor \<Rightarrow> string \<Rightarrow> executed list \<Rightarrow> (exec_error, nat) result \<times> executed list" where
  "swarm_stop env ex service log =
     (case execute_json_lines (re_exec env) (re_replicas env) (re_service_rows env) ex (service_list service) log of
       (Inl e, log) \<Rightarrow> (Err (docker_to_exec_error e), log)
     | (Inr rows, log) \<Rightarrow>
         (case (case rows of [] \<Rightarrow> None | r # _ \<Rightarrow> parse_unsigned u32_max r) of
           None \<Rightarrow> (Err (CommandFailed (Some 1) (''service '' @ sq service @ '' not found or has no replicas'')), log)
         | Some replicas \<Rightarrow> seq_ok (docker_call env ex (service_scale service 0) log) (\<lambda>_ log. (Ok replicas, log))))"

definition swarm_start ::
  "runner_env \<Rightarrow> command_executor \<Rightarrow> string \<Rightarrow> nat \<Rightarrow> executed list \<Rightarrow> (exec_error, unit) result \<times> executed list" where
  "swarm_start env ex service replicas log = seq_ok (docker_call env ex (service_scale service replicas) log) (\<lambda>_ log. (Ok (), log))"

definition compose_stop ::
  "runner_env \<Rightarrow> command_executor \<Rightarrow> string \<Rightarrow> string \<Rightarrow> executed list \<Rightarrow> (exec_error, string) result \<times> executed list" where
  "compose_stop env ex project service log =
     seq_ok (list_containers env ex [StatusRunning, FilterLabel ''com.docker.compose.project'' project,
         FilterLabel ''com.docker.compose.service'' service] log) (\<lambda>ids log.
       case ids of
         [] \<Rightarrow> (Err (CommandFailed (Some 1) (''no running container for compose project='' @ project @ '' service='' @ service)), log)
       | i # _ \<Rightarrow> seq_ok (docker_call env ex (container_stop i) log) (\<lambda>_ log. (Ok i, log)))"

definition compose_start ::
  "runner_env \<Rightarrow> command_executor \<Rightarrow> string \<Rightarrow> executed list \<Rightarrow> (exec_error, unit) result \<times> executed list" where
  "compose_start env ex container log = seq_ok (docker_call env ex (container_start container) log) (\<lambda>_ log. (Ok (), log))"

definition stream_to_s3 ::
  "runner_env \<Rightarrow> command_executor \<Rightarrow> volume_backup \<Rightarrow> s3_destination \<Rightarrow> string \<Rightarrow> executed list
   \<Rightarrow> (exec_error, exec_output) result \<times> executed list" where
  "stream_to_s3 env ex b dest key log = executor_run_cancelled (re_exec env) ex ''sh''
     [''-c'', ''set -eo pipefail; docker run --rm -v '' @ vb_volume_name b
        @ '':/volume_data ubuntu tar cf - -C /volume_data . | '' @ upload_command env dest key] log"

definition stream_from_s3 ::
  "runner_env \<Rightarrow> command_executor \<Rightarrow> volume_backup \<Rightarrow> s3_destination \<Rightarrow> string \<Rightarrow> executed list
   \<Rightarrow> (exec_error, exec_output) result \<times> executed list" where
  "stream_from_s3 env ex b dest key log = executor_run_cancelled (re_exec env) ex ''sh''
     [''-c'', ''set -eo pipefail; '' @ download_command env dest key @ '' | docker run -i --rm -v '' @ vb_volume_name b
        @ '':/volume_data ubuntu tar xf - -C /volume_data''] log"

text \<open>Both directions stop the service where asked, stream, and start it again whatever the stream answered.\<close>

definition around_stream ::
  "runner_env \<Rightarrow> command_executor \<Rightarrow> volume_backup
   \<Rightarrow> (executed list \<Rightarrow> (exec_error, exec_output) result \<times> executed list) \<Rightarrow> executed list
   \<Rightarrow> (exec_error, exec_output) result \<times> executed list" where
  "around_stream env ex b stream log = (case (vb_service b, vb_turn_off b) of
       (SwarmService service, True) \<Rightarrow> seq_ok (swarm_stop env ex service log) (\<lambda>replicas log.
         case stream log of (out, log) \<Rightarrow> (out, snd (swarm_start env ex service replicas log)))
     | (ComposeService project service, True) \<Rightarrow> seq_ok (compose_stop env ex project service log) (\<lambda>i log.
         case stream log of (out, log) \<Rightarrow> (out, snd (compose_start env ex i log)))
     | _ \<Rightarrow> stream log)"

definition volume_run ::
  "runner_env \<Rightarrow> command_executor \<Rightarrow> volume_backup \<Rightarrow> s3_destination \<Rightarrow> string \<Rightarrow> executed list
   \<Rightarrow> (exec_error, exec_output) result \<times> executed list" where
  "volume_run env ex b dest key log = around_stream env ex b (stream_to_s3 env ex b dest key) log"

definition volume_run_restore ::
  "runner_env \<Rightarrow> command_executor \<Rightarrow> volume_backup \<Rightarrow> s3_destination \<Rightarrow> string \<Rightarrow> executed list
   \<Rightarrow> (exec_error, exec_output) result \<times> executed list" where
  "volume_run_restore env ex b dest key log = around_stream env ex b (stream_from_s3 env ex b dest key) log"

end
