(* ===== verification/BackupService.thy ===== *)
theory BackupService
  imports Backup
begin

text \<open>
  The tables of the backups, the execution history
  \<open>src/src/db/repository/backup_executions.rs\<close>, and the operations of
  \<open>src/src/services/schedule/schedule.rs\<close> that run and restore backups.
\<close>

section \<open>Tables\<close>

record backup_row =
  bk_id :: int
  bk_app_name :: string
  bk_schedule :: string
  bk_enabled :: int
  bk_database_name :: string
  bk_prefix :: string
  bk_service_name :: "string option"
  bk_keep_latest_count :: "int option"
  bk_database_type :: string
  bk_metadata :: "string option"
  bk_compose_id :: "int option"
  bk_postgres_id :: "int option"
  bk_mysql_id :: "int option"
  bk_mariadb_id :: "int option"
  bk_mongo_id :: "int option"
  bk_redis_id :: "int option"
  bk_libsql_id :: "int option"
  bk_destination_id :: int

record volume_backup_row =
  vr_id :: int
  vr_name :: string
  vr_volume_name :: string
  vr_prefix :: string
  vr_service_type :: string
  vr_app_name :: string
  vr_service_name :: "string option"
  vr_turn_off :: int
  vr_cron_expression :: string
  vr_keep_latest_count :: "int option"
  vr_enabled :: int
  vr_destination_id :: int
  vr_application_id :: "int option"
  vr_postgres_id :: "int option"
  vr_mysql_id :: "int option"
  vr_mariadb_id :: "int option"
  vr_mongo_id :: "int option"
  vr_redis_id :: "int option"
  vr_libsql_id :: "int option"
  vr_compose_id :: "int option"

record destination_row =
  ds_id :: int
  ds_provider :: string
  ds_access_key :: string
  ds_secret_access_key :: string
  ds_bucket :: string
  ds_region :: string
  ds_endpoint :: string

text \<open>A server joined with its key and its private network, as \<open>get_ssh_credentials\<close> selects it.\<close>

record ssh_server_row =
  sv_id :: int
  sv_public_ip :: string
  sv_private_ip :: "string option"
  sv_private_status :: "string option"
  sv_connection_mode :: "string option"
  sv_port :: int
  sv_username :: string
  sv_private_key :: string
  sv_public_key :: string

record backup_execution =
  be_id :: int
  be_kind :: string
  be_operation :: string
  be_backup_id :: "int option"
  be_status :: string
  be_object_key :: "string option"
  be_checksum_sha256 :: "string option"
  be_size_bytes :: "int option"
  be_attempt :: int
  be_error :: "string option"
  be_started_at :: int
  be_finished_at :: "int option"

record backup_db =
  bd_panel :: panel_db
  bd_credentials :: "database_kind \<Rightarrow> int \<Rightarrow> db_credentials"
  bd_servers :: "ssh_server_row list"
  bd_destinations :: "destination_row list"
  bd_backups :: "backup_row list"
  bd_volume_backups :: "volume_backup_row list"
  bd_executions :: "backup_execution list"
  bd_executions_seq :: int

definition backup_by_id :: "int \<Rightarrow> backup_db \<Rightarrow> backup_row option" where
  "backup_by_id i db = find (\<lambda>b. bk_id b = i) (bd_backups db)"

definition volume_backup_by_id :: "int \<Rightarrow> backup_db \<Rightarrow> volume_backup_row option" where
  "volume_backup_by_id i db = find (\<lambda>b. vr_id b = i) (bd_volume_backups db)"

definition destination_by_id :: "int \<Rightarrow> backup_db \<Rightarrow> destination_row option" where
  "destination_by_id i db = find (\<lambda>d. ds_id d = i) (bd_destinations db)"

text \<open>
  The columns of a managed database a backup reads: the application name and the user,
  password and database name.
\<close>

definition get_details :: "database_kind \<Rightarrow> int \<Rightarrow> backup_db \<Rightarrow> (string \<times> db_credentials) sqlx" where
  "get_details k i db =
     fetch_one (map_option (\<lambda>d. (res_app_name d, bd_credentials db k i)) (find_resource i (databases (bd_panel db) k)))"

section \<open>Executions\<close>

datatype backup_operation = OpBackup | OpRestore

definition backup_operation_as_str :: "backup_operation \<Rightarrow> string" where
  "backup_operation_as_str v = (case v of OpBackup \<Rightarrow> ''BACKUP'' | OpRestore \<Rightarrow> ''RESTORE'')"

definition same_job :: "string \<Rightarrow> string \<Rightarrow> int option \<Rightarrow> backup_execution \<Rightarrow> bool" where
  "same_job kind op i e = (be_kind e = kind \<and> be_operation e = op \<and> be_backup_id e = i)"

definition next_attempt :: "string \<Rightarrow> string \<Rightarrow> int option \<Rightarrow> backup_execution list \<Rightarrow> int" where
  "next_attempt kind op i rows =
     (case map be_attempt (filter (same_job kind op i) rows) of [] \<Rightarrow> 0 | a # as \<Rightarrow> fold max as a) + 1"

definition execution_start ::
  "int \<Rightarrow> backup_kind \<Rightarrow> backup_operation \<Rightarrow> int option \<Rightarrow> string option \<Rightarrow> backup_db \<Rightarrow> int sqlx \<times> backup_db" where
  "execution_start now kind op i key db =
     (let n = bd_executions_seq db + 1;
          row = \<lparr> be_id = n, be_kind = backup_kind_as_str kind, be_operation = backup_operation_as_str op, be_backup_id = i,
                  be_status = ''RUNNING'', be_object_key = key, be_checksum_sha256 = None, be_size_bytes = None,
                  be_attempt = next_attempt (backup_kind_as_str kind) (backup_operation_as_str op) i (bd_executions db),
                  be_error = None, be_started_at = now, be_finished_at = None \<rparr>
      in (Ok n, db\<lparr>bd_executions := bd_executions db @ [row], bd_executions_seq := n\<rparr>))"

definition execution_succeed ::
  "int \<Rightarrow> int \<Rightarrow> string option \<Rightarrow> int option \<Rightarrow> backup_db \<Rightarrow> unit sqlx \<times> backup_db" where
  "execution_succeed now n checksum size_bytes db =
     (Ok (), db\<lparr>bd_executions := update_where (\<lambda>e. be_id e = n)
        (\<lambda>e. e\<lparr>be_status := ''SUCCEEDED'', be_checksum_sha256 := checksum, be_size_bytes := size_bytes, be_finished_at := Some now\<rparr>)
        (bd_executions db)\<rparr>)"

definition execution_fail :: "int \<Rightarrow> int \<Rightarrow> string \<Rightarrow> backup_db \<Rightarrow> unit sqlx \<times> backup_db" where
  "execution_fail now n error db =
     (Ok (), db\<lparr>bd_executions := update_where (\<lambda>e. be_id e = n)
        (\<lambda>e. e\<lparr>be_status := ''FAILED'', be_error := Some error, be_finished_at := Some now\<rparr>) (bd_executions db)\<rparr>)"

definition backup_execution_list :: "string option \<Rightarrow> int option \<Rightarrow> int \<Rightarrow> backup_db \<Rightarrow> backup_execution list" where
  "backup_execution_list kind i limit db =
     sql_limit limit 0 (order_by_desc (\<lambda>e. (be_started_at e, be_id e))
       (filter (\<lambda>e. null_or_eq kind (Some (be_kind e)) \<and> null_or_eq i (be_backup_id e)) (bd_executions db)))"

definition backup_execution_get :: "int \<Rightarrow> backup_db \<Rightarrow> backup_execution option" where
  "backup_execution_get n db = find (\<lambda>e. be_id e = n) (bd_executions db)"

section \<open>Remote executors\<close>

definition get_ssh_credentials :: "int \<Rightarrow> backup_db \<Rightarrow> (string \<times> int \<times> string \<times> string \<times> string) option" where
  "get_ssh_credentials i db = (case find (\<lambda>s. sv_id s = i) (bd_servers db) of None \<Rightarrow> None
     | Some s \<Rightarrow>
        (let host = (case sv_private_ip s of None \<Rightarrow> sv_public_ip s
           | Some p \<Rightarrow> if trim p \<noteq> [] \<and> eq_ignore_ascii_case (case sv_connection_mode s of None \<Rightarrow> [] | Some m \<Rightarrow> m) ''MANAGED_WIREGUARD''
                 \<and> eq_ignore_ascii_case (case sv_private_status s of None \<Rightarrow> [] | Some m \<Rightarrow> m) ''ACTIVE''
               then trim p else sv_public_ip s)
         in Some (host, sv_port s, sv_username s, sv_private_key s, sv_public_key s)))"

definition remote_executor_for :: "int \<Rightarrow> backup_db \<Rightarrow> (string, remote_executor) result" where
  "remote_executor_for i db = (case get_ssh_credentials i db of
       None \<Rightarrow> Err ''Server not found''
     | Some (host, port, username, private_key, public_key) \<Rightarrow>
         if port < 0 \<or> 65535 < port then Err ''SSH port must be between 0 and 65535''
         else Ok \<lparr> rx_host = host, rx_port = nat port, rx_username = username, rx_private_key = private_key,
                   rx_public_key = public_key, rx_sudo_password = (if username \<noteq> ''root'' then Some [] else None),
                   rx_job_pid_file = None \<rparr>)"

section \<open>The world of a backup\<close>

record backup_env =
  en_runner :: runner_env
  en_stamp :: "int \<Rightarrow> string"
  en_metadata :: "string \<Rightarrow> (string \<Rightarrow> string option) option"
  en_elapsed :: "nat \<Rightarrow> nat"
  en_others :: "nat \<Rightarrow> backup_db \<Rightarrow> backup_db"

record backup_world =
  bw_db :: backup_db
  bw_clock :: int
  bw_awaits :: nat
  bw_log :: "executed list"

definition on_backup_db ::
  "backup_env \<Rightarrow> (int \<Rightarrow> backup_db \<Rightarrow> 'a \<times> backup_db) \<Rightarrow> backup_world \<Rightarrow> 'a \<times> backup_world" where
  "on_backup_db env f w =
     (let now = bw_clock w + int (en_elapsed env (bw_awaits w)) in
      case f now (en_others env (bw_awaits w) (bw_db w)) of
        (r, d) \<Rightarrow> (r, w\<lparr>bw_db := d, bw_clock := now, bw_awaits := bw_awaits w + 1\<rparr>))"

definition read_backup_db :: "backup_env \<Rightarrow> (backup_db \<Rightarrow> 'a) \<Rightarrow> backup_world \<Rightarrow> 'a \<times> backup_world" where
  "read_backup_db env f w = on_backup_db env (\<lambda>_ d. (f d, d)) w"

definition run_commands :: "(executed list \<Rightarrow> 'a \<times> executed list) \<Rightarrow> backup_world \<Rightarrow> 'a \<times> backup_world" where
  "run_commands f w = (case f (bw_log w) of (r, log) \<Rightarrow> (r, w\<lparr>bw_log := log\<rparr>))"

section \<open>What a backup is about\<close>

text \<open>The first set database column, in the order the code tests them.\<close>

fun first_database :: "(database_kind \<times> int option) list \<Rightarrow> (database_kind \<times> int) option" where
  "first_database [] = None"
| "first_database ((k, i) # rest) = (case i of Some n \<Rightarrow> Some (k, n) | None \<Rightarrow> first_database rest)"

definition backup_databases :: "backup_row \<Rightarrow> (database_kind \<times> int option) list" where
  "backup_databases b = [(Postgres, bk_postgres_id b), (Mysql, bk_mysql_id b), (Mariadb, bk_mariadb_id b),
     (Mongo, bk_mongo_id b), (Redis, bk_redis_id b), (Libsql, bk_libsql_id b)]"

definition volume_databases :: "volume_backup_row \<Rightarrow> (database_kind \<times> int option) list" where
  "volume_databases b = [(Postgres, vr_postgres_id b), (Mysql, vr_mysql_id b), (Mariadb, vr_mariadb_id b),
     (Mongo, vr_mongo_id b), (Redis, vr_redis_id b), (Libsql, vr_libsql_id b)]"

definition database_server :: "backup_env \<Rightarrow> database_kind \<Rightarrow> int \<Rightarrow> backup_world \<Rightarrow> int option sqlx \<times> backup_world" where
  "database_server env k i w =
     seq_ok (read_backup_db env (\<lambda>d. get_server_id_and_name k i (bd_panel d)) w) (\<lambda>(srv, _) w. (Ok srv, w))"

text \<open>The server of a resource; when it is not set or does not exist the search goes on.\<close>

definition resource_server ::
  "backup_env \<Rightarrow> (panel_db \<Rightarrow> resource_row list) \<Rightarrow> int option \<Rightarrow> (backup_world \<Rightarrow> int option sqlx \<times> backup_world)
   \<Rightarrow> backup_world \<Rightarrow> int option sqlx \<times> backup_world" where
  "resource_server env table i otherwise w = (case i of None \<Rightarrow> otherwise w
     | Some n \<Rightarrow> (case read_backup_db env (\<lambda>d. find_resource n (table (bd_panel d))) w of
         (Some r, w) \<Rightarrow> (Ok (res_server_id r), w)
       | (None, w) \<Rightarrow> otherwise w))"

definition resolve_database_backup_server_id ::
  "backup_env \<Rightarrow> backup_row \<Rightarrow> backup_world \<Rightarrow> int option sqlx \<times> backup_world" where
  "resolve_database_backup_server_id env b w = (case first_database (backup_databases b) of
       Some (k, i) \<Rightarrow> database_server env k i w
     | None \<Rightarrow> resource_server env compose_projects (bk_compose_id b) (\<lambda>w. (Ok None, w)) w)"

definition resolve_volume_backup_server_id ::
  "backup_env \<Rightarrow> volume_backup_row \<Rightarrow> backup_world \<Rightarrow> int option sqlx \<times> backup_world" where
  "resolve_volume_backup_server_id env b w =
     resource_server env applications (vr_application_id b)
       (resource_server env compose_projects (vr_compose_id b) (\<lambda>w. case first_database (volume_databases b) of
          Some (k, i) \<Rightarrow> database_server env k i w
        | None \<Rightarrow> (Ok None, w))) w"

datatype database_backup_type_input = DiPostgres | DiPostgresql | DiMysql | DiMariadb | DiMongo | DiMongodb | DiRedis | DiLibsql

definition database_backup_type_as_str :: "database_backup_type_input \<Rightarrow> string" where
  "database_backup_type_as_str v = (case v of DiPostgres \<Rightarrow> ''POSTGRES'' | DiPostgresql \<Rightarrow> ''POSTGRESQL'' | DiMysql \<Rightarrow> ''MYSQL''
     | DiMariadb \<Rightarrow> ''MARIADB'' | DiMongo \<Rightarrow> ''MONGO'' | DiMongodb \<Rightarrow> ''MONGODB'' | DiRedis \<Rightarrow> ''REDIS'' | DiLibsql \<Rightarrow> ''LIBSQL'')"

definition parse_database_type :: "string \<Rightarrow> database_kind option" where
  "parse_database_type s = map_option
     (\<lambda>v. case v of DiPostgres \<Rightarrow> Postgres | DiPostgresql \<Rightarrow> Postgres | DiMysql \<Rightarrow> Mysql | DiMariadb \<Rightarrow> Mariadb
        | DiMongo \<Rightarrow> Mongo | DiMongodb \<Rightarrow> Mongo | DiRedis \<Rightarrow> Redis | DiLibsql \<Rightarrow> Libsql)
     (enum_from_str database_backup_type_as_str
        [DiPostgres, DiPostgresql, DiMysql, DiMariadb, DiMongo, DiMongodb, DiRedis, DiLibsql] s)"

datatype volume_service_type = VsApplication | VsCompose | VsDatabase database_kind

datatype volume_service_type_input = ViApplication | ViCompose | ViPostgres | ViMysql | ViMariadb | ViMongo | ViMongodb | ViRedis | ViLibsql

definition volume_service_type_as_str :: "volume_service_type_input \<Rightarrow> string" where
  "volume_service_type_as_str v = (case v of ViApplication \<Rightarrow> ''APPLICATION'' | ViCompose \<Rightarrow> ''COMPOSE'' | ViPostgres \<Rightarrow> ''POSTGRES''
     | ViMysql \<Rightarrow> ''MYSQL'' | ViMariadb \<Rightarrow> ''MARIADB'' | ViMongo \<Rightarrow> ''MONGO'' | ViMongodb \<Rightarrow> ''MONGODB'' | ViRedis \<Rightarrow> ''REDIS''
     | ViLibsql \<Rightarrow> ''LIBSQL'')"

definition parse_volume_service_type :: "string \<Rightarrow> volume_service_type option" where
  "parse_volume_service_type s = map_option
     (\<lambda>v. case v of ViApplication \<Rightarrow> VsApplication | ViCompose \<Rightarrow> VsCompose | ViPostgres \<Rightarrow> VsDatabase Postgres
        | ViMysql \<Rightarrow> VsDatabase Mysql | ViMariadb \<Rightarrow> VsDatabase Mariadb | ViMongo \<Rightarrow> VsDatabase Mongo
        | ViMongodb \<Rightarrow> VsDatabase Mongo | ViRedis \<Rightarrow> VsDatabase Redis | ViLibsql \<Rightarrow> VsDatabase Libsql)
     (enum_from_str volume_service_type_as_str
        [ViApplication, ViCompose, ViPostgres, ViMysql, ViMariadb, ViMongo, ViMongodb, ViRedis, ViLibsql] s)"

definition database_column :: "database_kind \<Rightarrow> volume_backup_row \<Rightarrow> int option" where
  "database_column k b = (case k of Postgres \<Rightarrow> vr_postgres_id b | Mysql \<Rightarrow> vr_mysql_id b | Mariadb \<Rightarrow> vr_mariadb_id b
     | Mongo \<Rightarrow> vr_mongo_id b | Redis \<Rightarrow> vr_redis_id b | Libsql \<Rightarrow> vr_libsql_id b)"

definition volume_backup_has_valid_resource :: "volume_backup_row \<Rightarrow> bool" where
  "volume_backup_has_valid_resource b = (case parse_volume_service_type (vr_service_type b) of
       Some VsApplication \<Rightarrow> vr_application_id b \<noteq> None
     | Some VsCompose \<Rightarrow> vr_compose_id b \<noteq> None
     | Some (VsDatabase k) \<Rightarrow> database_column k b \<noteq> None
     | None \<Rightarrow> False)"

definition swarm_database :: "backup_env \<Rightarrow> database_kind \<Rightarrow> int \<Rightarrow> backup_world \<Rightarrow> volume_service_target sqlx \<times> backup_world" where
  "swarm_database env k i w =
     seq_ok (read_backup_db env (get_details k i) w) (\<lambda>(app_name, _) w. (Ok (SwarmService app_name), w))"

definition resolve_volume_service_target ::
  "backup_env \<Rightarrow> volume_backup_row \<Rightarrow> backup_world \<Rightarrow> volume_service_target sqlx \<times> backup_world" where
  "resolve_volume_service_target env b w =
     (case (case parse_volume_service_type (vr_service_type b) of None \<Rightarrow> VsApplication | Some t \<Rightarrow> t) of
       VsDatabase k \<Rightarrow> (case database_column k b of
           None \<Rightarrow> (Err (Protocol (''missing '' @ kind_as_str k @ ''_id'')), w)
         | Some i \<Rightarrow> swarm_database env k i w)
     | VsApplication \<Rightarrow> (case first_database (volume_databases b) of
           Some (k, i) \<Rightarrow> swarm_database env k i w
         | None \<Rightarrow> (Ok (SwarmService (case vr_service_name b of Some s \<Rightarrow> s | None \<Rightarrow> vr_app_name b @ ''_'' @ vr_app_name b)), w))
     | VsCompose \<Rightarrow> (Ok (ComposeService (vr_app_name b) (case vr_service_name b of Some s \<Rightarrow> s | None \<Rightarrow> [])), w))"

definition dumper_for :: "database_kind \<Rightarrow> db_credentials \<Rightarrow> string \<Rightarrow> string \<Rightarrow> database_dumper" where
  "dumper_for k creds database service = (case k of
       Postgres \<Rightarrow> DumpPostgres creds service | Mysql \<Rightarrow> DumpMysql creds service | Mariadb \<Rightarrow> DumpMariaDb creds service
     | Mongo \<Rightarrow> DumpMongo (creds\<lparr>cr_database := database\<rparr>) service
     | Redis \<Rightarrow> DumpRedis service | Libsql \<Rightarrow> DumpLibSql database service)"

definition metadata_text :: "backup_env \<Rightarrow> backup_row \<Rightarrow> string \<Rightarrow> string" where
  "metadata_text env b key = (case bk_metadata b of None \<Rightarrow> []
     | Some m \<Rightarrow> (case en_metadata env m of None \<Rightarrow> [] | Some json \<Rightarrow> (case json key of None \<Rightarrow> [] | Some v \<Rightarrow> v)))"

definition resolve_database_dumper ::
  "backup_env \<Rightarrow> backup_row \<Rightarrow> backup_world \<Rightarrow> database_dumper sqlx \<times> backup_world" where
  "resolve_database_dumper env b w = (case first_database (backup_databases b) of
       Some (k, i) \<Rightarrow> seq_ok (read_backup_db env (get_details k i) w) (\<lambda>(app_name, creds) w.
         (Ok (dumper_for k creds (bk_database_name b) app_name), w))
     | None \<Rightarrow> (case parse_database_type (bk_database_type b) of
         None \<Rightarrow> (Err (Protocol (''unsupported database type: '' @ bk_database_type b)), w)
       | Some k \<Rightarrow> (Ok (dumper_for k
           \<lparr> cr_user = metadata_text env b ''databaseUser'', cr_password = metadata_text env b ''databasePassword'',
             cr_database = bk_database_name b \<rparr>
           (bk_database_name b) (case bk_service_name b of Some s \<Rightarrow> s | None \<Rightarrow> bk_app_name b)), w)))"

section \<open>Running and restoring\<close>

definition choose_executor :: "backup_env \<Rightarrow> int option \<Rightarrow> backup_world \<Rightarrow> command_executor sqlx \<times> backup_world" where
  "choose_executor env srv w = (case srv of None \<Rightarrow> (Ok LocalExecutor, w)
     | Some i \<Rightarrow> (case read_backup_db env (remote_executor_for i) w of
         (Inl m, w) \<Rightarrow> (Err (Protocol m), w) | (Inr rx, w) \<Rightarrow> (Ok (RemoteExecutor rx), w)))"

definition destination_for :: "backup_env \<Rightarrow> int \<Rightarrow> backup_world \<Rightarrow> s3_destination sqlx \<times> backup_world" where
  "destination_for env i w = (case read_backup_db env (destination_by_id i) w of
       (None, w) \<Rightarrow> (Err (Protocol ''destination not found''), w)
     | (Some d, w) \<Rightarrow> (Ok \<lparr> sd_access_key = ds_access_key d, sd_secret_key = ds_secret_access_key d, sd_bucket = ds_bucket d,
         sd_region = ds_region d, sd_endpoint = ds_endpoint d, sd_provider = Some (ds_provider d) \<rparr>, w))"

definition trim_slashes :: "string \<Rightarrow> string" where
  "trim_slashes s = rev (dropWhile (\<lambda>c. c = CHR ''/'') (rev (dropWhile (\<lambda>c. c = CHR ''/'') s)))"

definition recorded ::
  "backup_env \<Rightarrow> backup_kind \<Rightarrow> backup_operation \<Rightarrow> int \<Rightarrow> string
   \<Rightarrow> (executed list \<Rightarrow> (exec_error, exec_output) result \<times> executed list) \<Rightarrow> backup_world \<Rightarrow> unit sqlx \<times> backup_world" where
  "recorded env kind op i key work w =
     seq_ok (on_backup_db env (\<lambda>now. execution_start now kind op (Some i) (Some key)) w) (\<lambda>n w.
       case run_commands work w of
         (Inr _, w) \<Rightarrow> on_backup_db env (\<lambda>now. execution_succeed now n None None) w
       | (Inl e, w) \<Rightarrow> seq_ok (on_backup_db env (\<lambda>now. execution_fail now n (show_exec_error e)) w)
           (\<lambda>_ w. (Err (Protocol (show_exec_error e)), w)))"

definition run_database_backup :: "backup_env \<Rightarrow> int \<Rightarrow> backup_world \<Rightarrow> unit sqlx \<times> backup_world" where
  "run_database_backup env i w =
     seq_ok (read_backup_db env (\<lambda>d. fetch_one (backup_by_id i d)) w) (\<lambda>b w.
     if bk_enabled b = 0 then (Err (Protocol ''backup is disabled''), w) else
     seq_ok (resolve_database_backup_server_id env b w) (\<lambda>srv w.
     seq_ok (choose_executor env srv w) (\<lambda>ex w.
     seq_ok (resolve_database_dumper env b w) (\<lambda>dumper w.
     seq_ok (destination_for env (bk_destination_id b) w) (\<lambda>dest w.
     case read_backup_db env (backup_by_id i) w of (current, w) \<Rightarrow>
     if (case current of None \<Rightarrow> True | Some c \<Rightarrow> bk_enabled c = 0)
     then (Err (Protocol ''backup was deleted or disabled''), w)
     else let key = trim_slashes (bk_prefix b) @ ''/'' @ bk_database_name b @ ''_'' @ en_stamp env (bw_clock w) @ ''.'' @ file_extension dumper
          in recorded env BkDatabase OpBackup i key (runner_run (en_runner env) ex dumper dest key) w)))))"

definition volume_backup_of :: "volume_backup_row \<Rightarrow> volume_service_target \<Rightarrow> volume_backup" where
  "volume_backup_of b target = \<lparr> vb_volume_name = vr_volume_name b, vb_service = target, vb_turn_off = (vr_turn_off b = 1) \<rparr>"

definition run_volume_backup :: "backup_env \<Rightarrow> int \<Rightarrow> backup_world \<Rightarrow> unit sqlx \<times> backup_world" where
  "run_volume_backup env i w =
     seq_ok (read_backup_db env (\<lambda>d. fetch_one (volume_backup_by_id i d)) w) (\<lambda>b w.
     if vr_enabled b = 0 then (Err (Protocol ''volume backup is disabled''), w) else
     seq_ok (resolve_volume_backup_server_id env b w) (\<lambda>srv w.
     seq_ok (choose_executor env srv w) (\<lambda>ex w.
     seq_ok (resolve_volume_service_target env b w) (\<lambda>target w.
     seq_ok (destination_for env (vr_destination_id b) w) (\<lambda>dest w.
     case read_backup_db env (volume_backup_by_id i) w of (current, w) \<Rightarrow>
     if (case current of None \<Rightarrow> True | Some c \<Rightarrow> vr_enabled c = 0 \<or> \<not> volume_backup_has_valid_resource c)
     then (Err (Protocol ''volume backup was deleted, disabled, or has no valid resource''), w)
     else let key = trim_slashes (vr_prefix b) @ ''/'' @ vr_name b @ ''_'' @ en_stamp env (bw_clock w) @ ''.tar.gz''
          in recorded env BkVolume OpBackup i key (volume_run (en_runner env) ex (volume_backup_of b target) dest key) w)))))"

definition restore_database_backup :: "backup_env \<Rightarrow> int \<Rightarrow> string \<Rightarrow> backup_world \<Rightarrow> unit sqlx \<times> backup_world" where
  "restore_database_backup env i backup_file w =
     seq_ok (read_backup_db env (\<lambda>d. fetch_one (backup_by_id i d)) w) (\<lambda>b w.
     seq_ok (resolve_database_backup_server_id env b w) (\<lambda>srv w.
     seq_ok (choose_executor env srv w) (\<lambda>ex w.
     seq_ok (resolve_database_dumper env b w) (\<lambda>dumper w.
     seq_ok (destination_for env (bk_destination_id b) w) (\<lambda>dest w.
     recorded env BkDatabase OpRestore i backup_file (runner_run_restore (en_runner env) ex dumper dest backup_file) w)))))"

definition restore_volume_backup :: "backup_env \<Rightarrow> int \<Rightarrow> string \<Rightarrow> backup_world \<Rightarrow> unit sqlx \<times> backup_world" where
  "restore_volume_backup env i backup_file w =
     seq_ok (read_backup_db env (\<lambda>d. fetch_one (volume_backup_by_id i d)) w) (\<lambda>b w.
     seq_ok (resolve_volume_backup_server_id env b w) (\<lambda>srv w.
     seq_ok (choose_executor env srv w) (\<lambda>ex w.
     seq_ok (resolve_volume_service_target env b w) (\<lambda>target w.
     seq_ok (destination_for env (vr_destination_id b) w) (\<lambda>dest w.
     recorded env BkVolume OpRestore i backup_file
       (volume_run_restore (en_runner env) ex (volume_backup_of b target) dest backup_file) w)))))"

end
