(* ===== verification/BackupCommands.thy ===== *)
theory BackupCommands
  imports Backup
begin

text \<open>
  How the shells on the host and in the container read the command lines of a database
  backup and of its restore.
\<close>

section \<open>What the shell reads\<close>

lemma read_sq: "CHR 0x27 \<notin> set s \<Longrightarrow> sh_read Plain cur (sq s @ rest) = sh_read Plain (Some (sh_word cur @ s)) rest"
proof -
  assume "CHR 0x27 \<notin> set s"
  then have "replace_char (CHR 0x27) b s = s" for b by (induction s) (auto simp: replace_char_def)
  then have "sq s = shell_single_quote s" by (simp add: sq_def shell_single_quote_def)
  then show ?thesis by (simp add: read_quoted)
qed

lemma read_sq_end: "CHR 0x27 \<notin> set s \<Longrightarrow> sh_read Plain cur (sq s) = Some [Word (sh_word cur @ s)]"
  using read_sq [of s cur "[]"] by simp

lemma read_words_then:
  "list_all2 prints_word prs ws \<Longrightarrow>
   sh_read Plain None (join_spaces prs @ CHR 0x20 # rest) = map_option ((@) (map Word ws)) (sh_read Plain None rest)"
proof (induction prs arbitrary: ws rule: join_spaces.induct)
  case 1
  then show ?case by (cases "sh_read Plain None rest") simp_all
next
  case (2 pr)
  then obtain w where w: "ws = [w]" "prints_word pr w" by (auto simp: list_all2_Cons1)
  have "sh_read Plain None (pr @ CHR 0x20 # rest) = sh_read Plain (Some w) (CHR 0x20 # rest)"
    using w(2) unfolding prints_word_def by blast
  then show ?case by (cases "sh_read Plain None rest") (simp_all add: w(1))
next
  case (3 pr pr' prs)
  then obtain w vs where w: "ws = w # vs" "prints_word pr w" "list_all2 prints_word (pr' # prs) vs"
    by (auto simp: list_all2_Cons1)
  have "sh_read Plain None (pr @ CHR 0x20 # join_spaces (pr' # prs) @ CHR 0x20 # rest)
      = sh_read Plain (Some w) (CHR 0x20 # join_spaces (pr' # prs) @ CHR 0x20 # rest)"
    using w(2) unfolding prints_word_def by blast
  then show ?case using "3.IH" [OF w(3)]
    by (cases "sh_read Plain None rest") (simp_all only: join_spaces.simps append_assoc append_Cons read_space, simp_all add: w(1))
qed

text \<open>The commands inside the container, as their authors meant them.\<close>

definition words :: "string list \<Rightarrow> sh_token list" where
  "words ws = map Word ws"

definition dump_words :: "database_dumper \<Rightarrow> sh_token list" where
  "dump_words d = (case d of
       DumpPostgres c _ \<Rightarrow> words [''set'', ''-o'', ''pipefail''] @ Op CHR '';''
         # words [''pg_dump'', ''-Fc'', ''--no-acl'', ''--no-owner'', ''-h'', ''localhost'', ''-U'', cr_user c, ''--no-password'', cr_database c]
         @ [Op CHR ''|'', Word ''gzip'']
     | DumpMysql c _ \<Rightarrow> words [''set'', ''-o'', ''pipefail''] @ Op CHR '';''
         # words [''mysqldump'', ''--default-character-set=utf8mb4'', ''-u'', ''root'', ''--password='' @ cr_password c,
             ''--single-transaction'', ''--no-tablespaces'', ''--quick'', cr_database c] @ [Op CHR ''|'', Word ''gzip'']
     | DumpMariaDb c _ \<Rightarrow> words [''set'', ''-o'', ''pipefail''] @ Op CHR '';''
         # words [''mariadb-dump'', ''--user='' @ cr_user c, ''--password='' @ cr_password c, ''--single-transaction'', ''--quick'',
             ''--databases'', cr_database c] @ [Op CHR ''|'', Word ''gzip'']
     | DumpMongo c _ \<Rightarrow> words [''set'', ''-o'', ''pipefail''] @ Op CHR '';''
         # words [''mongodump'', ''-d'', cr_database c, ''-u'', cr_user c, ''-p'', cr_password c, ''--archive'',
             ''--authenticationDatabase'', ''admin'', ''--gzip'']
     | DumpLibSql database _ \<Rightarrow> words [''tar'', ''cf'', ''-'', ''-C'', ''/var/lib/sqld'', database] @ [Op CHR ''|'', Word ''gzip'']
     | DumpRedis _ \<Rightarrow> words [''redis-cli'', ''BGSAVE''] @ [Op CHR ''&'', Op CHR ''&''] @ words [''sleep'', ''1'']
         @ [Op CHR ''&'', Op CHR ''&''] @ words [''cat'', ''/data/dump.rdb''] @ [Op CHR ''|'', Word ''gzip''])"

definition restore_words :: "database_dumper \<Rightarrow> sh_token list" where
  "restore_words d = (case d of
       DumpPostgres c _ \<Rightarrow> words [''set'', ''-o'', ''pipefail''] @ [Op CHR '';'', Word ''gunzip'', Op CHR ''|'']
         @ words [''pg_restore'', ''-U'', cr_user c, ''-d'', cr_database c, ''-O'', ''--clean'', ''--if-exists'']
     | DumpMysql c _ \<Rightarrow> words [''set'', ''-o'', ''pipefail''] @ [Op CHR '';'', Word ''gunzip'', Op CHR ''|'']
         @ words [''mysql'', ''-u'', ''root'', ''--password='' @ cr_password c, cr_database c]
     | DumpMariaDb c _ \<Rightarrow> words [''set'', ''-o'', ''pipefail''] @ [Op CHR '';'', Word ''gunzip'', Op CHR ''|'']
         @ words [''mariadb'', ''-u'', cr_user c, ''--password='' @ cr_password c, cr_database c]
     | DumpMongo c _ \<Rightarrow> words [''set'', ''-o'', ''pipefail''] @ Op CHR '';''
         # words [''mongorestore'', ''--username'', cr_user c, ''--password'', cr_password c, ''--authenticationDatabase'', ''admin'',
             ''--db'', cr_database c, ''--archive'', ''--gzip'', ''--drop'']
     | DumpLibSql database _ \<Rightarrow> words [''set'', ''-o'', ''pipefail''] @ [Op CHR '';'', Word ''gunzip'', Op CHR ''|'']
         @ words [''tar'', ''xf'', ''-'', ''-C'', ''/var/lib/sqld'']
     | DumpRedis _ \<Rightarrow> [Word ''gunzip'', Op CHR ''>'', Word ''/data/dump.rdb''])"

text \<open>Values without a single quote, and plain names where the command does not quote them.\<close>

definition quotable :: "database_dumper \<Rightarrow> bool" where
  "quotable d = (let ok = (\<lambda>s. CHR 0x27 \<notin> set s) in case d of
       DumpPostgres c _ \<Rightarrow> ok (cr_user c) \<and> ok (cr_database c)
     | DumpMysql c _ \<Rightarrow> ok (cr_password c) \<and> ok (cr_database c)
     | DumpMariaDb c _ \<Rightarrow> ok (cr_user c) \<and> ok (cr_password c) \<and> plain_key (cr_database c)
     | DumpMongo c _ \<Rightarrow> ok (cr_user c) \<and> ok (cr_password c) \<and> ok (cr_database c)
     | DumpLibSql database _ \<Rightarrow> plain_key database
     | DumpRedis _ \<Rightarrow> True)"

lemmas lex_simps = sh_lex_def sh_operator_def sh_expansion_def words_def

lemma plain_no_quote: "plain_key s \<Longrightarrow> CHR 0x27 \<notin> set s"
  by (auto simp: plain_key_def list_all_iff sh_plain_def)

lemma inner_words:
  assumes "quotable d"
  shows "sh_lex (inner_dump_command d) = Some (dump_words d)" and "sh_lex (inner_restore_command d) = Some (restore_words d)"
  using assms plain_no_quote
  by (cases d; simp add: quotable_def inner_dump_command_def inner_restore_command_def dump_words_def restore_words_def lex_simps
      read_sq [simplified] read_sq_end read_plain plain_key_def)+


definition rclone_tokens :: "runner_env \<Rightarrow> rclone_builder \<Rightarrow> sh_token list" where
  "rclone_tokens env b = map (\<lambda>(k, v). Word (k @ ''='' @ v)) (re_iterate env (snd (rclone_build (re_obscure env) b)))
     @ words (''rclone'' # fst (rclone_build (re_obscure env) b))"

definition plain_arguments :: "runner_env \<Rightarrow> rclone_builder \<Rightarrow> bool" where
  "plain_arguments env b = (mset (re_iterate env (snd (rclone_build (re_obscure env) b))) = mset (snd (rclone_build (re_obscure env) b))
     \<and> list_all plain_key (fst (rclone_build (re_obscure env) b)))"

lemma rclone_reads:
  assumes "plain_arguments env b"
  shows "sh_read Plain None (to_command_string (re_iterate env) (re_obscure env) b) = Some (rclone_tokens env b)"
    and "sh_read Plain None (to_command_string (re_iterate env) (re_obscure env) b @ CHR 0x20 # rest)
      = map_option ((@) (rclone_tokens env b)) (sh_read Plain None rest)"
proof -
  note p = rclone_prints [of "re_iterate env" "re_obscure env" b]
  have t: "map Word (map (\<lambda>(k, v). k @ ''='' @ v) (re_iterate env (snd (rclone_build (re_obscure env) b))) @ ''rclone'' # fst (rclone_build (re_obscure env) b))
      = rclone_tokens env b"
    by (simp add: rclone_tokens_def words_def comp_def case_prod_beta)
  show "sh_read Plain None (to_command_string (re_iterate env) (re_obscure env) b) = Some (rclone_tokens env b)"
    using read_words [OF p] assms by (simp only: to_command_string_words t plain_arguments_def)
  show "sh_read Plain None (to_command_string (re_iterate env) (re_obscure env) b @ CHR 0x20 # rest)
      = map_option ((@) (rclone_tokens env b)) (sh_read Plain None rest)"
    using read_words_then [OF p] assms by (simp only: to_command_string_words t plain_arguments_def)
qed


definition example_runner :: runner_env where
  "example_runner = \<lparr> re_exec = \<lparr> xe_process = (\<lambda>_ _ _. Ok (Some 0, [], [])), xe_ssh = (\<lambda>_ _ _. Ok (0, [], [])), xe_job_id = (\<lambda>_. []) \<rparr>,
     re_container = Some, re_containers = (\<lambda>_. None), re_replicas = Some, re_service_rows = (\<lambda>_. None),
     re_iterate = rev, re_obscure = (\<lambda>_. None) \<rparr>"

definition example_destination :: s3_destination where
  "example_destination = \<lparr> sd_access_key = ''id'', sd_secret_key = ''it's; secret'', sd_bucket = ''b'', sd_region = ''eu'',
     sd_endpoint = [], sd_provider = Some ''aws'' \<rparr>"

definition example_dumper :: database_dumper where
  "example_dumper = DumpMysql \<lparr> cr_user = ''u'', cr_password = ''p w; rm'', cr_database = ''shop'' \<rparr> ''app''"


end
