(* ===== verification/BackupProps.thy ===== *)
theory BackupProps
  imports BackupService BackupCommands
begin

text \<open>
  Properties of the backups: what a run leaves in the execution history, that a stopped
  service is started again, and how the shell reads the commands.
\<close>

section \<open>The history of a job\<close>

definition job_rows :: "string \<Rightarrow> string \<Rightarrow> int option \<Rightarrow> backup_db \<Rightarrow> backup_execution list" where
  "job_rows kind op i db = filter (same_job kind op i) (bd_executions db)"

text \<open>The attempts of a job are numbered from one, and ids come from the sequence.\<close>

definition history_wf :: "string \<Rightarrow> string \<Rightarrow> int option \<Rightarrow> backup_db \<Rightarrow> bool" where
  "history_wf kind op i db =
     (map be_attempt (job_rows kind op i db) = map int [1..<Suc (length (job_rows kind op i db))]
      \<and> list_all (\<lambda>e. be_id e \<le> bd_executions_seq db) (job_rows kind op i db))"

text \<open>Other tasks do not run this job; they may do anything else to the tables.\<close>

definition runs_alone :: "backup_env \<Rightarrow> string \<Rightarrow> string \<Rightarrow> int option \<Rightarrow> bool" where
  "runs_alone env kind op i = (\<forall>n d. job_rows kind op i (en_others env n d) = job_rows kind op i d
     \<and> bd_executions_seq d \<le> bd_executions_seq (en_others env n d))"

definition steady :: "string \<Rightarrow> string \<Rightarrow> int option \<Rightarrow> backup_world \<Rightarrow> backup_world \<Rightarrow> bool" where
  "steady kind op i w w' = (bw_log w' = bw_log w \<and> job_rows kind op i (bw_db w') = job_rows kind op i (bw_db w)
     \<and> bd_executions_seq (bw_db w) \<le> bd_executions_seq (bw_db w'))"

lemma steady_refl [simp]: "steady kind op i w w"
  by (simp add: steady_def)

lemma steady_trans: "steady kind op i u v \<Longrightarrow> steady kind op i v w \<Longrightarrow> steady kind op i u w"
  by (simp add: steady_def)

lemma steady_wf: "steady kind op i w w' \<Longrightarrow> history_wf kind op i (bw_db w) \<Longrightarrow> history_wf kind op i (bw_db w')"
  by (auto simp: steady_def history_wf_def list_all_iff)

lemma steady_read: "runs_alone env kind op i \<Longrightarrow> steady kind op i w (snd (read_backup_db env f w))"
  by (simp add: steady_def read_backup_db_def on_backup_db_def Let_def runs_alone_def)

text \<open>What a whole operation does to the history: nothing and an error, or one finished row with its outcome.\<close>

definition job_done :: "string \<Rightarrow> string \<Rightarrow> int option \<Rightarrow> backup_world \<Rightarrow> unit sqlx \<times> backup_world \<Rightarrow> bool" where
  "job_done kind op i w rw = (case rw of (r, w') \<Rightarrow>
     (\<not> is_ok r \<and> steady kind op i w w')
     \<or> (\<exists>row. job_rows kind op i (bw_db w') = job_rows kind op i (bw_db w) @ [row]
         \<and> be_attempt row = int (Suc (length (job_rows kind op i (bw_db w))))
         \<and> be_finished_at row = Some (bw_clock w')
         \<and> (case r of Inr _ \<Rightarrow> be_status row = ''SUCCEEDED'' \<and> be_error row = None
            | Inl e \<Rightarrow> be_status row = ''FAILED'' \<and> (\<exists>m. e = Protocol m \<and> be_error row = Some m))))"

lemma job_done_error: "steady kind op i w w' \<Longrightarrow> job_done kind op i w (Err e, w')"
  by (simp add: job_done_def is_ok_def)

lemma job_done_steady: "steady kind op i w v \<Longrightarrow> job_done kind op i v rw \<Longrightarrow> job_done kind op i w rw"
  by (auto simp: job_done_def steady_def split: sum.splits)

lemma job_done_bind:
  assumes "steady kind op i w (snd m)" and "\<And>x v. m = (Ok x, v) \<Longrightarrow> steady kind op i w v \<Longrightarrow> job_done kind op i w (k x v)"
  shows "job_done kind op i w (seq_ok m k)"
  using assms by (cases m; cases "fst m") (auto intro: job_done_error)

lemma job_done_read:
  assumes "runs_alone env kind op i" and "steady kind op i w u"
    and "\<And>x v. steady kind op i w v \<Longrightarrow> job_done kind op i w (k x v)"
  shows "job_done kind op i w (case read_backup_db env f u of (x, v) \<Rightarrow> k x v)"
  unfolding case_prod_beta by (rule assms(3)) (rule steady_trans [OF assms(2) steady_read [OF assms(1)]])

lemma fold_max_up: "fold max (map int [Suc m..<Suc (m + n)]) (int m) = int (m + n)"
  by (induction n) (simp_all add: max_def)

lemma next_attempt_numbered:
  assumes "map be_attempt (job_rows kind op i db) = map int [1..<Suc (length (job_rows kind op i db))]"
  shows "next_attempt kind op i (bd_executions db) = int (Suc (length (job_rows kind op i db)))"
proof (cases "length (job_rows kind op i db)")
  case 0
  then show ?thesis by (simp add: next_attempt_def job_rows_def)
next
  case (Suc n)
  have "map be_attempt (job_rows kind op i db) = 1 # map int [2..<Suc (Suc n)]"
    using assms by (simp add: Suc upt_conv_Cons numeral_2_eq_2 del: upt_Suc)
  moreover have "fold max (map int [2..<Suc (Suc n)]) 1 = int (Suc n)"
    using fold_max_up [of 1 n] by (simp add: numeral_2_eq_2 del: upt_Suc)
  ultimately show ?thesis by (simp add: next_attempt_def job_rows_def [symmetric] Suc)
qed

lemma job_rows_finish:
  assumes "\<And>e. same_job kind op i (f e) = same_job kind op i e"
    and "job_rows kind op i db = rows @ [row]" and "list_all (\<lambda>e. be_id e < n) rows" and "be_id row = n"
  shows "job_rows kind op i (db\<lparr>bd_executions := update_where (\<lambda>e. be_id e = n) f (bd_executions db)\<rparr>) = rows @ [f row]"
proof -
  have "filter (same_job kind op i) (update_where P f xs) = update_where P f (filter (same_job kind op i) xs)" for P xs
    by (induction xs) (auto simp: update_where_def assms(1))
  then have "job_rows kind op i (db\<lparr>bd_executions := update_where (\<lambda>e. be_id e = n) f (bd_executions db)\<rparr>)
      = update_where (\<lambda>e. be_id e = n) f (rows @ [row])" using assms(2) by (simp add: job_rows_def)
  also have "\<dots> = rows @ [f row]" using assms(3,4) by (auto simp: update_where_def list_all_iff intro!: map_idI)
  finally show ?thesis .
qed

lemma recorded_done:
  assumes "runs_alone env (backup_kind_as_str kind) (backup_operation_as_str op) (Some i)"
    and "history_wf (backup_kind_as_str kind) (backup_operation_as_str op) (Some i) (bw_db w)"
  shows "job_done (backup_kind_as_str kind) (backup_operation_as_str op) (Some i) w (recorded env kind op i key work w)"
proof -
  let ?k = "backup_kind_as_str kind" and ?o = "backup_operation_as_str op"
  let ?J = "job_rows ?k ?o (Some i)"
  have alone: "?J (en_others env m d) = ?J d" "bd_executions_seq d \<le> bd_executions_seq (en_others env m d)" for m d
    using assms(1) by (simp_all add: runs_alone_def)
  define d1 where "d1 = en_others env (bw_awaits w) (bw_db w)"
  define now where "now = bw_clock w + int (en_elapsed env (bw_awaits w))"
  define n where "n = bd_executions_seq d1 + 1"
  obtain row d2 where st: "execution_start now kind op (Some i) (Some key) d1 = (Ok n, d2)" "?J d2 = ?J (bw_db w) @ [row]"
      "be_id row = n" "be_attempt row = int (Suc (length (?J (bw_db w))))" "be_error row = None"
  proof (rule that)
    have J: "?J d1 = ?J (bw_db w)" by (simp add: d1_def alone)
    have "next_attempt ?k ?o (Some i) (bd_executions d1) = int (Suc (length (?J d1)))"
      using assms(2) by (intro next_attempt_numbered) (simp add: history_wf_def J)
    then show "be_attempt (last (bd_executions (snd (execution_start now kind op (Some i) (Some key) d1)))) = int (Suc (length (?J (bw_db w))))"
      by (simp add: execution_start_def Let_def J)
    show "?J (snd (execution_start now kind op (Some i) (Some key) d1))
        = ?J (bw_db w) @ [last (bd_executions (snd (execution_start now kind op (Some i) (Some key) d1)))]"
      using J by (simp add: execution_start_def Let_def job_rows_def same_job_def)
  qed (simp_all add: execution_start_def Let_def n_def)
  have low: "list_all (\<lambda>e. be_id e < n) (?J (bw_db w))"
    using assms(2) alone(2) [of "bw_db w" "bw_awaits w"] by (force simp: history_wf_def list_all_iff n_def d1_def)
  define v where "v = w\<lparr>bw_db := d2, bw_clock := now, bw_awaits := bw_awaits w + 1\<rparr>"
  have started: "on_backup_db env (\<lambda>now. execution_start now kind op (Some i) (Some key)) w = (Ok n, v)"
    by (simp add: on_backup_db_def Let_def d1_def [symmetric] now_def [symmetric] st(1) v_def)
  obtain r u where ru: "run_commands work v = (r, u)" by (cases "run_commands work v")
  then have db: "bw_db u = d2" by (auto simp: run_commands_def v_def split: prod.splits)
  have J3: "?J (en_others env (bw_awaits u) (bw_db u)) = ?J (bw_db w) @ [row]" by (simp add: alone db st(2))
  show ?thesis
  proof (cases r)
    case (Inr x)
    have "recorded env kind op i key work w = on_backup_db env (\<lambda>now. execution_succeed now n None None) u"
      by (simp add: recorded_def started ru Inr)
    then show ?thesis
      by (simp add: on_backup_db_def Let_def execution_succeed_def job_done_def
            job_rows_finish [OF _ J3 low st(3)] same_job_def st(4,5))
  next
    case (Inl e)
    have "recorded env kind op i key work w = seq_ok (on_backup_db env (\<lambda>now. execution_fail now n (show_exec_error e)) u)
        (\<lambda>_ w. (Err (Protocol (show_exec_error e)), w))"
      by (simp add: recorded_def started ru Inl)
    then show ?thesis
      by (simp add: on_backup_db_def Let_def execution_fail_def job_done_def
            job_rows_finish [OF _ J3 low st(3)] same_job_def st(4))
  qed
qed

section \<open>The steps before the execution starts\<close>

lemma steady_read_pair:
  "runs_alone env kind op i \<Longrightarrow> steady kind op i w u \<Longrightarrow> read_backup_db env f u = (r, v) \<Longrightarrow> steady kind op i w v"
  using steady_trans [OF _ steady_read, of kind op i w u env f] by simp

lemma steady_seq:
  assumes "steady kind op i w (snd m)" and "\<And>x v. m = (Ok x, v) \<Longrightarrow> steady kind op i w v \<Longrightarrow> steady kind op i w (snd (k x v))"
  shows "steady kind op i w (snd (seq_ok m k))"
  using assms by (cases m; cases "fst m") auto

lemma steady_case_read:
  assumes "runs_alone env kind op i" and "steady kind op i w u" and "\<And>x v. steady kind op i w v \<Longrightarrow> steady kind op i w (snd (k x v))"
  shows "steady kind op i w (snd (case read_backup_db env f u of (x, v) \<Rightarrow> k x v))"
  unfolding case_prod_beta by (rule assms(3)) (rule steady_trans [OF assms(2) steady_read [OF assms(1)]])

lemma steady_seq_read:
  assumes "runs_alone env kind op i" and "steady kind op i w u" and "\<And>x v. steady kind op i w v \<Longrightarrow> steady kind op i w (snd (k x v))"
  shows "steady kind op i w (snd (seq_ok (read_backup_db env f u) k))"
  by (rule steady_seq [OF steady_trans [OF assms(2) steady_read [OF assms(1)]]]) (rule assms(3))

lemma steady_database_server:
  assumes "runs_alone env kind op i" and "steady kind op i w u"
  shows "steady kind op i w (snd (database_server env k n u))"
  unfolding database_server_def by (rule steady_seq_read [OF assms]) (simp add: case_prod_beta)

lemma steady_resource_server:
  assumes "runs_alone env kind op i" and "steady kind op i w u" and "\<And>v. steady kind op i w v \<Longrightarrow> steady kind op i w (snd (otherwise v))"
  shows "steady kind op i w (snd (resource_server env table n otherwise u))"
proof (cases n)
  case (Some m)
  show ?thesis unfolding resource_server_def Some option.case
    by (rule steady_case_read [OF assms(1,2)]) (auto intro: assms(3) split: option.splits)
qed (simp add: resource_server_def assms)

lemma steady_resolve:
  assumes "runs_alone env kind op i" and "steady kind op i w u"
  shows "steady kind op i w (snd (resolve_database_backup_server_id env b u))"
    and "steady kind op i w (snd (resolve_volume_backup_server_id env vb u))"
  by (auto simp: resolve_database_backup_server_id_def resolve_volume_backup_server_id_def assms
      intro!: steady_database_server steady_resource_server split: option.splits)

lemma steady_targets:
  assumes "runs_alone env kind op i" and "steady kind op i w u"
  shows "steady kind op i w (snd (resolve_database_dumper env b u))"
    and "steady kind op i w (snd (resolve_volume_service_target env vb u))"
    and "steady kind op i w (snd (choose_executor env srv u))"
    and "steady kind op i w (snd (destination_for env dst u))"
proof -
  show "steady kind op i w (snd (resolve_database_dumper env b u))"
    by (auto simp: resolve_database_dumper_def assms intro!: steady_seq_read split: option.splits prod.splits)
  show "steady kind op i w (snd (resolve_volume_service_target env vb u))"
    by (auto simp: resolve_volume_service_target_def swarm_database_def assms intro!: steady_seq_read
        split: option.splits volume_service_type.splits prod.splits)
  show "steady kind op i w (snd (choose_executor env srv u))" "steady kind op i w (snd (destination_for env dst u))"
    unfolding choose_executor_def destination_for_def
    by (auto simp: assms dest: steady_read_pair [OF assms] split: option.splits prod.splits sum.splits)
qed

section \<open>The four operations\<close>

datatype backup_request = RunDatabase int | RunVolume int | RestoreDatabase int string | RestoreVolume int string

fun backup_serve :: "backup_env \<Rightarrow> backup_request \<Rightarrow> backup_world \<Rightarrow> unit sqlx \<times> backup_world" where
  "backup_serve env (RunDatabase i) w = run_database_backup env i w"
| "backup_serve env (RunVolume i) w = run_volume_backup env i w"
| "backup_serve env (RestoreDatabase i backup_file) w = restore_database_backup env i backup_file w"
| "backup_serve env (RestoreVolume i backup_file) w = restore_volume_backup env i backup_file w"

fun request_job :: "backup_request \<Rightarrow> string \<times> string \<times> int" where
  "request_job (RunDatabase i) = (''DATABASE'', ''BACKUP'', i)"
| "request_job (RunVolume i) = (''VOLUME'', ''BACKUP'', i)"
| "request_job (RestoreDatabase i _) = (''DATABASE'', ''RESTORE'', i)"
| "request_job (RestoreVolume i _) = (''VOLUME'', ''RESTORE'', i)"


definition example_backup :: backup_row where
  "example_backup = \<lparr> bk_id = 7, bk_app_name = ''shop'', bk_schedule = ''0 3 * * *'', bk_enabled = 1, bk_database_name = ''shop'',
     bk_prefix = ''/nightly/'', bk_service_name = None, bk_keep_latest_count = None, bk_database_type = ''mysql'', bk_metadata = None,
     bk_compose_id = None, bk_postgres_id = None, bk_mysql_id = None, bk_mariadb_id = None, bk_mongo_id = None, bk_redis_id = None,
     bk_libsql_id = None, bk_destination_id = 3 \<rparr>"

definition example_backup_db :: backup_db where
  "example_backup_db = \<lparr> bd_panel = \<lparr> deployments = [], deployments_seq = 0, applications = [], compose_projects = [],
       databases = (\<lambda>_. []), preview_deployments = [], servers = [], environments = [], projects = [], checks = migrated_checks \<rparr>,
     bd_credentials = (\<lambda>_ _. \<lparr> cr_user = [], cr_password = [], cr_database = [] \<rparr>), bd_servers = [],
     bd_destinations = [\<lparr> ds_id = 3, ds_provider = ''S3'', ds_access_key = ''a'', ds_secret_access_key = ''s'', ds_bucket = ''b'',
       ds_region = ''eu'', ds_endpoint = [] \<rparr>],
     bd_backups = [example_backup], bd_volume_backups = [], bd_executions = [], bd_executions_seq = 0 \<rparr>"

definition example_backup_env :: "(exec_error, int option \<times> string \<times> string) result \<Rightarrow> backup_env" where
  "example_backup_env answer = \<lparr> en_runner = example_runner\<lparr>re_exec := (re_exec example_runner)\<lparr>xe_process := (\<lambda>_ _ _. answer)\<rparr>\<rparr>,
     en_stamp = (\<lambda>_. ''20260101_000000''), en_metadata = (\<lambda>_. None), en_elapsed = (\<lambda>_. 1), en_others = (\<lambda>_ d. d) \<rparr>"

definition example_backup_world :: backup_world where
  "example_backup_world = \<lparr> bw_db = example_backup_db, bw_clock = 0, bw_awaits = 0, bw_log = [] \<rparr>"


section \<open>Stopped services\<close>

definition accepted :: "runner_env \<Rightarrow> nat \<Rightarrow> executed \<Rightarrow> bool" where
  "accepted env k call = is_ok (executor_answer (re_exec env) False k call)"

text \<open>The replicas of a service as the listing number \<open>k\<close> of the log reported them.\<close>

definition reported :: "runner_env \<Rightarrow> nat \<Rightarrow> executed \<Rightarrow> string \<Rightarrow> nat \<Rightarrow> bool" where
  "reported env k call service r = (case call of (ex, program, args) \<Rightarrow>
     program = ''docker'' \<and> args = ab_args (service_list service)
     \<and> (case executor_answer (re_exec env) False k call of Inl _ \<Rightarrow> False
        | Inr out \<Rightarrow> (case json_lines (re_replicas env) (re_service_rows env) (eo_stdout out) of [] \<Rightarrow> False
            | t # _ \<Rightarrow> parse_unsigned u32_max t = Some r)))"

text \<open>
  Commands started after the first \<open>n\<close>: a container whose stop was accepted is started later,
  a service that was scaled to zero is scaled to the number reported before.
\<close>

definition left_running :: "runner_env \<Rightarrow> nat \<Rightarrow> executed list \<Rightarrow> bool" where
  "left_running env n cmds = (\<forall>p ex. p < length cmds \<longrightarrow> accepted env (n + p) (cmds ! p) \<longrightarrow>
     (\<forall>c. cmds ! p = (ex, ''docker'', [''container'', ''stop'', c]) \<longrightarrow>
        (\<exists>q>p. q < length cmds \<and> cmds ! q = (ex, ''docker'', [''container'', ''start'', c])))
     \<and> (\<forall>s. cmds ! p = (ex, ''docker'', [''service'', ''scale'', s @ ''=0'']) \<longrightarrow>
        (\<exists>l q r. l < q \<and> p \<le> q \<and> q < length cmds \<and> reported env (n + l) (cmds ! l) s r
           \<and> cmds ! q = (ex, ''docker'', [''service'', ''scale'', s @ ''='' @ nat_to_dec r]))))"

lemma docker_call_log [simp]:
  "ab_retry_limit b = None \<Longrightarrow> snd (docker_call env ex b log) = log @ [(ex, ''docker'', ab_args b)]"
  by (auto simp: docker_call_def docker_execute_once executor_run_def split: sum.splits)

lemma docker_call_ok:
  "ab_retry_limit b = None \<Longrightarrow> is_ok (fst (docker_call env ex b log)) = accepted env (length log) (ex, ''docker'', ab_args b)"
  by (auto simp: docker_call_def docker_execute_once executor_run_def accepted_def is_ok_def split: sum.splits)

lemma no_retry [simp]:
  "ab_retry_limit (service_list s) = None" "ab_retry_limit (service_scale s r) = None"
  "ab_retry_limit (container_stop c) = None" "ab_retry_limit (container_start c) = None"
  by (simp_all add: arg_builder_defs)

lemma container_query_fold:
  "fold (\<lambda>f. arg_pair ''--filter'' (show_container_filter f)) fs b =
     b\<lparr>ab_args := ab_args b @ concat (map (\<lambda>f. [''--filter'', show_container_filter f]) fs)\<rparr>"
  by (induction fs arbitrary: b) (simp_all add: arg_pair_def arg_push_def)

lemma container_query_args:
  "ab_args (container_query fs) = [''container'', ''ls'', ''--format'', ''{{json .}}''] @ concat (map (\<lambda>f. [''--filter'', show_container_filter f]) fs)"
  "ab_retry_limit (container_query fs) = None"
  by (simp_all add: container_query_def container_query_fold arg_cmd_def)

lemma exec_args [simp]:
  "ab_args (container_exec_interactive c cmd) = [''container'', ''exec'', ''-i'', c] @ cmd"
  "ab_retry_limit (container_exec_interactive c cmd) = None"
proof -
  have "fold arg_push cmd b = b\<lparr>ab_args := ab_args b @ cmd\<rparr>" for b
    by (induction cmd arbitrary: b) (simp_all add: arg_push_def)
  then show "ab_args (container_exec_interactive c cmd) = [''container'', ''exec'', ''-i'', c] @ cmd"
    "ab_retry_limit (container_exec_interactive c cmd) = None"
    by (simp_all add: container_exec_interactive_def arg_push_def arg_cmd_def)
qed

definition harmless :: "executed \<Rightarrow> bool" where
  "harmless call = (\<forall>ex c s. call \<noteq> (ex, ''docker'', [''container'', ''stop'', c]) \<and> call \<noteq> (ex, ''docker'', [''service'', ''scale'', s @ ''=0'']))"

lemma left_running_harmless: "list_all harmless cmds \<Longrightarrow> left_running env n cmds"
  by (auto simp: left_running_def harmless_def list_all_length)

lemma harmless_simps [simp]:
  "harmless (ex, ''sh'', args)"
  "harmless (ex, ''docker'', ab_args (service_list s))"
  "harmless (ex, ''docker'', ab_args (container_query fs))"
  "harmless (ex, ''docker'', ab_args (container_exec_interactive c cmd))"
  "harmless (ex, ''docker'', [''container'', ''start'', c])"
  by (simp_all add: harmless_def arg_builder_defs container_query_args)

lemma list_containers_log [simp]:
  "snd (list_containers env ex fs log) = log @ [(ex, ''docker'', ab_args (container_query fs))]"
  by (auto simp: list_containers_def execute_json_lines_def docker_execute_once executor_run_def container_query_args(2) split: sum.splits)

lemma swarm_stop_trace:
  obtains (listed) e where "swarm_stop env ex s log = (Err e, log @ [(ex, ''docker'', ab_args (service_list s))])"
  | (refused) e r where "reported env (length log) (ex, ''docker'', ab_args (service_list s)) s r"
      "swarm_stop env ex s log = (Err e, log @ [(ex, ''docker'', ab_args (service_list s)), (ex, ''docker'', ab_args (service_scale s 0))])"
      "\<not> accepted env (Suc (length log)) (ex, ''docker'', ab_args (service_scale s 0))"
  | (stopped) r where "reported env (length log) (ex, ''docker'', ab_args (service_list s)) s r"
      "swarm_stop env ex s log = (Ok r, log @ [(ex, ''docker'', ab_args (service_list s)), (ex, ''docker'', ab_args (service_scale s 0))])"
proof -
  let ?L = "(ex, ''docker'', ab_args (service_list s))" and ?Z = "(ex, ''docker'', ab_args (service_scale s 0))"
  show thesis
  proof (cases "executor_answer (re_exec env) False (length log) ?L")
    case (Inl e)
    then show thesis by (intro listed) (simp add: swarm_stop_def execute_json_lines_def docker_execute_once executor_run_def)
  next
    case (Inr out)
    let ?rows = "json_lines (re_replicas env) (re_service_rows env) (eo_stdout out)"
    have js: "execute_json_lines (re_exec env) (re_replicas env) (re_service_rows env) ex (service_list s) log = (Ok ?rows, log @ [?L])"
      by (simp add: execute_json_lines_def docker_execute_once executor_run_def Inr)
    show thesis
    proof (cases "case ?rows of [] \<Rightarrow> None | t # _ \<Rightarrow> parse_unsigned u32_max t")
      case None
      then show thesis by (intro listed) (simp add: swarm_stop_def js)
    next
      case (Some r)
      then have rep: "reported env (length log) ?L s r"
        by (cases ?rows) (simp_all add: reported_def Inr)
      obtain z l where z: "docker_call env ex (service_scale s 0) (log @ [?L]) = (z, l)"
        by (cases "docker_call env ex (service_scale s 0) (log @ [?L])")
      have l: "l = log @ [?L, ?Z]" using docker_call_log [of "service_scale s 0" env ex "log @ [?L]"] z by simp
      have acc: "is_ok z = accepted env (Suc (length log)) ?Z"
        using docker_call_ok [of "service_scale s 0" env ex "log @ [?L]"] z by simp
      have run: "swarm_stop env ex s log = seq_ok (z, l) (\<lambda>_ log. (Ok r, log))"
        using Some by (simp add: swarm_stop_def js z)
      show thesis
      proof (cases z)
        case (Inl e)
        with acc have "\<not> accepted env (Suc (length log)) ?Z" by (simp add: is_ok_def)
        with rep run l Inl show thesis by (intro refused) simp_all
      next
        case (Inr x)
        with rep run l show thesis by (intro stopped) simp_all
      qed
    qed
  qed
qed

lemma compose_stop_trace:
  obtains (listed) e l where "compose_stop env ex pr s log = (Err e, log @ [l])" "harmless l"
  | (refused) e c l where "compose_stop env ex pr s log = (Err e, log @ [l, (ex, ''docker'', [''container'', ''stop'', c])])" "harmless l"
      "\<not> accepted env (Suc (length log)) (ex, ''docker'', [''container'', ''stop'', c])"
  | (stopped) c l where "compose_stop env ex pr s log = (Ok c, log @ [l, (ex, ''docker'', [''container'', ''stop'', c])])" "harmless l"
proof -
  define fs where "fs = [StatusRunning, FilterLabel ''com.docker.compose.project'' pr, FilterLabel ''com.docker.compose.service'' s]"
  let ?L = "(ex, ''docker'', ab_args (container_query fs))"
  obtain r l where rl: "list_containers env ex fs log = (r, l)" by (cases "list_containers env ex fs log")
  have l: "l = log @ [?L]" using list_containers_log [of env ex fs log] rl by simp
  show thesis
  proof (cases "case r of Inl _ \<Rightarrow> [] | Inr ids \<Rightarrow> ids")
    case Nil
    then obtain e where "compose_stop env ex pr s log = (Err e, log @ [?L])"
      by (cases r) (auto simp: compose_stop_def fs_def [symmetric] rl l)
    then show thesis by (rule listed) simp
  next
    case (Cons c cs)
    have args: "ab_args (container_stop c) = [''container'', ''stop'', c]" by (simp add: arg_builder_defs)
    obtain z l' where z: "docker_call env ex (container_stop c) l = (z, l')" by (cases "docker_call env ex (container_stop c) l")
    have l': "l' = log @ [?L, (ex, ''docker'', [''container'', ''stop'', c])]"
      using arg_cong [OF z, of snd] by (simp add: l args)
    have acc: "is_ok z = accepted env (Suc (length log)) (ex, ''docker'', [''container'', ''stop'', c])"
      using docker_call_ok [of "container_stop c" env ex l] z by (simp add: l args)
    have run: "compose_stop env ex pr s log = seq_ok (z, l') (\<lambda>_ log. (Ok c, log))"
      using Cons by (cases r) (simp_all add: compose_stop_def fs_def [symmetric] rl z)
    show thesis
    proof (cases z)
      case (Inl e)
      with acc have "\<not> accepted env (Suc (length log)) (ex, ''docker'', [''container'', ''stop'', c])" by (simp add: is_ok_def)
      with run l' Inl show thesis by (intro refused [OF _ harmless_simps(3)]) simp_all
    next
      case (Inr x)
      with run l' show thesis by (intro stopped [OF _ harmless_simps(3)]) simp
    qed
  qed
qed

lemma left_running_refused:
  "harmless a \<Longrightarrow> \<not> accepted env (Suc n) b \<Longrightarrow> left_running env n [a, b]"
  by (auto simp: left_running_def harmless_def less_Suc_eq)

lemma left_running_compose:
  assumes "harmless a" and "harmless w"
  shows "left_running env n [a, (ex, ''docker'', [''container'', ''stop'', c]), w, (ex, ''docker'', [''container'', ''start'', c])]"
  using assms by (auto simp: left_running_def harmless_def less_Suc_eq numeral_3_eq_3 intro: exI [of _ 3])

lemma split_at_last:
  assumes "c \<notin> set d" and "c \<notin> set e"
  shows "s @ c # d = t @ c # e \<longleftrightarrow> s = t \<and> d = e"
proof
  assume eq: "s @ c # d = t @ c # e"
  have tw: "takeWhile (\<lambda>x. x \<noteq> c) (rev (s @ c # d)) = rev d" if "c \<notin> set d" for s d :: "'a list"
    using that takeWhile_append2 [of "rev d" "\<lambda>x. x \<noteq> c" "c # rev s"] by auto
  have "d = e" using tw [OF assms(1), of s] tw [OF assms(2), of t] eq by simp
  then show "s = t \<and> d = e" using eq by simp
qed simp

lemma dec_no_equals: "CHR ''='' \<notin> set (nat_to_dec n)"
  using nat_to_dec_digits [of n] by (auto simp: list_all_iff is_ascii_digit_def char_code_def)

lemma left_running_swarm:
  assumes "reported env n (ex, ''docker'', ab_args (service_list s)) s r" and "harmless w"
  shows "left_running env n [(ex, ''docker'', ab_args (service_list s)), (ex, ''docker'', ab_args (service_scale s 0)), w,
     (ex, ''docker'', ab_args (service_scale s r))]" (is "left_running env n ?cmds")
  unfolding left_running_def
proof (intro allI impI conjI)
  fix p ex' c assume "p < length ?cmds" "?cmds ! p = (ex', ''docker'', [''container'', ''stop'', c])"
  then show "\<exists>q>p. q < length ?cmds \<and> ?cmds ! q = (ex', ''docker'', [''container'', ''start'', c])"
    using assms(2) by (auto simp: less_Suc_eq numeral_3_eq_3 harmless_def arg_builder_defs)
next
  fix p ex' t assume p: "p < length ?cmds" "?cmds ! p = (ex', ''docker'', [''service'', ''scale'', t @ ''=0''])"
  have three: "?cmds ! 3 = (ex, ''docker'', [''service'', ''scale'', s @ ''='' @ nat_to_dec r])"
    by (simp add: arg_builder_defs)
  have "ex' = ex \<and> t = s"
    using p assms(2) by (auto simp: less_Suc_eq numeral_3_eq_3 harmless_def arg_builder_defs split_at_last dec_no_equals)
  then show "\<exists>l q r'. l < q \<and> p \<le> q \<and> q < length ?cmds \<and> reported env (n + l) (?cmds ! l) t r'
      \<and> ?cmds ! q = (ex', ''docker'', [''service'', ''scale'', t @ ''='' @ nat_to_dec r'])"
    using p(1) assms(1) three by (intro exI [of _ 0] exI [of _ 3] exI [of _ r]) auto
qed

lemma snd_seq_pure: "(\<And>x s. snd (k x s) = s) \<Longrightarrow> snd (seq_ok r k) = snd r"
  by (auto simp: seq_ok_def split: prod.splits sum.splits)

lemma around_stream_running:
  assumes "\<And>l. snd (stream l) = l @ [(ex, ''sh'', args)]"
  shows "\<exists>cmds. snd (around_stream env ex b stream log) = log @ cmds \<and> left_running env (length log) cmds"
proof -
  have once: ?thesis if "around_stream env ex b stream log = stream log"
    using that assms by (intro exI [of _ "[(ex, ''sh'', args)]"]) (simp add: left_running_harmless)
  show ?thesis
  proof (cases "vb_turn_off b")
    case False
    then show ?thesis by (intro once) (simp add: around_stream_def split: volume_service_target.splits)
  next
    case on: True
    show ?thesis
    proof (cases "vb_service b")
      case Standalone
      then show ?thesis by (intro once) (simp add: around_stream_def)
    next
      case (SwarmService s)
      show ?thesis
      proof (cases rule: swarm_stop_trace [of env ex s log])
        case (stopped r)
        have "ab_retry_limit (service_scale s r) = None" by simp
        then have "snd (around_stream env ex b stream log) = log @ [(ex, ''docker'', ab_args (service_list s)),
            (ex, ''docker'', ab_args (service_scale s 0)), (ex, ''sh'', args), (ex, ''docker'', ab_args (service_scale s r))]"
          by (simp add: around_stream_def on SwarmService stopped(2) case_prod_beta swarm_start_def snd_seq_pure assms)
        then show ?thesis using left_running_swarm [OF stopped(1) harmless_simps(1)] by (intro exI conjI)
      next
        case (refused e r)
        then show ?thesis using left_running_refused [OF harmless_simps(2)] by (simp add: around_stream_def on SwarmService)
      qed (simp add: around_stream_def on SwarmService left_running_harmless)
    next
      case (ComposeService p s)
      show ?thesis
      proof (cases rule: compose_stop_trace [of env ex p s log])
        case (stopped c l)
        have "snd (around_stream env ex b stream log) = log @ [l, (ex, ''docker'', [''container'', ''stop'', c]), (ex, ''sh'', args),
            (ex, ''docker'', ab_args (container_start c))]"
          by (simp add: around_stream_def on ComposeService stopped(1) case_prod_beta compose_start_def snd_seq_pure assms)
        moreover have "ab_args (container_start c) = [''container'', ''start'', c]" by (simp add: arg_builder_defs)
        ultimately show ?thesis using left_running_compose [OF stopped(2) harmless_simps(1)] by (intro exI conjI) simp_all
      next
        case (refused e c l)
        then show ?thesis using left_running_refused by (simp add: around_stream_def on ComposeService)
      qed (simp add: around_stream_def on ComposeService left_running_harmless)
    qed
  qed
qed

text \<open>The same for a whole operation: only the runner starts commands.\<close>

definition commands_ok :: "backup_env \<Rightarrow> backup_world \<Rightarrow> backup_world \<Rightarrow> bool" where
  "commands_ok env w w' = (\<exists>cmds. bw_log w' = bw_log w @ cmds \<and> left_running (en_runner env) (length (bw_log w)) cmds)"

lemma commands_ok_none: "bw_log w' = bw_log w \<Longrightarrow> commands_ok env w w'"
  using left_running_harmless [of "[]"] by (auto simp: commands_ok_def)

lemma log_on_backup_db [simp]: "bw_log (snd (on_backup_db env f w)) = bw_log w"
  by (simp add: on_backup_db_def Let_def case_prod_beta)

lemma log_read_backup_db [simp]: "bw_log (snd (read_backup_db env f w)) = bw_log w"
  by (simp add: read_backup_db_def)

lemma log_read_pair: "read_backup_db env f u = (r, v) \<Longrightarrow> bw_log v = bw_log u"
  using log_read_backup_db [of env f u] by simp

lemma log_seq: "bw_log (snd m) = bw_log w \<Longrightarrow> (\<And>x v. bw_log v = bw_log w \<Longrightarrow> bw_log (snd (k x v)) = bw_log w)
    \<Longrightarrow> bw_log (snd (seq_ok m k)) = bw_log w"
  by (cases m; cases "fst m") auto

lemma log_resource_server:
  "(\<And>v. bw_log v = bw_log w \<Longrightarrow> bw_log (snd (otherwise v)) = bw_log w) \<Longrightarrow> bw_log u = bw_log w
   \<Longrightarrow> bw_log (snd (resource_server env table n otherwise u)) = bw_log w"
  by (auto simp: resource_server_def dest: log_read_pair split: option.splits prod.splits)

lemma log_resolve [simp]:
  "bw_log (snd (resolve_database_backup_server_id env b w)) = bw_log w"
  "bw_log (snd (resolve_volume_backup_server_id env vb w)) = bw_log w"
  "bw_log (snd (resolve_database_dumper env b w)) = bw_log w"
  "bw_log (snd (resolve_volume_service_target env vb w)) = bw_log w"
  "bw_log (snd (choose_executor env srv w)) = bw_log w"
  "bw_log (snd (destination_for env dst w)) = bw_log w"
  by (auto simp: resolve_database_backup_server_id_def resolve_volume_backup_server_id_def resolve_database_dumper_def
      resolve_volume_service_target_def swarm_database_def database_server_def choose_executor_def destination_for_def
      intro!: log_resource_server log_seq dest: log_read_pair
      split: option.splits volume_service_type.splits prod.splits sum.splits)

lemma commands_ok_bind:
  assumes "bw_log (snd m) = bw_log w" and "\<And>x v. bw_log v = bw_log w \<Longrightarrow> commands_ok env w (snd (k x v))"
  shows "commands_ok env w (snd (seq_ok m k))"
  using assms by (cases m; cases "fst m") (auto intro: commands_ok_none)

lemma commands_ok_recorded:
  assumes "\<And>l. \<exists>cmds. snd (work l) = l @ cmds \<and> left_running (en_runner env) (length l) cmds" and "bw_log v = bw_log w"
  shows "commands_ok env w (snd (recorded env kind op i key work v))"
proof -
  have fin: "commands_ok env w u" if "snd (run_commands work x) = u'" "bw_log x = bw_log w" "bw_log u = bw_log u'" for x u u'
    using that assms(1) [of "bw_log x"] by (auto simp: commands_ok_def run_commands_def case_prod_beta)
  show ?thesis unfolding recorded_def
  proof (rule commands_ok_bind)
    fix n and x :: backup_world assume x: "bw_log x = bw_log w"
    obtain r u where ru: "run_commands work x = (r, u)" by (cases "run_commands work x")
    show "commands_ok env w (snd (case run_commands work x of
         (Inr _, w) \<Rightarrow> on_backup_db env (\<lambda>now. execution_succeed now n None None) w
       | (Inl e, w) \<Rightarrow> seq_ok (on_backup_db env (\<lambda>now. execution_fail now n (show_exec_error e)) w)
           (\<lambda>_ w. (Err (Protocol (show_exec_error e)), w))))"
      by (cases r) (auto simp: ru snd_seq_pure intro!: fin [OF _ x, of u])
  qed (simp add: assms(2))
qed

lemma resolve_container_log: "\<exists>c. harmless c \<and> snd (resolve_container_id env ex d l) = l @ [c]"
proof -
  let ?fs = "[StatusRunning, FilterLabel ''com.docker.swarm.service.name'' (dumper_service_name d)]"
  have "snd (resolve_container_id env ex d l) = snd (list_containers env ex ?fs l)"
    unfolding resolve_container_id_def by (rule snd_seq_pure) (simp split: list.splits)
  then show ?thesis by (intro exI [of _ "(ex, ''docker'', ab_args (container_query ?fs))"]) simp
qed

lemma verify_connection_log: "\<exists>c. harmless c \<and> snd (verify_connection env ex d i l) = l @ [c]"
proof -
  let ?b = "container_exec_interactive i [''sh'', ''-c'', connection_check_command d]"
  have "snd (verify_connection env ex d i l) = snd (docker_call env ex ?b l)"
    unfolding verify_connection_def by (rule snd_seq_pure) simp
  also have "\<dots> = l @ [(ex, ''docker'', ab_args ?b)]" by (rule docker_call_log) (rule exec_args)
  finally show ?thesis by (intro exI [of _ "(ex, ''docker'', ab_args ?b)"]) (simp del: exec_args)
qed

lemma runner_quiet:
  assumes "\<And>i l'. snd (last_step i l') = l' @ [(ex, ''sh'', args i)]"
  shows "\<exists>cmds. snd (seq_ok (resolve_container_id env ex d l) (\<lambda>i l. seq_ok (verify_connection env ex d i l) (\<lambda>_ l. last_step i l)))
      = l @ cmds \<and> left_running env (length l) cmds"
proof -
  have fin: "list_all harmless cmds \<Longrightarrow> snd rl = l @ cmds \<Longrightarrow> ?thesis" if "rl = seq_ok (resolve_container_id env ex d l)
      (\<lambda>i l. seq_ok (verify_connection env ex d i l) (\<lambda>_ l. last_step i l))" for rl cmds
    using that left_running_harmless by blast
  obtain r l1 where 1: "resolve_container_id env ex d l = (r, l1)" by (cases "resolve_container_id env ex d l")
  obtain c where c: "harmless c" "l1 = l @ [c]" using resolve_container_log [of env ex d l] 1 by auto
  show ?thesis
  proof (cases r)
    case (Inl e)
    then show ?thesis by (intro fin [OF refl, of "[c]"]) (simp_all add: 1 c)
  next
    case (Inr i)
    obtain v l2 where 2: "verify_connection env ex d i l1 = (v, l2)" by (cases "verify_connection env ex d i l1")
    obtain c' where c': "harmless c'" "l2 = l1 @ [c']" using verify_connection_log [of env ex d i l1] 2 by auto
    show ?thesis
    proof (cases v)
      case (Inl e)
      then show ?thesis by (intro fin [OF refl, of "[c, c']"]) (simp_all add: 1 2 Inr c(1) c'(1), simp add: c(2) c'(2))
    next
      case (Inr u)
      show ?thesis using \<open>r = Ok i\<close>
        by (intro fin [OF refl, of "[c, c', (ex, ''sh'', args i)]"]) (simp_all add: 1 2 Inr assms c(1) c'(1), simp add: c(2) c'(2))
    qed
  qed
qed

text \<open>
  C38. A backup or restore never leaves a service down.  Whatever programs answer and other
  tasks do, a container whose stop was accepted is started again by a later command of the
  same operation, and a service scaled to zero is scaled back to the replicas reported before.
\<close>

theorem stopped_services_restarted:
  "\<exists>cmds. bw_log (snd (backup_serve env req w)) = bw_log w @ cmds \<and> left_running (en_runner env) (length (bw_log w)) cmds"
proof -
  have volume: "\<exists>cmds. snd (volume_run re ex b dest key l) = l @ cmds \<and> left_running re (length l) cmds"
    "\<exists>cmds. snd (volume_run_restore re ex b dest key l) = l @ cmds \<and> left_running re (length l) cmds" for re ex b dest key l
    unfolding volume_run_def volume_run_restore_def
    by (rule around_stream_running, simp add: stream_to_s3_def stream_from_s3_def executor_run_cancelled_def)+
  have database: "\<exists>cmds. snd (runner_run re ex d dest key l) = l @ cmds \<and> left_running re (length l) cmds"
    "\<exists>cmds. snd (runner_run_restore re ex d dest key l) = l @ cmds \<and> left_running re (length l) cmds" for re ex d dest key l
    unfolding runner_run_def runner_run_restore_def
    by (rule runner_quiet, simp add: executor_run_cancelled_def)+
  note rules = commands_ok_bind commands_ok_recorded [OF database(1)] commands_ok_recorded [OF database(2)]
    commands_ok_recorded [OF volume(1)] commands_ok_recorded [OF volume(2)]
  have "commands_ok env w (snd (backup_serve env req w))"
    by (cases req) (auto simp: run_database_backup_def run_volume_backup_def restore_database_backup_def
        restore_volume_backup_def Let_def commands_ok_none intro!: rules dest!: log_read_pair split: prod.splits)
  then show ?thesis by (simp add: commands_ok_def)
qed

section \<open>Turning a swarm service off\<close>

text \<open>
  Docker prints the replicas of a service as running/desired.  The runner parses this text as
  one number, so a volume backup that turns off a swarm service fails before it starts.
\<close>

lemma parse_unsigned_slash: "CHR ''/'' \<in> set t \<Longrightarrow> parse_unsigned m t = None"
proof -
  assume t: "CHR ''/'' \<in> set t"
  have d: "CHR ''/'' \<in> set u \<Longrightarrow> parse_digits u = None" for u
    by (auto simp: parse_digits_def list_all_iff is_ascii_digit_def char_code_def intro!: bexI [of _ "CHR ''/''"])
  from t show ?thesis by (cases t) (auto simp: parse_unsigned_def d)
qed

lemma json_lines_all:
  assumes "\<And>t r. row t = Some r \<Longrightarrow> P r" and "\<And>t rs. rows t = Some rs \<Longrightarrow> list_all P rs"
  shows "list_all P (json_lines row rows text0)"
  using assms by (auto simp: json_lines_def Let_def list_all_iff map_filter_def split: option.splits if_splits)

lemma swarm_turn_off_fails:
  assumes "\<And>t r. re_replicas env t = Some r \<Longrightarrow> CHR ''/'' \<in> set r"
    and "\<And>t rs. re_service_rows env t = Some rs \<Longrightarrow> list_all (\<lambda>r. CHR ''/'' \<in> set r) rs"
    and "vb_service b = SwarmService s" and "vb_turn_off b"
  shows "\<exists>e. volume_run env ex b dest key log = (Err e, log @ [(ex, ''docker'', ab_args (service_list s))])"
    and "\<exists>e. volume_run_restore env ex b dest key log = (Err e, log @ [(ex, ''docker'', ab_args (service_list s))])"
proof -
  have rows: "list_all (\<lambda>r. CHR ''/'' \<in> set r) (json_lines (re_replicas env) (re_service_rows env) out)" for out
    using assms(1,2) by (rule json_lines_all)
  have "\<not> reported env k call s r" for k call r
  proof
    assume "reported env k call s r"
    then obtain out t ts where "json_lines (re_replicas env) (re_service_rows env) out = t # ts" "parse_unsigned u32_max t = Some r"
      by (auto simp: reported_def split: sum.splits list.splits prod.splits)
    then show False using rows [of out] by (simp add: parse_unsigned_slash)
  qed
  then have "\<exists>e. swarm_stop env ex s log = (Err e, log @ [(ex, ''docker'', ab_args (service_list s))])"
    by (cases rule: swarm_stop_trace [of env ex s log]) auto
  then show "\<exists>e. volume_run env ex b dest key log = (Err e, log @ [(ex, ''docker'', ab_args (service_list s))])"
    "\<exists>e. volume_run_restore env ex b dest key log = (Err e, log @ [(ex, ''docker'', ab_args (service_list s))])"
    using assms(3,4) by (auto simp: volume_run_def volume_run_restore_def around_stream_def)
qed

end
