(* ===== verification/ScheduleRunner.thy ===== *)
theory ScheduleRunner
  imports Schedule BackupService
begin

text \<open>
  The runner \<open>src/src/services/schedule/runner.rs\<close>: the registration of cron jobs for
  enabled schedules and backups, and the callbacks of the backup jobs.  The job scheduler
  (tokio_cron_scheduler), time zone names and fresh job ids are parameters.  The rows the two
  \<open>get_all\<close> statements on the backup tables return are arguments; log lines and log
  files are left out.
\<close>

section \<open>State\<close>

record registered_schedule_job =
  rj_job_id :: string
  rj_cron_expression :: string
  rj_enabled :: int
  rj_timezone :: string

text \<open>A job as it is handed to the scheduler; the key stands for its callback.\<close>

record cron_job =
  cj_key :: string
  cj_cron :: string
  cj_timezone :: string

record 's scheduler_ops =
  js_create :: "string \<Rightarrow> string \<Rightarrow> string option"
  js_timezone :: "string \<Rightarrow> bool"
  js_guid :: "nat \<Rightarrow> string"
  js_add :: "nat \<Rightarrow> string \<Rightarrow> cron_job \<Rightarrow> 's \<Rightarrow> string option \<times> 's"
  js_remove :: "nat \<Rightarrow> string \<Rightarrow> 's \<Rightarrow> string option \<times> 's"

record 's schedule_runner =
  sr_scheduler :: "'s option"
  sr_jobs :: "(string, registered_schedule_job) hash_map"
  sr_in_flight :: "string list"
  sr_backup_slots :: nat
  sr_started :: bool
  sr_calls :: nat

definition runner_new :: "string option \<Rightarrow> 's schedule_runner" where
  "runner_new concurrency = \<lparr> sr_scheduler = None, sr_jobs = [], sr_in_flight = [],
     sr_backup_slots = max 1 (case concurrency of None \<Rightarrow> 2
       | Some v \<Rightarrow> (case parse_unsigned usize_max v of None \<Rightarrow> 2 | Some n \<Rightarrow> n)),
     sr_started = False, sr_calls = 0 \<rparr>"

section \<open>Registration\<close>

definition remove_job :: "'s scheduler_ops \<Rightarrow> string \<Rightarrow> string \<Rightarrow> 's \<times> 's schedule_runner \<Rightarrow> 's \<times> 's schedule_runner" where
  "remove_job ops key job_id = (\<lambda>(s, r).
     (snd (js_remove ops (sr_calls r) job_id s),
      r\<lparr>sr_jobs := hm_remove key (sr_jobs r), sr_in_flight := removeAll key (sr_in_flight r), sr_calls := sr_calls r + 1\<rparr>))"

text \<open>
  The part the three loops of \<open>refresh_jobs\<close> share, after the decision to replace: an old job is
  removed, a new one created and added, and remembered when this worked.
\<close>

definition place_job ::
  "'s scheduler_ops \<Rightarrow> (string, registered_schedule_job) hash_map \<Rightarrow> string \<Rightarrow> string \<Rightarrow> int \<Rightarrow> string
   \<Rightarrow> 's \<times> 's schedule_runner \<Rightarrow> 's \<times> 's schedule_runner" where
  "place_job ops current key cron enabled timezone sr =
     (case (case hm_get key current of Some old \<Rightarrow> remove_job ops key (rj_job_id old) sr | None \<Rightarrow> sr) of (s, r) \<Rightarrow>
      (case js_create ops cron timezone of
         Some _ \<Rightarrow> (s, r)
       | None \<Rightarrow>
          (let job_id = js_guid ops (sr_calls r); r' = r\<lparr>sr_calls := sr_calls r + 1\<rparr> in
           case js_add ops (sr_calls r) job_id \<lparr> cj_key = key, cj_cron = cron, cj_timezone = timezone \<rparr> s of
             (Some _, s') \<Rightarrow> (s', r')
           | (None, s') \<Rightarrow> (s', r'\<lparr>sr_jobs := hm_insert key
                \<lparr> rj_job_id = job_id, rj_cron_expression = cron, rj_enabled = enabled, rj_timezone = timezone \<rparr> (sr_jobs r')\<rparr>))))"

definition schedule_key :: "schedule_row \<Rightarrow> string" where
  "schedule_key s = ''schedule:'' @ int_to_dec (sch_id s)"

definition db_backup_key :: "backup_row \<Rightarrow> string" where
  "db_backup_key b = ''db_backup:'' @ int_to_dec (bk_id b)"

definition vol_backup_key :: "volume_backup_row \<Rightarrow> string" where
  "vol_backup_key b = ''vol_backup:'' @ int_to_dec (vr_id b)"

definition schedule_timezone :: "schedule_row \<Rightarrow> string" where
  "schedule_timezone s = (case sch_timezone s of None \<Rightarrow> ''UTC'' | Some z \<Rightarrow> z)"

definition register_schedule ::
  "'s scheduler_ops \<Rightarrow> cron_ops \<Rightarrow> (sql_error \<Rightarrow> string) \<Rightarrow> ('w, 'b, 't) sched_env \<Rightarrow> (nat \<Rightarrow> string)
   \<Rightarrow> (string, registered_schedule_job) hash_map \<Rightarrow> schedule_row \<Rightarrow> ('s \<times> 's schedule_runner) \<times> ('w, 'b, 't) sched_world
   \<Rightarrow> (('s \<times> 's schedule_runner) \<times> ('w, 'b, 't) sched_world) option" where
  "register_schedule ops cr show_error env owner current sch = (\<lambda>(sr, w).
     (let key = schedule_key sch; cron = normalize_cron_expression (sch_cron_expression sch); timezone = schedule_timezone sch in
      if \<not> js_timezone ops timezone then Some (sr, w)
      else (case recover_missed cr show_error env (owner (w_calls w)) (sch_id sch) cron w of
        None \<Rightarrow> None
      | Some (_, w') \<Rightarrow> Some
          (if (case hm_get key current of None \<Rightarrow> True | Some reg \<Rightarrow> rj_cron_expression reg \<noteq> cron
                 \<or> rj_enabled reg \<noteq> sch_enabled sch \<or> rj_timezone reg \<noteq> timezone)
           then place_job ops current key cron (sch_enabled sch) timezone sr else sr, w'))))"

definition register_backup ::
  "'s scheduler_ops \<Rightarrow> (string, registered_schedule_job) hash_map \<Rightarrow> string \<Rightarrow> string \<Rightarrow> int
   \<Rightarrow> 's \<times> 's schedule_runner \<Rightarrow> 's \<times> 's schedule_runner" where
  "register_backup ops current key cron enabled sr =
     (if (case hm_get key current of None \<Rightarrow> True | Some reg \<Rightarrow> rj_cron_expression reg \<noteq> cron \<or> rj_enabled reg \<noteq> enabled)
      then place_job ops current key cron enabled ''UTC'' sr else sr)"

definition register_db_backup where
  "register_db_backup ops current b =
     register_backup ops current (db_backup_key b) (normalize_cron_expression (bk_schedule b)) (bk_enabled b)"

definition register_vol_backup where
  "register_vol_backup ops current b =
     register_backup ops current (vol_backup_key b) (normalize_cron_expression (vr_cron_expression b)) (vr_enabled b)"

primrec register_schedules where
  "register_schedules ops cr show_error env owner current [] x = Some x"
| "register_schedules ops cr show_error env owner current (s # ss) x =
     (case register_schedule ops cr show_error env owner current s x of None \<Rightarrow> None
      | Some y \<Rightarrow> register_schedules ops cr show_error env owner current ss y)"

definition remove_stale ::
  "'s scheduler_ops \<Rightarrow> string list \<Rightarrow> 's \<times> 's schedule_runner \<Rightarrow> 's \<times> 's schedule_runner" where
  "remove_stale ops enabled_keys sr =
     fold (\<lambda>(key, j). remove_job ops key (rj_job_id j)) (filter (\<lambda>(key, _). key \<notin> set enabled_keys) (sr_jobs (snd sr))) sr"

definition refresh_jobs ::
  "'s scheduler_ops \<Rightarrow> cron_ops \<Rightarrow> (sql_error \<Rightarrow> string) \<Rightarrow> ('w, 'b, 't) sched_env \<Rightarrow> (nat \<Rightarrow> string)
   \<Rightarrow> backup_row list \<Rightarrow> volume_backup_row list \<Rightarrow> 's schedule_runner \<Rightarrow> ('w, 'b, 't) sched_world
   \<Rightarrow> ((string, unit) result \<times> 's schedule_runner \<times> ('w, 'b, 't) sched_world) option" where
  "refresh_jobs ops cr show_error env owner all_backups all_volumes r w = (case sr_scheduler r of
       None \<Rightarrow> Some (Err ''schedule runner is not started'', r, w)
     | Some s \<Rightarrow> (case read_db env list_enabled w of (enabled_rows, w) \<Rightarrow>
        (let backups = filter (\<lambda>b. bk_enabled b = 1) all_backups;
             volumes = filter (\<lambda>b. vr_enabled b = 1 \<and> volume_backup_has_valid_resource b) all_volumes;
             enabled_keys = map schedule_key enabled_rows @ map db_backup_key backups @ map vol_backup_key volumes;
             sr = remove_stale ops enabled_keys (s, r);
             current = sr_jobs (snd sr) in
         case register_schedules ops cr show_error env owner current enabled_rows (sr, w) of
           None \<Rightarrow> None
         | Some (sr, w) \<Rightarrow> (case fold (register_vol_backup ops current) volumes (fold (register_db_backup ops current) backups sr) of
             (s, r) \<Rightarrow> Some (Ok (), r\<lparr>sr_scheduler := Some s\<rparr>, w)))))"

definition refresh_cron :: string where
  "refresh_cron = ''0/30 * * * * *''"

text \<open>The creation and the start of a scheduler are the two results given to \<open>start\<close>.\<close>

definition runner_start ::
  "(string, 's) result \<Rightarrow> string option \<Rightarrow> 's scheduler_ops \<Rightarrow> cron_ops \<Rightarrow> (sql_error \<Rightarrow> string) \<Rightarrow> ('w, 'b, 't) sched_env
   \<Rightarrow> (nat \<Rightarrow> string) \<Rightarrow> backup_row list \<Rightarrow> volume_backup_row list \<Rightarrow> 's schedule_runner \<Rightarrow> ('w, 'b, 't) sched_world
   \<Rightarrow> ((string, unit) result \<times> 's schedule_runner \<times> ('w, 'b, 't) sched_world) option" where
  "runner_start created start_error ops cr show_error env owner backups volumes r w =
     (if sr_started r then Some (Ok (), r, w)
      else let r = r\<lparr>sr_started := True\<rparr> in
        (case created of
           Inl e \<Rightarrow> Some (Err (''could not create schedule runner: '' @ e), r, w)
         | Inr s \<Rightarrow> (case js_create ops refresh_cron ''UTC'' of
             Some e \<Rightarrow> Some (Err (''could not create schedule refresh job: '' @ e), r, w)
           | None \<Rightarrow>
              (let job_id = js_guid ops (sr_calls r) in
               case js_add ops (sr_calls r) job_id \<lparr> cj_key = ''refresh'', cj_cron = refresh_cron, cj_timezone = ''UTC'' \<rparr> s of
                 (Some e, _) \<Rightarrow> Some (Err (''could not register schedule refresh job: '' @ e), r\<lparr>sr_calls := sr_calls r + 1\<rparr>, w)
               | (None, s) \<Rightarrow>
                  (case refresh_jobs ops cr show_error env owner backups volumes
                          (r\<lparr>sr_scheduler := Some s, sr_calls := sr_calls r + 1\<rparr>) w of
                     None \<Rightarrow> None
                   | Some (Inl e, r, w) \<Rightarrow> Some (Err e, r, w)
                   | Some (Inr _, r, w) \<Rightarrow> Some (case start_error of Some e \<Rightarrow> Err (''could not start schedule runner: '' @ e) | None \<Rightarrow> Ok (), r, w))))))"

section \<open>The callbacks of backup jobs\<close>

definition backup_is_enabled :: "int option \<Rightarrow> bool" where
  "backup_is_enabled enabled = (enabled = Some 1)"

text \<open>
  What a callback does when the scheduler fires it: the set of running jobs it tests is the copy
  made when the job was registered, copied again for every call.  The result says whether the
  backup was run.
\<close>

definition db_backup_callback ::
  "backup_env \<Rightarrow> string list \<Rightarrow> bool \<Rightarrow> string \<Rightarrow> int \<Rightarrow> backup_world \<Rightarrow> bool \<times> backup_world" where
  "db_backup_callback env captured permit key i w =
     (case read_backup_db env (\<lambda>d. map_option bk_enabled (backup_by_id i d)) w of (enabled, w) \<Rightarrow>
      if \<not> backup_is_enabled enabled then (False, w)
      else if key \<in> set captured then (False, w)
      else if \<not> permit then (False, w)
      else (True, snd (run_database_backup env i w)))"

definition vol_backup_callback ::
  "backup_env \<Rightarrow> string list \<Rightarrow> bool \<Rightarrow> string \<Rightarrow> int \<Rightarrow> backup_world \<Rightarrow> bool \<times> backup_world" where
  "vol_backup_callback env captured permit key i w =
     (case read_backup_db env (volume_backup_by_id i) w of (current, w) \<Rightarrow>
      if (case current of None \<Rightarrow> True | Some b \<Rightarrow> \<not> (backup_is_enabled (Some (vr_enabled b)) \<and> volume_backup_has_valid_resource b))
      then (False, w)
      else if key \<in> set captured then (False, w)
      else if \<not> permit then (False, w)
      else (True, snd (run_volume_backup env i w)))"

end
