(* ===== verification/RunnerProps.thy ===== *)
theory RunnerProps
  imports ScheduleRunner ScheduleProps
begin

text \<open>
  Properties of the schedule runner: after a refresh the scheduler holds exactly one job for
  every enabled schedule and backup, with the present settings.
\<close>

section \<open>The scheduler the runner relies on\<close>

text \<open>
  The documented behaviour of the job scheduler, seen through the table of its jobs: adding
  a job stores it under its id, removing drops it, and ids are never reused.
\<close>

definition scheduler_lawful :: "'s scheduler_ops \<Rightarrow> ('s \<Rightarrow> string \<Rightarrow> cron_job option) \<Rightarrow> bool" where
  "scheduler_lawful ops tab = ((\<forall>n i j s. fst (js_add ops n i j s) = None \<and> tab (snd (js_add ops n i j s)) = (tab s)(i \<mapsto> j))
     \<and> (\<forall>n i s. fst (js_remove ops n i s) = None \<and> tab (snd (js_remove ops n i s)) = (tab s)(i := None))
     \<and> inj (js_guid ops))"

definition job_of :: "string \<Rightarrow> registered_schedule_job \<Rightarrow> cron_job" where
  "job_of k j = \<lparr> cj_key = k, cj_cron = rj_cron_expression j, cj_timezone = rj_timezone j \<rparr>"

text \<open>
  The invariant: the scheduler holds the jobs it had before (the refresh job) and, under
  distinct ids that were drawn before, one job for every remembered registration.
\<close>

definition drawn :: "'s scheduler_ops \<Rightarrow> nat \<Rightarrow> string \<Rightarrow> bool" where
  "drawn ops n i = (i \<in> js_guid ops ` {..<n})"

definition runner_inv ::
  "'s scheduler_ops \<Rightarrow> ('s \<Rightarrow> string \<Rightarrow> cron_job option) \<Rightarrow> (string \<Rightarrow> cron_job option) \<Rightarrow> 's \<times> 's schedule_runner \<Rightarrow> bool" where
  "runner_inv ops tab base sr = (case sr of (s, r) \<Rightarrow>
     hm_wf (sr_jobs r)
     \<and> (\<forall>i. base i \<noteq> None \<longrightarrow> drawn ops (sr_calls r) i)
     \<and> (\<forall>k j. hm_get k (sr_jobs r) = Some j \<longrightarrow> drawn ops (sr_calls r) (rj_job_id j) \<and> base (rj_job_id j) = None)
     \<and> (\<forall>k j k' j'. hm_get k (sr_jobs r) = Some j \<longrightarrow> hm_get k' (sr_jobs r) = Some j' \<longrightarrow> rj_job_id j = rj_job_id j' \<longrightarrow> k = k')
     \<and> (\<forall>i c. tab s i = Some c \<longleftrightarrow> base i = Some c \<or> (\<exists>k j. hm_get k (sr_jobs r) = Some j \<and> rj_job_id j = i \<and> c = job_of k j)))"

lemma drawn_step: "drawn ops n i \<Longrightarrow> drawn ops (Suc n) i"
  by (auto simp: drawn_def)

lemma not_drawn: "inj (js_guid ops) \<Longrightarrow> \<not> drawn ops n (js_guid ops n)"
  by (auto simp: drawn_def inj_def)

lemma drawn_Suc [simp]: "drawn ops (Suc n) (js_guid ops n)"
  by (auto simp: drawn_def)

lemma runner_invD:
  assumes "runner_inv ops tab base (s, r)"
  shows "hm_wf (sr_jobs r)" and "base i = Some c \<Longrightarrow> drawn ops (sr_calls r) i"
    and "hm_get k (sr_jobs r) = Some j \<Longrightarrow> drawn ops (sr_calls r) (rj_job_id j)"
    and "hm_get k (sr_jobs r) = Some j \<Longrightarrow> base (rj_job_id j) = None"
    and "hm_get k (sr_jobs r) = Some j \<Longrightarrow> hm_get k' (sr_jobs r) = Some j' \<Longrightarrow> rj_job_id j = rj_job_id j' \<Longrightarrow> k = k'"
    and "tab s i = Some c \<longleftrightarrow> base i = Some c \<or> (\<exists>k j. hm_get k (sr_jobs r) = Some j \<and> rj_job_id j = i \<and> c = job_of k j)"
  using assms unfolding runner_inv_def by blast+

lemma runner_invI:
  assumes "hm_wf (sr_jobs r)" and "\<And>i c. base i = Some c \<Longrightarrow> drawn ops (sr_calls r) i"
    and "\<And>k j. hm_get k (sr_jobs r) = Some j \<Longrightarrow> drawn ops (sr_calls r) (rj_job_id j)"
    and "\<And>k j. hm_get k (sr_jobs r) = Some j \<Longrightarrow> base (rj_job_id j) = None"
    and "\<And>k j k' j'. hm_get k (sr_jobs r) = Some j \<Longrightarrow> hm_get k' (sr_jobs r) = Some j' \<Longrightarrow> rj_job_id j = rj_job_id j' \<Longrightarrow> k = k'"
    and "\<And>i c. tab s i = Some c \<longleftrightarrow> base i = Some c \<or> (\<exists>k j. hm_get k (sr_jobs r) = Some j \<and> rj_job_id j = i \<and> c = job_of k j)"
  shows "runner_inv ops tab base (s, r)"
  using assms unfolding runner_inv_def by blast

lemma remove_job_inv:
  assumes "scheduler_lawful ops tab" and "runner_inv ops tab base sr" and "hm_get k (sr_jobs (snd sr)) = Some j"
  shows "runner_inv ops tab base (remove_job ops k (rj_job_id j) sr)"
proof -
  obtain s r where sr: "sr = (s, r)" by (cases sr)
  have k: "hm_get k (sr_jobs r) = Some j" using assms(3) by (simp add: sr)
  note inv = runner_invD [OF assms(2) [unfolded sr]]
  have tab: "tab (snd (js_remove ops n i s)) = (tab s)(i := None)" for n i using assms(1) by (simp add: scheduler_lawful_def)
  have "((tab s)(rj_job_id j := None)) i = Some c \<longleftrightarrow> base i = Some c
      \<or> (\<exists>k' j'. k' \<noteq> k \<and> hm_get k' (sr_jobs r) = Some j' \<and> rj_job_id j' = i \<and> c = job_of k' j')" for i c
  proof (cases "i = rj_job_id j")
    case True
    then show ?thesis using inv(4) [OF k] inv(5) [OF k] by auto
  next
    case False
    have "(k' \<noteq> k \<and> hm_get k' (sr_jobs r) = Some j' \<and> rj_job_id j' = i \<and> c = job_of k' j') \<longleftrightarrow>
        (hm_get k' (sr_jobs r) = Some j' \<and> rj_job_id j' = i \<and> c = job_of k' j')" for k' j'
      using k False by auto
    then show ?thesis using inv(6) [of i c] False by (simp only: fun_upd_other [OF False])
  qed
  note t = this
  let ?J = "hm_remove k (sr_jobs r)"
  have J: "hm_get k' ?J = Some j' \<longleftrightarrow> k' \<noteq> k \<and> hm_get k' (sr_jobs r) = Some j'" for k' j' by (simp add: hm_get_remove)
  show ?thesis unfolding sr remove_job_def prod.case
  proof (rule runner_invI, goal_cases)
    case 1 show ?case by (simp add: hm_wf_remove inv(1))
  next
    case (2 i c) then show ?case by (simp add: drawn_step inv(2))
  next
    case (3 k' j') then show ?case using drawn_step [OF inv(3) [of k' j']] by (simp add: J)
  next
    case (4 k' j') then show ?case using inv(4) [of k' j'] by (simp add: J)
  next
    case (5 k1 j1 k2 j2) then show ?case using inv(5) [of k1 j1 k2 j2] by (simp add: J)
  next
    case (6 i c)
    have "tab (snd (js_remove ops (sr_calls r) (rj_job_id j) s)) i = Some c \<longleftrightarrow> base i = Some c
        \<or> (\<exists>k' j'. k' \<noteq> k \<and> hm_get k' (sr_jobs r) = Some j' \<and> rj_job_id j' = i \<and> c = job_of k' j')" unfolding tab by (rule t)
    moreover have "sr_jobs (r\<lparr>sr_jobs := hm_remove k (sr_jobs r), sr_in_flight := removeAll k (sr_in_flight r),
        sr_calls := sr_calls r + 1\<rparr>) = ?J" by simp
    ultimately show ?case by (simp only: J conj_assoc)
  qed
qed

lemma ex_insert:
  assumes "hm_get k m = None"
  shows "(\<exists>k' v'. hm_get k' (hm_insert k v m) = Some v' \<and> P k' v') \<longleftrightarrow> P k v \<or> (\<exists>k' v'. hm_get k' m = Some v' \<and> P k' v')"
proof
  assume "P k v \<or> (\<exists>k' v'. hm_get k' m = Some v' \<and> P k' v')"
  then show "\<exists>k' v'. hm_get k' (hm_insert k v m) = Some v' \<and> P k' v'"
  proof
    assume "\<exists>k' v'. hm_get k' m = Some v' \<and> P k' v'"
    then obtain k' v' where "hm_get k' m = Some v'" "P k' v'" by blast
    moreover have "k' \<noteq> k" using assms calculation(1) by auto
    ultimately show ?thesis by (intro exI [of _ k'] exI [of _ v']) (simp add: hm_get_insert)
  qed (auto simp: hm_get_insert)
qed (auto simp: hm_get_insert split: if_splits)

lemma add_job_inv:
  assumes "scheduler_lawful ops tab" and "runner_inv ops tab base (s, r)" and "hm_get k (sr_jobs r) = None"
    and "rj_job_id j = js_guid ops (sr_calls r)"
  shows "runner_inv ops tab base (snd (js_add ops n (rj_job_id j) (job_of k j) s),
     r\<lparr>sr_jobs := hm_insert k j (sr_jobs r), sr_calls := sr_calls r + 1\<rparr>)"
proof -
  note inv = runner_invD [OF assms(2)]
  have tab: "tab (snd (js_add ops n i c s)) = (tab s)(i \<mapsto> c)" for n i c using assms(1) by (simp add: scheduler_lawful_def)
  have new: "\<not> drawn ops (sr_calls r) (rj_job_id j)" using assms(1,4) not_drawn by (auto simp: scheduler_lawful_def)
  have b: "base (rj_job_id j) = None" using new inv(2) by (cases "base (rj_job_id j)") auto
  have old: "hm_get k' (sr_jobs r) = Some j' \<Longrightarrow> rj_job_id j' \<noteq> rj_job_id j" for k' j'
    using new inv(3) by metis
  have d: "drawn ops (Suc (sr_calls r)) (rj_job_id j)" by (simp add: assms(4))
  have t: "((tab s)(rj_job_id j \<mapsto> job_of k j)) i = Some c \<longleftrightarrow> base i = Some c
      \<or> (\<exists>k' j'. hm_get k' (hm_insert k j (sr_jobs r)) = Some j' \<and> rj_job_id j' = i \<and> c = job_of k' j')" for i c
    unfolding ex_insert [OF assms(3)] using b old inv(6) [of i c] by (cases "i = rj_job_id j") auto
  have u: "k1 = k2" if "hm_get k1 (hm_insert k j (sr_jobs r)) = Some j1" "hm_get k2 (hm_insert k j (sr_jobs r)) = Some j2"
      "rj_job_id j1 = rj_job_id j2" for k1 j1 k2 j2
    using that old [of k1 j1] old [of k2 j2] inv(5) [of k1 j1 k2 j2] by (auto simp: hm_get_insert split: if_splits)
  show ?thesis
  proof (rule runner_invI, goal_cases)
    case 1 show ?case by (simp add: hm_wf_insert inv(1))
  next
    case (2 i c) then show ?case by (simp add: drawn_step inv(2))
  next
    case (3 k' j') then show ?case using drawn_step [OF inv(3) [of k' j']] d by (simp add: hm_get_insert split: if_splits)
  next
    case (4 k' j') then show ?case using inv(4) [of k' j'] b by (simp add: hm_get_insert split: if_splits)
  next
    case (5 k1 j1 k2 j2) then show ?case using u [of k1 j1 k2 j2] by simp
  next
    case (6 i c) show ?case using t [of i c] by (simp add: tab del: fun_upd_apply)
  qed
qed

section \<open>One row\<close>

text \<open>
  What each of the three loops does with a row: the key, the cron expression, the flag and
  the time zone it asks for, and whether the loop compares the time zone.
\<close>

type_synonym wanted = "string \<times> string \<times> int \<times> string \<times> bool"

definition up_to_date :: "wanted \<Rightarrow> registered_schedule_job \<Rightarrow> bool" where
  "up_to_date wt j = (case wt of (k, c, e, z, zoned) \<Rightarrow>
     rj_cron_expression j = c \<and> rj_enabled j = e \<and> (zoned \<longrightarrow> rj_timezone j = z))"

definition sync_job ::
  "'s scheduler_ops \<Rightarrow> (string, registered_schedule_job) hash_map \<Rightarrow> wanted \<Rightarrow> 's \<times> 's schedule_runner \<Rightarrow> 's \<times> 's schedule_runner" where
  "sync_job ops current wt sr = (case wt of (k, c, e, z, zoned) \<Rightarrow>
     if (case hm_get k current of None \<Rightarrow> True | Some j \<Rightarrow> \<not> up_to_date wt j) then place_job ops current k c e z sr else sr)"

definition creatable :: "'s scheduler_ops \<Rightarrow> wanted \<Rightarrow> bool" where
  "creatable ops wt = (case wt of (k, c, e, z, zoned) \<Rightarrow> js_create ops c z = None)"

definition registered_jobs :: "'s \<times> 's schedule_runner \<Rightarrow> (string, registered_schedule_job) hash_map" where
  "registered_jobs sr = sr_jobs (snd sr)"

lemma remove_job_jobs [simp]: "registered_jobs (remove_job ops k i sr) = hm_remove k (registered_jobs sr)"
  by (simp add: registered_jobs_def remove_job_def case_prod_beta)

lemma bump_inv: "runner_inv ops tab base (s, r) \<Longrightarrow> runner_inv ops tab base (s, r\<lparr>sr_calls := sr_calls r + 1\<rparr>)"
  unfolding runner_inv_def by (auto intro: drawn_step)

lemma place_job_step:
  assumes "scheduler_lawful ops tab" and "runner_inv ops tab base sr" and "hm_get k current = hm_get k (registered_jobs sr)"
  shows "runner_inv ops tab base (place_job ops current k c e z sr)"
    and "k' \<noteq> k \<Longrightarrow> hm_get k' (registered_jobs (place_job ops current k c e z sr)) = hm_get k' (registered_jobs sr)"
    and "js_create ops c z = None \<Longrightarrow> \<exists>i. hm_get k (registered_jobs (place_job ops current k c e z sr)) =
       Some \<lparr> rj_job_id = i, rj_cron_expression = c, rj_enabled = e, rj_timezone = z \<rparr>"
proof -
  define sr1 where "sr1 = (case hm_get k current of Some old \<Rightarrow> remove_job ops k (rj_job_id old) sr | None \<Rightarrow> sr)"
  obtain s r where sr1: "sr1 = (s, r)" by (cases sr1)
  have inv: "runner_inv ops tab base (s, r)"
    using assms(2) remove_job_inv [OF assms(1,2)] assms(3)
    by (auto simp: sr1 [symmetric] sr1_def registered_jobs_def split: option.splits)
  have jobs: "hm_get k' (sr_jobs r) = (if k' = k then None else hm_get k' (registered_jobs sr))" for k'
  proof -
    have "hm_get k' (registered_jobs sr1) = (if k' = k then None else hm_get k' (registered_jobs sr))"
      using assms(3) by (auto simp: sr1_def hm_get_remove split: option.splits)
    then show ?thesis by (simp add: sr1 registered_jobs_def)
  qed
  define j where "j = \<lparr> rj_job_id = js_guid ops (sr_calls r), rj_cron_expression = c, rj_enabled = e, rj_timezone = z \<rparr>"
  obtain ans s' where add: "js_add ops (sr_calls r) (rj_job_id j) (job_of k j) s = (ans, s')"
    by (cases "js_add ops (sr_calls r) (rj_job_id j) (job_of k j) s")
  have ok: "ans = None" using assms(1) add by (metis fst_conv scheduler_lawful_def)
  have pj: "place_job ops current k c e z sr = (if js_create ops c z = None
      then (s', r\<lparr>sr_jobs := hm_insert k j (sr_jobs r), sr_calls := sr_calls r + 1\<rparr>) else (s, r))"
    using add ok by (auto simp: place_job_def sr1_def [symmetric] sr1 Let_def j_def job_of_def split: option.splits)
  have "runner_inv ops tab base (s', r\<lparr>sr_jobs := hm_insert k j (sr_jobs r), sr_calls := sr_calls r + 1\<rparr>)"
    using add_job_inv [OF assms(1) inv, of k j "sr_calls r"] add jobs by (simp add: j_def)
  then show "runner_inv ops tab base (place_job ops current k c e z sr)" using inv by (simp add: pj)
  show "k' \<noteq> k \<Longrightarrow> hm_get k' (registered_jobs (place_job ops current k c e z sr)) = hm_get k' (registered_jobs sr)"
    by (simp add: pj registered_jobs_def hm_get_insert jobs)
  show "js_create ops c z = None \<Longrightarrow> \<exists>i. hm_get k (registered_jobs (place_job ops current k c e z sr)) =
       Some \<lparr> rj_job_id = i, rj_cron_expression = c, rj_enabled = e, rj_timezone = z \<rparr>"
    by (simp add: pj registered_jobs_def hm_get_insert j_def)
qed

lemma sync_job_step:
  assumes "scheduler_lawful ops tab" and "runner_inv ops tab base sr"
    and "hm_get (fst wt) current = hm_get (fst wt) (registered_jobs sr)"
  shows "runner_inv ops tab base (sync_job ops current wt sr)"
    and "k' \<noteq> fst wt \<Longrightarrow> hm_get k' (registered_jobs (sync_job ops current wt sr)) = hm_get k' (registered_jobs sr)"
    and "creatable ops wt \<Longrightarrow> \<exists>j. hm_get (fst wt) (registered_jobs (sync_job ops current wt sr)) = Some j \<and> up_to_date wt j"
proof -
  obtain k c e z b where wt: "wt = (k, c, e, z, b)" by (cases wt) auto
  have cur: "hm_get k current = hm_get k (registered_jobs sr)" using assms(3) by (simp add: wt)
  note pl = place_job_step [OF assms(1,2) cur, where c = c and e = e and z = z]
  show "runner_inv ops tab base (sync_job ops current wt sr)"
    using pl(1) assms(2) by (simp add: sync_job_def wt)
  show "k' \<noteq> fst wt \<Longrightarrow> hm_get k' (registered_jobs (sync_job ops current wt sr)) = hm_get k' (registered_jobs sr)"
    using pl(2) by (simp add: sync_job_def wt)
  assume "creatable ops wt"
  then have new: "\<exists>i. hm_get k (registered_jobs (place_job ops current k c e z sr)) =
       Some \<lparr> rj_job_id = i, rj_cron_expression = c, rj_enabled = e, rj_timezone = z \<rparr>"
    using pl(3) by (simp add: creatable_def wt)
  show "\<exists>j. hm_get (fst wt) (registered_jobs (sync_job ops current wt sr)) = Some j \<and> up_to_date wt j"
  proof (cases "case hm_get k current of None \<Rightarrow> True | Some j \<Rightarrow> \<not> up_to_date wt j")
    case True
    then have "sync_job ops current wt sr = place_job ops current k c e z sr" unfolding wt by (simp add: sync_job_def)
    then show ?thesis using new by (auto simp: wt up_to_date_def)
  next
    case False
    then obtain j where "hm_get k current = Some j" "up_to_date wt j" by (auto split: option.splits)
    then show ?thesis using False cur by (simp add: sync_job_def wt)
  qed
qed

section \<open>A whole pass\<close>

lemma fold_sync:
  assumes "scheduler_lawful ops tab" and "runner_inv ops tab base sr" and "distinct (map fst wts)"
    and "\<And>wt. wt \<in> set wts \<Longrightarrow> hm_get (fst wt) current = hm_get (fst wt) (registered_jobs sr)"
  shows "runner_inv ops tab base (fold (sync_job ops current) wts sr)
     \<and> (\<forall>k. k \<notin> fst ` set wts \<longrightarrow> hm_get k (registered_jobs (fold (sync_job ops current) wts sr)) = hm_get k (registered_jobs sr))
     \<and> (\<forall>wt \<in> set wts. creatable ops wt \<longrightarrow>
          (\<exists>j. hm_get (fst wt) (registered_jobs (fold (sync_job ops current) wts sr)) = Some j \<and> up_to_date wt j))"
  using assms(2-4)
proof (induction wts arbitrary: sr)
  case (Cons wt wts)
  let ?sr = "sync_job ops current wt sr"
  note st = sync_job_step [OF assms(1) Cons.prems(1) Cons.prems(3) [OF list.set_intros(1)]]
  have d: "distinct (map fst wts)" "fst wt \<notin> fst ` set wts" using Cons.prems(2) by simp_all
  have apart: "fst v \<noteq> fst wt" if "v \<in> set wts" for v using d(2) imageI [OF that, of fst] by metis
  have cur: "hm_get (fst v) current = hm_get (fst v) (registered_jobs ?sr)" if "v \<in> set wts" for v
    using Cons.prems(3) [of v] st(2) [OF apart [OF that]] that by simp
  note I = Cons.IH [OF st(1) d(1) cur]
  have "hm_get (fst wt) (registered_jobs (fold (sync_job ops current) wts ?sr)) = hm_get (fst wt) (registered_jobs ?sr)"
    using I d(2) by blast
  then show ?case using I st(2,3) by simp
qed simp

lemma fold_remove:
  assumes "scheduler_lawful ops tab" and "runner_inv ops tab base sr" and "distinct (map fst js)"
    and "\<And>k j. (k, j) \<in> set js \<Longrightarrow> hm_get k (registered_jobs sr) = Some j"
  shows "runner_inv ops tab base (fold (\<lambda>(k, j). remove_job ops k (rj_job_id j)) js sr)
     \<and> (\<forall>k. hm_get k (registered_jobs (fold (\<lambda>(k, j). remove_job ops k (rj_job_id j)) js sr)) =
          (if k \<in> fst ` set js then None else hm_get k (registered_jobs sr)))"
  using assms(2-4)
proof (induction js arbitrary: sr)
  case (Cons p js)
  obtain k j where p: "p = (k, j)" by (cases p)
  let ?sr = "remove_job ops k (rj_job_id j) sr"
  have k: "hm_get k (registered_jobs sr) = Some j" using Cons.prems(3) by (simp add: p)
  have inv: "runner_inv ops tab base ?sr"
    using remove_job_inv [OF assms(1) Cons.prems(1)] k by (simp add: registered_jobs_def)
  have rest: "hm_get k' (registered_jobs ?sr) = Some j'" if "(k', j') \<in> set js" for k' j'
    using Cons.prems(2) Cons.prems(3) [of k' j'] that by (force simp: p hm_get_remove)
  show ?case using Cons.IH [OF inv _ rest] Cons.prems(2) by (auto simp: p hm_get_remove)
qed simp

lemma remove_stale_step:
  assumes "scheduler_lawful ops tab" and "runner_inv ops tab base (s, r)"
  shows "runner_inv ops tab base (remove_stale ops keys (s, r))"
    and "hm_get k (registered_jobs (remove_stale ops keys (s, r))) = (if k \<in> set keys then hm_get k (sr_jobs r) else None)"
proof -
  let ?js = "filter (\<lambda>(key, _). key \<notin> set keys) (sr_jobs r)"
  have wf: "hm_wf (sr_jobs r)" by (rule runner_invD(1) [OF assms(2)])
  have d: "distinct (map fst ?js)" using wf by (simp add: hm_wf_def distinct_map_filter)
  have m: "hm_get k (registered_jobs (s, r)) = Some j" if "(k, j) \<in> set ?js" for k j
    using hm_get_mem [OF wf, of k j] that by (simp add: registered_jobs_def)
  have dom: "k \<notin> fst ` set ?js \<Longrightarrow> k \<notin> set keys \<Longrightarrow> hm_get k (sr_jobs r) = None"
    using hm_get_mem [OF wf, of k] by (cases "hm_get k (sr_jobs r)") force+
  note F = fold_remove [OF assms d m]
  show "runner_inv ops tab base (remove_stale ops keys (s, r))" using F by (simp add: remove_stale_def)
  show "hm_get k (registered_jobs (remove_stale ops keys (s, r))) = (if k \<in> set keys then hm_get k (sr_jobs r) else None)"
    using F dom by (auto simp: remove_stale_def registered_jobs_def)
qed

text \<open>The rows of the three loops as requests.\<close>

definition schedule_wanted :: "schedule_row \<Rightarrow> wanted" where
  "schedule_wanted s = (schedule_key s, normalize_cron_expression (sch_cron_expression s), sch_enabled s, schedule_timezone s, True)"

definition db_backup_wanted :: "backup_row \<Rightarrow> wanted" where
  "db_backup_wanted b = (db_backup_key b, normalize_cron_expression (bk_schedule b), bk_enabled b, ''UTC'', False)"

definition vol_backup_wanted :: "volume_backup_row \<Rightarrow> wanted" where
  "vol_backup_wanted b = (vol_backup_key b, normalize_cron_expression (vr_cron_expression b), vr_enabled b, ''UTC'', False)"

lemma register_backup_sync:
  "register_db_backup ops current b = sync_job ops current (db_backup_wanted b)"
  "register_vol_backup ops current v = sync_job ops current (vol_backup_wanted v)"
  by (auto simp: fun_eq_iff register_db_backup_def register_vol_backup_def register_backup_def sync_job_def
      db_backup_wanted_def vol_backup_wanted_def up_to_date_def split: option.splits)

lemma register_schedule_sync:
  "\<exists>w'. register_schedule ops cr show_error env owner current s (sr, w) =
     Some (if js_timezone ops (schedule_timezone s) then sync_job ops current (schedule_wanted s) sr else sr, w')"
proof (cases "js_timezone ops (schedule_timezone s)")
  case True
  let ?c = "normalize_cron_expression (sch_cron_expression s)"
  obtain r w' where "recover_missed cr show_error env (owner (w_calls w)) (sch_id s) ?c w = Some (r, w')"
    using recover_missed_total [of cr show_error env "owner (w_calls w)" "sch_id s" ?c w] by auto
  with True show ?thesis
    by (auto simp: register_schedule_def Let_def sync_job_def schedule_wanted_def up_to_date_def split: option.splits)
qed (simp add: register_schedule_def Let_def)

lemma register_schedules_sync:
  "\<exists>w'. register_schedules ops cr show_error env owner current ss (sr, w) =
     Some (fold (sync_job ops current) (map schedule_wanted (filter (\<lambda>s. js_timezone ops (schedule_timezone s)) ss)) sr, w')"
proof (induction ss arbitrary: sr w)
  case (Cons s ss)
  obtain w1 where "register_schedule ops cr show_error env owner current s (sr, w) =
     Some (if js_timezone ops (schedule_timezone s) then sync_job ops current (schedule_wanted s) sr else sr, w1)"
    using register_schedule_sync by blast
  then show ?case using Cons.IH by simp
qed simp

text \<open>Everything a pass asks for: the rows read in it.\<close>

definition pass_wanted :: "'s scheduler_ops \<Rightarrow> schedule_row list \<Rightarrow> backup_row list \<Rightarrow> volume_backup_row list \<Rightarrow> wanted list" where
  "pass_wanted ops ss bs vs = map schedule_wanted (filter (\<lambda>s. js_timezone ops (schedule_timezone s)) ss)
     @ map db_backup_wanted (filter (\<lambda>b. bk_enabled b = 1) bs)
     @ map vol_backup_wanted (filter (\<lambda>b. vr_enabled b = 1 \<and> volume_backup_has_valid_resource b) vs)"

definition pass_keys :: "schedule_row list \<Rightarrow> backup_row list \<Rightarrow> volume_backup_row list \<Rightarrow> string list" where
  "pass_keys ss bs vs = map schedule_key ss @ map db_backup_key (filter (\<lambda>b. bk_enabled b = 1) bs)
     @ map vol_backup_key (filter (\<lambda>b. vr_enabled b = 1 \<and> volume_backup_has_valid_resource b) vs)"

lemma refresh_jobs_eq:
  assumes "sr_scheduler r = Some s" and "read_db env list_enabled w = (ss, w1)"
  shows "\<exists>w'. refresh_jobs ops cr show_error env owner bs vs r w =
     (let sr = remove_stale ops (pass_keys ss bs vs) (s, r);
          sr' = fold (sync_job ops (registered_jobs sr)) (pass_wanted ops ss bs vs) sr
      in Some (Ok (), (snd sr')\<lparr>sr_scheduler := Some (fst sr')\<rparr>, w'))"
proof -
  let ?sr = "remove_stale ops (pass_keys ss bs vs) (s, r)"
  obtain w' where w': "register_schedules ops cr show_error env owner (registered_jobs ?sr) ss (?sr, w1) =
     Some (fold (sync_job ops (registered_jobs ?sr)) (map schedule_wanted (filter (\<lambda>s. js_timezone ops (schedule_timezone s)) ss)) ?sr, w')"
    using register_schedules_sync by blast
  have comp: "fold (register_db_backup ops cur) xs = fold (sync_job ops cur) (map db_backup_wanted xs)"
    "fold (register_vol_backup ops cur) ys = fold (sync_job ops cur) (map vol_backup_wanted ys)" for cur xs ys
  proof -
    have "register_db_backup ops cur = sync_job ops cur \<circ> db_backup_wanted" "register_vol_backup ops cur = sync_job ops cur \<circ> vol_backup_wanted"
      by (simp_all add: fun_eq_iff register_backup_sync)
    then show "fold (register_db_backup ops cur) xs = fold (sync_job ops cur) (map db_backup_wanted xs)"
      "fold (register_vol_backup ops cur) ys = fold (sync_job ops cur) (map vol_backup_wanted ys)" by (simp_all add: fold_map)
  qed
  show ?thesis using w'
    by (intro exI [of _ w']) (simp add: refresh_jobs_def assms Let_def pass_keys_def [symmetric] registered_jobs_def [symmetric]
        comp pass_wanted_def case_prod_beta)
qed

text \<open>Keys of different rows differ.\<close>

lemma key_inject [simp]:
  "schedule_key s = schedule_key s' \<longleftrightarrow> sch_id s = sch_id s'"
  "db_backup_key b = db_backup_key b' \<longleftrightarrow> bk_id b = bk_id b'"
  "vol_backup_key v = vol_backup_key v' \<longleftrightarrow> vr_id v = vr_id v'"
  "schedule_key s \<noteq> db_backup_key b" "schedule_key s \<noteq> vol_backup_key v" "db_backup_key b \<noteq> vol_backup_key v"
  by (simp_all add: schedule_key_def db_backup_key_def vol_backup_key_def)

lemma distinct_map_cong: "(\<And>x y. f x = f y \<longleftrightarrow> g x = g y) \<Longrightarrow> distinct (map f xs) \<longleftrightarrow> distinct (map g xs)"
  by (induction xs) (auto simp: image_iff)

lemma pass_wanted_distinct:
  assumes "distinct (map sch_id ss)" and "distinct (map bk_id bs)" and "distinct (map vr_id vs)"
  shows "distinct (map fst (pass_wanted ops ss bs vs))"
proof -
  have "distinct (map schedule_key (filter P ss))" "distinct (map db_backup_key (filter Q bs))" "distinct (map vol_backup_key (filter R vs))" for P Q R
    using assms distinct_map_cong [of schedule_key sch_id] distinct_map_cong [of db_backup_key bk_id] distinct_map_cong [of vol_backup_key vr_id]
    by (simp_all add: distinct_map_filter)
  then show ?thesis
    by (auto simp: pass_wanted_def schedule_wanted_def db_backup_wanted_def vol_backup_wanted_def comp_def)
qed

lemma pass_wanted_keys: "fst ` set (pass_wanted ops ss bs vs) \<subseteq> set (pass_keys ss bs vs)"
  by (auto simp: pass_wanted_def pass_keys_def schedule_wanted_def db_backup_wanted_def vol_backup_wanted_def)


text \<open>A scheduler that keeps its jobs in a table, and a runner with one job of a deleted backup.\<close>

definition example_scheduler :: "(string, cron_job) hash_map scheduler_ops" where
  "example_scheduler = \<lparr> js_create = (\<lambda>_ _. None), js_timezone = (\<lambda>_. True), js_guid = nat_to_dec,
     js_add = (\<lambda>_ i j s. (None, hm_insert i j s)), js_remove = (\<lambda>_ i s. (None, hm_remove i s)) \<rparr>"

definition example_registered :: registered_schedule_job where
  "example_registered = \<lparr> rj_job_id = ''0'', rj_cron_expression = ''0 3 * * * *'', rj_enabled = 1, rj_timezone = ''UTC'' \<rparr>"

definition example_jobs :: "(string, cron_job) hash_map" where
  "example_jobs = [(''0'', job_of ''db_backup:9'' example_registered)]"

definition example_schedule_runner :: "(string, cron_job) hash_map schedule_runner" where
  "example_schedule_runner = (runner_new None)\<lparr>sr_scheduler := Some example_jobs,
     sr_jobs := [(''db_backup:9'', example_registered)], sr_started := True, sr_calls := 1\<rparr>"

lemma example_scheduler_lawful: "scheduler_lawful example_scheduler (\<lambda>s i. hm_get i s)"
  by (auto simp: scheduler_lawful_def example_scheduler_def fun_eq_iff hm_get_insert hm_get_remove inj_def)

lemma example_runner_inv:
  "runner_inv example_scheduler (\<lambda>s i. hm_get i s) (\<lambda>_. None) (example_jobs, example_schedule_runner)"
proof (rule runner_invI)
  have "nat_to_dec 0 = ''0''" by code_simp
  then show "drawn example_scheduler (sr_calls example_schedule_runner) (rj_job_id j)"
    if "hm_get k (sr_jobs example_schedule_runner) = Some j" for k j
    using that by (auto simp: drawn_def example_schedule_runner_def example_scheduler_def example_registered_def hm_get_def split: if_splits)
qed (auto simp: example_schedule_runner_def example_jobs_def example_registered_def hm_wf_def hm_get_def split: if_splits)


end
