(* ===== verification/Spec2Isabelle.thy ===== *)
theory Spec2Isabelle
  imports DeploymentProps AlertLaws OrganizationLaws AuthProps ScheduleProps Rclone BackupProps RunnerProps
begin

text \<open>
  A verification library for the server of OpenOxide, a self-hosted deployment panel.  Paths
  are relative to the root of the repository below \<open>src/\<close>.

  \<^bold>\<open>The program.\<close>  The panel stores applications, compose projects and databases in
  SQLite and deploys them with docker, on its own host or over SSH.  A request to deploy
  inserts a row into a table of deployments; a dispatcher starts the queued rows under a limit
  per server; workers run external programs, report through a registry of active deployments
  and write the outcome back.  Around this core stand accounts with sessions, organizations
  with groups and permissions, alert rules over collected metrics, cron schedules with an
  execution history, and backups that pipe a dump into rclone.

  \<^bold>\<open>How code is translated.\<close>  A function that can fail returns \<open>Ok\<close> or \<open>Err\<close>
  (\<open>Prelude\<close>); a table is the list of its rows and a statement that violates a constraint is
  rolled back and returns an error (\<open>SqlTable\<close>); a hash map is an association list behind the
  contract \<open>kv_store\<close> (\<open>HashStore\<close>); Rust strings are lists of characters below code point
  256 (\<open>RustStrings\<close>).  State is passed explicitly.  External crates and programs
  are arguments: what they answer may depend on the number of calls made before, and what a
  theorem needs of them is a named hypothesis (\<open>jwt_codec\<close> for jsonwebtoken, the locale
  \<open>semaphore\<close> for tokio, \<open>scheduler_lawful\<close> for the cron scheduler).  Where other tasks may
  act between two awaits, they are a function on the database that is applied there.

  \<^bold>\<open>Deployments.\<close>
  \<^item> \<open>Deployments\<close>, \<open>DeploymentRepo\<close>: the tables with their CHECK and UNIQUE constraints and
    every operation of \<open>src/db/repository/deployments.rs\<close>.
  \<^item> \<open>ApplicationState\<close>: the registry of active deployments, \<open>src/utils/builder/hash_state.rs\<close>.
  \<^item> \<open>BuilderJob\<close>: \<open>process\<close> and its helpers in \<open>src/utils/builder/queue/common.rs\<close>.
  \<^item> \<open>BuilderQueue\<close>: \<open>src/utils/builder/queue/queue.rs\<close>; \<open>qstep\<close> interleaves requests,
    dispatcher, workers and failures as an inductive step relation.
  \<^item> \<open>DeploymentService\<close>: requests, stop, cancel and clean-up in \<open>src/services/application\<close>,
    \<open>compose\<close>, \<open>database\<close> and \<open>deployment\<close>.
  \<^item> \<open>DeploymentLaws\<close>, \<open>QueueLaws\<close>, \<open>DeploymentProps\<close>: the table invariant and its
    preservation, the limit per server, execution at most once, the order of starts, recovery,
    the bound of the queue, atomic completion, and three statements the migrated schema rejects.

  \<^bold>\<open>Alerts.\<close>  \<open>Alert\<close> models \<open>src/services/alert/\<close> with the rule and maintenance tables;
  readings are reals instead of \<open>f64\<close>.  \<open>AlertLaws\<close> relates windows to the whole history and
  shows the cooldown, the origin of notifications and the coherence of the rule cache.

  \<^bold>\<open>Permissions.\<close>  \<open>Permissions\<close> holds the tables and repositories, \<open>PermissionService\<close> the
  services of \<open>src/services/permission\<close> and \<open>organization.rs\<close> and the guard
  of the handlers.  \<open>PermissionLaws\<close> and \<open>OrganizationLaws\<close> show that members cannot hand out
  what they lack except by lifting a denial, that organizations are isolated, that the guard
  is sound, and the canonical form of slugs.

  \<^bold>\<open>Authentication.\<close>  \<open>Tokens\<close> models \<open>src/utils/jwt\<close> and the credential tables, \<open>Auth\<close> the
  service \<open>src/services/auth\<close>.  \<open>AuthLaws\<close> states over arbitrary sequences of requests
  what a revocation preserves (locale \<open>credential_state\<close>); \<open>AuthProps\<close> derives the properties of
  logout, refresh, reset, login, recovery codes, access tokens and sign-up.

  \<^bold>\<open>Schedules.\<close>  \<open>ScheduleRepo\<close> models the tables with the execution lock, \<open>Schedule\<close> the
  service \<open>src/services/schedule/schedule.rs\<close>, \<open>ScheduleRunner\<close> the registration of cron jobs
  in \<open>runner.rs\<close>.  \<open>ScheduleLaws\<close> discharges the contract \<open>lease_lock\<close>; \<open>ScheduleProps\<close> and
  \<open>RunnerProps\<close> show that runs return, the execution history, the exclusion by leases, the
  recovery of missed runs, the types of stored schedules, and that after a refresh the
  registered jobs follow the tables.

  \<^bold>\<open>Commands and backups.\<close>  \<open>Shell\<close> models the quoting functions of \<open>crates/os\<close> and a
  lexer of the POSIX shell, \<open>Rclone\<close> and \<open>Docker\<close> the command lines and executors, \<open>Backup\<close>
  the runners of \<open>src/utils/backup\<close>, \<open>BackupService\<close> the backup operations of \<open>schedule.rs\<close>
  with their history.  \<open>BackupCommands\<close> and \<open>BackupProps\<close> show how shells read the pipelines,
  that the history is exact and that stopped services are started again.  \<open>StringEnum\<close> holds
  the \<open>string_enum!\<close> macro and the enums declared with it.

  \<^bold>\<open>Bounds and fuel.\<close>  No definition takes fuel.  The loop that waits for the execution lock is
  a \<open>partial_function\<close> whose value \<open>None\<close> means that it does not return;
  \<open>scheduled_runs_terminate\<close> shows that it always returns, because every round lets time pass
  towards a fixed deadline.  All other recursion is structural or bounded by a retry count.
  Expiry times are 64-bit words and exit codes of remote programs 32-bit words.

  \<^bold>\<open>Not modelled.\<close>  Failures of the database connection, except where a caller branches on
  them (the claim and the completion of deployments); log files and tracing; the record cache
  \<open>src/core/cache\<close>, which always runs the read it wraps; the handlers \<open>src/api\<close>, which only
  translate requests; the builders and providers, which run git, docker and buildpacks; the
  management of resources, projects, servers, private networks, domains, Traefik, certificates,
  DNS, vaults and AI, which are rows or clients of external services; the collection of metrics
  and the agent; the senders of notifications; the definitions of backups, the removal of old
  objects and panel backups; WebSockets and uploads; the remaining command builders and SSH
  sessions of \<open>crates/os\<close>; the macro crates and the web front end.
\<close>

end
